(* ===== verification/Prelude.thy ===== *)
theory Prelude
  imports Complex_Main "HOL-Library.Sublist"
begin

text \<open>
  Shared vocabulary of the PopStack development: the names of the model's basic types,
  the collections of rules the component proofs share, and generic facts about lists
  that the table models use (counting the rows that match a filter, keeping a filter
  under appends and maps).
\<close>

named_theorems store_simps "evaluation rules of the remote-store primitives"
named_theorems inv_simps "unfolding rules of the component invariants"

type_synonym user_id = string
type_synonym column = string
type_synonym table_name = string

text \<open>
  \<open>at_most_one P xs\<close>: at most one element of \<open>xs\<close> satisfies \<open>P\<close>. The uniqueness
  constraints the client code tries to keep (one friendship per pair of users, one
  review per natural key) are statements of this form.
\<close>

definition at_most_one :: "('a \<Rightarrow> bool) \<Rightarrow> 'a list \<Rightarrow> bool" where
  "at_most_one P xs \<longleftrightarrow> length (filter P xs) \<le> 1"

lemma at_most_one_Nil [simp]: "at_most_one P []"
  by (simp add: at_most_one_def)

lemma at_most_one_snoc [simp]:
  "at_most_one P (xs @ [x]) \<longleftrightarrow> (if P x then filter P xs = [] else at_most_one P xs)"
  by (auto simp: at_most_one_def)

lemma at_most_one_filter:
  "at_most_one P xs \<Longrightarrow> at_most_one P (filter Q xs)"
proof -
  assume a: "at_most_one P xs"
  have e: "filter P (filter Q xs) = filter Q (filter P xs)"
    by (induction xs) auto
  have "length (filter P (filter Q xs)) \<le> length (filter P xs)"
    unfolding e by (rule length_filter_le)
  with a show ?thesis unfolding at_most_one_def by linarith
qed

lemma at_most_one_map:
  assumes "\<And>x. P (f x) = P x"
  shows "at_most_one P (map f xs) = at_most_one P xs"
proof -
  have "P \<circ> f = P" using assms by (simp add: fun_eq_iff)
  then show ?thesis by (simp add: at_most_one_def filter_map)
qed

lemma at_most_one_Cons [simp]:
  "at_most_one P (x # xs) \<longleftrightarrow> (if P x then filter P xs = [] else at_most_one P xs)"
  by (auto simp: at_most_one_def)

lemma at_most_one_iff_single:
  "at_most_one P xs \<longleftrightarrow> filter P xs = [] \<or> (\<exists>y. filter P xs = [y])"
  by (auto simp: at_most_one_def le_Suc_eq length_Suc_conv)

lemma filter_empty_iff: "filter P xs = [] \<longleftrightarrow> (\<forall>x\<in>set xs. \<not> P x)"
  by (induction xs) auto

lemma length_filter_mono:
  "(\<And>x. x \<in> set xs \<Longrightarrow> P x \<Longrightarrow> Q x) \<Longrightarrow> length (filter P xs) \<le> length (filter Q xs)"
  by (induction xs) auto

lemma distinct_map_if_unique:
  "(\<And>x. x \<in> set xs \<Longrightarrow> length (filter (\<lambda>y. g y = g x) xs) \<le> 1) \<Longrightarrow> distinct (map g xs)"
proof (induction xs)
  case Nil
  then show ?case by simp
next
  case (Cons x xs)
  from Cons.prems [of x] have none: "filter (\<lambda>y. g y = g x) xs = []" by simp
  then have "g x \<notin> g ` set xs" by (auto simp: filter_empty_conv)
  moreover have "distinct (map g xs)"
  proof (rule Cons.IH)
    fix y assume y: "y \<in> set xs"
    from Cons.prems [of y] y show "length (filter (\<lambda>z. g z = g y) xs) \<le> 1"
      by (simp split: if_splits)
  qed
  ultimately show ?case by simp
qed

text \<open>Under distinct keys, a lookup by key finds at most one element.\<close>

lemma distinct_key_lookup:
  "distinct (map g xs) \<Longrightarrow> length (filter (\<lambda>x. g x = a) xs) \<le> 1"
  by (induction xs) (auto simp: filter_empty_conv image_iff)

lemma distinct_map_filter_single:
  "distinct (map g xs) \<Longrightarrow> x \<in> set xs \<Longrightarrow> P x \<Longrightarrow> filter (\<lambda>r. g r = g x \<and> P r) xs = [x]"
  by (induction xs) (auto simp: filter_empty_conv image_iff)

lemma filter_map_if:
  "(\<And>x. P x \<Longrightarrow> P (f x)) \<Longrightarrow> filter P (map (\<lambda>x. if P x then f x else x) xs) = map f (filter P xs)"
  by (induction xs) auto

text \<open>
  JavaScript's \<open>s.includes(t)\<close>: \<open>t\<close> occurs in \<open>s\<close> as a contiguous run. An executable
  definition, shown equal to \<open>sublist\<close> of \<open>HOL-Library.Sublist\<close>.
\<close>

fun str_includes :: "string \<Rightarrow> string \<Rightarrow> bool" where
  "str_includes [] t = (t = [])"
| "str_includes (c # s) t = (prefix t (c # s) \<or> str_includes s t)"

lemma str_includes_sublist: "str_includes s t \<longleftrightarrow> sublist t s"
  by (induction s) (auto simp: sublist_Cons_right)

text \<open>
  JavaScript's \<open>s.trim()\<close>, for the ASCII whitespace characters (space, tab, line
  feed, vertical tab, form feed, carriage return); the non-ASCII spaces JavaScript also
  strips do not occur in the inputs modelled here.
\<close>

definition js_space :: "char \<Rightarrow> bool" where
  "js_space c \<longleftrightarrow> c \<in> set [CHR '' '', CHR 0x09, CHR 0x0A, CHR 0x0B, CHR 0x0C, CHR 0x0D]"

definition trim :: "string \<Rightarrow> string" where
  "trim s = rev (dropWhile js_space (rev (dropWhile js_space s)))"

lemma trim_Nil_iff: "trim s = [] \<longleftrightarrow> list_all js_space s"
  by (induction s rule: rev_induct) (auto simp: trim_def dropWhile_append list_all_iff dropWhile_eq_Nil_conv)

text \<open>
  \<open>user?.id\<close> as a condition: the signed-in user's id when there is a user and the id is
  not the empty string (which JavaScript reads as false).
\<close>

definition logged_id :: "user_id option \<Rightarrow> user_id option" where
  "logged_id user = (case user of Some u \<Rightarrow> if u = [] then None else Some u | None \<Rightarrow> None)"

lemma logged_id_simps [simp]:
  "logged_id None = None"
  "u \<noteq> [] \<Longrightarrow> logged_id (Some u) = Some u"
  "logged_id (Some []) = None"
  by (simp_all add: logged_id_def)

lemma logged_id_Some: "logged_id user = Some u \<longleftrightarrow> user = Some u \<and> u \<noteq> []"
  by (auto simp: logged_id_def split: option.splits)

end
