(* ===== verification/Store.thy ===== *)
theory Store
  imports Prelude
begin

text \<open>
  The remote data gateway. Every hook of \<open>src/src/hooks\<close> talks to the hosted
  backend through the one client \<open>supabase\<close>, chaining query-builder calls
  (\<open>from\<close>, \<open>select\<close>, \<open>eq\<close>, \<open>or\<close>, \<open>in\<close>, \<open>ilike\<close>, \<open>order\<close>, \<open>limit\<close>,
  \<open>insert\<close>, \<open>update\<close>, \<open>delete\<close>, \<open>single\<close>, \<open>maybeSingle\<close>). This theory
  models the store those calls act on: a database is a record of named tables, each a
  list of rows in insertion order, and a row maps column names to values. The columns
  of each table are those declared in \<open>src/src/types/database.ts\<close>; a write that
  names a column the table does not have fails, as the backend's REST layer answers with
  error \<open>PGRST204\<close>. Generated values (row ids and timestamps) come from one
  counter, so a later row has a larger id and a later timestamp.
\<close>

section \<open>Values, rows, errors\<close>

text \<open>
  A value of a row: a string, a number (ids, counts and ratings on the 1--10 scale as
  \<open>VInt\<close>; the catalog's fractional averages, such as TMDB's \<open>vote_average\<close>, as
  \<open>VNum\<close>), a boolean, or \<open>null\<close>.
\<close>

datatype cell = VStr string | VInt int | VNum rat | VBool bool | VNull

type_synonym row = "column \<rightharpoonup> cell"
type_synonym payload = "(column \<times> cell) list"

text \<open>A column a row does not carry reads as \<open>null\<close>.\<close>

definition get :: "row \<Rightarrow> column \<Rightarrow> cell" where
  "get r c = (case r c of None \<Rightarrow> VNull | Some v \<Rightarrow> v)"

text \<open>A string column read as \<open>x || ''\<close>: a missing or non-string value gives the empty string.\<close>

definition str_or_empty :: "cell \<Rightarrow> string" where
  "str_or_empty v = (case v of VStr s \<Rightarrow> s | _ \<Rightarrow> [])"

text \<open>
  Errors the code can raise: \<open>new Error(msg)\<close> thrown by a hook, an error object
  returned by the backend (code and message), and a JavaScript \<open>ReferenceError\<close>.
\<close>

datatype error = JsError string | PgError string string | ReferenceError string

text \<open>
  The three media kinds, with the string the hooks build table and column names from
  (\<open>type MediaType = 'movie' | 'series' | 'game'\<close>).
\<close>

datatype media_type = Movie | Series | Game

fun kind_name :: "media_type \<Rightarrow> string" where
  "kind_name Movie = ''movie''"
| "kind_name Series = ''series''"
| "kind_name Game = ''game''"

fun error_message :: "error \<Rightarrow> string" where
  "error_message (JsError m) = m"
| "error_message (PgError c m) = m"
| "error_message (ReferenceError n) = n @ '' is not defined''"

definition pgrst116 :: error where
  "pgrst116 = PgError ''PGRST116'' ''JSON object requested, multiple (or no) rows returned''"

record db =
  tables :: "table_name \<Rightarrow> row list"
  next_id :: nat

definition empty_db :: db where
  "empty_db = \<lparr>tables = (\<lambda>_. []), next_id = 0\<rparr>"

section \<open>The schema of types/database.ts\<close>

definition profiles_columns :: "column list" where
  "profiles_columns = [''id'', ''username'', ''avatar_url'', ''bio'', ''created_at'', ''updated_at'']"

definition movie_reviews_columns :: "column list" where
  "movie_reviews_columns = [''id'', ''user_id'', ''movie_id'', ''movie_title'', ''movie_poster'',
     ''rating'', ''review_text'', ''watched_date'', ''created_at'', ''updated_at'']"

definition game_reviews_columns :: "column list" where
  "game_reviews_columns = [''id'', ''user_id'', ''game_id'', ''game_title'', ''game_cover'',
     ''rating'', ''review_text'', ''played_date'', ''hours_played'', ''platform'', ''created_at'',
     ''updated_at'']"

definition series_reviews_columns :: "column list" where
  "series_reviews_columns = [''id'', ''user_id'', ''series_id'', ''series_title'', ''series_poster'',
     ''rating'', ''review_text'', ''watched_date'', ''created_at'', ''updated_at'']"

definition collections_columns :: "column list" where
  "collections_columns = [''id'', ''user_id'', ''name'', ''description'', ''is_public'', ''created_at'',
     ''updated_at'']"

definition collection_items_columns :: "column list" where
  "collection_items_columns = [''id'', ''collection_id'', ''item_type'', ''item_id'', ''item_title'',
     ''item_poster'', ''added_at'']"

definition user_stats_columns :: "column list" where
  "user_stats_columns = [''id'', ''user_id'', ''total_movies_watched'', ''total_games_played'',
     ''total_hours_gaming'', ''favorite_genre'', ''updated_at'']"

definition watchlist_columns :: "column list" where
  "watchlist_columns = [''id'', ''user_id'', ''item_type'', ''item_id'', ''item_title'', ''item_poster'',
     ''item_rating'', ''added_at'']"

definition friendships_columns :: "column list" where
  "friendships_columns = [''id'', ''user_id'', ''friend_id'', ''status'', ''created_at'', ''updated_at'']"

definition activities_columns :: "column list" where
  "activities_columns = [''id'', ''user_id'', ''activity_type'', ''item_type'', ''item_id'', ''item_title'',
     ''content'', ''created_at'']"

definition table_columns :: "table_name \<Rightarrow> column list" where
  "table_columns t =
     (if t = ''profiles'' then profiles_columns
      else if t = ''movie_reviews'' then movie_reviews_columns
      else if t = ''game_reviews'' then game_reviews_columns
      else if t = ''series_reviews'' then series_reviews_columns
      else if t = ''collections'' then collections_columns
      else if t = ''collection_items'' then collection_items_columns
      else if t = ''user_stats'' then user_stats_columns
      else if t = ''watchlist'' then watchlist_columns
      else if t = ''friendships'' then friendships_columns
      else if t = ''activities'' then activities_columns
      else [])"

section \<open>Filters, ordering, single-row reads\<close>

definition eq_col :: "column \<Rightarrow> cell \<Rightarrow> row \<Rightarrow> bool" where
  "eq_col c v r \<longleftrightarrow> get r c = v"

definition neq_col :: "column \<Rightarrow> cell \<Rightarrow> row \<Rightarrow> bool" where
  "neq_col c v r \<longleftrightarrow> get r c \<noteq> v"

definition in_col :: "column \<Rightarrow> cell list \<Rightarrow> row \<Rightarrow> bool" where
  "in_col c vs r \<longleftrightarrow> get r c \<in> set vs"

definition select_rows :: "db \<Rightarrow> table_name \<Rightarrow> (row \<Rightarrow> bool) \<Rightarrow> row list" where
  "select_rows d t P = filter P (tables d t)"

definition project :: "column list \<Rightarrow> row \<Rightarrow> row" where
  "project cs r = r |` set cs"

fun value_key :: "cell \<Rightarrow> int" where
  "value_key (VInt i) = i"
| "value_key _ = 0"

text \<open>\<open>.order(c, { ascending: false })\<close>: a stable sort on the negated key.\<close>

definition order_desc :: "column \<Rightarrow> row list \<Rightarrow> row list" where
  "order_desc c rs = sort_key (\<lambda>r. - value_key (get r c)) rs"

text \<open>
  \<open>.maybeSingle()\<close> answers no row as \<open>null\<close> and more than one row as the error
  \<open>PGRST116\<close>; \<open>.single()\<close> answers both as that error. Destructuring only
  \<open>{ data }\<close> of the answer, as several hooks do, reads an error as \<open>null\<close>.
\<close>

definition maybe_single :: "'a list \<Rightarrow> error + 'a option" where
  "maybe_single xs = (case xs of [] \<Rightarrow> Inr None | [x] \<Rightarrow> Inr (Some x) | _ \<Rightarrow> Inl pgrst116)"

definition single :: "'a list \<Rightarrow> error + 'a" where
  "single xs = (case xs of [x] \<Rightarrow> Inr x | _ \<Rightarrow> Inl pgrst116)"

definition data :: "error + 'a option \<Rightarrow> 'a option" where
  "data r = (case r of Inl _ \<Rightarrow> None | Inr x \<Rightarrow> x)"

section \<open>Pattern matching of ilike\<close>

text \<open>
  \<open>ilike(c, p)\<close> sends the filter \<open>c=ilike.p\<close>. PostgREST reads \<open>*\<close> in the pattern
  as \<open>%\<close> (its alias, so that patterns need no URL-encoding); the database's \<open>ILIKE\<close>
  then matches \<open>%\<close> against any run of characters and \<open>_\<close> against any one
  character, and a backslash, its default escape character, makes the next character
  literal (a pattern that ends in a backslash is an error, and matches no row here).
  Case is folded as \<open>lower()\<close> folds it; the model's characters are 8-bit, read as
  Latin-1 code points, whose upper-case letters are \<open>A\<close> to \<open>Z\<close> and U+00C0 to U+00DE
  without U+00D7. Letters beyond U+00FF are outside the character type.
\<close>

definition upper_letters :: "char list" where
  "upper_letters = ''ABCDEFGHIJKLMNOPQRSTUVWXYZ'' @
     [CHR 0xC0, CHR 0xC1, CHR 0xC2, CHR 0xC3, CHR 0xC4, CHR 0xC5, CHR 0xC6, CHR 0xC7,
      CHR 0xC8, CHR 0xC9, CHR 0xCA, CHR 0xCB, CHR 0xCC, CHR 0xCD, CHR 0xCE, CHR 0xCF,
      CHR 0xD0, CHR 0xD1, CHR 0xD2, CHR 0xD3, CHR 0xD4, CHR 0xD5, CHR 0xD6, CHR 0xD8,
      CHR 0xD9, CHR 0xDA, CHR 0xDB, CHR 0xDC, CHR 0xDD, CHR 0xDE]"

definition lower_letters :: "char list" where
  "lower_letters = ''abcdefghijklmnopqrstuvwxyz'' @
     [CHR 0xE0, CHR 0xE1, CHR 0xE2, CHR 0xE3, CHR 0xE4, CHR 0xE5, CHR 0xE6, CHR 0xE7,
      CHR 0xE8, CHR 0xE9, CHR 0xEA, CHR 0xEB, CHR 0xEC, CHR 0xED, CHR 0xEE, CHR 0xEF,
      CHR 0xF0, CHR 0xF1, CHR 0xF2, CHR 0xF3, CHR 0xF4, CHR 0xF5, CHR 0xF6, CHR 0xF8,
      CHR 0xF9, CHR 0xFA, CHR 0xFB, CHR 0xFC, CHR 0xFD, CHR 0xFE]"

definition lower_char :: "char \<Rightarrow> char" where
  "lower_char c = (case map_of (zip upper_letters lower_letters) c of Some l \<Rightarrow> l | None \<Rightarrow> c)"

definition postgrest_pattern :: "string \<Rightarrow> string" where
  "postgrest_pattern p = map (\<lambda>c. if c = CHR ''*'' then CHR ''%'' else c) p"

fun like_match :: "char list \<Rightarrow> char list \<Rightarrow> bool" where
  "like_match [] s = (s = [])"
| "like_match (p # ps) s =
     (if p = CHR ''%'' then like_match ps s \<or> (case s of [] \<Rightarrow> False | _ # cs \<Rightarrow> like_match (p # ps) cs)
      else if p = CHR 0x5C then
        (case ps of
           [] \<Rightarrow> False
         | e # es \<Rightarrow> (case s of [] \<Rightarrow> False | c # cs \<Rightarrow> c = e \<and> like_match es cs))
      else (case s of [] \<Rightarrow> False | c # cs \<Rightarrow> (p = CHR ''_'' \<or> p = c) \<and> like_match ps cs))"

declare like_match.simps [simp del]

text \<open>Equations of the matcher that recurse on a shorter subject, safe for the simplifier.\<close>

lemma like_match_eqs [store_simps]:
  "like_match [] s = (s = [])"
  "like_match (CHR ''%'' # ps) [] = like_match ps []"
  "like_match (CHR ''%'' # ps) (c # cs) = (like_match ps (c # cs) \<or> like_match (CHR ''%'' # ps) cs)"
  "like_match [CHR 0x5C] s = False"
  "like_match (CHR 0x5C # e # es) [] = False"
  "like_match (CHR 0x5C # e # es) (c # cs) = (c = e \<and> like_match es cs)"
  "p \<noteq> CHR ''%'' \<Longrightarrow> p \<noteq> CHR 0x5C \<Longrightarrow> like_match (p # ps) [] = False"
  "p \<noteq> CHR ''%'' \<Longrightarrow> p \<noteq> CHR 0x5C \<Longrightarrow> like_match (p # ps) (c # cs) = ((p = CHR ''_'' \<or> p = c) \<and> like_match ps cs)"
  by (subst like_match.simps, simp)+

definition ilike :: "column \<Rightarrow> string \<Rightarrow> row \<Rightarrow> bool" where
  "ilike c pat r \<longleftrightarrow>
     (case get r c of VStr s \<Rightarrow> like_match (map lower_char (postgrest_pattern pat)) (map lower_char s) | _ \<Rightarrow> False)"

section \<open>Pattern matching: ilike against substring search\<close>

text \<open>
  A pattern \<open>%q%\<close> whose \<open>q\<close> has no wildcard (\<open>%\<close>, \<open>_\<close>, \<open>*\<close>) and no escape
  character matches exactly the strings that contain \<open>q\<close>, case folded: the
  equivalence of the backend's matcher with the substring search the spec describes.
\<close>

definition wildcard_free :: "string \<Rightarrow> bool" where
  "wildcard_free p \<longleftrightarrow> (\<forall>c\<in>set p. c \<notin> set ''%_*'' \<and> c \<noteq> CHR 0x5C)"

lemma like_match_any: "like_match [CHR ''%''] s"
  by (induction s) (simp_all add: like_match_eqs)

lemma like_match_prefix:
  "wildcard_free p \<Longrightarrow> like_match (p @ [CHR ''%'']) s \<longleftrightarrow> prefix p s"
proof (induction p arbitrary: s)
  case Nil
  then show ?case by (simp add: like_match_any)
next
  case (Cons c p)
  then have c: "c \<noteq> CHR ''%''" "c \<noteq> CHR ''_''" "c \<noteq> CHR 0x5C" and p: "wildcard_free p"
    by (simp_all add: wildcard_free_def)
  show ?case
  proof (cases s)
    case Nil
    with c show ?thesis by (simp add: like_match_eqs)
  next
    case (Cons x xs)
    with c Cons.IH [OF p, of xs] show ?thesis by (simp add: like_match_eqs)
  qed
qed

lemma ex_le_Suc_iff: "(\<exists>k\<le>Suc n. P k) \<longleftrightarrow> P 0 \<or> (\<exists>k\<le>n. P (Suc k))"
proof
  assume "\<exists>k\<le>Suc n. P k"
  then obtain k where "k \<le> Suc n" "P k" by blast
  then show "P 0 \<or> (\<exists>k\<le>n. P (Suc k))" by (cases k) auto
next
  assume "P 0 \<or> (\<exists>k\<le>n. P (Suc k))"
  then show "\<exists>k\<le>Suc n. P k"
  proof
    assume "P 0" then show ?thesis by blast
  next
    assume "\<exists>k\<le>n. P (Suc k)"
    then obtain k where "k \<le> n" "P (Suc k)" by blast
    then show ?thesis by (intro exI [of _ "Suc k"]) simp
  qed
qed
lemma like_match_percent:
  "like_match (CHR ''%'' # ps) s \<longleftrightarrow> (\<exists>k\<le>length s. like_match ps (drop k s))"
proof (induction s)
  case Nil
  then show ?case by (simp add: like_match_eqs)
next
  case (Cons x xs)
  have "like_match (CHR ''%'' # ps) (x # xs) \<longleftrightarrow> like_match ps (x # xs) \<or> like_match (CHR ''%'' # ps) xs"
    by (simp add: like_match_eqs)
  also have "\<dots> \<longleftrightarrow> (\<exists>k\<le>length (x # xs). like_match ps (drop k (x # xs)))"
    using Cons.IH by (simp only: length_Cons ex_le_Suc_iff drop_0 drop_Suc_Cons)
  finally show ?case .
qed

lemma like_match_sublist:
  assumes "wildcard_free p"
  shows "like_match (CHR ''%'' # p @ [CHR ''%'']) s \<longleftrightarrow> sublist p s"
proof -
  have "like_match (CHR ''%'' # p @ [CHR ''%'']) s \<longleftrightarrow> (\<exists>k\<le>length s. prefix p (drop k s))"
    using assms by (simp add: like_match_percent like_match_prefix)
  also have "\<dots> \<longleftrightarrow> sublist p s"
  proof
    assume "\<exists>k\<le>length s. prefix p (drop k s)"
    then obtain k ss where "drop k s = p @ ss" by (auto simp: prefix_def)
    then have "s = take k s @ p @ ss" by (metis append_take_drop_id)
    then show "sublist p s" unfolding sublist_def by blast
  next
    assume "sublist p s"
    then obtain ps ss where s: "s = ps @ p @ ss" by (auto simp: sublist_def)
    then have "drop (length ps) s = p @ ss" by simp
    moreover have "length ps \<le> length s" using s by simp
    ultimately show "\<exists>k\<le>length s. prefix p (drop k s)" by (auto simp: prefix_def)
  qed
  finally show ?thesis .
qed

lemma lower_char_cases: "lower_char c = c \<or> lower_char c \<in> set lower_letters"
proof (cases "map_of (zip upper_letters lower_letters) c")
  case None
  then show ?thesis by (simp add: lower_char_def)
next
  case (Some l)
  then have "(c, l) \<in> set (zip upper_letters lower_letters)"
    by (rule map_of_SomeD)
  then have "l \<in> set lower_letters" by (rule set_zip_rightD)
  with Some show ?thesis unfolding lower_char_def by (simp only: option.case simp_thms)
qed

lemma lower_char_special:
  assumes "x \<in> set ''%_*'' \<or> x = CHR 0x5C"
  shows "lower_char c = x \<longleftrightarrow> c = x"
proof -
  have n: "x \<notin> set lower_letters" and u: "x \<notin> set upper_letters"
    using assms by (auto simp: lower_letters_def upper_letters_def)
  have "map_of (zip upper_letters lower_letters) x = None"
    using u by (auto simp: map_of_eq_None_iff dest: set_zip_leftD)
  then have p: "lower_char x = x" by (simp add: lower_char_def)
  show ?thesis using n p lower_char_cases [of c] by metis
qed

lemma wildcard_free_lower: "wildcard_free q \<Longrightarrow> wildcard_free (map lower_char q)"
  by (auto simp: wildcard_free_def lower_char_special)

lemma postgrest_pattern_free: "wildcard_free q \<Longrightarrow> postgrest_pattern q = q"
  by (induction q) (auto simp: postgrest_pattern_def wildcard_free_def)

lemma ilike_sublist:
  assumes "wildcard_free q" and "get r c = VStr s"
  shows "ilike c (''%'' @ q @ ''%'') r \<longleftrightarrow> sublist (map lower_char q) (map lower_char s)"
proof -
  have pct: "lower_char CHR ''%'' = CHR ''%''" by (simp add: lower_char_special)
  have pat: "postgrest_pattern (''%'' @ q @ ''%'') = ''%'' @ q @ ''%''"
    using postgrest_pattern_free [OF assms(1)] by (simp add: postgrest_pattern_def)
  have "like_match (CHR ''%'' # map lower_char q @ [CHR ''%'']) (map lower_char s) \<longleftrightarrow>
      sublist (map lower_char q) (map lower_char s)"
    by (rule like_match_sublist [OF wildcard_free_lower [OF assms(1)]])
  with assms(2) pct pat show ?thesis by (simp add: ilike_def)
qed

section \<open>Writes\<close>

definition generated_columns :: "column list" where
  "generated_columns = [''id'', ''created_at'', ''updated_at'', ''added_at'']"

definition defaults :: "table_name \<Rightarrow> nat \<Rightarrow> row" where
  "defaults t n = map_of [(c, VInt (int n)). c \<leftarrow> filter (\<lambda>c. c \<in> set generated_columns) (table_columns t)]"

definition columns_known :: "table_name \<Rightarrow> payload \<Rightarrow> bool" where
  "columns_known t p \<longleftrightarrow> list_all (\<lambda>(c, _). c \<in> set (table_columns t)) p"

definition unknown_column :: "table_name \<Rightarrow> error" where
  "unknown_column t = PgError ''PGRST204'' (''Could not find a column of '' @ t @ '' in the schema cache'')"

definition new_row :: "db \<Rightarrow> table_name \<Rightarrow> payload \<Rightarrow> row" where
  "new_row d t p = defaults t (next_id d) ++ map_of p"

definition insert_into :: "db \<Rightarrow> table_name \<Rightarrow> payload \<Rightarrow> error + db" where
  "insert_into d t p =
     (if columns_known t p
      then Inr (d\<lparr>tables := (tables d)(t := tables d t @ [new_row d t p]), next_id := Suc (next_id d)\<rparr>)
      else Inl (unknown_column t))"

definition update_where :: "db \<Rightarrow> table_name \<Rightarrow> (row \<Rightarrow> bool) \<Rightarrow> payload \<Rightarrow> error + db" where
  "update_where d t P p =
     (if columns_known t p
      then Inr (d\<lparr>tables := (tables d)(t := map (\<lambda>r. if P r then r ++ map_of p else r) (tables d t))\<rparr>)
      else Inl (unknown_column t))"

definition delete_where :: "db \<Rightarrow> table_name \<Rightarrow> (row \<Rightarrow> bool) \<Rightarrow> db" where
  "delete_where d t P = d\<lparr>tables := (tables d)(t := filter (\<lambda>r. \<not> P r) (tables d t))\<rparr>"

text \<open>
  Foreign keys, enforced by the database: a child row's column \<open>c\<close> names the \<open>id\<close> of a
  row of the parent table. An insert naming no parent fails with error \<open>23503\<close>;
  deleting parents deletes their children (\<open>on delete cascade\<close>).
\<close>

definition fk_error :: "table_name \<Rightarrow> error" where
  "fk_error t = PgError ''23503'' (''insert or update on table '' @ t @ '' violates foreign key constraint'')"

definition parent_ids :: "db \<Rightarrow> table_name \<Rightarrow> cell list" where
  "parent_ids d t = map (\<lambda>r. get r ''id'') (tables d t)"

definition insert_fk :: "db \<Rightarrow> table_name \<Rightarrow> payload \<Rightarrow> column \<Rightarrow> table_name \<Rightarrow> error + db" where
  "insert_fk d t p c parent =
     (case map_of p c of
        Some v \<Rightarrow> if v \<in> set (parent_ids d parent) then insert_into d t p else Inl (fk_error t)
      | None \<Rightarrow> Inl (fk_error t))"

text \<open>
  The primary key: an insert that names an \<open>id\<close> already present fails with error
  \<open>23505\<close>.
\<close>

definition pk_error :: "table_name \<Rightarrow> error" where
  "pk_error t = PgError ''23505'' (''duplicate key value violates unique constraint '' @ t @ ''_pkey'')"

definition insert_pk :: "db \<Rightarrow> table_name \<Rightarrow> payload \<Rightarrow> error + db" where
  "insert_pk d t p =
     (case map_of p ''id'' of
        Some v \<Rightarrow> if v \<in> set (parent_ids d t) then Inl (pk_error t) else insert_into d t p
      | None \<Rightarrow> insert_into d t p)"

text \<open>
  \<open>upsert(p, { onConflict: 'id' })\<close>: updates the row whose \<open>id\<close> the payload names,
  and inserts the payload when there is none.
\<close>

definition upsert_by_id :: "db \<Rightarrow> table_name \<Rightarrow> payload \<Rightarrow> error + db" where
  "upsert_by_id d t p =
     (case map_of p ''id'' of
        Some v \<Rightarrow> if v \<in> set (parent_ids d t) then update_where d t (eq_col ''id'' v) p else insert_into d t p
      | None \<Rightarrow> insert_into d t p)"

definition delete_cascade :: "db \<Rightarrow> table_name \<Rightarrow> (row \<Rightarrow> bool) \<Rightarrow> table_name \<Rightarrow> column \<Rightarrow> db" where
  "delete_cascade d parent P child c =
     (let d' = delete_where d parent P
      in delete_where d' child (\<lambda>r. get r c \<notin> set (parent_ids d' parent)))"

text \<open>
  \<open>.update(...).eq(...).select().single()\<close>: a singular mutation. PostgREST answers it
  with \<open>PGRST116\<close> and rolls the update back when it does not touch exactly one row.
\<close>

definition update_single :: "db \<Rightarrow> table_name \<Rightarrow> (row \<Rightarrow> bool) \<Rightarrow> payload \<Rightarrow> error + db" where
  "update_single d t P p =
     (case update_where d t P p of
        Inl e \<Rightarrow> Inl e
      | Inr d' \<Rightarrow> (case select_rows d t P of [_] \<Rightarrow> Inr d' | _ \<Rightarrow> Inl pgrst116))"

text \<open>
  Row identifiers: every row of a table carries an \<open>id\<close> drawn from the store's counter,
  below it, and no two rows share one. Inserts that leave \<open>id\<close> to the database and
  updates that do not write \<open>id\<close> keep this.
\<close>

definition id_below :: "nat \<Rightarrow> row \<Rightarrow> bool" where
  "id_below n r \<longleftrightarrow> (case get r ''id'' of VInt i \<Rightarrow> 0 \<le> i \<and> i < int n | _ \<Rightarrow> False)"

definition ids_fresh :: "db \<Rightarrow> table_name \<Rightarrow> bool" where
  "ids_fresh d t \<longleftrightarrow> distinct (map (\<lambda>r. get r ''id'') (tables d t)) \<and> list_all (id_below (next_id d)) (tables d t)"

text \<open>
  Two properties of a store change used to compose the components. \<open>frame d d' ts\<close>:
  only the tables \<open>ts\<close> changed and the counter did not go back. \<open>conforms d\<close>: every
  row carries only columns of its table's schema (the typing of the store).
\<close>

definition frame :: "db \<Rightarrow> db \<Rightarrow> table_name list \<Rightarrow> bool" where
  "frame d d' ts \<longleftrightarrow> (\<forall>t. t \<notin> set ts \<longrightarrow> tables d' t = tables d t) \<and> next_id d \<le> next_id d'"

definition row_conforms :: "table_name \<Rightarrow> row \<Rightarrow> bool" where
  "row_conforms t r \<longleftrightarrow> dom r \<subseteq> set (table_columns t)"

definition conforms :: "db \<Rightarrow> bool" where
  "conforms d \<longleftrightarrow> (\<forall>t. list_all (row_conforms t) (tables d t))"

section \<open>Facts about the primitives\<close>

lemma get_map_add_of [store_simps]:
  "get (r ++ map_of p) c = (case map_of p c of Some v \<Rightarrow> v | None \<Rightarrow> get r c)"
  by (simp add: get_def map_add_def split: option.splits)

lemma sorted_take_sort_key: "sorted (map f (take n (sort_key f xs)))"
  by (metis sorted_sort_key sorted_wrt_take take_map)

lemma eq_col_fun: "eq_col c v = (\<lambda>r. get r c = v)"
  by (simp add: fun_eq_iff eq_col_def)

lemma get_upd [simp, store_simps]:
  "get (m(k \<mapsto> v)) c = (if c = k then v else get m c)"
  by (simp add: get_def)

lemma maybe_single_simps [simp, store_simps]:
  "maybe_single [] = Inr None"
  "maybe_single [x] = Inr (Some x)"
  "maybe_single (x # y # zs) = Inl pgrst116"
  by (simp_all add: maybe_single_def)

lemma data_simps [simp, store_simps]:
  "data (Inl e) = None" "data (Inr x) = x"
  by (simp_all add: data_def)

lemma single_simps [simp, store_simps]:
  "single [x] = Inr x" "single [] = Inl pgrst116" "single (x # y # zs) = Inl pgrst116"
  by (simp_all add: single_def)

lemma data_maybe_single_None:
  "data (maybe_single xs) = None \<longleftrightarrow> length xs \<noteq> 1"
  by (cases xs rule: remdups_adj.cases) auto

lemma data_maybe_single_Some:
  "data (maybe_single xs) = Some x \<longleftrightarrow> xs = [x]"
  by (cases xs rule: remdups_adj.cases) auto

lemma insert_into_Inr:
  "columns_known t p \<Longrightarrow>
   insert_into d t p = Inr (d\<lparr>tables := (tables d)(t := tables d t @ [new_row d t p]), next_id := Suc (next_id d)\<rparr>)"
  by (simp add: insert_into_def)

lemma insert_into_tables [store_simps]:
  "insert_into d t p = Inr d' \<Longrightarrow>
   tables d' t' = (if t' = t then tables d t @ [new_row d t p] else tables d t')"
  by (auto simp: insert_into_def split: if_splits)

lemma insert_into_next_id [store_simps]:
  "insert_into d t p = Inr d' \<Longrightarrow> next_id d' = Suc (next_id d)"
  by (auto simp: insert_into_def split: if_splits)

lemma update_where_tables [store_simps]:
  "update_where d t P p = Inr d' \<Longrightarrow>
   tables d' t' = (if t' = t then map (\<lambda>r. if P r then r ++ map_of p else r) (tables d t) else tables d t')"
  by (auto simp: update_where_def split: if_splits)

lemma update_where_next_id [store_simps]:
  "update_where d t P p = Inr d' \<Longrightarrow> next_id d' = next_id d"
  by (auto simp: update_where_def split: if_splits)

lemma delete_where_tables [simp, store_simps]:
  "tables (delete_where d t P) t' = (if t' = t then filter (\<lambda>r. \<not> P r) (tables d t) else tables d t')"
  by (simp add: delete_where_def)

lemma delete_where_next_id [simp, store_simps]:
  "next_id (delete_where d t P) = next_id d"
  by (simp add: delete_where_def)

lemma delete_where_idem:
  "delete_where (delete_where d t P) t P = delete_where d t P"
  by (simp add: delete_where_def)

lemma delete_where_no_match:
  "(\<forall>r\<in>set (tables d t). \<not> P r) \<Longrightarrow> delete_where d t P = d"
  by (simp add: delete_where_def filter_id_conv)

lemma select_rows_delete_where:
  "select_rows (delete_where d t P) t Q = filter (\<lambda>r. Q r \<and> \<not> P r) (tables d t)"
  by (simp add: select_rows_def filter_filter conj_commute)

section \<open>Row identifiers\<close>

lemma map_of_map_const:
  "map_of (map (\<lambda>c. (c, v)) cs) c = (if c \<in> set cs then Some v else None)"
  by (induction cs) auto

lemma defaults_id:
  "''id'' \<in> set (table_columns t) \<Longrightarrow> defaults t n ''id'' = Some (VInt (int n))"
proof -
  assume "''id'' \<in> set (table_columns t)"
  then have "''id'' \<in> set (filter (\<lambda>c. c \<in> set generated_columns) (table_columns t))"
    by (simp add: generated_columns_def)
  then show ?thesis
    unfolding defaults_def by (simp only: map_of_map_const concat_map_singleton if_True)
qed

lemma new_row_id:
  "''id'' \<in> set (table_columns t) \<Longrightarrow> map_of p ''id'' = None \<Longrightarrow>
   get (new_row d t p) ''id'' = VInt (int (next_id d))"
  by (simp add: new_row_def get_map_add_of defaults_id) (simp add: get_def defaults_id)

lemma id_below_mono: "id_below n r \<Longrightarrow> n \<le> m \<Longrightarrow> id_below m r"
  by (auto simp: id_below_def split: cell.splits)

lemma id_below_get: "get r' ''id'' = get r ''id'' \<Longrightarrow> id_below n r' = id_below n r"
  by (simp add: id_below_def)

lemma ids_fresh_insert:
  assumes inv: "ids_fresh d t'" and col: "''id'' \<in> set (table_columns t)"
    and nid: "map_of p ''id'' = None" and ins: "insert_into d t p = Inr d'"
  shows "ids_fresh d' t'"
proof -
  have bound: "list_all (id_below (Suc (next_id d))) (tables d t')"
    using inv id_below_mono unfolding ids_fresh_def list_all_iff by (meson le_SucI order_refl)
  have fresh: "get (new_row d t p) ''id'' \<notin> (\<lambda>r. get r ''id'') ` set (tables d t)" if "t' = t"
  proof
    assume "get (new_row d t p) ''id'' \<in> (\<lambda>r. get r ''id'') ` set (tables d t)"
    then obtain r where "r \<in> set (tables d t)" "get r ''id'' = VInt (int (next_id d))"
      using new_row_id [OF col nid] by auto
    moreover have "list_all (id_below (next_id d)) (tables d t)"
      using inv that by (simp add: ids_fresh_def)
    ultimately show False by (auto simp: list_all_iff id_below_def)
  qed
  have "id_below (Suc (next_id d)) (new_row d t p)"
    using new_row_id [OF col nid] by (simp add: id_below_def)
  then show ?thesis
    using inv bound fresh
    by (cases "t' = t") (simp_all add: ids_fresh_def insert_into_tables [OF ins] insert_into_next_id [OF ins])
qed

lemma ids_fresh_update:
  assumes inv: "ids_fresh d t'" and nid: "map_of p ''id'' = None" and upd: "update_where d t P p = Inr d'"
  shows "ids_fresh d' t'"
proof -
  define f where "f r = (if P r then r ++ map_of p else r)" for r
  have g: "get (f r) ''id'' = get r ''id''" for r
    using nid by (simp add: f_def get_map_add_of)
  have gg: "(\<lambda>r. get r ''id'') \<circ> f = (\<lambda>r. get r ''id'')"
    by (simp add: fun_eq_iff g)
  have la: "list_all (id_below n) (map f rs) = list_all (id_below n) rs" for n rs
    by (simp add: list_all_iff id_below_get [OF g])
  have tabs: "tables d' x = (if x = t then map f (tables d t) else tables d x)" for x
    using update_where_tables [OF upd] by (simp add: f_def)
  show ?thesis
    using inv by (cases "t' = t") (simp_all add: ids_fresh_def tabs gg la update_where_next_id [OF upd])
qed

lemma ids_fresh_next:
  assumes "ids_fresh d t"
  shows "VInt (int (next_id d)) \<notin> set (parent_ids d t)"
proof
  assume "VInt (int (next_id d)) \<in> set (parent_ids d t)"
  then obtain r where "r \<in> set (tables d t)" "get r ''id'' = VInt (int (next_id d))"
    by (auto simp: parent_ids_def)
  moreover have "list_all (id_below (next_id d)) (tables d t)"
    using assms by (simp add: ids_fresh_def)
  ultimately show False by (auto simp: list_all_iff id_below_def)
qed

lemma ids_fresh_delete:
  "ids_fresh d t' \<Longrightarrow> ids_fresh (delete_where d t P) t'"
  by (auto simp: ids_fresh_def distinct_map_filter list_all_iff)

section \<open>Frames and schema conformance of the primitives\<close>

lemma frame_refl [intro]: "frame d d ts"
  by (simp add: frame_def)

lemma frame_mono: "frame d d' ts \<Longrightarrow> set ts \<subseteq> set ts' \<Longrightarrow> frame d d' ts'"
  by (auto simp: frame_def)

lemma frame_insert_into: "insert_into d t p = Inr d' \<Longrightarrow> frame d d' [t]"
  by (auto simp: frame_def insert_into_def split: if_splits)

lemma frame_update_where: "update_where d t P p = Inr d' \<Longrightarrow> frame d d' [t]"
  by (auto simp: frame_def update_where_def split: if_splits)

lemma frame_delete_where [intro]: "frame d (delete_where d t P) [t]"
  by (simp add: frame_def)

lemma frame_delete_cascade [intro]: "frame d (delete_cascade d p P c col) [p, c]"
  by (simp add: frame_def delete_cascade_def Let_def)

lemma frame_insert_fk: "insert_fk d t p c pt = Inr d' \<Longrightarrow> frame d d' [t]"
  by (auto simp: insert_fk_def split: option.splits if_splits intro: frame_insert_into)

lemma frame_insert_pk: "insert_pk d t p = Inr d' \<Longrightarrow> frame d d' [t]"
  by (auto simp: insert_pk_def split: option.splits if_splits intro: frame_insert_into)

lemma frame_update_single: "update_single d t P p = Inr d' \<Longrightarrow> frame d d' [t]"
  by (auto simp: update_single_def split: sum.splits list.splits intro: frame_update_where)

lemma frame_upsert_by_id: "upsert_by_id d t p = Inr d' \<Longrightarrow> frame d d' [t]"
  by (auto simp: upsert_by_id_def split: option.splits if_splits intro: frame_insert_into frame_update_where)

lemma conforms_new_row: "columns_known t p \<Longrightarrow> row_conforms t (new_row d t p)"
  by (auto simp: row_conforms_def new_row_def defaults_def columns_known_def list_all_iff dom_map_of_conv_image_fst
      map_of_map_const split: if_splits)

lemma conforms_insert_into: "insert_into d t p = Inr d' \<Longrightarrow> conforms d \<Longrightarrow> conforms d'"
  by (auto simp: conforms_def insert_into_def conforms_new_row split: if_splits)

lemma conforms_map_add: "row_conforms t r \<Longrightarrow> columns_known t p \<Longrightarrow> row_conforms t (r ++ map_of p)"
  by (auto simp: row_conforms_def columns_known_def list_all_iff dom_map_of_conv_image_fst)

lemma conforms_update_where: "update_where d t P p = Inr d' \<Longrightarrow> conforms d \<Longrightarrow> conforms d'"
  by (auto simp: conforms_def update_where_def list_all_iff conforms_map_add split: if_splits)

lemma conforms_delete_where [intro]: "conforms d \<Longrightarrow> conforms (delete_where d t P)"
  by (simp add: conforms_def list_all_iff)

lemma conforms_delete_cascade [intro]: "conforms d \<Longrightarrow> conforms (delete_cascade d p P c col)"
  by (simp add: delete_cascade_def Let_def conforms_delete_where)

lemma conforms_insert_fk: "insert_fk d t p c pt = Inr d' \<Longrightarrow> conforms d \<Longrightarrow> conforms d'"
  by (auto simp: insert_fk_def split: option.splits if_splits intro: conforms_insert_into)

lemma conforms_insert_pk: "insert_pk d t p = Inr d' \<Longrightarrow> conforms d \<Longrightarrow> conforms d'"
  by (auto simp: insert_pk_def split: option.splits if_splits intro: conforms_insert_into)

lemma conforms_update_single: "update_single d t P p = Inr d' \<Longrightarrow> conforms d \<Longrightarrow> conforms d'"
  by (auto simp: update_single_def split: sum.splits list.splits intro: conforms_update_where)

lemma conforms_upsert_by_id: "upsert_by_id d t p = Inr d' \<Longrightarrow> conforms d \<Longrightarrow> conforms d'"
  by (auto simp: upsert_by_id_def split: option.splits if_splits intro: conforms_insert_into conforms_update_where)

lemma conforms_empty [simp]: "conforms empty_db"
  by (simp add: conforms_def empty_db_def)

text \<open>The definitions a concrete store evaluates by, for closed instances.\<close>

lemmas store_eval = like_match_eqs lower_char_def upper_letters_def lower_letters_def postgrest_pattern_def get_def eq_col_def neq_col_def in_col_def select_rows_def project_def
  insert_into_def update_where_def delete_where_def columns_known_def table_columns_def
  profiles_columns_def movie_reviews_columns_def game_reviews_columns_def
  series_reviews_columns_def collections_columns_def collection_items_columns_def
  user_stats_columns_def watchlist_columns_def friendships_columns_def
  new_row_def defaults_def generated_columns_def empty_db_def unknown_column_def
  update_single_def ids_fresh_def id_below_def
  activities_columns_def fk_error_def parent_ids_def insert_fk_def delete_cascade_def pk_error_def insert_pk_def upsert_by_id_def

end
