(* ===== verification/Friends.thy ===== *)
theory Friends
  imports Store
begin

text \<open>
  The friendship layer of \<open>src/src/hooks/useFriends.ts\<close> and the decisions the
  friends sidebar (\<open>src/src/components/FriendsSidebar.tsx\<close>) takes on its results.
  Friendships are rows of the table \<open>friendships\<close> (\<open>user_id\<close> sent the request to
  \<open>friend_id\<close>, \<open>status\<close> is \<open>pending\<close> or \<open>accepted\<close>). The reads join the
  rows with the \<open>profiles\<close> of the other party; the mutations insert, update and delete
  rows. The theory proves the uniqueness invariant the send guard keeps, the abstract
  state machine of a pair of users the operations refine, the symmetry of the derived
  friends view, the race the two-step send leaves open, and the bounds of user search.
\<close>

section \<open>Reads: friends, incoming and outgoing requests\<close>

definition profile_columns :: "column list" where
  "profile_columns = [''id'', ''username'', ''avatar_url'']"

definition placeholder_profile :: "cell \<Rightarrow> row" where
  "placeholder_profile fid = [''id'' \<mapsto> fid, ''username'' \<mapsto> VStr ''Unknown'', ''avatar_url'' \<mapsto> VNull]"

text \<open>\<open>profiles?.find(p => p.id === friendId) || { id: friendId, username: 'Unknown', ... }\<close>\<close>

definition find_profile :: "row list \<Rightarrow> cell \<Rightarrow> row" where
  "find_profile ps fid = (case find (eq_col ''id'' fid) ps of Some p \<Rightarrow> p | None \<Rightarrow> placeholder_profile fid)"

text \<open>The second round trip of every read: the profiles of the given ids, then the merge.\<close>

definition with_profiles :: "db \<Rightarrow> (row \<Rightarrow> cell) \<Rightarrow> row list \<Rightarrow> (row \<times> row) list" where
  "with_profiles d key fs =
     (let ids = map key fs;
          profiles = map (project profile_columns) (select_rows d ''profiles'' (in_col ''id'' ids))
      in map (\<lambda>f. (f, find_profile profiles (key f))) fs)"

definition other_party :: "user_id \<Rightarrow> row \<Rightarrow> cell" where
  "other_party u f = (if get f ''user_id'' = VStr u then get f ''friend_id'' else get f ''user_id'')"

definition involves :: "user_id \<Rightarrow> row \<Rightarrow> bool" where
  "involves u r \<longleftrightarrow> eq_col ''user_id'' (VStr u) r \<or> eq_col ''friend_id'' (VStr u) r"

definition friends_query :: "user_id option \<Rightarrow> db \<Rightarrow> (row \<times> row) list" where
  "friends_query user d =
     (case logged_id user of
        None \<Rightarrow> []
      | Some u \<Rightarrow>
          let friendships = select_rows d ''friendships''
                (\<lambda>r. involves u r \<and> eq_col ''status'' (VStr ''accepted'') r)
          in if friendships = [] then [] else with_profiles d (other_party u) friendships)"

definition pending_requests_query :: "user_id option \<Rightarrow> db \<Rightarrow> (row \<times> row) list" where
  "pending_requests_query user d =
     (case logged_id user of
        None \<Rightarrow> []
      | Some u \<Rightarrow>
          let friendships = select_rows d ''friendships''
                (\<lambda>r. eq_col ''friend_id'' (VStr u) r \<and> eq_col ''status'' (VStr ''pending'') r)
          in if friendships = [] then [] else with_profiles d (\<lambda>f. get f ''user_id'') friendships)"

definition sent_requests_query :: "user_id option \<Rightarrow> db \<Rightarrow> (row \<times> row) list" where
  "sent_requests_query user d =
     (case logged_id user of
        None \<Rightarrow> []
      | Some u \<Rightarrow>
          let friendships = select_rows d ''friendships''
                (\<lambda>r. eq_col ''user_id'' (VStr u) r \<and> eq_col ''status'' (VStr ''pending'') r)
          in if friendships = [] then [] else with_profiles d (\<lambda>f. get f ''friend_id'') friendships)"

section \<open>Mutations\<close>

text \<open>The rows of the unordered pair \<open>{u, v}\<close>: the filter of the existence check.\<close>

definition pair_filter :: "user_id \<Rightarrow> user_id \<Rightarrow> row \<Rightarrow> bool" where
  "pair_filter u v r \<longleftrightarrow>
     (eq_col ''user_id'' (VStr u) r \<and> eq_col ''friend_id'' (VStr v) r) \<or>
     (eq_col ''user_id'' (VStr v) r \<and> eq_col ''friend_id'' (VStr u) r)"

text \<open>
  The send request is two round trips: the existence check (whose error, if any, is
  dropped: only \<open>data\<close> is read) and the insert. They are separate definitions so that
  interleavings of two clients can be stated.
\<close>

definition send_check :: "user_id \<Rightarrow> user_id \<Rightarrow> db \<Rightarrow> error option" where
  "send_check u friendId d =
     (case data (maybe_single (select_rows d ''friendships'' (pair_filter u friendId))) of
        Some existing \<Rightarrow>
          if get existing ''status'' = VStr ''pending'' then Some (JsError ''Request already sent'')
          else if get existing ''status'' = VStr ''accepted'' then Some (JsError ''Already friends'')
          else None
      | None \<Rightarrow> None)"

definition insert_request :: "user_id \<Rightarrow> user_id \<Rightarrow> db \<Rightarrow> error + db" where
  "insert_request u friendId d =
     insert_into d ''friendships''
       [(''user_id'', VStr u), (''friend_id'', VStr friendId), (''status'', VStr ''pending'')]"

definition send_friend_request :: "user_id option \<Rightarrow> user_id \<Rightarrow> db \<Rightarrow> error + db" where
  "send_friend_request user friendId d =
     (case logged_id user of
        None \<Rightarrow> Inl (JsError ''Not authenticated'')
      | Some u \<Rightarrow>
          (case send_check u friendId d of
             Some e \<Rightarrow> Inl e
           | None \<Rightarrow> insert_request u friendId d))"

definition accept_friend_request :: "cell \<Rightarrow> db \<Rightarrow> error + db" where
  "accept_friend_request friendshipId d =
     update_where d ''friendships'' (eq_col ''id'' friendshipId) [(''status'', VStr ''accepted'')]"

definition reject_friend_request :: "cell \<Rightarrow> db \<Rightarrow> db" where
  "reject_friend_request friendshipId d = delete_where d ''friendships'' (eq_col ''id'' friendshipId)"

definition remove_friend :: "cell \<Rightarrow> db \<Rightarrow> db" where
  "remove_friend friendshipId d = delete_where d ''friendships'' (eq_col ''id'' friendshipId)"

section \<open>User search\<close>

definition search_users :: "user_id option \<Rightarrow> string \<Rightarrow> db \<Rightarrow> row list" where
  "search_users user searchQuery d =
     (if searchQuery = [] \<or> length searchQuery < 2 then []
      else take 10 (map (project profile_columns)
        (select_rows d ''profiles''
          (\<lambda>r. ilike ''username'' (''%'' @ searchQuery @ ''%'') r \<and>
               neq_col ''id'' (VStr (case user of Some u \<Rightarrow> u | None \<Rightarrow> '''')) r))))"

section \<open>Decisions of the friends sidebar\<close>

definition is_already_friend :: "(row \<times> row) list \<Rightarrow> cell \<Rightarrow> bool" where
  "is_already_friend friends userId \<longleftrightarrow> (\<exists>f\<in>set friends. get (snd f) ''id'' = userId)"

definition has_pending_request :: "(row \<times> row) list \<Rightarrow> cell \<Rightarrow> bool" where
  "has_pending_request sentRequests userId \<longleftrightarrow> (\<exists>r\<in>set sentRequests. get (fst r) ''friend_id'' = userId)"

datatype search_action = ShowFriend | ShowSent | ShowAddButton

definition search_result_action :: "(row \<times> row) list \<Rightarrow> (row \<times> row) list \<Rightarrow> cell \<Rightarrow> search_action" where
  "search_result_action friends sentRequests userId =
     (if is_already_friend friends userId then ShowFriend
      else if has_pending_request sentRequests userId then ShowSent
      else ShowAddButton)"

datatype send_toast = ToastAlreadySent | ToastAlreadyFriends | ToastSendFailed

text \<open>The catch branch of \<open>handleSendRequest\<close>: the error is told apart by its message text.\<close>

definition classify_send_error :: "string \<Rightarrow> send_toast" where
  "classify_send_error errorMessage =
     (if str_includes errorMessage ''already sent'' \<or> str_includes errorMessage ''duplicate''
      then ToastAlreadySent
      else if str_includes errorMessage ''Already friends'' then ToastAlreadyFriends
      else ToastSendFailed)"

section \<open>The uniqueness invariant\<close>

text \<open>
  The send guard exists to keep one row per unordered pair of users; the code never
  writes a status other than \<open>pending\<close> and \<open>accepted\<close> (a rejected request is
  deleted). The invariant says both, in an executable form.
\<close>

definition same_pair :: "row \<Rightarrow> row \<Rightarrow> bool" where
  "same_pair r r' \<longleftrightarrow>
     (get r' ''user_id'' = get r ''user_id'' \<and> get r' ''friend_id'' = get r ''friend_id'') \<or>
     (get r' ''user_id'' = get r ''friend_id'' \<and> get r' ''friend_id'' = get r ''user_id'')"

definition status_ok :: "row \<Rightarrow> bool" where
  "status_ok r \<longleftrightarrow> get r ''status'' = VStr ''pending'' \<or> get r ''status'' = VStr ''accepted''"

definition friendships_inv :: "db \<Rightarrow> bool" where
  "friendships_inv d \<longleftrightarrow>
     (\<forall>r\<in>set (tables d ''friendships''). status_ok r \<and> at_most_one (same_pair r) (tables d ''friendships''))"

lemma same_pair_refl [simp]: "same_pair r r"
  by (simp add: same_pair_def)

lemma pair_filter_same_pair:
  "pair_filter u v r \<Longrightarrow> pair_filter u v r' \<longleftrightarrow> same_pair r r'"
  by (auto simp: pair_filter_def same_pair_def eq_col_def)

lemma pair_filter_iff_same_pair:
  "get r ''user_id'' = VStr u \<Longrightarrow> get r ''friend_id'' = VStr v \<Longrightarrow> pair_filter u v r' \<longleftrightarrow> same_pair r r'"
  by (auto simp: pair_filter_def same_pair_def eq_col_def)

lemma inv_pair_unique:
  assumes "friendships_inv d"
  shows "at_most_one (pair_filter u v) (tables d ''friendships'')"
proof (cases "\<exists>r\<in>set (tables d ''friendships''). pair_filter u v r")
  case True
  then obtain r where r: "r \<in> set (tables d ''friendships'')" "pair_filter u v r" by blast
  then have "filter (pair_filter u v) (tables d ''friendships'') = filter (same_pair r) (tables d ''friendships'')"
    by (intro filter_cong) (simp_all add: pair_filter_same_pair)
  with assms r show ?thesis by (simp add: friendships_inv_def at_most_one_def)
next
  case False
  then show ?thesis by (simp add: at_most_one_def filter_empty_conv)
qed

lemma send_check_None_no_row:
  assumes "friendships_inv d" and "send_check u v d = None"
  shows "select_rows d ''friendships'' (pair_filter u v) = []"
proof (cases "select_rows d ''friendships'' (pair_filter u v)" rule: remdups_adj.cases)
  case (2 x)
  then have "x \<in> set (select_rows d ''friendships'' (pair_filter u v))" by simp
  then have "x \<in> set (tables d ''friendships'')" by (simp add: select_rows_def)
  with assms(1) have "status_ok x" by (simp add: friendships_inv_def)
  with 2 assms(2) show ?thesis by (simp add: send_check_def status_ok_def split: if_splits)
next
  case (3 x y zs)
  with inv_pair_unique [OF assms(1), of u v] show ?thesis by (simp add: select_rows_def at_most_one_def)
qed simp

lemma new_request_cells [simp]:
  "get (new_row d ''friendships'' [(''user_id'', VStr u), (''friend_id'', VStr v), (''status'', s)]) ''user_id'' = VStr u"
  "get (new_row d ''friendships'' [(''user_id'', VStr u), (''friend_id'', VStr v), (''status'', s)]) ''friend_id'' = VStr v"
  "get (new_row d ''friendships'' [(''user_id'', VStr u), (''friend_id'', VStr v), (''status'', s)]) ''status'' = s"
  by (simp_all add: new_row_def get_map_add_of)

lemma insert_request_tables:
  "insert_request u v d = Inr d' \<Longrightarrow>
   tables d' ''friendships'' = tables d ''friendships'' @
     [new_row d ''friendships'' [(''user_id'', VStr u), (''friend_id'', VStr v), (''status'', VStr ''pending'')]]"
  by (simp add: insert_request_def insert_into_tables)

lemma insert_request_Inr:
  "\<exists>d'. insert_request u v d = Inr d'"
  by (simp add: insert_request_def insert_into_def columns_known_def table_columns_def friendships_columns_def)

lemma send_friend_request_Inr:
  "send_friend_request user v d = Inr d' \<Longrightarrow>
   \<exists>u. logged_id user = Some u \<and> send_check u v d = None \<and> insert_request u v d = Inr d'"
  by (auto simp: send_friend_request_def split: option.splits)

lemma send_preserves_inv:
  assumes inv: "friendships_inv d" and ok: "send_friend_request user v d = Inr d'"
  shows "friendships_inv d'"
proof -
  from ok obtain u where chk: "send_check u v d = None" and ins: "insert_request u v d = Inr d'"
    by (blast dest: send_friend_request_Inr)
  let ?n = "new_row d ''friendships'' [(''user_id'', VStr u), (''friend_id'', VStr v), (''status'', VStr ''pending'')]"
  have none: "\<forall>r\<in>set (tables d ''friendships''). \<not> pair_filter u v r"
    using send_check_None_no_row [OF inv chk] by (simp add: select_rows_def filter_empty_conv)
  have new: "same_pair ?n r \<longleftrightarrow> pair_filter u v r" for r
    by (rule pair_filter_iff_same_pair [symmetric]) simp_all
  have old: "r \<in> set (tables d ''friendships'') \<Longrightarrow> \<not> same_pair r ?n" for r
    using none by (auto simp: same_pair_def pair_filter_def eq_col_def)
  show ?thesis
    using inv none new old insert_request_tables [OF ins]
    by (auto simp: friendships_inv_def status_ok_def filter_empty_conv)
qed

lemma accepted_row_cells:
  "c \<noteq> ''status'' \<Longrightarrow> get (if P r then r ++ map_of [(''status'', s)] else r) c = get r c"
  by (simp add: get_map_add_of)

lemma accept_preserves_inv:
  assumes inv: "friendships_inv d" and ok: "accept_friend_request i d = Inr d'"
  shows "friendships_inv d'"
proof -
  define f where "f r = (if eq_col ''id'' i r then r ++ map_of [(''status'', VStr ''accepted'')] else r)" for r
  have tab: "tables d' ''friendships'' = map f (tables d ''friendships'')"
    using ok by (simp add: accept_friend_request_def update_where_tables f_def)
  have cells: "get (f r) ''user_id'' = get r ''user_id''" "get (f r) ''friend_id'' = get r ''friend_id''" for r
    by (simp_all add: f_def accepted_row_cells)
  have spf: "same_pair (f r) = same_pair r" for r
    by (rule ext) (simp add: same_pair_def cells)
  have spm: "at_most_one (same_pair r) (map f xs) = at_most_one (same_pair r) xs" for r xs
    by (rule at_most_one_map) (simp add: same_pair_def cells)
  have st: "status_ok r \<Longrightarrow> status_ok (f r)" for r
    by (simp add: f_def status_ok_def get_map_add_of)
  show ?thesis
    unfolding friendships_inv_def tab
  proof
    fix r' assume "r' \<in> set (map f (tables d ''friendships''))"
    then obtain r where r: "r \<in> set (tables d ''friendships'')" and r': "r' = f r" by auto
    from inv r have "status_ok r" and "at_most_one (same_pair r) (tables d ''friendships'')"
      by (simp_all add: friendships_inv_def)
    then show "status_ok r' \<and> at_most_one (same_pair r') (map f (tables d ''friendships''))"
      using r' st spf spm by simp
  qed
qed

lemma delete_id_preserves_inv:
  "friendships_inv d \<Longrightarrow> friendships_inv (delete_where d ''friendships'' (eq_col ''id'' i))"
  by (auto simp: friendships_inv_def intro: at_most_one_filter)

lemma reject_preserves_inv:
  "friendships_inv d \<Longrightarrow> friendships_inv (reject_friend_request i d)"
  by (simp add: reject_friend_request_def delete_id_preserves_inv)

lemma remove_preserves_inv:
  "friendships_inv d \<Longrightarrow> friendships_inv (remove_friend i d)"
  by (simp add: remove_friend_def delete_id_preserves_inv)

section \<open>The friendship steps and their reachable states\<close>

text \<open>
  Any sequence of the four friendship mutations, by any users on any rows, interleaved
  with operations of other components (which leave the table \<open>friendships\<close> as it
  is), starting from a store without friendships.
\<close>

inductive friend_step :: "db \<Rightarrow> db \<Rightarrow> bool" where
  send: "send_friend_request user v d = Inr d' \<Longrightarrow> friend_step d d'"
| accept: "accept_friend_request i d = Inr d' \<Longrightarrow> friend_step d d'"
| reject: "friend_step d (reject_friend_request i d)"
| remove: "friend_step d (remove_friend i d)"
| other: "tables d' ''friendships'' = tables d ''friendships'' \<Longrightarrow> friend_step d d'"

inductive friend_reachable :: "db \<Rightarrow> bool" where
  init: "tables d ''friendships'' = [] \<Longrightarrow> friend_reachable d"
| step: "friend_reachable d \<Longrightarrow> friend_step d d' \<Longrightarrow> friend_reachable d'"

lemma friend_step_inv: "friend_step d d' \<Longrightarrow> friendships_inv d \<Longrightarrow> friendships_inv d'"
proof (induction rule: friend_step.induct)
  case (send user v d d')
  from send.prems send.hyps show ?case by (rule send_preserves_inv)
next
  case (accept i d d')
  from accept.prems accept.hyps show ?case by (rule accept_preserves_inv)
next
  case (reject d i)
  then show ?case by (rule reject_preserves_inv)
next
  case (remove d i)
  then show ?case by (rule remove_preserves_inv)
next
  case (other d' d)
  then show ?case by (simp add: friendships_inv_def)
qed

lemma friend_reachable_inv: "friend_reachable d \<Longrightarrow> friendships_inv d"
proof (induction rule: friend_reachable.induct)
  case (init d)
  then show ?case by (simp add: friendships_inv_def)
next
  case (step d d')
  then show ?case by (blast intro: friend_step_inv)
qed

section \<open>The abstract state of a pair of users\<close>

text \<open>
  What a pair of users is, seen from \<open>u\<close>: no relation, a request \<open>u\<close> sent, a request
  \<open>u\<close> received, or friends. The rows of the pair are those whose two parties, as a
  set, are \<open>{u, v}\<close>: the spec's friendship between two users, in whichever direction
  the request went, stated without the code's filter. Under the invariant the pair has
  at most one row, and the state is read off that row.
\<close>

datatype pair_state = NoRelation | RequestSent | RequestReceived | Friends

definition pair_of :: "user_id \<Rightarrow> user_id \<Rightarrow> row \<Rightarrow> bool" where
  "pair_of u v r \<longleftrightarrow> {get r ''user_id'', get r ''friend_id''} = {VStr u, VStr v}"

definition pair_state :: "user_id \<Rightarrow> user_id \<Rightarrow> db \<Rightarrow> pair_state" where
  "pair_state u v d =
     (case filter (pair_of u v) (tables d ''friendships'') of
        [] \<Rightarrow> NoRelation
      | r # _ \<Rightarrow>
          if get r ''status'' = VStr ''accepted'' then Friends
          else if get r ''user_id'' = VStr u then RequestSent else RequestReceived)"

text \<open>
  The contract of sending a request from the spec's friendship lifecycle: from no
  relation a request is created; otherwise the send is refused, with the message the
  code uses. A request the other user sent counts as already sent: mutual requests are
  not accepted implicitly.
\<close>

fun send_spec :: "pair_state \<Rightarrow> error + pair_state" where
  "send_spec NoRelation = Inr RequestSent"
| "send_spec RequestSent = Inl (JsError ''Request already sent'')"
| "send_spec RequestReceived = Inl (JsError ''Request already sent'')"
| "send_spec Friends = Inl (JsError ''Already friends'')"

text \<open>The code's existence check selects exactly the rows of the unordered pair.\<close>

lemma pair_filter_pair_of: "pair_filter u v = pair_of u v"
  by (rule ext) (auto simp: pair_filter_def pair_of_def eq_col_def doubleton_eq_iff)

lemma pair_state_rows:
  "pair_state u v d =
     (case select_rows d ''friendships'' (pair_filter u v) of
        [] \<Rightarrow> NoRelation
      | r # _ \<Rightarrow>
          if get r ''status'' = VStr ''accepted'' then Friends
          else if get r ''user_id'' = VStr u then RequestSent else RequestReceived)"
  by (simp add: pair_state_def select_rows_def pair_filter_pair_of)

lemma pair_rows_cases:
  assumes "friendships_inv d"
  obtains (none) "select_rows d ''friendships'' (pair_filter u v) = []"
    | (one) r where "select_rows d ''friendships'' (pair_filter u v) = [r]"
        "r \<in> set (tables d ''friendships'')" "pair_filter u v r" "status_ok r"
proof -
  have "at_most_one (pair_filter u v) (tables d ''friendships'')"
    using assms by (rule inv_pair_unique)
  then consider "select_rows d ''friendships'' (pair_filter u v) = []"
    | r where "select_rows d ''friendships'' (pair_filter u v) = [r]"
    by (auto simp: at_most_one_iff_single select_rows_def)
  then show ?thesis
  proof cases
    case 1
    then show ?thesis by (rule none)
  next
    case (2 r)
    then have "r \<in> set (select_rows d ''friendships'' (pair_filter u v))" by simp
    then have r: "r \<in> set (tables d ''friendships'')" "pair_filter u v r"
      by (simp_all add: select_rows_def)
    with assms have "status_ok r" by (simp add: friendships_inv_def)
    with 2 r show ?thesis by (rule one)
  qed
qed

lemma pair_row_unique:
  assumes "friendships_inv d" "r \<in> set (tables d ''friendships'')" "pair_filter u v r"
  shows "select_rows d ''friendships'' (pair_filter u v) = [r]"
proof -
  have mem: "r \<in> set (filter (pair_filter u v) (tables d ''friendships''))"
    using assms(2,3) by simp
  have "at_most_one (pair_filter u v) (tables d ''friendships'')"
    using assms(1) by (rule inv_pair_unique)
  then consider (e) "filter (pair_filter u v) (tables d ''friendships'') = []"
    | (s) y where "filter (pair_filter u v) (tables d ''friendships'') = [y]"
    by (auto simp: at_most_one_iff_single)
  then show ?thesis
  proof cases
    case e
    with mem show ?thesis by simp
  next
    case (s y)
    with mem show ?thesis by (simp add: select_rows_def)
  qed
qed

lemma send_check_one:
  "select_rows d ''friendships'' (pair_filter u v) = [r] \<Longrightarrow>
   send_check u v d = (if get r ''status'' = VStr ''pending'' then Some (JsError ''Request already sent'')
     else if get r ''status'' = VStr ''accepted'' then Some (JsError ''Already friends'') else None)"
  by (simp add: send_check_def)

lemma send_check_none:
  "select_rows d ''friendships'' (pair_filter u v) = [] \<Longrightarrow> send_check u v d = None"
  by (simp add: send_check_def)

lemma insert_request_pair_rows:
  assumes "select_rows d ''friendships'' (pair_filter u v) = []" and "insert_request u v d = Inr d'"
  shows "pair_state u v d' = RequestSent"
proof -
  let ?n = "new_row d ''friendships'' [(''user_id'', VStr u), (''friend_id'', VStr v), (''status'', VStr ''pending'')]"
  have "select_rows d' ''friendships'' (pair_filter u v) = [?n]"
    using assms insert_request_tables [OF assms(2)]
    by (simp add: select_rows_def pair_filter_def eq_col_def)
  then show ?thesis by (simp add: pair_state_rows)
qed

lemma send_friend_request_Some:
  "u \<noteq> [] \<Longrightarrow> send_friend_request (Some u) v d =
     (case send_check u v d of Some e \<Rightarrow> Inl e | None \<Rightarrow> insert_request u v d)"
  by (simp add: send_friend_request_def)

lemma filter_pair_map_update:
  "(\<And>r. get (f r) ''user_id'' = get r ''user_id'') \<Longrightarrow> (\<And>r. get (f r) ''friend_id'' = get r ''friend_id'') \<Longrightarrow>
   filter (pair_filter u v) (map f rs) = map f (filter (pair_filter u v) rs)"
  by (induction rs) (simp_all add: pair_filter_def eq_col_def)

text \<open>A concrete store for the witnesses: user \<open>a\<close> has sent a request to user \<open>b\<close>.\<close>

definition demo_request :: db where
  "demo_request = empty_db\<lparr>tables := (tables empty_db)(''friendships'' :=
     [new_row empty_db ''friendships''
        [(''user_id'', VStr ''a''), (''friend_id'', VStr ''b''), (''status'', VStr ''pending'')]]),
     next_id := 1\<rparr>"

lemma demo_request_sent: "send_friend_request (Some ''a'') ''b'' empty_db = Inr demo_request"
  by (simp add: demo_request_def send_friend_request_def send_check_def insert_request_def
      pair_filter_def store_eval)

lemma demo_request_inv: "friendships_inv demo_request"
  by (simp add: demo_request_def friendships_inv_def same_pair_def status_ok_def store_eval)

lemma demo_request_reachable: "friend_reachable demo_request"
proof -
  have "friend_reachable empty_db" by (rule friend_reachable.init) (simp add: empty_db_def)
  moreover have "friend_step empty_db demo_request"
    by (rule friend_step.send [OF demo_request_sent])
  ultimately show ?thesis by (rule friend_reachable.step)
qed

text \<open>
  C1. In every reachable store a pair of users has at most one friendship row.\<close>

theorem reachable_one_row_per_pair:
  assumes "friend_reachable d"
  shows "at_most_one (pair_filter u v) (tables d ''friendships'')"
  using friend_reachable_inv [OF assms] by (rule inv_pair_unique)

theorem reachable_one_row_per_pair_witness:
  "friend_reachable demo_request \<and> at_most_one (pair_filter ''b'' ''a'') (tables demo_request ''friendships'')"
  using demo_request_reachable reachable_one_row_per_pair [OF demo_request_reachable, of "''b''" "''a''"]
  by simp

text \<open>
  C2. Sending a request refines the abstract contract: under the invariant, the result
  of the send, with the store read as the pair's abstract state, is what the contract
  prescribes for the pair's state before the send.
\<close>

theorem send_refines_spec:
  assumes inv: "friendships_inv d" and u: "u \<noteq> []"
  shows "map_sum id (pair_state u v) (send_friend_request (Some u) v d) = send_spec (pair_state u v d)"
proof (rule pair_rows_cases [OF inv, of u v])
  assume none: "select_rows d ''friendships'' (pair_filter u v) = []"
  obtain d' where ins: "insert_request u v d = Inr d'" using insert_request_Inr by blast
  from none ins have "pair_state u v d' = RequestSent" by (rule insert_request_pair_rows)
  with none ins u show ?thesis
    by (simp add: send_friend_request_Some send_check_none pair_state_rows)
next
  fix r assume "select_rows d ''friendships'' (pair_filter u v) = [r]" "status_ok r"
  with u show ?thesis
    by (auto simp: send_friend_request_Some send_check_one pair_state_rows status_ok_def)
qed

theorem send_refines_spec_witness:
  "friendships_inv demo_request \<and> ''b'' \<noteq> [] \<and>
   map_sum id (pair_state ''b'' ''a'') (send_friend_request (Some ''b'') ''a'' demo_request) =
   send_spec (pair_state ''b'' ''a'' demo_request)"
  using demo_request_inv send_refines_spec [OF demo_request_inv, of "''b''" "''a''"] by simp

text \<open>
  C3. Accepting the row of a pair makes the two users friends.\<close>

theorem accept_refines_spec:
  assumes inv: "friendships_inv d" and r: "r \<in> set (tables d ''friendships'')" "pair_filter u v r"
    and rid: "get r ''id'' = i" and ok: "accept_friend_request i d = Inr d'"
  shows "pair_state u v d' = Friends"
proof -
  define f where "f r = (if eq_col ''id'' i r then r ++ map_of [(''status'', VStr ''accepted'')] else r)" for r
  have tab: "tables d' ''friendships'' = map f (tables d ''friendships'')"
    using ok by (simp add: accept_friend_request_def update_where_tables f_def)
  from inv r have one: "select_rows d ''friendships'' (pair_filter u v) = [r]"
    by (rule pair_row_unique)
  have "select_rows d' ''friendships'' (pair_filter u v) = [f r]"
    using one unfolding select_rows_def tab
    by (subst filter_pair_map_update) (simp_all add: f_def accepted_row_cells)
  moreover have "get (f r) ''status'' = VStr ''accepted''"
    using rid by (simp add: f_def eq_col_def get_map_add_of)
  ultimately show ?thesis by (simp add: pair_state_rows)
qed

definition demo_friends :: db where
  "demo_friends = demo_request\<lparr>tables := (tables demo_request)(''friendships'' :=
     map (\<lambda>r. r ++ map_of [(''status'', VStr ''accepted'')]) (tables demo_request ''friendships''))\<rparr>"

lemma demo_friends_accepted: "accept_friend_request (VInt 0) demo_request = Inr demo_friends"
  by (simp add: demo_friends_def demo_request_def accept_friend_request_def store_eval)

theorem accept_refines_spec_witness:
  "friendships_inv demo_request \<and> hd (tables demo_request ''friendships'') \<in> set (tables demo_request ''friendships'') \<and>
   pair_filter ''a'' ''b'' (hd (tables demo_request ''friendships'')) \<and>
   get (hd (tables demo_request ''friendships'')) ''id'' = VInt 0 \<and>
   accept_friend_request (VInt 0) demo_request = Inr demo_friends \<and> pair_state ''a'' ''b'' demo_friends = Friends"
proof -
  let ?r = "hd (tables demo_request ''friendships'')"
  have mem: "?r \<in> set (tables demo_request ''friendships'')" by (simp add: demo_request_def)
  have pf: "pair_filter ''a'' ''b'' ?r" by (simp add: demo_request_def pair_filter_def store_eval)
  have rid: "get ?r ''id'' = VInt 0" by (simp add: demo_request_def store_eval)
  show ?thesis
    using demo_request_inv mem pf rid demo_friends_accepted
      accept_refines_spec [OF demo_request_inv mem pf rid demo_friends_accepted] by simp
qed

text \<open>
  Rejecting a pending request and removing a friend are the same deletion by row id;
  either leaves the pair with no relation.
\<close>

theorem reject_remove_refine_spec:
  assumes inv: "friendships_inv d" and r: "r \<in> set (tables d ''friendships'')" "pair_filter u v r"
    and rid: "get r ''id'' = i"
  shows "pair_state u v (reject_friend_request i d) = NoRelation \<and> pair_state u v (remove_friend i d) = NoRelation"
proof -
  from inv r have one: "filter (pair_filter u v) (tables d ''friendships'') = [r]"
    unfolding select_rows_def [symmetric] by (rule pair_row_unique)
  have "filter (\<lambda>x. pair_filter u v x \<and> \<not> eq_col ''id'' i x) (tables d ''friendships'') =
      filter (\<lambda>x. \<not> eq_col ''id'' i x) (filter (pair_filter u v) (tables d ''friendships''))"
    by (simp add: filter_filter)
  also have "\<dots> = []" using one rid by (simp add: eq_col_def)
  finally have "select_rows (delete_where d ''friendships'' (eq_col ''id'' i)) ''friendships'' (pair_filter u v) = []"
    by (simp add: select_rows_delete_where)
  then show ?thesis
    by (simp add: pair_state_rows reject_friend_request_def remove_friend_def)
qed

theorem reject_remove_refine_spec_witness:
  "friendships_inv demo_request \<and> hd (tables demo_request ''friendships'') \<in> set (tables demo_request ''friendships'') \<and>
   pair_filter ''b'' ''a'' (hd (tables demo_request ''friendships'')) \<and>
   get (hd (tables demo_request ''friendships'')) ''id'' = VInt 0 \<and>
   pair_state ''b'' ''a'' (reject_friend_request (VInt 0) demo_request) = NoRelation \<and>
   pair_state ''b'' ''a'' (remove_friend (VInt 0) demo_request) = NoRelation"
proof -
  let ?r = "hd (tables demo_request ''friendships'')"
  have mem: "?r \<in> set (tables demo_request ''friendships'')" by (simp add: demo_request_def)
  have pf: "pair_filter ''b'' ''a'' ?r" by (simp add: demo_request_def pair_filter_def store_eval)
  have rid: "get ?r ''id'' = VInt 0" by (simp add: demo_request_def store_eval)
  show ?thesis
    using demo_request_inv mem pf rid reject_remove_refine_spec [OF demo_request_inv mem pf rid] by simp
qed

section \<open>The derived views\<close>

text \<open>The ids the sidebar compares against: \<open>f.friendProfile.id\<close> of each entry.\<close>

definition friend_ids :: "(row \<times> row) list \<Rightarrow> cell list" where
  "friend_ids friends = map (\<lambda>f. get (snd f) ''id'') friends"

lemma find_profile_id [simp]: "get (find_profile ps fid) ''id'' = fid"
proof (cases "find (eq_col ''id'' fid) ps")
  case None
  then show ?thesis by (simp add: find_profile_def placeholder_profile_def)
next
  case (Some p)
  then have "eq_col ''id'' fid p" by (auto simp: find_Some_iff)
  with Some show ?thesis by (simp add: find_profile_def eq_col_def)
qed

lemma map_fst_with_profiles [simp]: "map fst (with_profiles d key fs) = fs"
  by (simp add: with_profiles_def Let_def comp_def)

lemma friend_ids_Nil [simp]: "friend_ids [] = []"
  by (simp add: friend_ids_def)

lemma friend_ids_with_profiles [simp]: "friend_ids (with_profiles d key fs) = map key fs"
  by (simp add: with_profiles_def friend_ids_def Let_def comp_def)

definition accepted_of :: "user_id \<Rightarrow> db \<Rightarrow> row list" where
  "accepted_of u d = select_rows d ''friendships'' (\<lambda>r. involves u r \<and> eq_col ''status'' (VStr ''accepted'') r)"

lemma friend_ids_friends_query:
  "u \<noteq> [] \<Longrightarrow> friend_ids (friends_query (Some u) d) = map (other_party u) (accepted_of u d)"
  by (simp add: friends_query_def accepted_of_def Let_def)

text \<open>
  The friends view is symmetric although rows are stored directionally: an accepted
  row between \<open>a\<close> and \<open>b\<close> lists \<open>b\<close> among the friends of \<open>a\<close> and \<open>a\<close> among
  the friends of \<open>b\<close>.
\<close>

theorem friends_view_symmetric:
  assumes "r \<in> set (tables d ''friendships'')" "get r ''status'' = VStr ''accepted''"
    and "get r ''user_id'' = VStr a" "get r ''friend_id'' = VStr b" and "a \<noteq> []" "b \<noteq> []"
  shows "VStr b \<in> set (friend_ids (friends_query (Some a) d)) \<and>
         VStr a \<in> set (friend_ids (friends_query (Some b) d))"
proof -
  have "r \<in> set (accepted_of a d)" "r \<in> set (accepted_of b d)"
    using assms(1-4) by (simp_all add: accepted_of_def select_rows_def involves_def eq_col_def)
  moreover have "other_party a r = VStr b" "other_party b r = VStr a"
    using assms(3,4) by (auto simp: other_party_def)
  ultimately show ?thesis
    using assms(5,6) by (force simp: friend_ids_friends_query)
qed

theorem friends_view_symmetric_witness:
  "hd (tables demo_friends ''friendships'') \<in> set (tables demo_friends ''friendships'') \<and>
   get (hd (tables demo_friends ''friendships'')) ''status'' = VStr ''accepted'' \<and>
   get (hd (tables demo_friends ''friendships'')) ''user_id'' = VStr ''a'' \<and>
   get (hd (tables demo_friends ''friendships'')) ''friend_id'' = VStr ''b'' \<and>
   ''a'' \<noteq> [] \<and> ''b'' \<noteq> [] \<and>
   VStr ''b'' \<in> set (friend_ids (friends_query (Some ''a'') demo_friends)) \<and>
   VStr ''a'' \<in> set (friend_ids (friends_query (Some ''b'') demo_friends))"
proof -
  let ?r = "hd (tables demo_friends ''friendships'')"
  have h: "?r \<in> set (tables demo_friends ''friendships'')" "get ?r ''status'' = VStr ''accepted''"
    "get ?r ''user_id'' = VStr ''a''" "get ?r ''friend_id'' = VStr ''b''" "''a'' \<noteq> []" "''b'' \<noteq> []"
    by (simp_all add: demo_friends_def demo_request_def store_eval)
  show ?thesis using h friends_view_symmetric [OF h] by simp
qed

lemma accepted_same_other:
  assumes "involves u x" "involves u y" "other_party u y = other_party u x"
  shows "same_pair x y"
  using assms by (auto simp: involves_def other_party_def same_pair_def eq_col_def split: if_splits)

lemma inv_friend_ids_distinct:
  assumes inv: "friendships_inv d"
  shows "distinct (friend_ids (friends_query user d))"
proof (cases "logged_id user")
  case None
  then show ?thesis by (simp add: friends_query_def)
next
  case (Some u)
  then have user: "user = Some u" "u \<noteq> []" by (simp_all add: logged_id_Some)
  let ?fs = "tables d ''friendships''"
  let ?Q = "\<lambda>r. involves u r \<and> eq_col ''status'' (VStr ''accepted'') r"
  have "distinct (map (other_party u) (filter ?Q ?fs))"
  proof (rule distinct_map_if_unique)
    fix x assume x: "x \<in> set (filter ?Q ?fs)"
    have "length (filter (\<lambda>y. other_party u y = other_party u x) (filter ?Q ?fs)) =
        length (filter (\<lambda>y. ?Q y \<and> other_party u y = other_party u x) ?fs)"
      by (simp add: filter_filter)
    also have "\<dots> \<le> length (filter (same_pair x) ?fs)"
      using x by (intro length_filter_mono) (auto intro: accepted_same_other)
    also have "\<dots> \<le> 1"
      using inv x by (simp add: friendships_inv_def at_most_one_def)
    finally show "length (filter (\<lambda>y. other_party u y = other_party u x) (filter ?Q ?fs)) \<le> 1" .
  qed
  with user show ?thesis
    by (simp add: friend_ids_friends_query accepted_of_def select_rows_def)
qed

text \<open>
  In every reachable store the friends view lists each friend once.\<close>

theorem reachable_friends_distinct:
  assumes "friend_reachable d"
  shows "distinct (friend_ids (friends_query user d))"
  using friend_reachable_inv [OF assms] by (rule inv_friend_ids_distinct)

theorem reachable_friends_distinct_witness:
  "friend_reachable demo_friends \<and> distinct (friend_ids (friends_query (Some ''a'') demo_friends))"
proof -
  have r: "friend_reachable demo_friends"
    using demo_request_reachable friend_step.accept [OF demo_friends_accepted]
    by (rule friend_reachable.step)
  show ?thesis using r reachable_friends_distinct [OF r, of "Some ''a''"] by simp
qed

section \<open>The sidebar's decisions against the abstract state\<close>

lemma pair_rows_only:
  "select_rows d ''friendships'' (pair_filter u v) = [r] \<Longrightarrow> r' \<in> set (tables d ''friendships'') \<Longrightarrow>
   pair_filter u v r' \<Longrightarrow> r' = r"
proof -
  assume one: "select_rows d ''friendships'' (pair_filter u v) = [r]"
    and r': "r' \<in> set (tables d ''friendships'')" "pair_filter u v r'"
  from r' have "r' \<in> set (select_rows d ''friendships'' (pair_filter u v))"
    by (simp add: select_rows_def)
  then show "r' = r" by (simp only: one) simp
qed

lemma is_already_friend_friend_ids: "is_already_friend xs x \<longleftrightarrow> x \<in> set (friend_ids xs)"
  unfolding is_already_friend_def friend_ids_def by (induction xs) auto

lemma has_pending_request_map: "has_pending_request xs x \<longleftrightarrow> x \<in> set (map (\<lambda>r. get r ''friend_id'') (map fst xs))"
  unfolding has_pending_request_def by (induction xs) auto

lemma is_already_friend_iff:
  assumes "u \<noteq> []" "w \<noteq> u"
  shows "is_already_friend (friends_query (Some u) d) (VStr w) \<longleftrightarrow>
    (\<exists>r\<in>set (tables d ''friendships''). pair_filter u w r \<and> get r ''status'' = VStr ''accepted'')"
proof -
  have "is_already_friend (friends_query (Some u) d) (VStr w) \<longleftrightarrow>
      VStr w \<in> set (friend_ids (friends_query (Some u) d))"
    by (rule is_already_friend_friend_ids)
  also have "\<dots> \<longleftrightarrow> (\<exists>r\<in>set (accepted_of u d). other_party u r = VStr w)"
    using assms(1) by (auto simp: friend_ids_friends_query intro: rev_image_eqI)
  also have "\<dots> \<longleftrightarrow> (\<exists>r\<in>set (tables d ''friendships''). pair_filter u w r \<and> get r ''status'' = VStr ''accepted'')"
    using assms(2)
    by (auto simp: accepted_of_def select_rows_def involves_def other_party_def pair_filter_def eq_col_def)
  finally show ?thesis .
qed

lemma has_pending_request_iff:
  assumes "u \<noteq> []"
  shows "has_pending_request (sent_requests_query (Some u) d) (VStr w) \<longleftrightarrow>
    (\<exists>r\<in>set (tables d ''friendships''). get r ''user_id'' = VStr u \<and> get r ''friend_id'' = VStr w \<and>
        get r ''status'' = VStr ''pending'')"
proof -
  have "map fst (sent_requests_query (Some u) d) =
      select_rows d ''friendships'' (\<lambda>r. eq_col ''user_id'' (VStr u) r \<and> eq_col ''status'' (VStr ''pending'') r)"
    using assms by (simp add: sent_requests_query_def Let_def)
  then show ?thesis
    by (force simp: has_pending_request_map select_rows_def eq_col_def)
qed

text \<open>
  C4. For another user \<open>w\<close>, the sidebar labels a search result from the abstract state
  of the pair: "Friend" for friends, "Sent" for a request the signed-in user sent, and the
  add button otherwise, including when \<open>w\<close> has sent a request the user has not
  answered yet.
\<close>

theorem search_action_refines_pair_state:
  assumes inv: "friendships_inv d" and u: "u \<noteq> []" and w: "w \<noteq> u"
  shows "search_result_action (friends_query (Some u) d) (sent_requests_query (Some u) d) (VStr w) =
    (case pair_state u w d of Friends \<Rightarrow> ShowFriend | RequestSent \<Rightarrow> ShowSent | _ \<Rightarrow> ShowAddButton)"
proof (rule pair_rows_cases [OF inv, of u w])
  assume none: "select_rows d ''friendships'' (pair_filter u w) = []"
  then have no: "\<forall>r\<in>set (tables d ''friendships''). \<not> pair_filter u w r"
    by (simp add: select_rows_def filter_empty_conv)
  then have "\<not> is_already_friend (friends_query (Some u) d) (VStr w)"
    using u w by (simp add: is_already_friend_iff)
  moreover have "\<not> has_pending_request (sent_requests_query (Some u) d) (VStr w)"
    using no u by (auto simp: has_pending_request_iff pair_filter_def eq_col_def)
  ultimately show ?thesis using none by (simp add: search_result_action_def pair_state_rows)
next
  fix r assume one: "select_rows d ''friendships'' (pair_filter u w) = [r]"
    and r: "r \<in> set (tables d ''friendships'')" "pair_filter u w r" and st: "status_ok r"
  have only: "r' \<in> set (tables d ''friendships'') \<Longrightarrow> pair_filter u w r' \<Longrightarrow> r' = r" for r'
    using one by (rule pair_rows_only)
  have "(\<exists>r'\<in>set (tables d ''friendships''). pair_filter u w r' \<and> get r' ''status'' = VStr ''accepted'') \<longleftrightarrow>
      get r ''status'' = VStr ''accepted''"
    using r only by blast
  then have fr: "is_already_friend (friends_query (Some u) d) (VStr w) \<longleftrightarrow> get r ''status'' = VStr ''accepted''"
    using u w by (simp add: is_already_friend_iff)
  have sent_pair: "get r' ''user_id'' = VStr u \<and> get r' ''friend_id'' = VStr w \<longleftrightarrow>
      pair_filter u w r' \<and> get r' ''user_id'' = VStr u" for r'
    using w by (auto simp: pair_filter_def eq_col_def)
  have "(\<exists>r'\<in>set (tables d ''friendships''). get r' ''user_id'' = VStr u \<and> get r' ''friend_id'' = VStr w \<and>
        get r' ''status'' = VStr ''pending'') \<longleftrightarrow>
      get r ''user_id'' = VStr u \<and> get r ''status'' = VStr ''pending''"
    using r only sent_pair by blast
  then have pe: "has_pending_request (sent_requests_query (Some u) d) (VStr w) \<longleftrightarrow>
      get r ''user_id'' = VStr u \<and> get r ''status'' = VStr ''pending''"
    using u by (simp add: has_pending_request_iff)
  have ps: "pair_state u w d = (if get r ''status'' = VStr ''accepted'' then Friends
      else if get r ''user_id'' = VStr u then RequestSent else RequestReceived)"
    using one by (simp add: pair_state_rows)
  show ?thesis
  proof (cases "get r ''status'' = VStr ''accepted''")
    case True
    with fr ps show ?thesis by (simp add: search_result_action_def)
  next
    case False
    with st have "get r ''status'' = VStr ''pending''" by (simp add: status_ok_def)
    with False fr pe ps show ?thesis by (simp add: search_result_action_def)
  qed
qed

theorem search_action_refines_pair_state_witness:
  "friendships_inv demo_request \<and> ''b'' \<noteq> [] \<and> ''a'' \<noteq> ''b'' \<and>
   search_result_action (friends_query (Some ''b'') demo_request) (sent_requests_query (Some ''b'') demo_request) (VStr ''a'') = ShowAddButton \<and>
   pair_state ''b'' ''a'' demo_request = RequestReceived"
proof -
  have "pair_state ''b'' ''a'' demo_request = RequestReceived"
    by (simp add: pair_state_rows demo_request_def pair_filter_def store_eval)
  moreover have "''b'' \<noteq> []" "''a'' \<noteq> ''b''" by simp_all
  ultimately show ?thesis
    using demo_request_inv search_action_refines_pair_state [OF demo_request_inv, of "''b''" "''a''"] by simp
qed

text \<open>
  A failed send shows the toast that matches the pair: "already friends" for
  friends, "already sent" otherwise; the message text the sidebar matches on is the one
  the hook throws.
\<close>

theorem send_failure_toast:
  assumes inv: "friendships_inv d" and u: "u \<noteq> []" and fail: "send_friend_request (Some u) v d = Inl e"
  shows "classify_send_error (error_message e) =
    (if pair_state u v d = Friends then ToastAlreadyFriends else ToastAlreadySent)"
proof (rule pair_rows_cases [OF inv, of u v])
  assume none: "select_rows d ''friendships'' (pair_filter u v) = []"
  obtain d' where "insert_request u v d = Inr d'" using insert_request_Inr by blast
  with none u fail show ?thesis by (simp add: send_friend_request_Some send_check_none)
next
  fix r assume one: "select_rows d ''friendships'' (pair_filter u v) = [r]" and st: "status_ok r"
  have msgs: "classify_send_error ''Request already sent'' = ToastAlreadySent"
    "classify_send_error ''Already friends'' = ToastAlreadyFriends"
    by (simp_all add: classify_send_error_def)
  from one st u fail msgs show ?thesis
    by (auto simp: send_friend_request_Some send_check_one pair_state_rows status_ok_def)
qed

theorem send_failure_toast_witness:
  "friendships_inv demo_request \<and> ''b'' \<noteq> [] \<and>
   send_friend_request (Some ''b'') ''a'' demo_request = Inl (JsError ''Request already sent'') \<and>
   classify_send_error (error_message (JsError ''Request already sent'')) = ToastAlreadySent"
proof -
  have s: "send_friend_request (Some ''b'') ''a'' demo_request = Inl (JsError ''Request already sent'')"
    by (simp add: demo_request_def send_friend_request_def send_check_def pair_filter_def store_eval)
  have "pair_state ''b'' ''a'' demo_request \<noteq> Friends"
    by (simp add: pair_state_rows demo_request_def pair_filter_def store_eval)
  then show ?thesis
    using demo_request_inv s send_failure_toast [OF demo_request_inv _ s] by simp
qed

section \<open>Two clients sending at once\<close>

text \<open>
  Each remote call is a suspension point of the event loop, so the existence check and
  the insert of one send can be separated by the calls of another client. The state is
  the backend store and the sends whose check has passed and whose insert is still to
  come; a step is one check or one insert.
\<close>

record send_clients =
  backend :: db
  in_flight :: "(user_id \<times> user_id) list"

inductive async_send :: "send_clients \<Rightarrow> send_clients \<Rightarrow> bool" where
  check: "u \<noteq> [] \<Longrightarrow> send_check u v (backend s) = None \<Longrightarrow>
    async_send s (s\<lparr>in_flight := in_flight s @ [(u, v)]\<rparr>)"
| commit: "(u, v) \<in> set (in_flight s) \<Longrightarrow> insert_request u v (backend s) = Inr d' \<Longrightarrow>
    async_send s (s\<lparr>backend := d', in_flight := remove1 (u, v) (in_flight s)\<rparr>)"

text \<open>A send run without interruption is a check immediately followed by its insert.\<close>

lemma send_is_async_run:
  assumes "u \<noteq> []" and "send_friend_request (Some u) v d = Inr d'"
  shows "async_send\<^sup>*\<^sup>* \<lparr>backend = d, in_flight = []\<rparr> \<lparr>backend = d', in_flight = []\<rparr>"
proof -
  from assms have chk: "send_check u v d = None" and ins: "insert_request u v d = Inr d'"
    by (auto simp: send_friend_request_Some split: option.splits)
  have "async_send \<lparr>backend = d, in_flight = []\<rparr> \<lparr>backend = d, in_flight = [(u, v)]\<rparr>"
    using async_send.check [of u v "\<lparr>backend = d, in_flight = []\<rparr>"] assms(1) chk by simp
  moreover have "async_send \<lparr>backend = d, in_flight = [(u, v)]\<rparr> \<lparr>backend = d', in_flight = []\<rparr>"
    using async_send.commit [of u v "\<lparr>backend = d, in_flight = [(u, v)]\<rparr>" d'] ins by simp
  ultimately show ?thesis by auto
qed

definition demo_duplicate :: db where
  "demo_duplicate = demo_request\<lparr>tables := (tables demo_request)(''friendships'' :=
     tables demo_request ''friendships'' @
     [new_row demo_request ''friendships''
        [(''user_id'', VStr ''b''), (''friend_id'', VStr ''a''), (''status'', VStr ''pending'')]]),
     next_id := 2\<rparr>"

lemma demo_duplicate_inserted: "insert_request ''b'' ''a'' demo_request = Inr demo_duplicate"
  by (simp add: demo_duplicate_def demo_request_def insert_request_def store_eval)

lemma demo_request_inserted: "insert_request ''a'' ''b'' empty_db = Inr demo_request"
  by (simp add: demo_request_def insert_request_def store_eval)

text \<open>
  C8. Two users who send each other a request at the same time both pass the existence
  check, and the store ends with two rows for the pair: the uniqueness the check is meant
  to keep does not hold under interleaving.
\<close>

theorem concurrent_sends_duplicate_pair:
  "\<exists>s. async_send\<^sup>*\<^sup>* \<lparr>backend = empty_db, in_flight = []\<rparr> s \<and> in_flight s = [] \<and>
       length (select_rows (backend s) ''friendships'' (pair_filter ''a'' ''b'')) = 2 \<and>
       \<not> friendships_inv (backend s)"
proof -
  have c0: "send_check ''a'' ''b'' empty_db = None" "send_check ''b'' ''a'' empty_db = None"
    by (simp_all add: send_check_def store_eval)
  have s1: "async_send \<lparr>backend = empty_db, in_flight = []\<rparr> \<lparr>backend = empty_db, in_flight = [(''a'', ''b'')]\<rparr>"
    using async_send.check [of "''a''" "''b''" "\<lparr>backend = empty_db, in_flight = []\<rparr>"] c0 by simp
  have s2: "async_send \<lparr>backend = empty_db, in_flight = [(''a'', ''b'')]\<rparr>
      \<lparr>backend = empty_db, in_flight = [(''a'', ''b''), (''b'', ''a'')]\<rparr>"
    using async_send.check [of "''b''" "''a''" "\<lparr>backend = empty_db, in_flight = [(''a'', ''b'')]\<rparr>"] c0 by simp
  have s3: "async_send \<lparr>backend = empty_db, in_flight = [(''a'', ''b''), (''b'', ''a'')]\<rparr>
      \<lparr>backend = demo_request, in_flight = [(''b'', ''a'')]\<rparr>"
    using async_send.commit [of "''a''" "''b''" "\<lparr>backend = empty_db, in_flight = [(''a'', ''b''), (''b'', ''a'')]\<rparr>"]
      demo_request_inserted by simp
  have s4: "async_send \<lparr>backend = demo_request, in_flight = [(''b'', ''a'')]\<rparr>
      \<lparr>backend = demo_duplicate, in_flight = []\<rparr>"
    using async_send.commit [of "''b''" "''a''" "\<lparr>backend = demo_request, in_flight = [(''b'', ''a'')]\<rparr>"]
      demo_duplicate_inserted by simp
  have run: "async_send\<^sup>*\<^sup>* \<lparr>backend = empty_db, in_flight = []\<rparr> \<lparr>backend = demo_duplicate, in_flight = []\<rparr>"
    using s1 s2 s3 s4 by (meson converse_rtranclp_into_rtranclp rtranclp.rtrancl_refl)
  have two: "length (select_rows demo_duplicate ''friendships'' (pair_filter ''a'' ''b'')) = 2"
    by (simp add: demo_duplicate_def demo_request_def pair_filter_def store_eval)
  have "\<not> friendships_inv demo_duplicate"
    by (simp add: demo_duplicate_def demo_request_def friendships_inv_def same_pair_def status_ok_def store_eval)
  with run two show ?thesis by force
qed



section \<open>User search\<close>

definition demo_profiles :: db where
  "demo_profiles = empty_db\<lparr>tables := (tables empty_db)(''profiles'' :=
     [[''id'' \<mapsto> VStr ''a'', ''username'' \<mapsto> VStr ''alice''],
      [''id'' \<mapsto> VStr ''b'', ''username'' \<mapsto> VStr ''bob''],
      [''id'' \<mapsto> VStr ''c'', ''username'' \<mapsto> VStr ''Alicia'']])\<rparr>"

lemma project_profile_cells [simp]:
  "get (project profile_columns r) ''id'' = get r ''id''"
  "get (project profile_columns r) ''username'' = get r ''username''"
  by (simp_all add: project_def profile_columns_def get_def)

lemma search_users_member:
  assumes "r \<in> set (search_users user q d)"
  obtains r0 where "r0 \<in> set (tables d ''profiles'')" "r = project profile_columns r0"
    "ilike ''username'' (''%'' @ q @ ''%'') r0"
    "neq_col ''id'' (VStr (case user of Some u \<Rightarrow> u | None \<Rightarrow> '''')) r0"
proof -
  from assms have "r \<in> set (map (project profile_columns)
      (filter (\<lambda>r. ilike ''username'' (''%'' @ q @ ''%'') r \<and>
         neq_col ''id'' (VStr (case user of Some u \<Rightarrow> u | None \<Rightarrow> '''')) r) (tables d ''profiles'')))"
    by (auto simp: search_users_def select_rows_def split: if_splits dest: in_set_takeD)
  then show ?thesis using that by auto
qed

text \<open>
  User search returns nothing for a query shorter than two characters, at most ten
  profiles otherwise, and never the profile of the user who searches.
\<close>

theorem search_users_bounds:
  "(length q < 2 \<longrightarrow> search_users (Some u) q d = []) \<and>
   length (search_users (Some u) q d) \<le> 10 \<and>
   (\<forall>r\<in>set (search_users (Some u) q d). get r ''id'' \<noteq> VStr u)"
proof (intro conjI impI ballI)
  show "length q < 2 \<Longrightarrow> search_users (Some u) q d = []"
    by (simp add: search_users_def)
  show "length (search_users (Some u) q d) \<le> 10"
    by (simp add: search_users_def)
  fix r assume "r \<in> set (search_users (Some u) q d)"
  then obtain r0 where "r = project profile_columns r0" "neq_col ''id'' (VStr u) r0"
    by (rule search_users_member) simp
  then show "get r ''id'' \<noteq> VStr u" by (simp add: neq_col_def)
qed

lemma demo_search_ali:
  "search_users (Some ''a'') ''ali'' demo_profiles =
     [project profile_columns [''id'' \<mapsto> VStr ''c'', ''username'' \<mapsto> VStr ''Alicia'']]"
  by (simp add: search_users_def demo_profiles_def ilike_def store_eval)

theorem search_users_bounds_witness:
  "search_users (Some ''a'') ''x'' demo_profiles = [] \<and>
   length (search_users (Some ''a'') ''ali'' demo_profiles) \<le> 10 \<and>
   map (\<lambda>r. get r ''id'') (search_users (Some ''a'') ''ali'' demo_profiles) = [VStr ''c'']"
  using search_users_bounds [of "''x''" "''a''" demo_profiles]
    search_users_bounds [of "''ali''" "''a''" demo_profiles] demo_search_ali
  by (simp add: profile_columns_def project_def get_def)

text \<open>
  C10. For a query of at least two characters with no wildcard (\<open>%\<close>, \<open>_\<close>, \<open>*\<close>)
  and no backslash, user search is the case-insensitive substring search the spec
  describes: it returns, in the store's order and at most ten, exactly the profiles
  other than the searching user's whose username contains the query, case folded.
\<close>

theorem search_users_substring:
  assumes "wildcard_free q" and "2 \<le> length q"
  shows "search_users (Some u) q d =
    take 10 (map (project profile_columns) (filter (\<lambda>r.
      (\<exists>s. get r ''username'' = VStr s \<and> sublist (map lower_char q) (map lower_char s)) \<and> get r ''id'' \<noteq> VStr u)
      (tables d ''profiles'')))"
proof -
  have "ilike ''username'' (''%'' @ q @ ''%'') r \<and> neq_col ''id'' (VStr u) r \<longleftrightarrow>
      (\<exists>s. get r ''username'' = VStr s \<and> sublist (map lower_char q) (map lower_char s)) \<and> get r ''id'' \<noteq> VStr u"
    for r
  proof (cases "get r ''username''")
    case (VStr s)
    then show ?thesis using ilike_sublist [OF assms(1) VStr] by (simp add: neq_col_def)
  qed (simp_all add: ilike_def)
  moreover have "\<not> (q = [] \<or> length q < 2)" using assms(2) by auto
  ultimately show ?thesis by (simp add: search_users_def select_rows_def)
qed

theorem search_users_substring_witness:
  "wildcard_free ''ALI'' \<and> 2 \<le> length ''ALI'' \<and>
   search_users (Some ''a'') ''ALI'' demo_profiles =
    take 10 (map (project profile_columns) (filter (\<lambda>r.
      (\<exists>s. get r ''username'' = VStr s \<and> sublist (map lower_char ''ALI'') (map lower_char s)) \<and> get r ''id'' \<noteq> VStr ''a'')
      (tables demo_profiles ''profiles'')))"
proof -
  have w: "wildcard_free ''ALI''" by (simp add: wildcard_free_def)
  show ?thesis using w search_users_substring [OF w, of "''a''" demo_profiles] by simp
qed

text \<open>
  The query is pasted into the pattern unescaped, so \<open>_\<close>, \<open>%\<close> and \<open>*\<close> typed
  by the user act as wildcards: the query \<open>l_c\<close> finds the user \<open>Alicia\<close>, whose name does not
  contain it.
\<close>

theorem search_wildcard_not_substring:
  "map (\<lambda>r. get r ''username'') (search_users (Some ''a'') ''l_c'' demo_profiles) = [VStr ''Alicia''] \<and>
   \<not> sublist (map lower_char ''l_c'') (map lower_char ''Alicia'')"
proof
  show "map (\<lambda>r. get r ''username'') (search_users (Some ''a'') ''l_c'' demo_profiles) = [VStr ''Alicia'']"
    by (simp add: search_users_def demo_profiles_def ilike_def profile_columns_def store_eval)
  have "map lower_char ''l_c'' = ''l_c''" "map lower_char ''Alicia'' = ''alicia''"
    by (simp_all add: lower_char_def upper_letters_def lower_letters_def)
  then show "\<not> sublist (map lower_char ''l_c'') (map lower_char ''Alicia'')"
    by (simp flip: str_includes_sublist)
qed

end
