(* ===== verification/Reviews.thy ===== *)
theory Reviews
  imports Store
begin

text \<open>
  Reviews, as written by \<open>src/src/hooks/useReviews.ts\<close> (used by the review dialog,
  \<open>src/src/components/ReviewDialog.tsx\<close>) and by the older per-kind hooks
  \<open>useMovieReviews.ts\<close> and \<open>useGameReviews.ts\<close>. A review lives in the table of its
  media kind, \<open>movie_reviews\<close>, \<open>series_reviews\<close> or \<open>game_reviews\<close>, whose column
  names the hook builds from the kind (\<open>movie_id\<close>, \<open>movie_title\<close>, ...). Writing a
  review is create-or-update by lookup of the natural key (user, item). The theory proves
  that the natural key stays unique, the write/read round trip, idempotent deletion, the
  order of the merged review list, and that a game review cannot be saved against the
  schema of \<open>types/database.ts\<close>.
\<close>

section \<open>Review data\<close>

definition review_table :: "media_type \<Rightarrow> table_name" where
  "review_table k = kind_name k @ ''_reviews''"

definition id_column :: "media_type \<Rightarrow> column" where
  "id_column k = kind_name k @ ''_id''"

definition title_column :: "media_type \<Rightarrow> column" where
  "title_column k = kind_name k @ ''_title''"

definition poster_column :: "media_type \<Rightarrow> column" where
  "poster_column k = kind_name k @ ''_poster''"

record review_data =
  itemType :: media_type
  itemId :: int
  itemTitle :: string
  itemPoster :: "string option"
  rating :: int
  reviewText :: "string option"
  watchedDate :: "string option"
  hoursPlayed :: "int option"
  platform :: "string option"

text \<open>\<open>x || null\<close>: an absent value and a falsy one (the empty string, the number 0) are \<open>null\<close>.\<close>

definition str_or_null :: "string option \<Rightarrow> cell" where
  "str_or_null x = (case x of Some s \<Rightarrow> if s = [] then VNull else VStr s | None \<Rightarrow> VNull)"

definition int_or_null :: "int option \<Rightarrow> cell" where
  "int_or_null x = (case x of Some n \<Rightarrow> if n = 0 then VNull else VInt n | None \<Rightarrow> VNull)"

definition nullable_str :: "string option \<Rightarrow> cell" where
  "nullable_str x = (case x of Some s \<Rightarrow> VStr s | None \<Rightarrow> VNull)"

definition review_key :: "media_type \<Rightarrow> user_id \<Rightarrow> int \<Rightarrow> row \<Rightarrow> bool" where
  "review_key k u i r \<longleftrightarrow> eq_col ''user_id'' (VStr u) r \<and> eq_col (id_column k) (VInt i) r"

definition review_payload :: "user_id \<Rightarrow> review_data \<Rightarrow> payload" where
  "review_payload u p =
     [(''user_id'', VStr u),
      (id_column (itemType p), VInt (itemId p)),
      (title_column (itemType p), VStr (itemTitle p)),
      (poster_column (itemType p), nullable_str (itemPoster p)),
      (''rating'', VInt (rating p)),
      (''review_text'', str_or_null (reviewText p)),
      (''watched_date'', str_or_null (watchedDate p))] @
     (if itemType p = Game
      then [(''hours_played'', int_or_null (hoursPlayed p)), (''platform'', str_or_null (platform p))]
      else [])"

section \<open>The hooks of useReviews.ts\<close>

text \<open>\<open>useUserReview\<close>: the error \<open>PGRST116\<close> is tolerated and read as no review.\<close>

definition user_review_query :: "user_id option \<Rightarrow> media_type \<Rightarrow> int \<Rightarrow> db \<Rightarrow> error + row option" where
  "user_review_query user k i d =
     (case logged_id user of
        None \<Rightarrow> Inr None
      | Some u \<Rightarrow>
          (case maybe_single (select_rows d (review_table k) (review_key k u i)) of
             Inl e \<Rightarrow> if e = pgrst116 then Inr None else Inl e
           | Inr x \<Rightarrow> Inr x))"

definition add_or_update_review :: "user_id option \<Rightarrow> review_data \<Rightarrow> db \<Rightarrow> error + db" where
  "add_or_update_review user p d =
     (case logged_id user of
        None \<Rightarrow> Inl (JsError ''Not authenticated'')
      | Some u \<Rightarrow>
          let t = review_table (itemType p);
              existing = data (maybe_single (select_rows d t (review_key (itemType p) u (itemId p))))
          in case existing of
               Some e \<Rightarrow> update_where d t (eq_col ''id'' (get e ''id'')) (review_payload u p)
             | None \<Rightarrow> insert_into d t (review_payload u p))"

definition delete_review :: "user_id option \<Rightarrow> media_type \<Rightarrow> int \<Rightarrow> db \<Rightarrow> error + db" where
  "delete_review user k i d =
     (case logged_id user of
        None \<Rightarrow> Inl (JsError ''Not authenticated'')
      | Some u \<Rightarrow> Inr (delete_where d (review_table k) (review_key k u i)))"

text \<open>
  \<open>useUserReviews\<close>: the user's rows of the three tables, each newest first, tagged
  with their kind, concatenated and sorted newest first (a stable sort). A failed read
  contributes no rows.
\<close>

definition user_rows :: "db \<Rightarrow> media_type \<Rightarrow> user_id \<Rightarrow> (media_type \<times> row) list" where
  "user_rows d k u = map (\<lambda>r. (k, r)) (order_desc ''created_at'' (select_rows d (review_table k) (eq_col ''user_id'' (VStr u))))"

definition created_key :: "media_type \<times> row \<Rightarrow> int" where
  "created_key x = - value_key (get (snd x) ''created_at'')"

definition user_reviews_query :: "user_id option \<Rightarrow> db \<Rightarrow> (media_type \<times> row) list" where
  "user_reviews_query user d =
     (case logged_id user of
        None \<Rightarrow> []
      | Some u \<Rightarrow> sort_key created_key (user_rows d Movie u @ user_rows d Series u @ user_rows d Game u))"

section \<open>The per-kind hooks useMovieReviews and useGameReviews\<close>

text \<open>
  These hooks list the user's rows of one table newest first, insert without looking
  for an existing review (the spread payload, whose \<open>user_id\<close> the hook sets last and
  so wins), and update and delete by row id. \<open>addReview\<close> returns the error
  \<open>'User not authenticated'\<close> without a user; the read of a signed-out user is empty.
\<close>

definition movie_reviews_query :: "user_id option \<Rightarrow> db \<Rightarrow> row list" where
  "movie_reviews_query user d =
     (case user of None \<Rightarrow> [] | Some u \<Rightarrow> order_desc ''created_at'' (select_rows d ''movie_reviews'' (eq_col ''user_id'' (VStr u))))"

definition game_reviews_query :: "user_id option \<Rightarrow> db \<Rightarrow> row list" where
  "game_reviews_query user d =
     (case user of None \<Rightarrow> [] | Some u \<Rightarrow> order_desc ''created_at'' (select_rows d ''game_reviews'' (eq_col ''user_id'' (VStr u))))"

definition movie_add_review :: "user_id option \<Rightarrow> payload \<Rightarrow> db \<Rightarrow> error + db" where
  "movie_add_review user review d =
     (case user of
        None \<Rightarrow> Inl (JsError ''User not authenticated'')
      | Some u \<Rightarrow> insert_into d ''movie_reviews'' ((''user_id'', VStr u) # review))"

definition movie_update_review :: "cell \<Rightarrow> payload \<Rightarrow> db \<Rightarrow> error + db" where
  "movie_update_review i updates d = update_single d ''movie_reviews'' (eq_col ''id'' i) updates"

definition movie_delete_review :: "cell \<Rightarrow> db \<Rightarrow> db" where
  "movie_delete_review i d = delete_where d ''movie_reviews'' (eq_col ''id'' i)"

definition game_add_review :: "user_id option \<Rightarrow> payload \<Rightarrow> db \<Rightarrow> error + db" where
  "game_add_review user review d =
     (case user of
        None \<Rightarrow> Inl (JsError ''User not authenticated'')
      | Some u \<Rightarrow> insert_into d ''game_reviews'' ((''user_id'', VStr u) # review))"

definition game_update_review :: "cell \<Rightarrow> payload \<Rightarrow> db \<Rightarrow> error + db" where
  "game_update_review i updates d = update_single d ''game_reviews'' (eq_col ''id'' i) updates"

definition game_delete_review :: "cell \<Rightarrow> db \<Rightarrow> db" where
  "game_delete_review i d = delete_where d ''game_reviews'' (eq_col ''id'' i)"

section \<open>The review dialog\<close>

text \<open>
  \<open>ReviewDialog.handleSubmit\<close>: without a selected star (\<open>rating === 0\<close>) it shows an
  error toast and writes nothing; otherwise it saves through \<open>useAddOrUpdateReview\<close>,
  passing the trimmed text and the empty fields as \<open>undefined\<close>, and reports the outcome.
\<close>

datatype dialog_toast = SelectRating | Saved | SaveFailed | Deleted | DeleteFailed

record review_form =
  form_rating :: int
  form_text :: string
  form_watched :: string
  form_hours :: "int option"
  form_platform :: string

definition undefined_if_empty :: "string \<Rightarrow> string option" where
  "undefined_if_empty s = (if s = [] then None else Some s)"

definition dialog_submit ::
  "user_id option \<Rightarrow> media_type \<Rightarrow> int \<Rightarrow> string \<Rightarrow> string option \<Rightarrow> review_form \<Rightarrow> db \<Rightarrow> dialog_toast \<times> db" where
  "dialog_submit user k i title poster f d =
     (if form_rating f = 0 then (SelectRating, d)
      else case add_or_update_review user
             \<lparr>itemType = k, itemId = i, itemTitle = title, itemPoster = poster, rating = form_rating f,
              reviewText = undefined_if_empty (trim (form_text f)),
              watchedDate = undefined_if_empty (form_watched f),
              hoursPlayed = form_hours f,
              platform = undefined_if_empty (form_platform f)\<rparr> d of
             Inl _ \<Rightarrow> (SaveFailed, d)
           | Inr d' \<Rightarrow> (Saved, d'))"

text \<open>
  The dialog's load effect: an existing review fills the form (\<open>x || ''\<close> for the
  text fields; hours and platform only for a game, the others keeping their values); no
  review resets it. A failed read leaves \<open>existingReview\<close> undefined.
\<close>

definition dialog_load :: "media_type \<Rightarrow> row option \<Rightarrow> review_form \<Rightarrow> review_form" where
  "dialog_load k existing f =
     (case existing of
        Some r \<Rightarrow>
          let f' = f\<lparr>form_rating := value_key (get r ''rating''), form_text := str_or_empty (get r ''review_text''),
                     form_watched := str_or_empty (get r ''watched_date'')\<rparr>
          in if k = Game
             then f'\<lparr>form_hours := (case get r ''hours_played'' of VInt n \<Rightarrow> Some n | _ \<Rightarrow> None),
                     form_platform := str_or_empty (get r ''platform'')\<rparr>
             else f'
      | None \<Rightarrow> \<lparr>form_rating = 0, form_text = [], form_watched = [], form_hours = None, form_platform = []\<rparr>)"

definition dialog_reopen :: "user_id option \<Rightarrow> media_type \<Rightarrow> int \<Rightarrow> review_form \<Rightarrow> db \<Rightarrow> review_form" where
  "dialog_reopen user k i f d =
     dialog_load k (case user_review_query user k i d of Inr x \<Rightarrow> x | Inl _ \<Rightarrow> None) f"

text \<open>\<open>handleDelete\<close>: deletes through \<open>useDeleteReview\<close> and reports the outcome.\<close>

definition dialog_delete :: "user_id option \<Rightarrow> media_type \<Rightarrow> int \<Rightarrow> db \<Rightarrow> dialog_toast \<times> db" where
  "dialog_delete user k i d =
     (case delete_review user k i d of
        Inl _ \<Rightarrow> (DeleteFailed, d)
      | Inr d' \<Rightarrow> (Deleted, d'))"

section \<open>Natural keys and reachable stores\<close>

text \<open>
  The natural key of a review row is its user and its item id. The create-or-update
  protocol of \<open>useAddOrUpdateReview\<close> intends one row per key; \<open>reviews_inv k\<close> says
  that the table of kind \<open>k\<close> has distinct row ids below the store's counter and
  distinct natural keys.
\<close>

definition review_key_of :: "media_type \<Rightarrow> row \<Rightarrow> cell \<times> cell" where
  "review_key_of k r = (get r ''user_id'', get r (id_column k))"

definition reviews_inv :: "media_type \<Rightarrow> db \<Rightarrow> bool" where
  "reviews_inv k d \<longleftrightarrow> ids_fresh d (review_table k) \<and> distinct (map (review_key_of k) (tables d (review_table k)))"

text \<open>
  The stores the review hooks of the app can produce: the review dialog's writes and
  deletes, interleaved with any operation of another component, which leaves the
  review tables alone and does not move the id counter back.
\<close>

inductive review_step :: "db \<Rightarrow> db \<Rightarrow> bool" where
  save: "add_or_update_review user p d = Inr d' \<Longrightarrow> review_step d d'"
| delete: "delete_review user k i d = Inr d' \<Longrightarrow> review_step d d'"
| other: "(\<And>k. tables d' (review_table k) = tables d (review_table k)) \<Longrightarrow> next_id d \<le> next_id d' \<Longrightarrow>
    review_step d d'"

inductive review_reachable :: "db \<Rightarrow> bool" where
  init: "review_reachable empty_db"
| step: "review_reachable d \<Longrightarrow> review_step d d' \<Longrightarrow> review_reachable d'"


text \<open>A fixture: one movie review by user \<open>a\<close>, written into an empty store.\<close>

definition demo_movie_review :: review_data where
  "demo_movie_review = \<lparr>itemType = Movie, itemId = 550, itemTitle = ''Fight Club'', itemPoster = None,
     rating = 8, reviewText = Some ''Great'', watchedDate = None, hoursPlayed = None, platform = None\<rparr>"

definition demo_review_db :: db where
  "demo_review_db = empty_db\<lparr>tables := (tables empty_db)(''movie_reviews'' :=
     [new_row empty_db ''movie_reviews'' (review_payload ''a'' demo_movie_review)]), next_id := 1\<rparr>"

text \<open>A filled-in review form.\<close>

definition demo_form :: review_form where
  "demo_form = \<lparr>form_rating = 9, form_text = ''Great'', form_watched = ''2024-05-01'', form_hours = None,
     form_platform = []\<rparr>"

section \<open>Facts about the review tables and payloads\<close>

lemma review_table_eq [simp]: "review_table k = review_table k' \<longleftrightarrow> k = k'"
  by (cases k; cases k') (simp_all add: review_table_def)

lemma review_table_id [simp]: "''id'' \<in> set (table_columns (review_table k))"
  by (cases k) (simp_all add: review_table_def table_columns_def movie_reviews_columns_def
      series_reviews_columns_def game_reviews_columns_def)

lemma review_payload_no_id [simp]: "map_of (review_payload u p) ''id'' = None"
  by (cases "itemType p") (simp_all add: review_payload_def id_column_def title_column_def poster_column_def)

lemma review_payload_distinct: "distinct (map fst (review_payload u p))"
  by (cases "itemType p") (simp_all add: review_payload_def id_column_def title_column_def poster_column_def)

lemma review_payload_get:
  "(c, v) \<in> set (review_payload u p) \<Longrightarrow> get (r ++ map_of (review_payload u p)) c = v"
  using map_of_is_SomeI [OF review_payload_distinct] by (simp add: get_map_add_of)

lemma review_payload_key:
  "review_key_of (itemType p) (r ++ map_of (review_payload u p)) = (VStr u, VInt (itemId p))"
  by (cases "itemType p") (simp_all add: review_key_of_def review_payload_get review_payload_def id_column_def)

lemma review_key_eq: "review_key k u i = (\<lambda>r. review_key_of k r = (VStr u, VInt i))"
  by (simp add: fun_eq_iff review_key_def review_key_of_def eq_col_def)

lemma review_columns_known:
  "columns_known (review_table (itemType p)) (review_payload u p) \<longleftrightarrow> itemType p \<noteq> Game"
  by (cases "itemType p")
     (simp_all add: review_payload_def id_column_def title_column_def poster_column_def review_table_def
       columns_known_def table_columns_def movie_reviews_columns_def series_reviews_columns_def
       game_reviews_columns_def)

lemma reviews_inv_lookup:
  "reviews_inv k d \<Longrightarrow> length (select_rows d (review_table k) (review_key k u i)) \<le> 1"
  unfolding reviews_inv_def select_rows_def review_key_eq using distinct_key_lookup by fastforce

lemma update_by_id_keys:
  assumes ids: "distinct (map (\<lambda>r. get r ''id'') rs)" and e: "e \<in> set rs" and g: "g (e ++ m) = g e"
  shows "map g (map (\<lambda>r. if eq_col ''id'' (get e ''id'') r then r ++ m else r) rs) = map g rs"
proof -
  have "r = e" if "r \<in> set rs" "get r ''id'' = get e ''id''" for r
    using inj_onD [OF distinct_map [THEN iffD1, OF ids, THEN conjunct2]] that e by blast
  then show ?thesis using g by (auto simp: eq_col_def)
qed


lemma add_or_update_review_Inr:
  assumes "add_or_update_review user p d = Inr d'"
  obtains (insert) u where "logged_id user = Some u" "itemType p \<noteq> Game"
    "length (select_rows d (review_table (itemType p)) (review_key (itemType p) u (itemId p))) \<noteq> 1"
    "insert_into d (review_table (itemType p)) (review_payload u p) = Inr d'"
  | (update) u e where "logged_id user = Some u" "itemType p \<noteq> Game"
    "select_rows d (review_table (itemType p)) (review_key (itemType p) u (itemId p)) = [e]"
    "update_where d (review_table (itemType p)) (eq_col ''id'' (get e ''id'')) (review_payload u p) = Inr d'"
  using assms review_columns_known [of p]
  by (auto simp: add_or_update_review_def insert_into_def update_where_def Let_def
      data_maybe_single_None data_maybe_single_Some split: option.splits if_splits)

lemma add_or_update_review_ids:
  assumes run: "add_or_update_review user p d = Inr d'" and ids: "ids_fresh d t"
  shows "ids_fresh d' t"
  using run by (cases rule: add_or_update_review_Inr)
    (blast intro: ids_fresh_insert [OF ids review_table_id review_payload_no_id] ids_fresh_update [OF ids review_payload_no_id])+

lemma add_or_update_review_other:
  assumes run: "add_or_update_review user p d = Inr d'" and k: "k \<noteq> itemType p"
  shows "tables d' (review_table k) = tables d (review_table k)"
  using run by (cases rule: add_or_update_review_Inr) (simp_all add: k insert_into_tables update_where_tables)

text \<open>The effect of a successful write on the table of its kind, from a store with unique keys.\<close>

lemma add_or_update_review_effect:
  assumes run: "add_or_update_review user p d = Inr d'" and inv: "reviews_inv (itemType p) d"
  obtains u r where "logged_id user = Some u"
    "distinct (map (review_key_of (itemType p)) (tables d' (review_table (itemType p))))"
    "select_rows d' (review_table (itemType p)) (review_key (itemType p) u (itemId p)) = [r]"
    "\<And>c v. (c, v) \<in> set (review_payload u p) \<Longrightarrow> get r c = v"
  using run
proof (cases rule: add_or_update_review_Inr)
  case (insert u)
  let ?t = "review_table (itemType p)" and ?K = "review_key (itemType p) u (itemId p)"
  let ?nr = "new_row d ?t (review_payload u p)"
  have none: "filter ?K (tables d ?t) = []"
    using insert(3) reviews_inv_lookup [OF inv, of u "itemId p"] by (simp add: select_rows_def le_Suc_eq)
  have key: "review_key_of (itemType p) ?nr = (VStr u, VInt (itemId p))"
    by (simp add: new_row_def review_payload_key)
  then have "review_key_of (itemType p) ?nr \<notin> review_key_of (itemType p) ` set (tables d ?t)"
    using none by (auto simp: filter_empty_conv review_key_eq)
  then have "distinct (map (review_key_of (itemType p)) (tables d' ?t))"
    using inv by (simp add: reviews_inv_def insert_into_tables [OF insert(4)])
  moreover have "select_rows d' ?t ?K = [?nr]"
    using none key by (simp add: select_rows_def insert_into_tables [OF insert(4)] review_key_eq)
  moreover have "get ?nr c = v" if "(c, v) \<in> set (review_payload u p)" for c v
    using review_payload_get [OF that] by (simp add: new_row_def)
  ultimately show ?thesis using that insert(1) by blast
next
  case (update u e)
  let ?t = "review_table (itemType p)" and ?K = "review_key (itemType p) u (itemId p)"
  let ?m = "map_of (review_payload u p)"
  define f where "f r = (if eq_col ''id'' (get e ''id'') r then r ++ ?m else r)" for r
  have e: "e \<in> set (tables d ?t)" "review_key_of (itemType p) e = (VStr u, VInt (itemId p))"
    using update(3) by (auto simp: select_rows_def review_key_eq filter_eq_Cons_iff)
  have keys: "map (review_key_of (itemType p)) (map f (tables d ?t)) = map (review_key_of (itemType p)) (tables d ?t)"
    unfolding f_def
    by (rule update_by_id_keys) (use inv e in \<open>simp_all add: reviews_inv_def ids_fresh_def review_payload_key\<close>)
  have tab: "tables d' ?t = map f (tables d ?t)"
    by (simp add: update_where_tables [OF update(4)] f_def)
  have "filter ?K (map f (tables d ?t)) = map f (filter ?K (tables d ?t))"
    using keys by (simp add: filter_map review_key_eq map_eq_conv cong: filter_cong)
  then have "select_rows d' ?t ?K = [e ++ ?m]"
    using update(3) by (simp add: select_rows_def tab f_def eq_col_def)
  moreover have "distinct (map (review_key_of (itemType p)) (tables d' ?t))"
    unfolding tab keys using inv by (simp add: reviews_inv_def)
  ultimately show ?thesis using that update(1) review_payload_get by blast
qed

lemma add_or_update_review_inv:
  assumes run: "add_or_update_review user p d = Inr d'" and inv: "reviews_inv k d"
  shows "reviews_inv k d'"
proof (cases "k = itemType p")
  case True
  then show ?thesis
    using inv add_or_update_review_ids [OF run] add_or_update_review_effect [OF run]
    by (auto simp: reviews_inv_def)
next
  case False
  then show ?thesis
    using inv add_or_update_review_ids [OF run] add_or_update_review_other [OF run False]
    by (simp add: reviews_inv_def)
qed

lemma delete_review_Inr:
  "delete_review user k i d = Inr d' \<longleftrightarrow>
   (\<exists>u. logged_id user = Some u \<and> d' = delete_where d (review_table k) (review_key k u i))"
  by (auto simp: delete_review_def split: option.splits)

lemma delete_review_inv:
  assumes run: "delete_review user k i d = Inr d'" and inv: "reviews_inv k' d"
  shows "reviews_inv k' d'"
  using run inv by (auto simp: delete_review_Inr reviews_inv_def ids_fresh_delete distinct_map_filter)

lemma review_step_inv: "review_step d d' \<Longrightarrow> reviews_inv k d \<Longrightarrow> reviews_inv k d'"
proof (induction rule: review_step.induct)
  case (save user p d d')
  then show ?case by (rule add_or_update_review_inv)
next
  case (delete user k' i d d')
  then show ?case by (rule delete_review_inv)
next
  case (other d' d)
  then show ?case
    by (auto simp: reviews_inv_def ids_fresh_def list_all_iff intro: id_below_mono)
qed


lemma add_or_update_review_ok:
  assumes "logged_id user = Some u" "itemType p \<noteq> Game"
  shows "\<exists>d'. add_or_update_review user p d = Inr d'"
  using assms review_columns_known [of p u]
  by (auto simp: add_or_update_review_def insert_into_def update_where_def Let_def split: option.splits)

lemma add_or_update_review_game:
  assumes "itemType p = Game"
  shows "add_or_update_review user p d =
    Inl (if logged_id user = None then JsError ''Not authenticated'' else unknown_column ''game_reviews'')"
proof -
  have "\<not> columns_known ''game_reviews'' (review_payload u p)" for u
    using review_columns_known [of p u] assms by (simp add: review_table_def)
  then show ?thesis
    using assms by (simp add: add_or_update_review_def insert_into_def update_where_def Let_def review_table_def
        split: option.splits)
qed

text \<open>A signed-in write of a movie or series review is read back with the payload's values.\<close>

lemma add_or_update_review_read:
  assumes inv: "reviews_inv (itemType p) d" and kind: "itemType p \<noteq> Game" and u: "logged_id user = Some u"
  obtains d' r where "add_or_update_review user p d = Inr d'"
    "user_review_query user (itemType p) (itemId p) d' = Inr (Some r)"
    "\<And>c v. (c, v) \<in> set (review_payload u p) \<Longrightarrow> get r c = v"
proof -
  obtain d' where run: "add_or_update_review user p d = Inr d'"
    using add_or_update_review_ok [OF u kind] by blast
  obtain u' r where "logged_id user = Some u'"
    "distinct (map (review_key_of (itemType p)) (tables d' (review_table (itemType p))))"
    and sel: "select_rows d' (review_table (itemType p)) (review_key (itemType p) u' (itemId p)) = [r]"
    and vals: "\<And>c v. (c, v) \<in> set (review_payload u' p) \<Longrightarrow> get r c = v"
    using add_or_update_review_effect [OF run inv] by blast
  then have u': "u' = u" using u by simp
  show ?thesis
  proof (rule that [OF run])
    show "user_review_query user (itemType p) (itemId p) d' = Inr (Some r)"
      using sel u u' by (simp add: user_review_query_def)
    show "get r c = v" if "(c, v) \<in> set (review_payload u p)" for c v
      using vals that u' by simp
  qed
qed

lemma str_or_empty_undefined: "str_or_empty (str_or_null (undefined_if_empty s)) = s"
  by (simp add: str_or_empty_def str_or_null_def undefined_if_empty_def)

lemma demo_review_db_inv: "reviews_inv Movie demo_review_db"
  by (simp add: reviews_inv_def demo_review_db_def review_table_def review_key_of_def id_column_def
      demo_movie_review_def review_payload_def title_column_def poster_column_def
      str_or_null_def nullable_str_def store_eval)

lemma sorted_user_rows: "sorted (map created_key (user_rows d k u))"
  by (simp add: user_rows_def created_key_def order_desc_def comp_def)

section \<open>Properties of the review hooks\<close>

text \<open>
  C11. Every store the review dialog can produce, from an empty store and interleaved
  with the other components, holds at most one review per user and item in each review
  table, with distinct row ids.
\<close>

theorem reachable_reviews_unique:
  "review_reachable d \<Longrightarrow> reviews_inv k d"
proof (induction rule: review_reachable.induct)
  case init
  then show ?case by (simp add: reviews_inv_def ids_fresh_def empty_db_def)
next
  case (step d d')
  then show ?case by (blast intro: review_step_inv)
qed


theorem reachable_reviews_unique_witness:
  "review_reachable demo_review_db \<and> reviews_inv Movie demo_review_db"
proof -
  have "add_or_update_review (Some ''a'') demo_movie_review empty_db = Inr demo_review_db"
    by (simp add: add_or_update_review_def demo_movie_review_def demo_review_db_def review_table_def
        review_key_def id_column_def review_payload_def title_column_def poster_column_def
        str_or_null_def nullable_str_def store_eval)
  then have r: "review_reachable demo_review_db"
    by (blast intro: review_reachable.step [OF review_reachable.init] review_step.save)
  then show ?thesis using reachable_reviews_unique [OF r, of Movie] by simp
qed


text \<open>
  C12. Writing a movie or series review always succeeds for a signed-in user, keeps the
  table free of duplicate keys, and reading the review back returns exactly one row
  carrying the values of the written payload; so a second write of the same key
  replaces the first rather than duplicating it.
\<close>

theorem review_write_then_read:
  assumes inv: "reviews_inv (itemType p) d" and kind: "itemType p \<noteq> Game" and u: "u \<noteq> []"
  shows "\<exists>d' r. add_or_update_review (Some u) p d = Inr d' \<and> reviews_inv (itemType p) d' \<and>
           user_review_query (Some u) (itemType p) (itemId p) d' = Inr (Some r) \<and>
           map (\<lambda>(c, v). get r c) (review_payload u p) = map snd (review_payload u p)"
proof -
  obtain d' r where run: "add_or_update_review (Some u) p d = Inr d'"
    and q: "user_review_query (Some u) (itemType p) (itemId p) d' = Inr (Some r)"
    and vals: "\<And>c v. (c, v) \<in> set (review_payload u p) \<Longrightarrow> get r c = v"
    using add_or_update_review_read [OF inv kind, of "Some u" u] u by auto
  have "map (\<lambda>(c, v). get r c) (review_payload u p) = map snd (review_payload u p)"
    using vals by (auto intro: map_cong)
  then show ?thesis
    using run q add_or_update_review_inv [OF run inv] by blast
qed

theorem review_write_then_read_witness:
  "\<exists>d' r. add_or_update_review (Some ''a'') (demo_movie_review\<lparr>rating := 9\<rparr>) demo_review_db = Inr d' \<and>
     reviews_inv Movie d' \<and> user_review_query (Some ''a'') Movie 550 d' = Inr (Some r) \<and>
     map (\<lambda>(c, v). get r c) (review_payload ''a'' (demo_movie_review\<lparr>rating := 9\<rparr>)) =
     map snd (review_payload ''a'' (demo_movie_review\<lparr>rating := 9\<rparr>))"
proof -
  have "reviews_inv Movie demo_review_db"
    by (simp add: reviews_inv_def demo_review_db_def review_table_def review_key_of_def id_column_def
        demo_movie_review_def review_payload_def title_column_def poster_column_def
        str_or_null_def nullable_str_def store_eval)
  then show ?thesis
    using review_write_then_read [of "demo_movie_review\<lparr>rating := 9\<rparr>" demo_review_db "''a''"]
    by (simp add: demo_movie_review_def)
qed

text \<open>
  C14. The review dialog's round trip: for a signed-in user and a movie or series, a
  submitted form with a star rating is always saved, and reopening the dialog loads
  the rating, the trimmed text and the watched date that were submitted, whatever the
  form held before.
\<close>

theorem review_dialog_roundtrip:
  assumes inv: "reviews_inv k d" and kind: "k \<noteq> Game" and u: "logged_id user = Some u"
    and rated: "form_rating f \<noteq> 0"
  shows "\<exists>d'. dialog_submit user k i title poster f d = (Saved, d') \<and>
           dialog_reopen user k i g d' =
             g\<lparr>form_rating := form_rating f, form_text := trim (form_text f), form_watched := form_watched f\<rparr>"
proof -
  define p where "p = \<lparr>itemType = k, itemId = i, itemTitle = title, itemPoster = poster, rating = form_rating f,
      reviewText = undefined_if_empty (trim (form_text f)), watchedDate = undefined_if_empty (form_watched f),
      hoursPlayed = form_hours f, platform = undefined_if_empty (form_platform f)\<rparr>"
  have pk: "itemType p = k" "itemId p = i" by (simp_all add: p_def)
  obtain d' r where run: "add_or_update_review user p d = Inr d'"
    and q: "user_review_query user k i d' = Inr (Some r)"
    and vals: "\<And>c v. (c, v) \<in> set (review_payload u p) \<Longrightarrow> get r c = v"
    using add_or_update_review_read [of p d user u] inv kind u pk by auto
  have "get r ''rating'' = VInt (form_rating f)"
    "get r ''review_text'' = str_or_null (undefined_if_empty (trim (form_text f)))"
    "get r ''watched_date'' = str_or_null (undefined_if_empty (form_watched f))"
    by (rule vals; simp add: review_payload_def p_def)+
  then show ?thesis
    using run q rated kind
    by (simp add: dialog_submit_def dialog_reopen_def dialog_load_def str_or_empty_undefined flip: p_def)
qed

theorem review_dialog_roundtrip_witness:
  "\<exists>d'. dialog_submit (Some ''a'') Movie 550 ''Fight Club'' None demo_form demo_review_db = (Saved, d') \<and>
     dialog_reopen (Some ''a'') Movie 550 demo_form d' =
       demo_form\<lparr>form_rating := form_rating demo_form, form_text := trim (form_text demo_form),
         form_watched := form_watched demo_form\<rparr>"
  by (rule review_dialog_roundtrip [OF demo_review_db_inv]) (simp_all add: demo_form_def)

text \<open>
  C13. A game review can never be saved: the payload names \<open>game_poster\<close> and
  \<open>watched_date\<close>, which the \<open>game_reviews\<close> table of the schema does not have, so the
  hook fails with PostgREST's unknown-column error (or the authentication error), and
  the review dialog leaves the store unchanged and never reports success.
\<close>

theorem game_review_never_saved:
  "add_or_update_review user (p\<lparr>itemType := Game\<rparr>) d =
     Inl (if logged_id user = None then JsError ''Not authenticated'' else unknown_column ''game_reviews'') \<and>
   snd (dialog_submit user Game i title poster f d) = d \<and>
   fst (dialog_submit user Game i title poster f d) \<noteq> Saved"
  using add_or_update_review_game [of "p\<lparr>itemType := Game\<rparr>" user d]
    add_or_update_review_game [of _ user d]
  by (auto simp: dialog_submit_def split: sum.splits)


text \<open>
  Deleting a review by its natural key succeeds for a signed-in user, after it the
  review reads as absent, deleting again succeeds and changes nothing, and the user's
  reviews of every other key read as before.
\<close>

theorem delete_review_clears:
  assumes run: "delete_review user k i d = Inr d'"
  shows "user_review_query user k i d' = Inr None \<and> delete_review user k i d' = Inr d' \<and>
         ((k', i') \<noteq> (k, i) \<longrightarrow> user_review_query user k' i' d' = user_review_query user k' i' d)"
proof -
  obtain u where u: "logged_id user = Some u" and d': "d' = delete_where d (review_table k) (review_key k u i)"
    using run by (auto simp: delete_review_Inr)
  have "select_rows d' (review_table k) (review_key k u i) = []"
    by (simp add: d' select_rows_delete_where)
  moreover have "(k', i') \<noteq> (k, i) \<Longrightarrow>
      select_rows d' (review_table k') (review_key k' u i') = select_rows d (review_table k') (review_key k' u i')"
    by (cases "k' = k") (auto simp: d' select_rows_def review_key_def eq_col_def intro!: filter_cong)
  ultimately show ?thesis
    using u by (auto simp: user_review_query_def delete_review_def d' delete_where_idem)
qed

theorem delete_review_clears_witness:
  "user_review_query (Some ''a'') Movie 550 (delete_where demo_review_db ''movie_reviews'' (review_key Movie ''a'' 550)) = Inr None \<and>
   delete_review (Some ''a'') Movie 550 (delete_where demo_review_db ''movie_reviews'' (review_key Movie ''a'' 550)) =
     Inr (delete_where demo_review_db ''movie_reviews'' (review_key Movie ''a'' 550))"
  using delete_review_clears [of "Some ''a''" Movie 550 demo_review_db
      "delete_where demo_review_db ''movie_reviews'' (review_key Movie ''a'' 550)" Series 550]
  by (simp add: delete_review_def review_table_def)

text \<open>
  The merged list of a user's reviews is sorted newest first, and its entries of
  each kind are exactly that kind's table query, in the query's order: merging loses,
  duplicates and reorders nothing within a kind.
\<close>

theorem user_reviews_merge:
  "sorted (map created_key (user_reviews_query user d)) \<and>
   map snd (filter (\<lambda>x. fst x = k) (user_reviews_query (Some u) d)) =
     (if u = [] then [] else order_desc ''created_at'' (select_rows d (review_table k) (eq_col ''user_id'' (VStr u))))"
proof -
  have "filter (\<lambda>x. fst x = k) (user_rows d Movie u @ user_rows d Series u @ user_rows d Game u) = user_rows d k u"
    by (cases k) (simp_all add: user_rows_def filter_map comp_def)
  then have "u \<noteq> [] \<Longrightarrow> filter (\<lambda>x. fst x = k) (user_reviews_query (Some u) d) = user_rows d k u"
    by (simp add: user_reviews_query_def filter_sort sort_key_id_if_sorted sorted_user_rows)
  then show ?thesis
    by (auto simp: user_reviews_query_def user_rows_def comp_def split: option.splits)
qed

text \<open>
  The older per-kind hook \<open>useMovieReviews.addReview\<close> inserts without looking for
  an existing review. Two calls with the same movie leave two rows with one natural key;
  the review dialog's lookup, which reads \<open>PGRST116\<close> as no review, shows the movie
  as unreviewed, and its create-or-update, which ignores the lookup's error, inserts a
  third row.
\<close>

theorem legacy_add_duplicates:
  assumes u: "u \<noteq> []" and kind: "itemType p = Movie"
  shows "\<exists>d1 d2 d3.
    movie_add_review (Some u) [(''movie_id'', VInt (itemId p)), (''movie_title'', VStr t), (''rating'', VInt n)] empty_db = Inr d1 \<and>
    movie_add_review (Some u) [(''movie_id'', VInt (itemId p)), (''movie_title'', VStr t), (''rating'', VInt n)] d1 = Inr d2 \<and>
    \<not> reviews_inv Movie d2 \<and>
    user_review_query (Some u) Movie (itemId p) d2 = Inr None \<and>
    add_or_update_review (Some u) p d2 = Inr d3 \<and>
    length (select_rows d3 ''movie_reviews'' (review_key Movie u (itemId p))) = 3"
  using u kind
  by (simp add: movie_add_review_def user_review_query_def add_or_update_review_def reviews_inv_def review_table_def
      review_key_def review_key_of_def id_column_def review_payload_def title_column_def poster_column_def
      str_or_null_def nullable_str_def store_eval)

theorem legacy_add_duplicates_witness:
  "\<exists>d1 d2 d3.
    movie_add_review (Some ''a'') [(''movie_id'', VInt 550), (''movie_title'', VStr ''Fight Club''), (''rating'', VInt 8)] empty_db = Inr d1 \<and>
    movie_add_review (Some ''a'') [(''movie_id'', VInt 550), (''movie_title'', VStr ''Fight Club''), (''rating'', VInt 8)] d1 = Inr d2 \<and>
    \<not> reviews_inv Movie d2 \<and>
    user_review_query (Some ''a'') Movie 550 d2 = Inr None \<and>
    add_or_update_review (Some ''a'') demo_movie_review d2 = Inr d3 \<and>
    length (select_rows d3 ''movie_reviews'' (review_key Movie ''a'' 550)) = 3"
  using legacy_add_duplicates [of "''a''" demo_movie_review "''Fight Club''" 8]
  by (simp add: demo_movie_review_def)

end
