(* ===== verification/Watchlist.thy ===== *)
theory Watchlist
  imports Store
begin

text \<open>
  The watchlist, as written by \<open>src/src/hooks/useWatchlist.ts\<close> and used by the pages
  \<open>Watchlist.tsx\<close> (the list, with a kind filter and a remove button) and
  \<open>Discover.tsx\<close> (a bookmark button per catalog card that adds or removes the item,
  choosing by the answer of \<open>useIsInWatchlist\<close>). A row of table \<open>watchlist\<close> records a
  user, an item kind and id and a snapshot of the item's title, poster and rating. The
  demo-mode flag and its fixture list come from \<open>lib/demoMode\<close>, which the repository
  does not contain; they are parameters here. The theory proves that adding and removing
  refine insertion into and deletion from the set of the user's (kind, id) keys, that
  the bookmark toggle flips membership when its view is fresh, and that a stale view
  duplicates a key, after which the membership check fails and the toggle only adds.
\<close>

section \<open>Rows and requests\<close>

record watch_request =
  req_type :: media_type
  req_id :: int
  req_title :: string
  req_poster :: "string option"
  req_rating :: "rat option"

text \<open>\<open>x || null\<close> on an optional string and on a JavaScript number.\<close>

definition poster_or_null :: "string option \<Rightarrow> cell" where
  "poster_or_null x = (case x of Some s \<Rightarrow> if s = [] then VNull else VStr s | None \<Rightarrow> VNull)"

definition rating_or_null :: "rat option \<Rightarrow> cell" where
  "rating_or_null x = (case x of Some q \<Rightarrow> if q = 0 then VNull else VNum q | None \<Rightarrow> VNull)"

definition watch_key :: "user_id \<Rightarrow> string \<Rightarrow> int \<Rightarrow> row \<Rightarrow> bool" where
  "watch_key u t i r \<longleftrightarrow> eq_col ''user_id'' (VStr u) r \<and> eq_col ''item_type'' (VStr t) r \<and> eq_col ''item_id'' (VInt i) r"

section \<open>The hooks of useWatchlist.ts\<close>

text \<open>
  \<open>useWatchlist(itemType)\<close>: the user's rows newest first, of one kind when a kind is
  given. Without a user the query function throws; in demo mode it returns the fixture
  list, filtered by kind, without reading the store.
\<close>

definition watchlist_query ::
  "bool \<Rightarrow> row list \<Rightarrow> user_id option \<Rightarrow> media_type option \<Rightarrow> db \<Rightarrow> error + row list" where
  "watchlist_query demo fixture user kind d =
     (case user of
        None \<Rightarrow> Inl (JsError ''User not authenticated'')
      | Some u \<Rightarrow>
          if demo then Inr (case kind of None \<Rightarrow> fixture
                                     | Some k \<Rightarrow> filter (eq_col ''item_type'' (VStr (kind_name k))) fixture)
          else Inr (order_desc ''added_at''
                 (select_rows d ''watchlist''
                   (\<lambda>r. eq_col ''user_id'' (VStr u) r \<and>
                        (case kind of None \<Rightarrow> True | Some k \<Rightarrow> eq_col ''item_type'' (VStr (kind_name k)) r)))))"

text \<open>\<open>useIsInWatchlist\<close>: a \<open>maybeSingle\<close> lookup whose error is thrown.\<close>

definition is_in_watchlist :: "user_id option \<Rightarrow> string \<Rightarrow> int \<Rightarrow> db \<Rightarrow> error + bool" where
  "is_in_watchlist user t i d =
     (case user of
        None \<Rightarrow> Inr False
      | Some u \<Rightarrow>
          (case maybe_single (select_rows d ''watchlist'' (watch_key u t i)) of
             Inl e \<Rightarrow> Inl e
           | Inr x \<Rightarrow> Inr (x \<noteq> None)))"

definition watch_payload :: "user_id \<Rightarrow> watch_request \<Rightarrow> payload" where
  "watch_payload u q =
     [(''user_id'', VStr u), (''item_type'', VStr (kind_name (req_type q))), (''item_id'', VInt (req_id q)),
      (''item_title'', VStr (req_title q)), (''item_poster'', poster_or_null (req_poster q)),
      (''item_rating'', rating_or_null (req_rating q))]"

text \<open>\<open>useAddToWatchlist\<close>: an insert with no lookup.\<close>

definition add_to_watchlist :: "user_id option \<Rightarrow> watch_request \<Rightarrow> db \<Rightarrow> error + db" where
  "add_to_watchlist user q d =
     (case user of
        None \<Rightarrow> Inl (JsError ''User not authenticated'')
      | Some u \<Rightarrow> insert_into d ''watchlist'' (watch_payload u q))"

text \<open>\<open>useRemoveFromWatchlist\<close>: a delete by user, kind and id.\<close>

definition remove_from_watchlist :: "user_id option \<Rightarrow> string \<Rightarrow> int \<Rightarrow> db \<Rightarrow> error + db" where
  "remove_from_watchlist user t i d =
     (case user of
        None \<Rightarrow> Inl (JsError ''User not authenticated'')
      | Some u \<Rightarrow> Inr (delete_where d ''watchlist'' (watch_key u t i)))"

section \<open>The bookmark button of the Discover page\<close>

text \<open>
  \<open>handleAddToWatchlist\<close> removes when the card's \<open>isInWatchlist\<close> is true and adds
  otherwise. The card's value is the data of \<open>useIsInWatchlist\<close>: \<open>undefined\<close>, and so
  false, while loading or after the check failed. \<open>watch_view\<close> is that value read from
  a store.
\<close>

datatype watch_toast = Added | Removed | SomethingWrong

definition watch_view :: "user_id option \<Rightarrow> string \<Rightarrow> int \<Rightarrow> db \<Rightarrow> bool" where
  "watch_view user t i d = (case is_in_watchlist user t i d of Inr b \<Rightarrow> b | Inl _ \<Rightarrow> False)"

definition toggle_watchlist :: "user_id option \<Rightarrow> watch_request \<Rightarrow> bool \<Rightarrow> db \<Rightarrow> watch_toast \<times> db" where
  "toggle_watchlist user q in_list d =
     (if in_list
      then (case remove_from_watchlist user (kind_name (req_type q)) (req_id q) d of
              Inl _ \<Rightarrow> (SomethingWrong, d) | Inr d' \<Rightarrow> (Removed, d'))
      else (case add_to_watchlist user q d of
              Inl _ \<Rightarrow> (SomethingWrong, d) | Inr d' \<Rightarrow> (Added, d')))"

section \<open>The watchlist page\<close>

text \<open>\<open>Watchlist.handleRemove\<close> and the rating badge, shown only for a truthy rating.\<close>

definition page_remove :: "user_id option \<Rightarrow> string \<Rightarrow> int \<Rightarrow> db \<Rightarrow> watch_toast \<times> db" where
  "page_remove user t i d =
     (case remove_from_watchlist user t i d of Inl _ \<Rightarrow> (SomethingWrong, d) | Inr d' \<Rightarrow> (Removed, d'))"

definition shows_rating :: "row \<Rightarrow> bool" where
  "shows_rating r \<longleftrightarrow> (case get r ''item_rating'' of VNum q \<Rightarrow> q \<noteq> 0 | VInt n \<Rightarrow> n \<noteq> 0 | _ \<Rightarrow> False)"

section \<open>The abstract watchlist\<close>

text \<open>The set of (kind, id) keys on a user's watchlist.\<close>

definition watch_keys :: "db \<Rightarrow> user_id \<Rightarrow> (cell \<times> cell) set" where
  "watch_keys d u = (\<lambda>r. (get r ''item_type'', get r ''item_id'')) ` set (select_rows d ''watchlist'' (eq_col ''user_id'' (VStr u)))"

text \<open>At most one row per user and key: the intended uniqueness of a watchlist entry.\<close>

definition watch_unique :: "db \<Rightarrow> bool" where
  "watch_unique d \<longleftrightarrow> distinct (map (\<lambda>r. (get r ''user_id'', get r ''item_type'', get r ''item_id'')) (tables d ''watchlist''))"


text \<open>A fixture: a request to list a movie.\<close>

definition demo_watch_req :: watch_request where
  "demo_watch_req = \<lparr>req_type = Movie, req_id = 550, req_title = ''Fight Club'', req_poster = Some ''/poster.jpg'',
     req_rating = Some (42 / 5)\<rparr>"

section \<open>Facts about the watchlist operations\<close>

lemma watch_payload_known [simp]: "columns_known ''watchlist'' (watch_payload u q)"
  by (simp add: watch_payload_def columns_known_def table_columns_def watchlist_columns_def)

lemma watch_new_row:
  "get (new_row d ''watchlist'' (watch_payload u q)) ''user_id'' = VStr u"
  "get (new_row d ''watchlist'' (watch_payload u q)) ''item_type'' = VStr (kind_name (req_type q))"
  "get (new_row d ''watchlist'' (watch_payload u q)) ''item_id'' = VInt (req_id q)"
  by (simp_all add: new_row_def get_map_add_of watch_payload_def)

lemma add_to_watchlist_Some:
  "add_to_watchlist (Some u) q d =
   Inr (d\<lparr>tables := (tables d)(''watchlist'' := tables d ''watchlist'' @ [new_row d ''watchlist'' (watch_payload u q)]),
         next_id := Suc (next_id d)\<rparr>)"
  by (simp add: add_to_watchlist_def insert_into_Inr)

lemma watch_key_eq:
  "watch_key u t i = (\<lambda>r. (get r ''user_id'', get r ''item_type'', get r ''item_id'') = (VStr u, VStr t, VInt i))"
  by (simp add: fun_eq_iff watch_key_def eq_col_def)

lemma watch_keys_iff:
  "(VStr t, VInt i) \<in> watch_keys d u \<longleftrightarrow> select_rows d ''watchlist'' (watch_key u t i) \<noteq> []"
  by (auto simp: watch_keys_def select_rows_def watch_key_eq eq_col_def filter_empty_conv image_iff)

lemma is_in_watchlist_unique:
  assumes "watch_unique d"
  shows "is_in_watchlist (Some u) t i d = Inr ((VStr t, VInt i) \<in> watch_keys d u)"
proof -
  have len: "length (select_rows d ''watchlist'' (watch_key u t i)) \<le> 1"
    using distinct_key_lookup [OF assms [unfolded watch_unique_def], of "(VStr u, VStr t, VInt i)"]
    by (simp only: select_rows_def watch_key_eq)
  then show ?thesis
    by (cases "select_rows d ''watchlist'' (watch_key u t i)" rule: remdups_adj.cases)
       (simp_all add: is_in_watchlist_def watch_keys_iff)
qed

lemma watch_keys_add:
  "watch_keys (d\<lparr>tables := (tables d)(''watchlist'' := tables d ''watchlist'' @ [new_row d ''watchlist'' (watch_payload u q)]),
      next_id := n\<rparr>) v =
   (if v = u then insert (VStr (kind_name (req_type q)), VInt (req_id q)) (watch_keys d v) else watch_keys d v)"
  by (auto simp: watch_keys_def select_rows_def eq_col_def watch_new_row)

lemma watch_keys_remove:
  "watch_keys (delete_where d ''watchlist'' (watch_key u t i)) v =
   (if v = u then watch_keys d v - {(VStr t, VInt i)} else watch_keys d v)"
  by (auto simp: watch_keys_def select_rows_def eq_col_def watch_key_eq)

lemma watch_unique_remove:
  "watch_unique d \<Longrightarrow> watch_unique (delete_where d ''watchlist'' P)"
  by (simp add: watch_unique_def distinct_map_filter)


lemma watch_unique_add:
  assumes "watch_unique d" "(VStr (kind_name (req_type q)), VInt (req_id q)) \<notin> watch_keys d u"
  shows "watch_unique (d\<lparr>tables := (tables d)(''watchlist'' := tables d ''watchlist'' @ [new_row d ''watchlist'' (watch_payload u q)]),
      next_id := n\<rparr>)"
  using assms by (auto simp: watch_unique_def watch_keys_def select_rows_def eq_col_def watch_new_row image_iff)

lemma watch_view_unique:
  "watch_unique d \<Longrightarrow> watch_view (Some u) t i d = ((VStr t, VInt i) \<in> watch_keys d u)"
  by (simp add: watch_view_def is_in_watchlist_unique)

lemma select_watch_add:
  "select_rows (d\<lparr>tables := (tables d)(''watchlist'' := tables d ''watchlist'' @ [new_row d ''watchlist'' (watch_payload u q)]),
      next_id := n\<rparr>) ''watchlist'' (watch_key u (kind_name (req_type q)) (req_id q)) =
   select_rows d ''watchlist'' (watch_key u (kind_name (req_type q)) (req_id q)) @ [new_row d ''watchlist'' (watch_payload u q)]"
  by (simp add: select_rows_def watch_key_eq watch_new_row)

section \<open>Properties of the watchlist\<close>

text \<open>
  Adding an item to the watchlist always succeeds for a signed-in user and, seen as
  the set of the user's (kind, id) keys, inserts the item's key; other users' lists are
  unchanged.
\<close>

theorem add_to_watchlist_refines:
  "\<exists>d'. add_to_watchlist (Some u) q d = Inr d' \<and>
     watch_keys d' u = insert (VStr (kind_name (req_type q)), VInt (req_id q)) (watch_keys d u) \<and>
     watch_keys d' v = (if v = u then watch_keys d' u else watch_keys d v)"
  by (simp add: add_to_watchlist_Some watch_keys_add)

text \<open>
  C16. Removing an item succeeds for a signed-in user, deletes the item's key from the
  user's set and nothing else, clears every row of that key even when there are
  several, so that the membership check then answers false, and is idempotent.
\<close>

theorem remove_from_watchlist_refines:
  "\<exists>d'. remove_from_watchlist (Some u) t i d = Inr d' \<and>
     watch_keys d' u = watch_keys d u - {(VStr t, VInt i)} \<and>
     watch_keys d' v = (if v = u then watch_keys d' u else watch_keys d v) \<and>
     is_in_watchlist (Some u) t i d' = Inr False \<and>
     remove_from_watchlist (Some u) t i d' = Inr d'"
  by (simp add: remove_from_watchlist_def watch_keys_remove is_in_watchlist_def
      select_rows_delete_where delete_where_idem)

text \<open>
  From a store with one row per key, the Discover page's bookmark button, reading a
  fresh membership answer, never fails for a signed-in user: it removes a listed item
  and adds an unlisted one, so the answer flips, and the store keeps one row per key.
\<close>

theorem toggle_fresh_view_flips:
  assumes uniq: "watch_unique d"
  shows "\<exists>d'. toggle_watchlist (Some u) q (watch_view (Some u) (kind_name (req_type q)) (req_id q) d) d =
            (if watch_view (Some u) (kind_name (req_type q)) (req_id q) d then Removed else Added, d') \<and>
          watch_unique d' \<and>
          watch_view (Some u) (kind_name (req_type q)) (req_id q) d' =
            (\<not> watch_view (Some u) (kind_name (req_type q)) (req_id q) d)"
proof (cases "(VStr (kind_name (req_type q)), VInt (req_id q)) \<in> watch_keys d u")
  case True
  then show ?thesis
    using uniq watch_unique_remove [OF uniq]
    by (simp add: watch_view_unique toggle_watchlist_def remove_from_watchlist_def watch_keys_remove)
next
  case False
  then show ?thesis
    using uniq watch_unique_add [OF uniq False]
    by (simp add: watch_view_unique toggle_watchlist_def add_to_watchlist_Some watch_keys_add)
qed


theorem toggle_fresh_view_flips_witness:
  "\<exists>d'. toggle_watchlist (Some ''a'') demo_watch_req (watch_view (Some ''a'') ''movie'' 550 empty_db) empty_db =
          (Added, d') \<and> watch_unique d' \<and> watch_view (Some ''a'') ''movie'' 550 d' = True"
proof -
  have u: "watch_unique empty_db" by (simp add: watch_unique_def empty_db_def)
  have v: "watch_view (Some ''a'') ''movie'' 550 empty_db = False"
    by (simp add: watch_view_def is_in_watchlist_def select_rows_def empty_db_def)
  show ?thesis
    using toggle_fresh_view_flips [OF u, of "''a''" demo_watch_req] v by (simp add: demo_watch_req_def)
qed

text \<open>
  C17. The bookmark button acts on the card's answer, which is stale between a click and
  the refetch the click triggers. Two clicks on an unlisted item in that window add two
  rows with one key; the membership check then fails with \<open>PGRST116\<close>, the card reads
  the failure as "not listed", and every further click adds another row. (The spec
  counts a watchlist entry as identified by its natural key.)
\<close>

theorem stale_toggle_duplicates:
  assumes absent: "(VStr (kind_name (req_type q)), VInt (req_id q)) \<notin> watch_keys d u"
  shows "\<exists>d1 d2 d3. toggle_watchlist (Some u) q False d = (Added, d1) \<and>
     toggle_watchlist (Some u) q False d1 = (Added, d2) \<and>
     \<not> watch_unique d2 \<and>
     is_in_watchlist (Some u) (kind_name (req_type q)) (req_id q) d2 = Inl pgrst116 \<and>
     toggle_watchlist (Some u) q (watch_view (Some u) (kind_name (req_type q)) (req_id q) d2) d2 = (Added, d3) \<and>
     length (select_rows d3 ''watchlist'' (watch_key u (kind_name (req_type q)) (req_id q))) = 3"
proof -
  have "select_rows d ''watchlist'' (watch_key u (kind_name (req_type q)) (req_id q)) = []"
    using absent watch_keys_iff by blast
  then have none: "filter (watch_key u (kind_name (req_type q)) (req_id q)) (tables d ''watchlist'') = []"
    by (simp add: select_rows_def)
  have new: "watch_key u (kind_name (req_type q)) (req_id q) (new_row d' ''watchlist'' (watch_payload u q))" for d'
    by (simp add: watch_key_eq watch_new_row)
  show ?thesis
    by (simp add: toggle_watchlist_def add_to_watchlist_Some select_rows_def none new watch_view_def
        is_in_watchlist_def watch_unique_def watch_new_row)
qed

theorem stale_toggle_duplicates_witness:
  "\<exists>d1 d2 d3. toggle_watchlist (Some ''a'') demo_watch_req False empty_db = (Added, d1) \<and>
     toggle_watchlist (Some ''a'') demo_watch_req False d1 = (Added, d2) \<and>
     \<not> watch_unique d2 \<and>
     is_in_watchlist (Some ''a'') ''movie'' 550 d2 = Inl pgrst116 \<and>
     toggle_watchlist (Some ''a'') demo_watch_req (watch_view (Some ''a'') ''movie'' 550 d2) d2 = (Added, d3) \<and>
     length (select_rows d3 ''watchlist'' (watch_key ''a'' ''movie'' 550)) = 3"
proof -
  have "(VStr ''movie'', VInt 550) \<notin> watch_keys empty_db ''a''"
    by (simp add: watch_keys_def select_rows_def empty_db_def)
  then show ?thesis
    using stale_toggle_duplicates [of demo_watch_req empty_db "''a''"] by (simp add: demo_watch_req_def)
qed

text \<open>
  The kind tabs of the watchlist page agree with the "All" tab: the list of one
  kind is the full list filtered by kind, in the same order, in demo mode and against
  the store alike.
\<close>

theorem watchlist_kind_filter:
  "watchlist_query demo fixture user (Some k) d =
   map_sum id (filter (eq_col ''item_type'' (VStr (kind_name k)))) (watchlist_query demo fixture user None d)"
  by (simp add: watchlist_query_def order_desc_def filter_sort select_rows_def conj_commute
      split: option.splits)

text \<open>
  Demo mode replaces only the watchlist read. The add hook still writes to the
  store, and the list the user sees does not change: in demo mode an added item never
  appears on the watchlist page, while the spec says demo mode bypasses every remote call.
\<close>

theorem demo_add_invisible:
  "\<exists>d'. add_to_watchlist (Some u) q d = Inr d' \<and> d' \<noteq> d \<and>
     watchlist_query True fixture (Some u) k d' = watchlist_query True fixture (Some u) k d"
  by (auto simp: add_to_watchlist_Some watchlist_query_def dest: arg_cong [where f = next_id])

end
