(* ===== verification/Collections.thy ===== *)
theory Collections
  imports Store
begin

text \<open>
  Collections, as written by \<open>src/src/hooks/useCollections.ts\<close> and the page
  \<open>src/src/pages/Collection.tsx\<close>. A collection (table \<open>collections\<close>) belongs to a
  user; its items (table \<open>collection_items\<close>) point to it by \<open>collection_id\<close>, a foreign
  key whose cascade on delete the spec assigns to the store. The list view shows each
  collection with an item count, the detail view one collection with its items. The
  theory proves that the count of the list view is the number of items of the detail
  view, that a user's deletions never touch another user's collections, and the
  page's guard on blank names.
\<close>

section \<open>The hooks of useCollections.ts\<close>

text \<open>
  \<open>useCollections\<close>: the user's collections newest first, each with \<open>items_count\<close>,
  the count of the embedded \<open>collection_items(count)\<close> (\<open>|| 0\<close>). Demo mode returns
  the fixture list; without a user the query function throws.
\<close>

definition items_of :: "db \<Rightarrow> cell \<Rightarrow> row list" where
  "items_of d cid = filter (eq_col ''collection_id'' cid) (tables d ''collection_items'')"

definition with_count :: "db \<Rightarrow> row \<Rightarrow> row" where
  "with_count d c = c(''items_count'' \<mapsto> VInt (int (length (items_of d (get c ''id'')))))"

definition collections_query :: "bool \<Rightarrow> row list \<Rightarrow> user_id option \<Rightarrow> db \<Rightarrow> error + row list" where
  "collections_query demo fixture user d =
     (case user of
        None \<Rightarrow> Inl (JsError ''User not authenticated'')
      | Some u \<Rightarrow>
          if demo then Inr fixture
          else Inr (map (with_count d) (order_desc ''created_at'' (select_rows d ''collections'' (eq_col ''user_id'' (VStr u))))))"

text \<open>
  \<open>useCollection(id)\<close>: one collection of the user with its items, by \<open>single()\<close>,
  so a missing collection is the error \<open>PGRST116\<close>. Demo mode looks the id up in the
  fixture and answers \<open>null\<close> when it is absent.
\<close>

definition collection_query ::
  "bool \<Rightarrow> (row \<times> row list) list \<Rightarrow> user_id option \<Rightarrow> cell \<Rightarrow> db \<Rightarrow> error + (row \<times> row list) option" where
  "collection_query demo fixture user cid d =
     (case user of
        None \<Rightarrow> Inl (JsError ''User not authenticated'')
      | Some u \<Rightarrow>
          if demo then Inr (find (\<lambda>x. get (fst x) ''id'' = cid) fixture)
          else (case single (select_rows d ''collections'' (\<lambda>r. eq_col ''id'' cid r \<and> eq_col ''user_id'' (VStr u) r)) of
                  Inl e \<Rightarrow> Inl e
                | Inr c \<Rightarrow> Inr (Some (c, items_of d cid))))"

definition create_collection ::
  "user_id option \<Rightarrow> string \<Rightarrow> string option \<Rightarrow> bool option \<Rightarrow> db \<Rightarrow> error + db" where
  "create_collection user name description is_public d =
     (case user of
        None \<Rightarrow> Inl (JsError ''User not authenticated'')
      | Some u \<Rightarrow> insert_into d ''collections''
          [(''user_id'', VStr u), (''name'', VStr name),
           (''description'', (case description of Some s \<Rightarrow> if s = [] then VNull else VStr s | None \<Rightarrow> VNull)),
           (''is_public'', VBool (case is_public of Some b \<Rightarrow> b | None \<Rightarrow> False))])"

text \<open>\<open>useDeleteCollection\<close>: a delete by id and owner; the store cascades to the items.\<close>

definition delete_collection :: "user_id option \<Rightarrow> cell \<Rightarrow> db \<Rightarrow> error + db" where
  "delete_collection user cid d =
     (case user of
        None \<Rightarrow> Inl (JsError ''User not authenticated'')
      | Some u \<Rightarrow> Inr (delete_cascade d ''collections''
                        (\<lambda>r. eq_col ''id'' cid r \<and> eq_col ''user_id'' (VStr u) r) ''collection_items'' ''collection_id''))"

text \<open>\<open>useAddToCollection\<close>: an insert, checked by the store's foreign key only.\<close>

definition add_to_collection ::
  "user_id option \<Rightarrow> cell \<Rightarrow> string \<Rightarrow> int \<Rightarrow> string \<Rightarrow> string option \<Rightarrow> db \<Rightarrow> error + db" where
  "add_to_collection user cid t i title poster d =
     (case user of
        None \<Rightarrow> Inl (JsError ''User not authenticated'')
      | Some u \<Rightarrow> insert_fk d ''collection_items''
          [(''collection_id'', cid), (''item_type'', VStr t), (''item_id'', VInt i), (''item_title'', VStr title),
           (''item_poster'', (case poster of Some s \<Rightarrow> if s = [] then VNull else VStr s | None \<Rightarrow> VNull))]
          ''collection_id'' ''collections'')"

text \<open>\<open>useRemoveFromCollection\<close>: a delete by item row id and collection.\<close>

definition remove_from_collection :: "user_id option \<Rightarrow> cell \<Rightarrow> cell \<Rightarrow> db \<Rightarrow> error + db" where
  "remove_from_collection user cid item d =
     (case user of
        None \<Rightarrow> Inl (JsError ''User not authenticated'')
      | Some u \<Rightarrow> Inr (delete_where d ''collection_items''
                        (\<lambda>r. eq_col ''id'' item r \<and> eq_col ''collection_id'' cid r)))"

text \<open>
  \<open>useItemCollections\<close>: the collections an item is in, each as its id and the joined
  collection's name (\<open>null\<close> when the join finds none). The filter names the item only.
\<close>

definition item_collections_query :: "user_id option \<Rightarrow> string \<Rightarrow> int \<Rightarrow> db \<Rightarrow> error + (cell \<times> cell option) list" where
  "item_collections_query user t i d =
     (case user of
        None \<Rightarrow> Inr []
      | Some u \<Rightarrow> Inr (map (\<lambda>r. (get r ''collection_id'',
                                 map_option (\<lambda>c. get c ''name'') (find (eq_col ''id'' (get r ''collection_id'')) (tables d ''collections''))))
                       (select_rows d ''collection_items'' (\<lambda>r. eq_col ''item_type'' (VStr t) r \<and> eq_col ''item_id'' (VInt i) r))))"

section \<open>The collection page\<close>

datatype coll_toast = NameRequired | Created | CreateFailed | Deleted | DeleteFailed | ItemAdded | AddFailed
  | ItemRemoved | RemoveFailed

record coll_page =
  selected :: "cell option"
  create_open :: bool
  new_name :: string
  new_description :: string

text \<open>
  \<open>handleCreateCollection\<close>: a name of whitespace only is refused; otherwise the name
  is passed as typed (untrimmed) with the description, and on success the dialog closes
  and its fields are cleared.
\<close>

definition handle_create :: "user_id option \<Rightarrow> coll_page \<Rightarrow> db \<Rightarrow> coll_toast \<times> coll_page \<times> db" where
  "handle_create user pg d =
     (if trim (new_name pg) = [] then (NameRequired, pg, d)
      else case create_collection user (new_name pg) (Some (new_description pg)) None d of
             Inl _ \<Rightarrow> (CreateFailed, pg, d)
           | Inr d' \<Rightarrow> (Created, pg\<lparr>create_open := False, new_name := [], new_description := []\<rparr>, d'))"

text \<open>\<open>handleDeleteCollection\<close>: deleting the open collection also closes it.\<close>

definition handle_delete :: "user_id option \<Rightarrow> cell \<Rightarrow> coll_page \<Rightarrow> db \<Rightarrow> coll_toast \<times> coll_page \<times> db" where
  "handle_delete user cid pg d =
     (case delete_collection user cid d of
        Inl _ \<Rightarrow> (DeleteFailed, pg, d)
      | Inr d' \<Rightarrow> (Deleted, if selected pg = Some cid then pg\<lparr>selected := None\<rparr> else pg, d'))"

text \<open>\<open>handleRemoveItem\<close> and the add button of the search dialog need an open collection.\<close>

definition handle_remove_item :: "user_id option \<Rightarrow> coll_page \<Rightarrow> cell option \<Rightarrow> db \<Rightarrow> coll_toast option \<times> db" where
  "handle_remove_item user pg item d =
     (case (selected pg, item) of
        (Some cid, Some it) \<Rightarrow>
          (case remove_from_collection user cid it d of Inl _ \<Rightarrow> (Some RemoveFailed, d) | Inr d' \<Rightarrow> (Some ItemRemoved, d'))
      | _ \<Rightarrow> (None, d))"

definition handle_add_item ::
  "user_id option \<Rightarrow> coll_page \<Rightarrow> string \<Rightarrow> int \<Rightarrow> string \<Rightarrow> string option \<Rightarrow> db \<Rightarrow> coll_toast option \<times> db" where
  "handle_add_item user pg t i title poster d =
     (case selected pg of
        Some cid \<Rightarrow>
          (case add_to_collection user cid t i title poster d of Inl _ \<Rightarrow> (Some AddFailed, d) | Inr d' \<Rightarrow> (Some ItemAdded, d'))
      | None \<Rightarrow> (None, d))"

section \<open>Attached items\<close>

text \<open>Every item belongs to an existing collection.\<close>

definition items_attached :: "db \<Rightarrow> bool" where
  "items_attached d \<longleftrightarrow> list_all (\<lambda>r. get r ''collection_id'' \<in> set (parent_ids d ''collections'')) (tables d ''collection_items'')"


text \<open>Fixtures: user \<open>a\<close> creates the collection Favourites and adds a movie to it.\<close>

definition demo_coll_payload :: payload where
  "demo_coll_payload = [(''user_id'', VStr ''a''), (''name'', VStr ''Favourites''), (''description'', VNull),
     (''is_public'', VBool False)]"

definition demo_coll_db :: db where
  "demo_coll_db = empty_db\<lparr>tables := (tables empty_db)(''collections'' :=
     [new_row empty_db ''collections'' demo_coll_payload]), next_id := 1\<rparr>"

definition demo_item_payload :: payload where
  "demo_item_payload = [(''collection_id'', VInt 0), (''item_type'', VStr ''movie''), (''item_id'', VInt 550),
     (''item_title'', VStr ''Fight Club''), (''item_poster'', VNull)]"

definition demo_item_db :: db where
  "demo_item_db = demo_coll_db\<lparr>tables := (tables demo_coll_db)(''collection_items'' :=
     [new_row demo_coll_db ''collection_items'' demo_item_payload]), next_id := 2\<rparr>"

section \<open>Facts about the collection operations\<close>

lemma create_collection_Inr:
  "create_collection user n ds p d = Inr d' \<Longrightarrow>
   \<exists>u. user = Some u \<and> tables d' ''collection_items'' = tables d ''collection_items'' \<and>
       (\<exists>c. tables d' ''collections'' = tables d ''collections'' @ [c])"
  by (auto simp: create_collection_def insert_into_def split: option.splits if_splits)

lemma add_to_collection_Inr:
  "add_to_collection user cid t i ti po d = Inr d' \<Longrightarrow>
   cid \<in> set (parent_ids d ''collections'') \<and> tables d' ''collections'' = tables d ''collections'' \<and>
   (\<exists>r. get r ''collection_id'' = cid \<and> tables d' ''collection_items'' = tables d ''collection_items'' @ [r])"
  by (auto simp: add_to_collection_def insert_fk_def insert_into_def new_row_def get_map_add_of
      split: option.splits if_splits)

lemma delete_collection_tables:
  "delete_collection (Some u) cid d = Inr d' \<longleftrightarrow>
   d' = delete_cascade d ''collections'' (\<lambda>r. eq_col ''id'' cid r \<and> eq_col ''user_id'' (VStr u) r)
          ''collection_items'' ''collection_id''"
  by (auto simp: delete_collection_def)

lemma delete_cascade_tables:
  "child \<noteq> parent \<Longrightarrow> tables (delete_cascade d parent P child c) parent = filter (\<lambda>r. \<not> P r) (tables d parent)"
  "child \<noteq> parent \<Longrightarrow> tables (delete_cascade d parent P child c) child =
     filter (\<lambda>r. get r c \<in> set (parent_ids (delete_where d parent P) parent)) (tables d child)"
  by (simp_all add: delete_cascade_def Let_def)

lemma delete_cascade_parent_ids:
  "child \<noteq> parent \<Longrightarrow>
   parent_ids (delete_cascade d parent P child c) parent = parent_ids (delete_where d parent P) parent"
  by (simp add: delete_cascade_def Let_def parent_ids_def)

lemma parent_ids_delete:
  "set (parent_ids (delete_where d t P) t) = (\<lambda>r. get r ''id'') ` {r \<in> set (tables d t). \<not> P r}"
  by (auto simp: parent_ids_def)

section \<open>Properties of collections\<close>

text \<open>
  The item count the collection list shows is the number of items the collection's
  detail view shows, and the detail view of a listed collection opens (no
  \<open>PGRST116\<close>), when collection ids are distinct.
\<close>

theorem list_count_matches_detail:
  assumes ids: "ids_fresh d ''collections''" and q: "collections_query False fx (Some u) d = Inr cs"
    and c: "c \<in> set cs"
  shows "\<exists>c0. collection_query False fx2 (Some u) (get c ''id'') d = Inr (Some (c0, items_of d (get c ''id''))) \<and>
           c = with_count d c0 \<and> get c ''items_count'' = VInt (int (length (items_of d (get c ''id''))))"
proof -
  obtain c0 where c0: "c0 \<in> set (tables d ''collections'')" "get c0 ''user_id'' = VStr u" "c = with_count d c0"
    using q c by (auto simp: collections_query_def order_desc_def select_rows_def eq_col_def)
  have gid: "get c ''id'' = get c0 ''id''"
    using c0(3) by (simp add: with_count_def)
  have "select_rows d ''collections'' (\<lambda>r. eq_col ''id'' (get c0 ''id'') r \<and> eq_col ''user_id'' (VStr u) r) = [c0]"
    using distinct_map_filter_single [of "\<lambda>r. get r ''id''" _ c0 "\<lambda>r. get r ''user_id'' = VStr u"] ids c0
    by (simp add: select_rows_def eq_col_def ids_fresh_def)
  then show ?thesis
    using c0(3) gid by (simp add: collection_query_def with_count_def)
qed

theorem list_count_matches_detail_witness:
  "\<exists>c0. collection_query False [] (Some ''a'') (VInt 0) demo_item_db = Inr (Some (c0, items_of demo_item_db (VInt 0))) \<and>
     get (with_count demo_item_db (new_row empty_db ''collections'' demo_coll_payload)) ''items_count'' = VInt 1"
proof -
  have ids: "ids_fresh demo_item_db ''collections''"
    by (simp add: ids_fresh_def demo_item_db_def demo_coll_db_def demo_coll_payload_def store_eval)
  have q: "collections_query False [] (Some ''a'') demo_item_db =
      Inr [with_count demo_item_db (new_row empty_db ''collections'' demo_coll_payload)]"
    by (simp add: collections_query_def order_desc_def demo_item_db_def demo_coll_db_def demo_coll_payload_def store_eval)
  have "get (with_count demo_item_db (new_row empty_db ''collections'' demo_coll_payload)) ''id'' = VInt 0"
    by (simp add: with_count_def demo_coll_payload_def store_eval)
  moreover have "length (items_of demo_item_db (VInt 0)) = 1"
    by (simp add: items_of_def demo_item_db_def demo_item_payload_def demo_coll_db_def store_eval)
  ultimately show ?thesis
    using list_count_matches_detail [OF ids q, of "with_count demo_item_db (new_row empty_db ''collections'' demo_coll_payload)" "[]"]
    by (simp, blast)
qed

text \<open>
  C19. Deleting a collection never touches a collection other than the one named and
  owned by the deleting user, nor that collection's items.
\<close>

theorem delete_collection_owner_only:
  assumes del: "delete_collection (Some u) cid d = Inr d'" and r: "r \<in> set (tables d ''collections'')"
    and other: "\<not> (get r ''id'' = cid \<and> get r ''user_id'' = VStr u)"
  shows "r \<in> set (tables d' ''collections'') \<and> items_of d' (get r ''id'') = items_of d (get r ''id'')"
proof -
  have keep: "get r ''id'' \<in> set (parent_ids (delete_where d ''collections''
      (\<lambda>r. eq_col ''id'' cid r \<and> eq_col ''user_id'' (VStr u) r)) ''collections'')"
    using r other by (auto simp: parent_ids_def eq_col_def)
  show ?thesis
    using del r other keep
    by (auto simp: delete_collection_tables delete_cascade_tables items_of_def eq_col_def intro!: filter_cong)
qed

theorem delete_collection_owner_only_witness:
  "new_row empty_db ''collections'' demo_coll_payload \<in> set (tables (delete_cascade demo_item_db ''collections''
      (\<lambda>r. eq_col ''id'' (VInt 0) r \<and> eq_col ''user_id'' (VStr ''b'') r) ''collection_items'' ''collection_id'') ''collections'') \<and>
   items_of (delete_cascade demo_item_db ''collections''
      (\<lambda>r. eq_col ''id'' (VInt 0) r \<and> eq_col ''user_id'' (VStr ''b'') r) ''collection_items'' ''collection_id'') (VInt 0) =
   items_of demo_item_db (VInt 0)"
proof -
  have r: "new_row empty_db ''collections'' demo_coll_payload \<in> set (tables demo_item_db ''collections'')"
    by (simp add: demo_item_db_def demo_coll_db_def)
  have o: "\<not> (get (new_row empty_db ''collections'' demo_coll_payload) ''id'' = VInt 0 \<and>
      get (new_row empty_db ''collections'' demo_coll_payload) ''user_id'' = VStr ''b'')"
    by (simp add: demo_coll_payload_def store_eval)
  have i: "get (new_row empty_db ''collections'' demo_coll_payload) ''id'' = VInt 0"
    by (simp add: demo_coll_payload_def store_eval)
  have del: "delete_collection (Some ''b'') (VInt 0) demo_item_db = Inr (delete_cascade demo_item_db ''collections''
      (\<lambda>r. eq_col ''id'' (VInt 0) r \<and> eq_col ''user_id'' (VStr ''b'') r) ''collection_items'' ''collection_id'')"
    by (simp add: delete_collection_def)
  show ?thesis
    using delete_collection_owner_only [OF del r o] i by simp
qed


text \<open>
  Creating a collection from the page: it succeeds only for a name that is not
  blank; the new collection is the user's, private, empty, and stores the name as typed
  (untrimmed); the dialog closes and its fields are cleared.
\<close>

theorem create_collection_page:
  assumes att: "items_attached d" and ids: "ids_fresh d ''collections''"
    and run: "handle_create (Some u) pg d = (Created, pg', d')"
  shows "trim (new_name pg) \<noteq> [] \<and>
    (\<exists>c. tables d' ''collections'' = tables d ''collections'' @ [c] \<and> get c ''user_id'' = VStr u \<and>
         get c ''name'' = VStr (new_name pg) \<and> get c ''is_public'' = VBool False \<and> items_of d' (get c ''id'') = []) \<and>
    new_name pg' = [] \<and> \<not> create_open pg'"
proof -
  let ?p = "[(''user_id'', VStr u), (''name'', VStr (new_name pg)),
      (''description'', (if new_description pg = [] then VNull else VStr (new_description pg))), (''is_public'', VBool False)]"
  have guard: "trim (new_name pg) \<noteq> []" and ins: "insert_into d ''collections'' ?p = Inr d'"
    and pg': "pg' = pg\<lparr>create_open := False, new_name := [], new_description := []\<rparr>"
    using run by (auto simp: handle_create_def create_collection_def split: if_splits sum.splits)
  let ?c = "new_row d ''collections'' ?p"
  have cid: "get ?c ''id'' = VInt (int (next_id d))"
    by (rule new_row_id) (simp_all add: table_columns_def collections_columns_def)
  have "VInt (int (next_id d)) \<notin> set (parent_ids d ''collections'')"
    by (rule ids_fresh_next [OF ids])
  then have "items_of d (get ?c ''id'') = []"
    using att cid by (auto simp: items_of_def items_attached_def list_all_iff filter_empty_conv eq_col_def)
  then have "items_of d' (get ?c ''id'') = []"
    by (simp add: items_of_def insert_into_tables [OF ins])
  then show ?thesis
    using guard pg' by (simp add: insert_into_tables [OF ins] new_row_def get_map_add_of)
qed

theorem create_collection_page_witness:
  "trim ''Favourites'' \<noteq> [] \<and>
   (\<exists>c. tables demo_coll_db ''collections'' = tables empty_db ''collections'' @ [c] \<and> get c ''user_id'' = VStr ''a'' \<and>
        get c ''name'' = VStr ''Favourites'' \<and> get c ''is_public'' = VBool False \<and> items_of demo_coll_db (get c ''id'') = []) \<and>
   new_name (\<lparr>selected = None, create_open = False, new_name = [], new_description = []\<rparr> :: coll_page) = []"
proof -
  have att: "items_attached empty_db" by (simp add: items_attached_def empty_db_def)
  have ids: "ids_fresh empty_db ''collections''" by (simp add: ids_fresh_def empty_db_def)
  have run: "handle_create (Some ''a'') \<lparr>selected = None, create_open = True, new_name = ''Favourites'', new_description = []\<rparr> empty_db =
      (Created, \<lparr>selected = None, create_open = False, new_name = [], new_description = []\<rparr>, demo_coll_db)"
    by (simp add: handle_create_def create_collection_def trim_def js_space_def demo_coll_db_def demo_coll_payload_def store_eval)
  show ?thesis using create_collection_page [OF att ids run] by simp
qed

end
