(* ===== verification/Profile.thy ===== *)
theory Profile
  imports Store
begin

text \<open>
  The signed-in user's profile page (\<open>src/src/pages/Profile.tsx\<close>) and a friend's
  profile page (\<open>src/src/pages/FriendProfile.tsx\<close>), with the hooks
  \<open>useUserStats\<close> and \<open>useFavoriteMedia\<close> of \<open>src/src/hooks/useProfile.ts\<close> and
  \<open>useUpdateProfile\<close> and \<open>useProfile\<close> of \<open>src/src/hooks/useProfileUpdate.ts\<close>. Both
  pages show four statistics tiles computed from the review, watchlist and collection
  tables and the user's best-rated movies and games. The theory proves that the own
  page's statistics query always fails outside demo mode (it returns an undeclared
  variable), so its tiles read 0 while a friend sees the true counts; bounds on the
  counts; the limits of the favourites lists; and the save/read round trip of the
  profile editor with the display-name fallback.
\<close>

section \<open>The signed-in user\<close>

text \<open>The fields of the auth user the pages read (\<open>user.id\<close>, \<open>user.email\<close>, \<open>user_metadata\<close>).\<close>

record auth_user =
  uid :: user_id
  email :: "string option"
  full_name :: "string option"
  meta_name :: "string option"

section \<open>Statistics\<close>

text \<open>\<open>r.review_text && r.review_text.trim()\<close>: a review with non-blank text.\<close>

definition has_text :: "row \<Rightarrow> bool" where
  "has_text r \<longleftrightarrow> (case get r ''review_text'' of VStr s \<Rightarrow> trim s \<noteq> [] | _ \<Rightarrow> False)"

text \<open>A numeric cell as a JavaScript number, with \<open>x || 0\<close> for \<open>null\<close>.\<close>

definition num_or_zero :: "cell \<Rightarrow> rat" where
  "num_or_zero c = (case c of VInt n \<Rightarrow> of_int n | VNum q \<Rightarrow> q | _ \<Rightarrow> 0)"

definition js_round :: "rat \<Rightarrow> int" where
  "js_round x = \<lfloor>x + 1 / 2\<rfloor>"

definition rows_of :: "db \<Rightarrow> table_name \<Rightarrow> user_id \<Rightarrow> row list" where
  "rows_of d t u = select_rows d t (eq_col ''user_id'' (VStr u))"

record user_stats =
  total_items :: int
  total_ratings :: int
  total_text_reviews :: int
  watchlist_count :: int
  collections_count :: int
  total_movies_watched :: int
  total_games_played :: int
  total_hours_gaming :: int

text \<open>
  The values \<open>useUserStats\<close> computes (lines 42--58 of \<open>useProfile.ts\<close>) before it
  builds its result; the head-only count queries give the number of matching rows.
\<close>

definition compute_stats :: "db \<Rightarrow> user_id \<Rightarrow> user_stats" where
  "compute_stats d u =
     (let all = rows_of d ''movie_reviews'' u @ rows_of d ''series_reviews'' u @ rows_of d ''game_reviews'' u;
          n = int (length all)
      in \<lparr>total_items = n, total_ratings = n,
          total_text_reviews = int (length (filter has_text all)),
          watchlist_count = int (length (rows_of d ''watchlist'' u)),
          collections_count = int (length (rows_of d ''collections'' u)),
          total_movies_watched = int (length (rows_of d ''movie_reviews'' u)) + int (length (rows_of d ''series_reviews'' u)),
          total_games_played = int (length (rows_of d ''game_reviews'' u)),
          total_hours_gaming = js_round (sum_list (map (\<lambda>r. num_or_zero (get r ''hours_played'')) (rows_of d ''game_reviews'' u)))\<rparr>)"

text \<open>
  \<open>useUserStats\<close>: the result object names \<open>totalReviews\<close>, which is declared nowhere,
  so building it throws a \<open>ReferenceError\<close> once the reads are done. Demo mode returns
  the fixture first.
\<close>

definition user_stats_query :: "bool \<Rightarrow> user_stats \<Rightarrow> user_id option \<Rightarrow> db \<Rightarrow> error + user_stats" where
  "user_stats_query demo fixture user d =
     (case user of
        None \<Rightarrow> Inl (JsError ''User not authenticated'')
      | Some u \<Rightarrow> if demo then Inr fixture
                  else (let _ = compute_stats d u in Inl (ReferenceError ''totalReviews is not defined'')))"

text \<open>The four tiles of a profile page: \<open>stats?.field || 0\<close>; a failed query has no data.\<close>

definition profile_tiles :: "error + user_stats \<Rightarrow> int list" where
  "profile_tiles q = (case q of
      Inr s \<Rightarrow> [total_items s, total_ratings s, total_text_reviews s, watchlist_count s]
    | Inl _ \<Rightarrow> [0, 0, 0, 0])"

text \<open>The friend page's statistics query (\<open>FriendProfile.tsx\<close>, lines 34--60).\<close>

record friend_stats =
  f_total_items :: int
  f_watchlist_count :: int
  f_total_ratings :: int
  f_total_text_reviews :: int

definition friend_stats_query :: "user_id option \<Rightarrow> db \<Rightarrow> friend_stats option" where
  "friend_stats_query user_param d =
     (case user_param of
        None \<Rightarrow> None
      | Some u \<Rightarrow>
          let all = rows_of d ''movie_reviews'' u @ rows_of d ''series_reviews'' u @ rows_of d ''game_reviews'' u
          in Some \<lparr>f_total_items = int (length all), f_watchlist_count = int (length (rows_of d ''watchlist'' u)),
                   f_total_ratings = int (length all), f_total_text_reviews = int (length (filter has_text all))\<rparr>)"

definition friend_tiles :: "friend_stats option \<Rightarrow> int list" where
  "friend_tiles q = (case q of
      Some s \<Rightarrow> [f_total_items s, f_total_ratings s, f_total_text_reviews s, f_watchlist_count s]
    | None \<Rightarrow> [0, 0, 0, 0])"

section \<open>Favourites\<close>

text \<open>
  The best-rated reviews: \<open>order('rating', desc).limit(n)\<close>. The own page asks for 3
  movies and 3 games (the comment says "top 6 films"; demo mode shows 6 movies and 4
  games), the friend page for 6 and 4. A failed read gives no rows.
\<close>

definition top_rated :: "db \<Rightarrow> table_name \<Rightarrow> user_id \<Rightarrow> nat \<Rightarrow> row list" where
  "top_rated d t u n = take n (order_desc ''rating'' (rows_of d t u))"

definition favorite_media ::
  "bool \<Rightarrow> row list \<Rightarrow> row list \<Rightarrow> user_id option \<Rightarrow> db \<Rightarrow> error + row list \<times> row list" where
  "favorite_media demo demo_movies demo_games user d =
     (case user of
        None \<Rightarrow> Inl (JsError ''User not authenticated'')
      | Some u \<Rightarrow> if demo then Inr (take 6 demo_movies, take 4 demo_games)
                  else Inr (top_rated d ''movie_reviews'' u 3, top_rated d ''game_reviews'' u 3))"

definition friend_favorites :: "user_id option \<Rightarrow> db \<Rightarrow> row list \<times> row list" where
  "friend_favorites user_param d =
     (case user_param of
        None \<Rightarrow> ([], [])
      | Some u \<Rightarrow> (top_rated d ''movie_reviews'' u 6, top_rated d ''game_reviews'' u 4))"

section \<open>The profile editor\<close>

definition str_or_null_p :: "string \<Rightarrow> cell" where
  "str_or_null_p s = (if s = [] then VNull else VStr s)"

text \<open>
  \<open>useUpdateProfile\<close>: looks the profile up by \<open>single()\<close> (an error reads as absent),
  then updates it by id or inserts it with the user's id. The update stamps
  \<open>updated_at\<close> with the current time, here the store's clock.
\<close>

definition update_profile :: "user_id option \<Rightarrow> string \<Rightarrow> string \<Rightarrow> db \<Rightarrow> error + db" where
  "update_profile user username bio d =
     (case user of
        None \<Rightarrow> Inl (JsError ''User not authenticated'')
      | Some u \<Rightarrow>
          (case single (select_rows d ''profiles'' (eq_col ''id'' (VStr u))) of
             Inr _ \<Rightarrow> update_single d ''profiles'' (eq_col ''id'' (VStr u))
                        [(''username'', str_or_null_p username), (''bio'', str_or_null_p bio),
                         (''updated_at'', VInt (int (next_id d)))]
           | Inl _ \<Rightarrow> insert_pk d ''profiles''
                        [(''id'', VStr u), (''username'', str_or_null_p username), (''bio'', str_or_null_p bio)]))"

text \<open>\<open>useProfile\<close>: \<open>PGRST116\<close> (no profile yet) reads as empty username and bio.\<close>

definition empty_profile :: row where
  "empty_profile = [''username'' \<mapsto> VNull, ''bio'' \<mapsto> VNull]"

definition profile_query :: "user_id option \<Rightarrow> db \<Rightarrow> error + row" where
  "profile_query user d =
     (case user of
        None \<Rightarrow> Inl (JsError ''User not authenticated'')
      | Some u \<Rightarrow>
          (case single (select_rows d ''profiles'' (eq_col ''id'' (VStr u))) of
             Inl e \<Rightarrow> if e = pgrst116 then Inr empty_profile else Inl e
           | Inr r \<Rightarrow> Inr r))"

text \<open>
  The name the page shows: the profile's username, else the auth metadata's full name,
  else its name, else the part of the email before \<open>@\<close>, else \<open>'User'\<close>; each
  alternative is skipped when empty (JavaScript \<open>||\<close>).
\<close>

definition or_else :: "string option \<Rightarrow> string \<Rightarrow> string" where
  "or_else x y = (case x of Some s \<Rightarrow> if s = [] then y else s | None \<Rightarrow> y)"

definition display_name :: "row option \<Rightarrow> auth_user \<Rightarrow> string" where
  "display_name profile user =
     or_else (case profile of Some r \<Rightarrow> (case get r ''username'' of VStr s \<Rightarrow> Some s | _ \<Rightarrow> None) | None \<Rightarrow> None)
       (or_else (full_name user)
         (or_else (meta_name user)
           (or_else (map_option (takeWhile (\<lambda>c. c \<noteq> CHR ''@'')) (email user)) ''User'')))"

datatype profile_toast = ProfileSaved | ProfileSaveFailed

definition handle_save_profile :: "auth_user option \<Rightarrow> string \<Rightarrow> string \<Rightarrow> db \<Rightarrow> profile_toast \<times> db" where
  "handle_save_profile user username bio d =
     (case update_profile (map_option uid user) username bio d of
        Inl _ \<Rightarrow> (ProfileSaveFailed, d)
      | Inr d' \<Rightarrow> (ProfileSaved, d'))"


section \<open>Facts about the profile operations\<close>

lemma profile_payload_known:
  "columns_known ''profiles'' [(''id'', VStr u), (''username'', a), (''bio'', b)]"
  "columns_known ''profiles'' [(''username'', a), (''bio'', b), (''updated_at'', c)]"
  by (simp_all add: columns_known_def table_columns_def profiles_columns_def)

lemma profile_lookup_cases:
  assumes "distinct (parent_ids d ''profiles'')"
  obtains (none) "select_rows d ''profiles'' (eq_col ''id'' (VStr u)) = []"
  | (one) e where "select_rows d ''profiles'' (eq_col ''id'' (VStr u)) = [e]"
proof -
  have "length (select_rows d ''profiles'' (eq_col ''id'' (VStr u))) \<le> 1"
    using distinct_key_lookup [OF assms [unfolded parent_ids_def], of "VStr u"]
    by (simp add: select_rows_def eq_col_fun)
  then show ?thesis using that by (cases "select_rows d ''profiles'' (eq_col ''id'' (VStr u))" rule: remdups_adj.cases) auto
qed

lemma display_name_username:
  "display_name (Some r) au = (case get r ''username'' of VStr s \<Rightarrow> if s = [] then display_name None au else s
                                | _ \<Rightarrow> display_name None au)"
  by (simp add: display_name_def or_else_def split: cell.splits)

lemma profile_saved_row:
  assumes "distinct (parent_ids d ''profiles'')"
  shows "\<exists>d' r. update_profile (Some u) un bio d = Inr d' \<and>
           select_rows d' ''profiles'' (eq_col ''id'' (VStr u)) = [r] \<and>
           get r ''username'' = str_or_null_p un \<and> get r ''bio'' = str_or_null_p bio"
  using assms
proof (cases rule: profile_lookup_cases [of d u])
  case none
  then have "VStr u \<notin> set (parent_ids d ''profiles'')"
    by (auto simp: select_rows_def eq_col_def parent_ids_def filter_empty_conv)
  then show ?thesis
    using none profile_payload_known
    by (simp add: update_profile_def insert_pk_def insert_into_def select_rows_def new_row_def get_map_add_of
        eq_col_def)
next
  case (one e)
  have "filter (eq_col ''id'' (VStr u))
          (map (\<lambda>r. if eq_col ''id'' (VStr u) r then r ++ map_of [(''username'', str_or_null_p un),
              (''bio'', str_or_null_p bio), (''updated_at'', VInt (int (next_id d)))] else r) (tables d ''profiles'')) =
        map (\<lambda>r. r ++ map_of [(''username'', str_or_null_p un), (''bio'', str_or_null_p bio),
              (''updated_at'', VInt (int (next_id d)))]) (filter (eq_col ''id'' (VStr u)) (tables d ''profiles''))"
    by (rule filter_map_if) (simp add: eq_col_def get_map_add_of)
  then show ?thesis
    using one profile_payload_known
    by (simp add: update_profile_def update_single_def update_where_def select_rows_def get_map_add_of)
qed


section \<open>Properties of the profile pages\<close>

text \<open>
  C22. Outside demo mode the own profile page's statistics query always fails, for every
  store: its tiles read 0, 0, 0, 0, while the friend page, which computes the same four
  counts without the undeclared variable, shows the true values of the same user.
\<close>

theorem own_profile_tiles_zero:
  "profile_tiles (user_stats_query False fixture (Some u) d) = [0, 0, 0, 0] \<and>
   friend_tiles (friend_stats_query (Some u) d) =
     [total_items (compute_stats d u), total_ratings (compute_stats d u),
      total_text_reviews (compute_stats d u), watchlist_count (compute_stats d u)]"
  by (simp add: profile_tiles_def user_stats_query_def friend_tiles_def friend_stats_query_def
      compute_stats_def Let_def)

text \<open>
  The statistics are consistent: every rated item is counted once as a movie or
  series or as a game, the text reviews are among the ratings, and the hours are a
  rounded sum; on the friend page likewise the text reviews are at most the ratings.
\<close>

theorem stats_bounds:
  "total_items (compute_stats d u) = total_ratings (compute_stats d u) \<and>
   total_movies_watched (compute_stats d u) + total_games_played (compute_stats d u) = total_ratings (compute_stats d u) \<and>
   0 \<le> total_text_reviews (compute_stats d u) \<and>
   total_text_reviews (compute_stats d u) \<le> total_ratings (compute_stats d u) \<and>
   (case friend_stats_query (Some u) d of
      Some s \<Rightarrow> f_total_text_reviews s \<le> f_total_ratings s \<and> f_total_items s = f_total_ratings s
    | None \<Rightarrow> False)"
  by (simp add: compute_stats_def friend_stats_query_def Let_def) (intro add_mono; simp)

text \<open>
  Saving the profile editor succeeds for a signed-in user whenever profile ids are
  distinct, whether the profile exists (update) or not (insert), and reading the profile
  back gives the saved username and bio, an empty field stored as \<open>null\<close>; the page then
  shows the saved username, or for an empty one falls back to the sign-in name.
\<close>

theorem profile_save_then_read:
  assumes ids: "distinct (parent_ids d ''profiles'')"
  shows "\<exists>d' r. update_profile (Some u) un bio d = Inr d' \<and> profile_query (Some u) d' = Inr r \<and>
           get r ''username'' = str_or_null_p un \<and> get r ''bio'' = str_or_null_p bio \<and>
           display_name (Some r) au = (if un = [] then display_name None au else un)"
proof -
  obtain d' r where "update_profile (Some u) un bio d = Inr d'"
    and sel: "select_rows d' ''profiles'' (eq_col ''id'' (VStr u)) = [r]"
    and "get r ''username'' = str_or_null_p un" "get r ''bio'' = str_or_null_p bio"
    using profile_saved_row [OF ids] by blast
  moreover have "profile_query (Some u) d' = Inr r"
    using sel by (simp add: profile_query_def)
  ultimately show ?thesis
    by (auto simp: display_name_username str_or_null_p_def)
qed

theorem profile_save_then_read_witness:
  "\<exists>d' r. update_profile (Some ''a'') '''' ''hi'' empty_db = Inr d' \<and> profile_query (Some ''a'') d' = Inr r \<and>
     get r ''username'' = VNull \<and> get r ''bio'' = VStr ''hi'' \<and>
     display_name (Some r) \<lparr>uid = ''a'', email = Some ''ann@example.org'', full_name = None, meta_name = None\<rparr> = ''ann''"
proof -
  have ids: "distinct (parent_ids empty_db ''profiles'')" by (simp add: parent_ids_def empty_db_def)
  show ?thesis
    using profile_save_then_read [OF ids, of "''a''" "''''" "''hi''"
        "\<lparr>uid = ''a'', email = Some ''ann@example.org'', full_name = None, meta_name = None\<rparr>"]
    by (simp add: str_or_null_p_def display_name_def or_else_def)
qed

end
