(* ===== verification/Auth.thy ===== *)
theory Auth
  imports Profile
begin

text \<open>
  Authentication, as written by \<open>src/src/contexts/AuthContext.tsx\<close> (the provider's
  state and its \<open>signUp\<close>, \<open>signIn\<close>, \<open>signInWithGoogle\<close>, \<open>signOut\<close>), the login page
  \<open>src/src/pages/Login.tsx\<close> and the sign-out button of \<open>src/src/components/Sidebar.tsx\<close>.
  The hosted auth service the provider calls is modelled from the spec: a list of
  accounts (email, password, user, confirmed) and the current session. In demo mode the
  provider signs the fixture user in at start and accepts only the demo credentials.
  The theory proves the demo sign-in scenario of the spec and that in demo mode the
  user is the demo user in every reachable state (sign-out included).
\<close>

section \<open>State\<close>

record auth_state =
  cur_user :: "auth_user option"
  cur_session :: "auth_user option"
  loading :: bool

record auth_backend =
  accounts :: "(string \<times> string \<times> auth_user \<times> bool) list"
  current :: "auth_user option"

datatype auth_toast = ErrorToast string | CheckEmail | WelcomeDemo | DemoHint | WelcomeBack | SignedOut

definition demo_email :: string where
  "demo_email = ''demo@popstack.app''"

definition demo_password :: string where
  "demo_password = ''demo123456''"

section \<open>The provider\<close>

text \<open>
  The effect at mount: in demo mode the fixture user and session are set and loading
  ends; otherwise loading lasts until the stored session is read
  (\<open>getSession\<close>), and every later auth event sets user and session from the service.
\<close>

definition auth_init :: "bool \<Rightarrow> auth_user \<Rightarrow> auth_state" where
  "auth_init demo du =
     (if demo then \<lparr>cur_user = Some du, cur_session = Some du, loading = False\<rparr>
      else \<lparr>cur_user = None, cur_session = None, loading = True\<rparr>)"

definition session_loaded :: "auth_backend \<Rightarrow> auth_state \<Rightarrow> auth_state" where
  "session_loaded b st = st\<lparr>cur_session := current b, cur_user := current b, loading := False\<rparr>"

definition find_account :: "string \<Rightarrow> auth_backend \<Rightarrow> (string \<times> string \<times> auth_user \<times> bool) option" where
  "find_account e b = find (\<lambda>a. fst a = e) (accounts b)"

text \<open>
  The service's \<open>signUp\<close>: a registered email is an error; otherwise a new, unconfirmed
  account.
\<close>

definition auth_sign_up :: "string \<Rightarrow> string \<Rightarrow> auth_user \<Rightarrow> auth_backend \<Rightarrow> string option \<times> auth_backend" where
  "auth_sign_up e pw newu b =
     (case find_account e b of
        Some _ \<Rightarrow> (Some ''User already registered'', b)
      | None \<Rightarrow> (None, b\<lparr>accounts := accounts b @ [(e, pw, newu, False)]\<rparr>))"

text \<open>
  \<open>signUp\<close>: the service's error is shown in a toast and returned; on success the user is
  asked to check the email. The provider's state is not changed.
\<close>

definition sign_up :: "string \<Rightarrow> string \<Rightarrow> auth_user \<Rightarrow> auth_backend \<Rightarrow> (string option \<times> auth_toast) \<times> auth_backend" where
  "sign_up e pw newu b =
     (case auth_sign_up e pw newu b of
        (Some msg, b') \<Rightarrow> ((Some msg, ErrorToast msg), b')
      | (None, b') \<Rightarrow> ((None, CheckEmail), b'))"

text \<open>The service confirming an account's email (the link in the confirmation mail).\<close>

definition confirm_email :: "string \<Rightarrow> auth_backend \<Rightarrow> auth_backend" where
  "confirm_email e b = b\<lparr>accounts := map (\<lambda>a. if fst a = e then (fst a, fst (snd a), fst (snd (snd a)), True) else a) (accounts b)\<rparr>"

text \<open>
  The service's \<open>signInWithPassword\<close>: an unknown email or a wrong password is an error,
  as is an unconfirmed email; otherwise the account's user gets the session.
\<close>

definition sign_in_with_password :: "string \<Rightarrow> string \<Rightarrow> auth_backend \<Rightarrow> string option \<times> auth_backend" where
  "sign_in_with_password e pw b =
     (case find_account e b of
        Some (_, p, u, conf) \<Rightarrow>
          if p \<noteq> pw then (Some ''Invalid login credentials'', b)
          else if \<not> conf then (Some ''Email not confirmed'', b)
          else (None, b\<lparr>current := Some u\<rparr>)
      | None \<Rightarrow> (Some ''Invalid login credentials'', b))"

text \<open>
  \<open>signIn\<close>: in demo mode only the demo credentials, which set the fixture user without
  calling the service; otherwise \<open>signInWithPassword\<close>, whose error is shown in a toast
  and returned, and whose success shows "Welcome back!" and opens a session that the
  auth listener copies into the state.
\<close>

definition sign_in ::
  "bool \<Rightarrow> auth_user \<Rightarrow> string \<Rightarrow> string \<Rightarrow> auth_backend \<times> auth_state \<Rightarrow>
   (string option \<times> auth_toast) \<times> auth_backend \<times> auth_state" where
  "sign_in demo du e pw bs =
     (let (b, st) = bs in
      if demo then
        (if e = demo_email \<and> pw = demo_password
         then ((None, WelcomeDemo), b, st\<lparr>cur_user := Some du, cur_session := Some du\<rparr>)
         else ((Some ''Invalid demo credentials'', DemoHint), b, st))
      else
        (case sign_in_with_password e pw b of
           (Some msg, b') \<Rightarrow> ((Some msg, ErrorToast msg), b', st)
         | (None, b') \<Rightarrow> ((None, WelcomeBack), b', session_loaded b' st)))"

text \<open>\<open>signOut\<close>: ends the service's session; the listener clears user and session.\<close>

definition sign_out :: "auth_backend \<times> auth_state \<Rightarrow> auth_toast \<times> auth_backend \<times> auth_state" where
  "sign_out bs = (let (b, st) = bs; b' = b\<lparr>current := None\<rparr> in (SignedOut, b', session_loaded b' st))"

text \<open>
  The sidebar's sign-out button: in demo mode it only loads \<open>/login\<close>, a full page
  load that mounts the provider again; otherwise it calls \<open>signOut\<close>.
\<close>

definition sidebar_sign_out :: "bool \<Rightarrow> auth_user \<Rightarrow> auth_backend \<times> auth_state \<Rightarrow> auth_backend \<times> auth_state" where
  "sidebar_sign_out demo du bs =
     (if demo then (fst bs, auth_init True du) else snd (sign_out bs))"

section \<open>The login page\<close>

record login_form =
  is_sign_up :: bool
  form_email :: string
  form_password :: string

text \<open>The demo button fills in the demo credentials.\<close>

definition handle_demo_login :: "login_form \<Rightarrow> login_form" where
  "handle_demo_login f = f\<lparr>form_email := demo_email, form_password := demo_password\<rparr>"

text \<open>
  \<open>handleSubmit\<close>: signs up or in with the form's values and goes to the home page
  (the result's boolean) after a successful sign-in only.
\<close>

definition handle_submit ::
  "bool \<Rightarrow> auth_user \<Rightarrow> auth_user \<Rightarrow> login_form \<Rightarrow> auth_backend \<times> auth_state \<Rightarrow> bool \<times> auth_backend \<times> auth_state" where
  "handle_submit demo du newu f bs =
     (if is_sign_up f
      then (let (r, b') = sign_up (form_email f) (form_password f) newu (fst bs) in (False, b', snd bs))
      else (let (r, bs') = sign_in demo du (form_email f) (form_password f) bs in (fst r = None, bs')))"

section \<open>Runs in demo mode\<close>

text \<open>The events a session of the app can see in demo mode.\<close>

inductive demo_step :: "auth_user \<Rightarrow> auth_backend \<times> auth_state \<Rightarrow> auth_backend \<times> auth_state \<Rightarrow> bool" where
  submit: "demo_step du bs (snd (handle_submit True du newu f bs))"
| sidebar_out: "demo_step du bs (sidebar_sign_out True du bs)"

inductive demo_reachable :: "auth_user \<Rightarrow> auth_backend \<times> auth_state \<Rightarrow> bool" where
  init: "demo_reachable du (b, auth_init True du)"
| step: "demo_reachable du bs \<Longrightarrow> demo_step du bs bs' \<Longrightarrow> demo_reachable du bs'"


text \<open>Fixture: the demo user.\<close>

definition fixture_demo_user :: auth_user where
  "fixture_demo_user = \<lparr>uid = ''demo-user'', email = Some ''demo@popstack.app'', full_name = Some ''Demo User'', meta_name = None\<rparr>"

section \<open>Properties of authentication\<close>

text \<open>
  The spec's demo scenario: in demo mode the login form signs in exactly with
  \<open>demo@popstack.app\<close> / \<open>demo123456\<close>, which the demo button fills in; that sign-in sets
  the fixture user and session, leaves the auth service untouched (no remote call), and
  goes to the home page.
\<close>

theorem demo_sign_in_scenario:
  "fst (handle_submit True du nu \<lparr>is_sign_up = False, form_email = e, form_password = p\<rparr> (b, st)) \<longleftrightarrow>
     e = demo_email \<and> p = demo_password \<and>
   handle_submit True du nu (handle_demo_login \<lparr>is_sign_up = False, form_email = e, form_password = p\<rparr>) (b, st) =
     (True, b, st\<lparr>cur_user := Some du, cur_session := Some du\<rparr>)"
  by (simp add: handle_submit_def sign_in_def handle_demo_login_def)

text \<open>
  In demo mode the signed-in user is the fixture user in every state a session
  reaches, whatever is submitted on the login page: the sidebar's sign-out only
  reloads the app, which signs the fixture user in again. Outside demo mode the
  sidebar's sign-out clears the user.
\<close>

theorem demo_user_always_signed_in:
  assumes "demo_reachable du bs"
  shows "cur_user (snd bs) = Some du \<and> \<not> loading (snd bs) \<and>
         cur_user (snd (sidebar_sign_out True du bs)) = Some du \<and>
         cur_user (snd (sidebar_sign_out False du bs)) = None"
  using assms
proof (induction rule: demo_reachable.induct)
  case (init du b)
  then show ?case
    by (simp add: auth_init_def sidebar_sign_out_def sign_out_def session_loaded_def)
next
  case (step du bs bs')
  from step.hyps(2) step.IH have "cur_user (snd bs') = Some du \<and> \<not> loading (snd bs')"
    by (cases rule: demo_step.cases)
       (auto simp: handle_submit_def sign_in_def sign_up_def auth_sign_up_def sidebar_sign_out_def auth_init_def
         split: prod.splits option.splits)
  then show ?case
    by (simp add: auth_init_def sidebar_sign_out_def sign_out_def session_loaded_def split: prod.splits)
qed

theorem demo_user_always_signed_in_witness:
  "cur_user (snd (sidebar_sign_out True fixture_demo_user (\<lparr>accounts = [], current = None\<rparr>, auth_init True fixture_demo_user))) =
     Some fixture_demo_user \<and>
   cur_user (snd (sidebar_sign_out False fixture_demo_user (\<lparr>accounts = [], current = None\<rparr>, auth_init True fixture_demo_user))) = None"
proof -
  have "demo_reachable fixture_demo_user (\<lparr>accounts = [], current = None\<rparr>, auth_init True fixture_demo_user)"
    by (rule demo_reachable.init)
  then show ?thesis using demo_user_always_signed_in by blast
qed

end
