(* ===== verification/Discover.thy ===== *)
theory Discover
  imports Prelude
begin

text \<open>
  The catalogue page \<open>src/src/pages/Discover.tsx\<close>: it builds the query parameters of
  the movie and series catalogue (TMDB) and of the game catalogue (RAWG) from the
  page's filters, accumulates the pages of results behind a "Load more" button, and
  toggles genre filters. All of it is pure computation on the page's state, modelled
  here with JavaScript's string operations written out. The theory proves what the
  game ordering becomes for each sort option, that accumulating pages yields the
  concatenated results, and that a new query whose first page is empty leaves the
  previous query's results on screen, that a user who clicks "Load more" while it is
  shown reaches the last page in finitely many clicks; and that the genre toggle is a symmetric
  difference that keeps the selection free of duplicates.
\<close>

section \<open>JavaScript string operations\<close>

text \<open>\<open>s.replace(pat, rep)\<close> with a string pattern replaces the first occurrence only.\<close>

fun js_replace :: "string \<Rightarrow> string \<Rightarrow> string \<Rightarrow> string" where
  "js_replace pat rep [] = (if pat = [] then rep else [])"
| "js_replace pat rep (c # cs) =
     (if prefix pat (c # cs) then rep @ drop (length pat) (c # cs) else c # js_replace pat rep cs)"

definition digit_chars :: string where
  "digit_chars = ''0123456789''"

fun nat_str :: "nat \<Rightarrow> string" where
  "nat_str n = (if n < 10 then [digit_chars ! n] else nat_str (n div 10) @ [digit_chars ! (n mod 10)])"

declare nat_str.simps [simp del]

text \<open>\<open>xs.join(',')\<close> on numbers.\<close>

fun join_nums :: "nat list \<Rightarrow> string" where
  "join_nums [] = []"
| "join_nums [x] = nat_str x"
| "join_nums (x # y # zs) = nat_str x @ '','' @ join_nums (y # zs)"

section \<open>The page's state\<close>

datatype media_kind = Movies | Series | Games

text \<open>The initial kind: the URL's \<open>type\<close> parameter when it names a kind, else movies.\<close>

definition initial_media :: "string option \<Rightarrow> media_kind" where
  "initial_media p =
     (case p of
        Some s \<Rightarrow> if s = ''series'' then Series else if s = ''games'' then Games else Movies
      | None \<Rightarrow> Movies)"

record filters =
  sort_by :: string
  genres :: "nat list"
  year_from :: string
  year_to :: string
  min_rating :: string
  page :: nat

definition initial_filters :: filters where
  "initial_filters = \<lparr>sort_by = ''popularity.desc'', genres = [], year_from = [], year_to = [], min_rating = ''0'', page = 1\<rparr>"

text \<open>The sort options of the select box.\<close>

definition sort_options :: "string list" where
  "sort_options = [''popularity.desc'', ''popularity.asc'', ''vote_average.desc'', ''vote_average.asc'',
     ''release_date.desc'', ''release_date.asc'']"

section \<open>Query parameters\<close>

text \<open>TMDB's parameters; \<open>undefined\<close> ones are left out of the request.\<close>

definition api_params :: "filters \<Rightarrow> (string \<times> string) list" where
  "api_params f =
     [(''page'', nat_str (page f)), (''sort_by'', sort_by f)] @
     (if genres f \<noteq> [] then [(''with_genres'', join_nums (genres f))] else []) @
     (if year_from f \<noteq> [] then [(''primary_release_date.gte'', year_from f @ ''-01-01'')]
      else if year_to f \<noteq> [] then [(''primary_release_date.gte'', ''1900-01-01'')] else []) @
     (if year_to f \<noteq> [] then [(''primary_release_date.lte'', year_to f @ ''-12-31'')] else []) @
     (if min_rating f \<noteq> ''0'' then [(''vote_average.gte'', min_rating f), (''vote_count.gte'', ''100'')] else [])"

text \<open>RAWG's ordering, derived from the sort option by string replacement.\<close>

definition game_ordering :: "string \<Rightarrow> string" where
  "game_ordering s =
     (if s = ''popularity.desc'' then ''-added''
      else let g = js_replace ''.asc'' [] (js_replace ''.desc'' [] (js_replace ''vote_average'' ''rating''
                     (js_replace ''popularity'' ''rating'' s)))
           in if str_includes s ''.asc'' then js_replace ''-'' [] g
              else if prefix ''-'' g then g else ''-'' @ g)"

text \<open>\<open>parseInt\<close> on the leading decimal digits; no digit gives \<open>NaN\<close> (None).\<close>

definition digit_val :: "char \<Rightarrow> nat option" where
  "digit_val c = map_of (zip digit_chars [0..<10]) c"

fun digits_value :: "nat \<Rightarrow> string \<Rightarrow> nat" where
  "digits_value acc [] = acc"
| "digits_value acc (c # cs) = (case digit_val c of Some v \<Rightarrow> digits_value (10 * acc + v) cs | None \<Rightarrow> acc)"

definition parse_int :: "string \<Rightarrow> nat option" where
  "parse_int s = (case s of c # _ \<Rightarrow> if digit_val c = None then None else Some (digits_value 0 s) | [] \<Rightarrow> None)"

definition rating_to_metacritic :: "string \<Rightarrow> string" where
  "rating_to_metacritic r = (case parse_int r of Some n \<Rightarrow> nat_str (20 * n) | None \<Rightarrow> ''NaN'') @ '',100''"

definition game_api_params :: "nat \<Rightarrow> filters \<Rightarrow> (string \<times> string) list" where
  "game_api_params this_year f =
     [(''page'', nat_str (page f)), (''ordering'', game_ordering (sort_by f))] @
     (if genres f \<noteq> [] then [(''genres'', join_nums (genres f))] else []) @
     (if year_from f \<noteq> [] \<and> year_to f \<noteq> [] then [(''dates'', year_from f @ ''-01-01,'' @ year_to f @ ''-12-31'')]
      else if year_to f \<noteq> [] then [(''dates'', ''1900-01-01,'' @ year_to f @ ''-12-31'')]
      else if year_from f \<noteq> [] then [(''dates'', year_from f @ ''-01-01,'' @ nat_str this_year @ ''-12-31'')]
      else []) @
     (if min_rating f \<noteq> ''0'' then [(''metacritic'', rating_to_metacritic (min_rating f))] else [])"

section \<open>Pages of results\<close>

text \<open>
  The number of pages: TMDB reports it (\<open>total_pages || 1\<close>); RAWG reports a count of
  results, 20 to a page. "Load more" is shown while the page is below the last.
\<close>

definition total_pages :: "media_kind \<Rightarrow> nat option \<Rightarrow> nat option \<Rightarrow> nat" where
  "total_pages k tmdb_pages rawg_count =
     (if k = Games then (case rawg_count of Some c \<Rightarrow> if c = 0 then 1 else (c + 19) div 20 | None \<Rightarrow> 1)
      else (case tmdb_pages of Some n \<Rightarrow> if n = 0 then 1 else n | None \<Rightarrow> 1))"

definition has_more :: "nat \<Rightarrow> nat \<Rightarrow> bool" where
  "has_more pg last_page \<longleftrightarrow> pg < last_page"

text \<open>
  The accumulation effect: when the current page's results are not empty, page 1
  replaces the list and a later page is appended to it; an empty page changes nothing.
\<close>

definition accumulate :: "'a list \<Rightarrow> nat \<Rightarrow> 'a list \<Rightarrow> 'a list" where
  "accumulate all pg rs = (if rs = [] then all else if pg = 1 then rs else all @ rs)"

fun load_pages :: "'a list \<Rightarrow> nat \<Rightarrow> 'a list list \<Rightarrow> 'a list" where
  "load_pages all pg [] = all"
| "load_pages all pg (rs # rest) = load_pages (accumulate all pg rs) (Suc pg) rest"

section \<open>Filter changes\<close>

text \<open>\<open>toggleGenre\<close>: removes a selected genre, appends an unselected one.\<close>

definition toggle_genre :: "nat \<Rightarrow> nat list \<Rightarrow> nat list" where
  "toggle_genre g xs = (if g \<in> set xs then filter (\<lambda>x. x \<noteq> g) xs else xs @ [g])"

text \<open>
  The two reset effects: a change of media kind clears genres, years and rating and
  goes back to page 1; a change of query, sort or any filter goes back to page 1.
\<close>

definition reset_on_kind :: "filters \<Rightarrow> filters" where
  "reset_on_kind f = f\<lparr>genres := [], year_from := [], year_to := [], min_rating := ''0'', page := 1\<rparr>"

definition reset_page :: "filters \<Rightarrow> filters" where
  "reset_page f = f\<lparr>page := 1\<rparr>"

definition load_more :: "filters \<Rightarrow> filters" where
  "load_more f = f\<lparr>page := Suc (page f)\<rparr>"

text \<open>
  The "Load more" button (\<open>!isLoading && results.length > 0 && hasMore\<close>) and a user
  who clicks it whenever it is shown: each click is \<open>setPage(prev => prev + 1)\<close>, the
  next page's results \<open>fetch\<close> arrive and the accumulation effect runs. The catalogue
  answers are a parameter. The walk is total: each click brings the page closer to the
  last one.
\<close>

definition load_more_shown :: "bool \<Rightarrow> 'a list \<Rightarrow> nat \<Rightarrow> nat \<Rightarrow> bool" where
  "load_more_shown loading results pg last_page \<longleftrightarrow> \<not> loading \<and> results \<noteq> [] \<and> has_more pg last_page"

function browse :: "(nat \<Rightarrow> 'a list) \<Rightarrow> nat \<Rightarrow> nat \<Rightarrow> 'a list \<Rightarrow> nat \<times> 'a list" where
  "browse fetch last_page pg all =
     (if load_more_shown False all pg last_page
      then browse fetch last_page (Suc pg) (accumulate all (Suc pg) (fetch (Suc pg)))
      else (pg, all))"
  by pat_completeness auto
termination
  by (relation "measure (\<lambda>(fetch, last_page, pg, all). last_page - pg)")
     (auto simp: load_more_shown_def has_more_def)

declare browse.simps [simp del]


section \<open>Properties of the catalogue page\<close>

lemma more_pages_iff: "Suc k < (c + 19) div 20 \<longleftrightarrow> 20 * Suc k < (c::nat)"
proof -
  have "Suc k < (c + 19) div 20 \<longleftrightarrow> Suc (Suc k) * 20 \<le> c + 19"
    using less_eq_div_iff_mult_less_eq [of 20 "Suc (Suc k)" "c + 19"] by (simp add: Suc_le_eq)
  then show ?thesis by simp arith
qed

lemma browse_click:
  assumes "pg < last_page" "all \<noteq> []" "0 < pg"
  shows "browse fetch last_page pg all = browse fetch last_page (Suc pg) (accumulate all (Suc pg) (fetch (Suc pg)))"
  using assms by (subst browse.simps) (simp add: load_more_shown_def has_more_def)

lemma browse_stop:
  assumes "\<not> pg < last_page"
  shows "browse fetch last_page pg all = (pg, all)"
  using assms by (subst browse.simps) (simp add: load_more_shown_def has_more_def)

lemma accumulate_later: "0 < pg \<Longrightarrow> accumulate all (Suc pg) rs = all @ rs"
  by (simp add: accumulate_def)

lemma load_pages_later: "1 < pg \<Longrightarrow> load_pages all pg pages = all @ concat pages"
  by (induction pages arbitrary: all pg) (simp_all add: accumulate_def)

text \<open>
  The game catalogue's ordering for each sort option of the page: popularity
  descending becomes RAWG's \<open>-added\<close>, both ascending popularity and ascending rating
  become \<open>rating\<close>, and the release-date options become \<open>-release_date\<close> and
  \<open>release_date\<close>, which are not among RAWG's ordering fields (its date field is
  \<open>released\<close>). The minimum rating 1 to 5 becomes a Metacritic range from 20 to 100.
\<close>

theorem game_ordering_of_options:
  "map game_ordering sort_options = [''-added'', ''rating'', ''-rating'', ''rating'', ''-release_date'', ''release_date''] \<and>
   map rating_to_metacritic [''1'', ''2'', ''3'', ''4'', ''5''] = [''20,100'', ''40,100'', ''60,100'', ''80,100'', ''100,100'']"
  by code_simp

text \<open>
  Paging: loading pages 1, 2, ... in order shows the first page followed by the
  later ones; but when the first page of a new query is empty, the list keeps the
  previous query's results, followed by the new query's later pages. For games "Load
  more" is offered after page \<open>k\<close> exactly when more than \<open>20 k\<close> results exist.
\<close>

theorem load_pages_results:
  "load_pages old 1 (rs # pages) = (if rs = [] then old else rs) @ concat pages \<and>
   has_more (Suc k) (total_pages Games tp (Some c)) = (20 * Suc k < c)"
proof -
  have "load_pages old 1 (rs # pages) = (if rs = [] then old else rs) @ concat pages"
    by (simp add: load_pages_later accumulate_def)
  moreover have "has_more (Suc k) (total_pages Games tp (Some c)) = (20 * Suc k < c)"
    by (simp add: has_more_def total_pages_def more_pages_iff)
  ultimately show ?thesis by blast
qed

text \<open>
  Toggling a genre removes a selected genre and adds an unselected one, so the
  selection changes by exactly that genre and stays free of duplicates; changing the
  media kind clears the genres and returns to page 1.
\<close>

theorem toggle_genre_sym_diff:
  assumes "distinct xs"
  shows "set (toggle_genre g xs) = (if g \<in> set xs then set xs - {g} else insert g (set xs)) \<and>
         distinct (toggle_genre g xs) \<and>
         genres (reset_on_kind f) = [] \<and> page (reset_on_kind f) = 1"
proof -
  have "set (toggle_genre g xs) = (if g \<in> set xs then set xs - {g} else insert g (set xs))"
    by (auto simp: toggle_genre_def)
  moreover have "distinct (toggle_genre g xs)"
    using assms by (simp add: toggle_genre_def)
  ultimately show ?thesis by (simp add: reset_on_kind_def)
qed

theorem toggle_genre_sym_diff_witness:
  "set (toggle_genre 28 [12, 28]) = {12, 28} - {28} \<and> distinct (toggle_genre 28 [12, 28]) \<and>
   genres (reset_on_kind initial_filters) = [] \<and> page (reset_on_kind initial_filters) = 1"
  using toggle_genre_sym_diff [of "[12, 28]" 28 initial_filters] by simp

text \<open>
  C30. Clicking "Load more" whenever it is shown ends: from any page with results on
  screen the user reaches the last page, where the button disappears, with the results
  of every page in between appended in order.
\<close>

theorem browse_reaches_last_page:
  assumes "all \<noteq> []" and "0 < pg"
  shows "browse fetch last_page pg all = (max pg last_page, all @ concat (map fetch [Suc pg..<Suc last_page]))"
  using assms
proof (induction fetch last_page pg all rule: browse.induct)
  case (1 fetch last_page pg all)
  show ?case
  proof (cases "pg < last_page")
    case True
    then have "load_more_shown False all pg last_page"
      using 1 by (simp add: load_more_shown_def has_more_def)
    with 1 have "browse fetch last_page (Suc pg) (accumulate all (Suc pg) (fetch (Suc pg))) =
        (max (Suc pg) last_page, all @ fetch (Suc pg) @ concat (map fetch [Suc (Suc pg)..<Suc last_page]))"
      by (simp add: accumulate_later)
    then show ?thesis
      using True 1 by (simp add: browse_click upt_conv_Cons max_def del: upt_Suc)
  next
    case False
    then show ?thesis by (simp add: browse_stop)
  qed
qed

theorem browse_reaches_last_page_witness:
  "browse (\<lambda>n. [n]) 3 1 [1::nat] = (3, [1, 2, 3])"
  using browse_reaches_last_page [of "[1::nat]" 1 "\<lambda>n. [n]" 3] by (simp add: upt_rec)

end
