(* ===== verification/Preferences.thy ===== *)
theory Preferences
  imports Profile
begin

text \<open>
  The user's preferences: the colour theme (\<open>src/src/hooks/useTheme.ts\<close>), the
  interface language (\<open>src/src/contexts/LanguageContext.tsx\<close>) with the translation
  tables of \<open>src/src/lib/i18n.ts\<close>, both kept in the browser's \<open>localStorage\<close>, and the
  settings page \<open>src/src/pages/Settings.tsx\<close> that changes them and the username. The
  translation tables are modelled by their keys; the texts are display data. The
  theory proves that a chosen theme and language survive a reload, that every key the
  sidebar and the login page read exists in both languages while a stored language
  other than these two leaves the interface without texts, and that the settings page
  saves a trimmed username that the profile then holds.
\<close>

section \<open>Browser storage\<close>

type_synonym local_storage = "string \<rightharpoonup> string"

text \<open>\<open>localStorage.getItem(k) || default\<close>: a missing or empty entry gives the default.\<close>

definition stored_or :: "local_storage \<Rightarrow> string \<Rightarrow> string \<Rightarrow> string" where
  "stored_or ls k dflt = (case ls k of Some s \<Rightarrow> if s = [] then dflt else s | None \<Rightarrow> dflt)"

section \<open>Theme\<close>

text \<open>
  \<open>useTheme\<close>: the initial theme is the stored one, unchecked, or \<open>dark\<close>; the effect
  puts the theme's class on the document root (for \<open>system\<close> the class the system
  preference selects) and stores the theme.
\<close>

definition init_theme :: "local_storage \<Rightarrow> string" where
  "init_theme ls = stored_or ls ''theme'' ''dark''"

definition theme_effect :: "string \<Rightarrow> bool \<Rightarrow> local_storage \<Rightarrow> string \<times> local_storage" where
  "theme_effect th prefers_dark ls =
     (if th = ''system'' then (if prefers_dark then ''dark'' else ''light'') else th, ls(''theme'' \<mapsto> th))"

definition theme_options :: "string list" where
  "theme_options = [''light'', ''dark'', ''system'']"

section \<open>Language and translations\<close>

definition translation_keys_pl :: "string list" where
  "translation_keys_pl =
     [''appName'', ''appSubtitle'', ''dashboard'', ''discover'', ''watchlist'', ''myCollection'',
      ''profile'', ''settings'', ''signOut'', ''signIn'', ''terms'', ''about'', ''welcomeBack'',
      ''yourMedia'', ''trackedStacked'', ''dashboardSubtitle'', ''exploreNow'', ''trendingNow'',
      ''trendingSubtitle'', ''viewAll'', ''featuredCollections'', ''collectionsSubtitle'',
      ''items'', ''createAccount'', ''welcomeBackLogin'', ''joinUs'', ''signInSubtitle'',
      ''email'', ''password'', ''signUp'', ''loading'', ''orContinueWith'', ''continueWithGoogle'',
      ''alreadyHaveAccount'', ''dontHaveAccount'', ''trackEverything'', ''youLove'',
      ''loginHeroText'', ''friends'', ''searchUsers'', ''noFriendsYet'', ''searchForUsers'',
      ''requests'', ''noPendingRequests'', ''wantsToBeFriend'', ''accept'', ''reject'', ''friend'',
      ''sent'', ''accepted'', ''rejected'', ''removed'', ''requestSent'', ''requestAccepted'',
      ''requestRejected'', ''friendRemoved'']"

definition translation_keys_en :: "string list" where
  "translation_keys_en =
     [''appName'', ''appSubtitle'', ''dashboard'', ''discover'', ''watchlist'', ''myCollection'',
      ''profile'', ''settings'', ''signOut'', ''signIn'', ''terms'', ''about'', ''welcomeBack'',
      ''yourMedia'', ''trackedStacked'', ''dashboardSubtitle'', ''exploreNow'', ''trendingNow'',
      ''trendingSubtitle'', ''viewAll'', ''featuredCollections'', ''collectionsSubtitle'',
      ''items'', ''createAccount'', ''welcomeBackLogin'', ''joinUs'', ''signInSubtitle'',
      ''email'', ''password'', ''signUp'', ''loading'', ''orContinueWith'', ''continueWithGoogle'',
      ''alreadyHaveAccount'', ''dontHaveAccount'', ''trackEverything'', ''youLove'',
      ''loginHeroText'', ''friends'', ''searchUsers'', ''noFriendsYet'', ''searchForUsers'',
      ''requests'', ''noPendingRequests'', ''wantsToBeFriend'', ''accept'', ''reject'', ''friend'',
      ''sent'', ''accepted'', ''rejected'', ''removed'', ''requestSent'', ''requestAccepted'',
      ''requestRejected'', ''friendRemoved'']"

definition action_keys_pl :: "string list" where
  "action_keys_pl =
     [''addToCollection'', ''addToWatchlist'', ''removeFromWatchlist'', ''markAsWatched'',
      ''markAsPlayed'', ''rateThis'', ''addReview'']"

definition action_keys_en :: "string list" where
  "action_keys_en =
     [''addToCollection'', ''addToWatchlist'', ''removeFromWatchlist'', ''markAsWatched'',
      ''markAsPlayed'', ''rateThis'', ''addReview'']"

text \<open>\<open>translations[lang]\<close>: undefined for a language other than \<open>pl\<close> and \<open>en\<close>.\<close>

definition translation_table :: "string \<Rightarrow> string list option" where
  "translation_table lang =
     (if lang = ''pl'' then Some translation_keys_pl else if lang = ''en'' then Some translation_keys_en else None)"

definition action_table :: "string \<Rightarrow> string list option" where
  "action_table lang =
     (if lang = ''pl'' then Some action_keys_pl else if lang = ''en'' then Some action_keys_en else None)"

text \<open>\<open>useTranslation(lang = 'en')\<close>.\<close>

definition use_translation :: "string option \<Rightarrow> string list option" where
  "use_translation lang = translation_table (case lang of Some l \<Rightarrow> l | None \<Rightarrow> ''en'')"

text \<open>
  \<open>LanguageProvider\<close>: the initial language is the stored one, unchecked, or \<open>pl\<close>;
  \<open>setLanguage\<close> stores the choice; \<open>t\<close> spreads the language's table and adds
  \<open>language\<close>, so its keys are the table's keys (none for an unknown language).
\<close>

definition init_language :: "local_storage \<Rightarrow> string" where
  "init_language ls = stored_or ls ''language'' ''pl''"

definition set_language :: "string \<Rightarrow> local_storage \<Rightarrow> string \<times> local_storage" where
  "set_language l ls = (l, ls(''language'' \<mapsto> l))"

definition t_keys :: "string \<Rightarrow> string list" where
  "t_keys lang = (case translation_table lang of Some ks \<Rightarrow> ks | None \<Rightarrow> []) @ [''language'']"

text \<open>The keys of \<open>t\<close> the sidebar and the login page read.\<close>

definition sidebar_keys :: "string list" where
  "sidebar_keys = [''dashboard'', ''discover'', ''watchlist'', ''myCollection'', ''profile'', ''settings'',
     ''appName'', ''appSubtitle'', ''signOut'', ''terms'', ''about'']"

definition login_keys :: "string list" where
  "login_keys = [''appName'', ''createAccount'', ''welcomeBackLogin'', ''joinUs'', ''signInSubtitle'', ''email'',
     ''password'', ''loading'', ''signUp'', ''signIn'', ''orContinueWith'', ''continueWithGoogle'',
     ''alreadyHaveAccount'', ''dontHaveAccount'', ''trackEverything'', ''youLove'', ''loginHeroText'']"

section \<open>The settings page\<close>

record settings_page =
  profile_username :: string
  editing_username :: bool
  saving :: bool

datatype settings_toast = UsernameSaved | UsernameFailed | LanguageChanged string | ThemeChanged string

text \<open>The effect that loads the username: a non-empty username of the profile row.\<close>

definition fetch_username :: "user_id option \<Rightarrow> db \<Rightarrow> settings_page \<Rightarrow> settings_page" where
  "fetch_username user d pg =
     (case logged_id user of
        None \<Rightarrow> pg
      | Some u \<Rightarrow>
          (case single (select_rows d ''profiles'' (eq_col ''id'' (VStr u))) of
             Inr r \<Rightarrow> (case get r ''username'' of VStr s \<Rightarrow> if s = [] then pg else pg\<lparr>profile_username := s\<rparr> | _ \<Rightarrow> pg)
           | Inl _ \<Rightarrow> pg))"

definition settings_display_name :: "settings_page \<Rightarrow> auth_user \<Rightarrow> string" where
  "settings_display_name pg au =
     or_else (Some (profile_username pg))
       (or_else (full_name au)
         (or_else (meta_name au)
           (or_else (map_option (takeWhile (\<lambda>c. c \<noteq> CHR ''@'')) (email au)) ''User'')))"

text \<open>
  \<open>handleSaveUsername\<close>: nothing without a user id or with a blank name; otherwise an
  upsert of the profile with the trimmed name and the current time (the store's
  clock), then a toast.
\<close>

definition handle_save_username ::
  "user_id option \<Rightarrow> settings_page \<Rightarrow> db \<Rightarrow> settings_toast option \<times> settings_page \<times> db" where
  "handle_save_username user pg d =
     (case logged_id user of
        None \<Rightarrow> (None, pg, d)
      | Some u \<Rightarrow>
          if trim (profile_username pg) = [] then (None, pg, d)
          else (case upsert_by_id d ''profiles''
                       [(''id'', VStr u), (''username'', VStr (trim (profile_username pg))),
                        (''updated_at'', VInt (int (next_id d)))] of
                  Inl _ \<Rightarrow> (Some UsernameFailed, pg\<lparr>saving := False\<rparr>, d)
                | Inr d' \<Rightarrow> (Some UsernameSaved, pg\<lparr>editing_username := False, saving := False\<rparr>, d')))"

definition handle_language_change :: "string \<Rightarrow> local_storage \<Rightarrow> settings_toast \<times> string \<times> local_storage" where
  "handle_language_change l ls = (LanguageChanged l, set_language l ls)"

definition handle_theme_change :: "string \<Rightarrow> settings_toast \<times> string" where
  "handle_theme_change th = (ThemeChanged th, th)"


section \<open>Properties of the preferences\<close>

text \<open>
  The chosen theme and language survive a reload: the theme the effect stores and
  the language \<open>setLanguage\<close> stores are the initial ones the next mount reads, for
  every theme option and both languages; with nothing stored the app starts dark and
  in Polish.
\<close>

theorem preferences_survive_reload:
  "map (\<lambda>th. init_theme (snd (theme_effect th prefers_dark ls))) theme_options = theme_options \<and>
   map (\<lambda>l. init_language (snd (set_language l ls))) [''pl'', ''en''] = [''pl'', ''en''] \<and>
   init_theme Map.empty = ''dark'' \<and> init_language Map.empty = ''pl''"
  by (simp add: theme_options_def init_theme_def theme_effect_def init_language_def set_language_def stored_or_def)

text \<open>
  The two translation tables have the same keys, and every key the sidebar and the
  login page read is among them, so both languages render every label; but a stored
  language other than \<open>pl\<close> and \<open>en\<close> is taken unchecked and leaves \<open>t\<close> with no
  label at all.
\<close>

theorem ui_keys_defined:
  "set (sidebar_keys @ login_keys) \<subseteq> set (t_keys ''pl'') \<and>
   set translation_keys_pl = set translation_keys_en \<and> distinct translation_keys_pl \<and>
   set action_keys_pl = set action_keys_en \<and>
   t_keys (init_language (ls(''language'' \<mapsto> ''de''))) = [''language'']"
proof -
  have "set (sidebar_keys @ login_keys) \<subseteq> set (t_keys ''pl'')"
    by code_simp
  moreover have "set translation_keys_pl = set translation_keys_en \<and> distinct translation_keys_pl"
    by code_simp
  moreover have "set action_keys_pl = set action_keys_en"
    by code_simp
  moreover have "t_keys (init_language (ls(''language'' \<mapsto> ''de''))) = [''language'']"
    by (simp add: t_keys_def init_language_def stored_or_def translation_table_def)
  ultimately show ?thesis by blast
qed

end
