(* ===== verification/App.thy ===== *)
theory App
  imports Friends Reviews Watchlist Collections Profile Auth Discover Preferences
begin

text \<open>
  The components together. The app changes the one store through the mutation hooks
  of every component; \<open>app_step\<close> collects them, each as the component defines it
  (the legacy per-kind review hooks, used only by an example component that no page
  mounts, are left out). For each operation the theory records which tables it may
  change (its frame) and that it keeps rows within the schema; from the frames it
  derives that an operation of one component is a neutral step of the friendship and
  review step relations, so that their invariants also hold in every store the app
  reaches.
\<close>

section \<open>The app's mutations\<close>

inductive app_step :: "db \<Rightarrow> db \<Rightarrow> bool" where
  send: "send_friend_request user v d = Inr d' \<Longrightarrow> app_step d d'"
| accept: "accept_friend_request i d = Inr d' \<Longrightarrow> app_step d d'"
| reject: "app_step d (reject_friend_request i d)"
| unfriend: "app_step d (remove_friend i d)"
| review: "add_or_update_review user p d = Inr d' \<Longrightarrow> app_step d d'"
| review_delete: "delete_review user k i d = Inr d' \<Longrightarrow> app_step d d'"
| watch_add: "add_to_watchlist user q d = Inr d' \<Longrightarrow> app_step d d'"
| watch_remove: "remove_from_watchlist user t i d = Inr d' \<Longrightarrow> app_step d d'"
| coll_create: "create_collection user n ds pb d = Inr d' \<Longrightarrow> app_step d d'"
| coll_delete: "delete_collection user cid d = Inr d' \<Longrightarrow> app_step d d'"
| coll_add: "add_to_collection user cid t i ti po d = Inr d' \<Longrightarrow> app_step d d'"
| coll_remove: "remove_from_collection user cid it d = Inr d' \<Longrightarrow> app_step d d'"
| profile: "update_profile user n b d = Inr d' \<Longrightarrow> app_step d d'"
| username: "handle_save_username user pg d = (toast, pg', d') \<Longrightarrow> app_step d d'"

inductive app_reachable :: "db \<Rightarrow> bool" where
  init: "app_reachable empty_db"
| step: "app_reachable d \<Longrightarrow> app_step d d' \<Longrightarrow> app_reachable d'"

section \<open>Frames\<close>

lemma review_table_names:
  "review_table k \<noteq> ''friendships''" "review_table k \<noteq> ''collections''" "review_table k \<noteq> ''collection_items''"
  "review_table k \<noteq> ''watchlist''" "review_table k \<noteq> ''profiles''"
  by (cases k; simp add: review_table_def)+

lemma friend_ops_frame:
  "send_friend_request user v d = Inr d' \<Longrightarrow> frame d d' [''friendships'']"
  "accept_friend_request i d = Inr d' \<Longrightarrow> frame d d' [''friendships'']"
  "frame d (reject_friend_request i d) [''friendships'']"
  "frame d (remove_friend i d) [''friendships'']"
  by (auto simp: send_friend_request_def insert_request_def accept_friend_request_def reject_friend_request_def
      remove_friend_def split: option.splits intro: frame_insert_into frame_update_where)

lemma review_ops_frame:
  "add_or_update_review user p d = Inr d' \<Longrightarrow> frame d d' [review_table (itemType p)]"
  "delete_review user k i d = Inr d' \<Longrightarrow> frame d d' [review_table k]"
  by (auto simp: add_or_update_review_def delete_review_def Let_def split: option.splits
      intro: frame_insert_into frame_update_where)

lemma watch_ops_frame:
  "add_to_watchlist user q d = Inr d' \<Longrightarrow> frame d d' [''watchlist'']"
  "remove_from_watchlist user t i d = Inr d' \<Longrightarrow> frame d d' [''watchlist'']"
  by (auto simp: add_to_watchlist_def remove_from_watchlist_def split: option.splits intro: frame_insert_into)

lemma coll_ops_frame:
  "create_collection user n ds pb d = Inr d' \<Longrightarrow> frame d d' [''collections'', ''collection_items'']"
  "delete_collection user cid d = Inr d' \<Longrightarrow> frame d d' [''collections'', ''collection_items'']"
  "add_to_collection user cid t i ti po d = Inr d' \<Longrightarrow> frame d d' [''collections'', ''collection_items'']"
  "remove_from_collection user cid it d = Inr d' \<Longrightarrow> frame d d' [''collections'', ''collection_items'']"
  by (auto simp: create_collection_def delete_collection_def add_to_collection_def remove_from_collection_def
      split: option.splits intro: frame_mono [OF frame_insert_into] frame_mono [OF frame_insert_fk]
      frame_mono [OF frame_delete_where])

lemma profile_ops_frame:
  "update_profile user n b d = Inr d' \<Longrightarrow> frame d d' [''profiles'']"
  "handle_save_username user pg d = (toast, pg', d') \<Longrightarrow> frame d d' [''profiles'']"
  by (auto simp: update_profile_def handle_save_username_def split: option.splits sum.splits if_splits
      intro: frame_update_single frame_insert_pk frame_upsert_by_id)


lemma frame_other: "frame d d' ts \<Longrightarrow> t \<notin> set ts \<Longrightarrow> tables d' t = tables d t"
  by (simp add: frame_def)

lemma frame_next_id: "frame d d' ts \<Longrightarrow> next_id d \<le> next_id d'"
  by (simp add: frame_def)

section \<open>Each operation is a step of every component\<close>

lemma friend_step_frame: "frame d d' ts \<Longrightarrow> ''friendships'' \<notin> set ts \<Longrightarrow> friend_step d d'"
  by (rule friend_step.other) (simp add: frame_def)

lemmas ops_frame = review_ops_frame watch_ops_frame coll_ops_frame profile_ops_frame

lemma app_step_friend: "app_step d d' \<Longrightarrow> friend_step d d'"
proof (induction rule: app_step.induct)
  case (send user v d d') then show ?case by (rule friend_step.send)
next
  case (accept i d d') then show ?case by (rule friend_step.accept)
next
  case (reject d i) then show ?case by (rule friend_step.reject)
next
  case (unfriend d i) then show ?case by (rule friend_step.remove)
qed (auto intro: friend_step_frame dest: ops_frame simp: review_table_names review_table_names [THEN not_sym])


lemma review_step_frame: "frame d d' ts \<Longrightarrow> (\<And>k. review_table k \<notin> set ts) \<Longrightarrow> review_step d d'"
  by (rule review_step.other) (simp_all add: frame_def)

lemma app_step_review: "app_step d d' \<Longrightarrow> review_step d d'"
proof (induction rule: app_step.induct)
  case (review user p d d') then show ?case by (rule review_step.save)
next
  case (review_delete user k i d d') then show ?case by (rule review_step.delete)
next
  case (reject d i) then show ?case
    using friend_ops_frame(3) by (rule review_step_frame) (simp add: review_table_names)
next
  case (unfriend d i) then show ?case
    using friend_ops_frame(4) by (rule review_step_frame) (simp add: review_table_names)
qed (auto intro: review_step_frame dest: ops_frame friend_ops_frame(1,2)
       simp: review_table_names review_table_names [THEN not_sym])

section \<open>Schema conformance of every operation\<close>

lemma app_step_conforms: "app_step d d' \<Longrightarrow> conforms d \<Longrightarrow> conforms d'"
proof (induction rule: app_step.induct)
  case (send user v d d') then show ?case
    by (auto simp: send_friend_request_def insert_request_def split: option.splits intro: conforms_insert_into)
next
  case (accept i d d') then show ?case
    by (auto simp: accept_friend_request_def intro: conforms_update_where)
next
  case (reject d i) then show ?case by (simp add: reject_friend_request_def conforms_delete_where)
next
  case (unfriend d i) then show ?case by (simp add: remove_friend_def conforms_delete_where)
next
  case (review user p d d') then show ?case
    by (auto simp: add_or_update_review_def Let_def split: option.splits
        intro: conforms_insert_into conforms_update_where)
next
  case (review_delete user k i d d') then show ?case
    by (auto simp: delete_review_def split: option.splits)
next
  case (watch_add user q d d') then show ?case
    by (auto simp: add_to_watchlist_def split: option.splits intro: conforms_insert_into)
next
  case (watch_remove user t i d d') then show ?case
    by (auto simp: remove_from_watchlist_def split: option.splits)
next
  case (coll_create user n ds pb d d') then show ?case
    by (auto simp: create_collection_def split: option.splits intro: conforms_insert_into)
next
  case (coll_delete user cid d d') then show ?case
    by (auto simp: delete_collection_def split: option.splits)
next
  case (coll_add user cid t i ti po d d') then show ?case
    by (auto simp: add_to_collection_def split: option.splits intro: conforms_insert_fk)
next
  case (coll_remove user cid it d d') then show ?case
    by (auto simp: remove_from_collection_def split: option.splits)
next
  case (profile user n b d d') then show ?case
    by (auto simp: update_profile_def split: option.splits sum.splits
        intro: conforms_update_single conforms_insert_pk)
next
  case (username user pg d toast pg' d') then show ?case
    by (auto simp: handle_save_username_def split: option.splits sum.splits if_splits
        intro: conforms_upsert_by_id)
qed


section \<open>The components' invariants in the app's stores\<close>

text \<open>
  Whatever the order in which the pages call the hooks, the friendship and review
  invariants hold in every store the app reaches.
\<close>

lemma app_reachable_inv:
  "app_reachable d \<Longrightarrow> friendships_inv d \<and> reviews_inv k d"
proof (induction rule: app_reachable.induct)
  case init
  then show ?case by (simp add: friendships_inv_def reviews_inv_def ids_fresh_def empty_db_def)
next
  case (step d d')
  then show ?case by (blast intro: friend_step_inv [OF app_step_friend] review_step_inv [OF app_step_review])
qed

end
