(* ===== verification/Stats.thy ===== *)
theory Stats
  imports Store
begin

text \<open>
  The statistics hook of \<open>src/src/hooks/useUserStats.ts\<close>: a read of the user's row of
  \<open>user_stats\<close> by \<open>.single()\<close>, where the error \<open>PGRST116\<close> (no row, or more than one)
  is answered as \<open>null\<close>, and \<open>updateStats\<close>, an upsert of the user's statistics. No page
  imports this module (the profile page uses the hook of the same name in
  \<open>useProfile.ts\<close>, modelled in \<open>Profile\<close>). The theory proves that the upsert, whose
  payload carries no \<open>id\<close>, inserts a new row on every call, so that after the second
  update the read finds two rows and shows no statistics at all.
\<close>

section \<open>The hook\<close>

text \<open>The query: nothing without a user; \<open>PGRST116\<close> reads as \<open>null\<close>, other errors throw.\<close>

definition stats_query :: "user_id option \<Rightarrow> db \<Rightarrow> error + row option" where
  "stats_query user d =
     (case user of
        None \<Rightarrow> Inr None
      | Some u \<Rightarrow>
          (case single (select_rows d ''user_stats'' (eq_col ''user_id'' (VStr u))) of
             Inr r \<Rightarrow> Inr (Some r)
           | Inl e \<Rightarrow> if e = pgrst116 then Inr None else Inl e))"

text \<open>
  The object \<open>{ user_id: user.id, ...updates, updated_at: now }\<close>: a later key of an
  object literal wins, and \<open>map_of\<close> reads the first pair of a payload, so the payload
  lists the parts in reverse. The updates' type leaves out \<open>id\<close> and \<open>user_id\<close>.
\<close>

definition stats_payload :: "user_id \<Rightarrow> payload \<Rightarrow> db \<Rightarrow> payload" where
  "stats_payload u updates d = (''updated_at'', VInt (int (next_id d))) # updates @ [(''user_id'', VStr u)]"

definition update_stats :: "user_id option \<Rightarrow> payload \<Rightarrow> db \<Rightarrow> error + db" where
  "update_stats user updates d =
     (case user of
        None \<Rightarrow> Inl (JsError ''User not authenticated'')
      | Some u \<Rightarrow> upsert_by_id d ''user_stats'' (stats_payload u updates d))"

text \<open>The columns an update may carry (\<open>Partial<Omit<UserStats, 'id' | 'user_id'>>\<close>).\<close>

definition stats_update_columns :: "column list" where
  "stats_update_columns = [''total_movies_watched'', ''total_games_played'', ''total_hours_gaming'',
     ''favorite_genre'', ''updated_at'']"

definition valid_updates :: "payload \<Rightarrow> bool" where
  "valid_updates ups \<longleftrightarrow> list_all (\<lambda>(c, _). c \<in> set stats_update_columns) ups"

definition demo_stats :: payload where
  "demo_stats = [(''total_movies_watched'', VInt 3)]"

section \<open>Properties of the statistics hook\<close>

lemma stats_table_columns: "table_columns ''user_stats'' = user_stats_columns"
  by (simp add: table_columns_def)

lemma stats_update_columns_sub: "set stats_update_columns \<subseteq> set user_stats_columns"
  by (simp add: stats_update_columns_def user_stats_columns_def)

lemma stats_payload_known:
  assumes "valid_updates ups"
  shows "columns_known ''user_stats'' (stats_payload u ups d)"
proof -
  have "\<forall>(c, v) \<in> set ups. c \<in> set user_stats_columns"
    using assms stats_update_columns_sub by (auto simp: valid_updates_def list_all_iff)
  then show ?thesis
    by (simp add: columns_known_def stats_payload_def stats_table_columns list_all_iff)
       (simp add: user_stats_columns_def)
qed

lemma stats_payload_user:
  "valid_updates ups \<Longrightarrow> map_of (stats_payload u ups d) ''user_id'' = Some (VStr u)"
  by (induction ups) (auto simp: valid_updates_def stats_update_columns_def stats_payload_def)

text \<open>Every successful update appends one row of the user and changes nothing else.\<close>

lemma update_stats_appends:
  assumes "valid_updates ups"
  shows "update_stats (Some u) ups d =
           Inr (d\<lparr>tables := (tables d)(''user_stats'' := tables d ''user_stats'' @
                   [new_row d ''user_stats'' (stats_payload u ups d)]), next_id := Suc (next_id d)\<rparr>)"
proof -
  have "map_of (stats_payload u ups d) ''id'' = None"
    using assms by (induction ups) (auto simp: valid_updates_def stats_update_columns_def stats_payload_def)
  then show ?thesis
    using stats_payload_known [OF assms]
    by (simp add: update_stats_def upsert_by_id_def insert_into_def)
qed

lemma new_stats_row_user:
  "valid_updates ups \<Longrightarrow> get (new_row d ''user_stats'' (stats_payload u ups d)) ''user_id'' = VStr u"
  by (simp add: new_row_def get_def stats_payload_user)

lemma stats_rows_after_update:
  assumes "valid_updates ups" "update_stats (Some u) ups d = Inr d'"
  shows "select_rows d' ''user_stats'' (eq_col ''user_id'' (VStr u)) =
           select_rows d ''user_stats'' (eq_col ''user_id'' (VStr u)) @ [new_row d ''user_stats'' (stats_payload u ups d)]"
  using assms update_stats_appends [OF assms(1)]
  by (auto simp: select_rows_def eq_col_def new_stats_row_user)

text \<open>
  The upsert of \<open>updateStats\<close> names no \<open>id\<close>, so it inserts on every call: a user
  without statistics who updates them once reads the new row back, but after a second
  update the user has two rows, \<open>.single()\<close> fails with \<open>PGRST116\<close>, and the hook shows
  no statistics at all.
\<close>

theorem update_stats_twice_hides_stats:
  assumes "select_rows d ''user_stats'' (eq_col ''user_id'' (VStr u)) = []"
    and "valid_updates ups" and "valid_updates ups'"
  shows "\<exists>d1 d2. update_stats (Some u) ups d = Inr d1 \<and>
           stats_query (Some u) d1 = Inr (Some (new_row d ''user_stats'' (stats_payload u ups d))) \<and>
           update_stats (Some u) ups' d1 = Inr d2 \<and> stats_query (Some u) d2 = Inr None"
proof -
  obtain d1 where d1: "update_stats (Some u) ups d = Inr d1"
    using update_stats_appends [OF assms(2)] by blast
  obtain d2 where d2: "update_stats (Some u) ups' d1 = Inr d2"
    using update_stats_appends [OF assms(3)] by blast
  have r1: "select_rows d1 ''user_stats'' (eq_col ''user_id'' (VStr u)) = [new_row d ''user_stats'' (stats_payload u ups d)]"
    using stats_rows_after_update [OF assms(2) d1] assms(1) by simp
  have "length (select_rows d2 ''user_stats'' (eq_col ''user_id'' (VStr u))) = 2"
    using stats_rows_after_update [OF assms(3) d2] r1 by simp
  then have "stats_query (Some u) d2 = Inr None"
    by (auto simp: stats_query_def single_def split: list.splits)
  with d1 d2 r1 show ?thesis
    by (simp add: stats_query_def)
qed

theorem update_stats_twice_hides_stats_witness:
  "\<exists>d1 d2. update_stats (Some ''u'') demo_stats empty_db = Inr d1 \<and>
     stats_query (Some ''u'') d1 = Inr (Some (new_row empty_db ''user_stats'' (stats_payload ''u'' demo_stats empty_db))) \<and>
     update_stats (Some ''u'') demo_stats d1 = Inr d2 \<and> stats_query (Some ''u'') d2 = Inr None"
  by (rule update_stats_twice_hides_stats)
     (simp_all add: select_rows_def empty_db_def valid_updates_def demo_stats_def stats_update_columns_def)

end
