(* ===== verification/Catalog.thy ===== *)
theory Catalog
  imports Discover Store
begin

text \<open>
  The movie and series catalogue client \<open>src/src/services/tmdb.ts\<close> and the query hooks
  of \<open>src/src/hooks/useMedia.ts\<close> that call it. The client builds request paths: fixed
  ones, ones with a page or an id, a search path with the query put through
  \<open>encodeURIComponent\<close>, and the discover paths whose parameters \<open>URLSearchParams\<close>
  serialises. The HTTP exchange is a parameter (\<open>server\<close>): the answers come from a
  third party. Strings are the UTF-8 bytes of the text, so percent-encoding works byte
  by byte as the browser's does. The hooks are a datatype of calls with the query key,
  the path, the \<open>enabled\<close> flag and the freshness window each one sets.

  The theory proves that the search query is carried in exactly one parameter and
  decodes back to the typed text, that a query key determines the request, and that the
  Discover page's year filters never reach the series catalogue, whose client reads
  differently named parameters than the page sends.
\<close>

section \<open>Percent-encoding\<close>

definition hex_chars :: string where
  "hex_chars = ''0123456789ABCDEF''"

definition alnum_chars :: string where
  "alnum_chars = ''ABCDEFGHIJKLMNOPQRSTUVWXYZabcdefghijklmnopqrstuvwxyz0123456789''"

text \<open>A byte as \<open>%XY\<close>, upper-case hexadecimal.\<close>

definition pct :: "char \<Rightarrow> string" where
  "pct c = [CHR ''%'', hex_chars ! (of_char c div 16), hex_chars ! (of_char c mod 16)]"

text \<open>\<open>encodeURIComponent\<close> keeps letters, digits and \<open>- _ . ! ~ * ' ( )\<close>.\<close>

definition uri_unreserved :: "char \<Rightarrow> bool" where
  "uri_unreserved c \<longleftrightarrow> c \<in> set (alnum_chars @ ''-_.!~*()'' @ [CHR 0x27])"

definition encode_uri_component :: "string \<Rightarrow> string" where
  "encode_uri_component s = concat (map (\<lambda>c. if uri_unreserved c then [c] else pct c) s)"

text \<open>
  The \<open>application/x-www-form-urlencoded\<close> serialiser of \<open>URLSearchParams\<close>: letters,
  digits and \<open>* - . _\<close> stay, a space becomes \<open>+\<close>, every other byte is percent-encoded;
  pairs are joined by \<open>&\<close> in insertion order.
\<close>

definition form_safe :: "char \<Rightarrow> bool" where
  "form_safe c \<longleftrightarrow> c \<in> set (alnum_chars @ ''*-._'')"

definition form_encode :: "string \<Rightarrow> string" where
  "form_encode s = concat (map (\<lambda>c. if form_safe c then [c] else if c = CHR '' '' then ''+'' else pct c) s)"

fun search_params :: "(string \<times> string) list \<Rightarrow> string" where
  "search_params [] = []"
| "search_params [(k, v)] = form_encode k @ ''='' @ form_encode v"
| "search_params ((k, v) # kv # rest) = form_encode k @ ''='' @ form_encode v @ ''&'' @ search_params (kv # rest)"

text \<open>
  The server's side, \<open>decodeURIComponent\<close>: a \<open>%\<close> must be followed by two hexadecimal
  digits of either case; anything else is a malformed URI.
\<close>

definition hex_val :: "char \<Rightarrow> nat option" where
  "hex_val c = map_of (zip hex_chars [0..<16] @ zip ''abcdef'' [10..<16]) c"

fun percent_decode :: "string \<Rightarrow> string option" where
  "percent_decode [] = Some []"
| "percent_decode (c # cs) =
     (if c = CHR ''%'' then
        (case cs of
           h # l # rest \<Rightarrow>
             (case (hex_val h, hex_val l) of
                (Some a, Some b) \<Rightarrow> map_option (Cons (char_of (16 * a + b))) (percent_decode rest)
              | _ \<Rightarrow> None)
         | _ \<Rightarrow> None)
      else map_option (Cons c) (percent_decode cs))"

section \<open>The TMDB client\<close>

definition tmdb_base_url :: string where
  "tmdb_base_url = ''https://api.themoviedb.org/3''"

definition tmdb_image_base :: string where
  "tmdb_image_base = ''https://image.tmdb.org/t/p''"

text \<open>\<open>getTMDBImageUrl\<close>: a missing or empty path gives the placeholder image.\<close>

definition get_tmdb_image_url :: "string option \<Rightarrow> string \<Rightarrow> string" where
  "get_tmdb_image_url path img_size =
     (case path of
        Some p \<Rightarrow> if p = [] then ''https://via.placeholder.com/500x750?text=No+Image'' else tmdb_image_base @ ''/'' @ img_size @ p
      | None \<Rightarrow> ''https://via.placeholder.com/500x750?text=No+Image'')"

text \<open>
  \<open>tmdbFetch\<close>: a failed exchange (\<open>None\<close>) is rethrown; an answer outside 200--299 throws
  \<open>TMDB API Error: status\<close>; otherwise the body is the result.
\<close>

definition tmdb_fetch :: "(string \<Rightarrow> (nat \<times> 'a) option) \<Rightarrow> string \<Rightarrow> error + 'a" where
  "tmdb_fetch server endpoint =
     (case server (tmdb_base_url @ endpoint) of
        None \<Rightarrow> Inl (JsError ''Failed to fetch'')
      | Some (status, body) \<Rightarrow>
          if 200 \<le> status \<and> status \<le> 299 then Inr body else Inl (JsError (''TMDB API Error: '' @ nat_str status)))"

definition trending_endpoint :: "string \<Rightarrow> string" where
  "trending_endpoint w = ''/trending/all/'' @ w @ ''?language=pl-PL''"

definition popular_movies_endpoint :: "nat \<Rightarrow> string" where
  "popular_movies_endpoint pg = ''/movie/popular?language=pl-PL&page='' @ nat_str pg"

definition popular_tv_endpoint :: "nat \<Rightarrow> string" where
  "popular_tv_endpoint pg = ''/tv/popular?language=pl-PL&page='' @ nat_str pg"

definition search_movies_endpoint :: "string \<Rightarrow> nat \<Rightarrow> string" where
  "search_movies_endpoint q pg = ''/search/movie?language=pl-PL&query='' @ encode_uri_component q @ ''&page='' @ nat_str pg"

definition search_tv_endpoint :: "string \<Rightarrow> nat \<Rightarrow> string" where
  "search_tv_endpoint q pg = ''/search/tv?language=pl-PL&query='' @ encode_uri_component q @ ''&page='' @ nat_str pg"

definition movie_details_endpoint :: "nat \<Rightarrow> string" where
  "movie_details_endpoint i = ''/movie/'' @ nat_str i @ ''?language=pl-PL''"

definition tv_details_endpoint :: "nat \<Rightarrow> string" where
  "tv_details_endpoint i = ''/tv/'' @ nat_str i @ ''?language=pl-PL''"

definition top_rated_endpoint :: "nat \<Rightarrow> string" where
  "top_rated_endpoint pg = ''/movie/top_rated?language=pl-PL&page='' @ nat_str pg"

definition upcoming_endpoint :: "nat \<Rightarrow> string" where
  "upcoming_endpoint pg = ''/movie/upcoming?language=pl-PL&page='' @ nat_str pg"

definition movie_credits_endpoint :: "nat \<Rightarrow> string" where
  "movie_credits_endpoint i = ''/movie/'' @ nat_str i @ ''/credits?language=pl-PL''"

definition movie_genres_endpoint :: string where
  "movie_genres_endpoint = ''/genre/movie/list?language=pl-PL''"

definition tv_genres_endpoint :: string where
  "tv_genres_endpoint = ''/genre/tv/list?language=pl-PL''"

text \<open>
  The discover requests read the page's parameter object: \<open>params.page || 1\<close> (the page
  is a number, printed here, so its falsy value is 0), \<open>params.sort_by || default\<close>,
  and each optional parameter only when it is truthy, in the order of the code.
\<close>

definition page_param :: "(string \<times> string) list \<Rightarrow> string" where
  "page_param ps = (case map_of ps ''page'' of Some v \<Rightarrow> if v = [] \<or> v = ''0'' then ''1'' else v | None \<Rightarrow> ''1'')"

definition sort_param :: "(string \<times> string) list \<Rightarrow> string" where
  "sort_param ps = (case map_of ps ''sort_by'' of Some v \<Rightarrow> if v = [] then ''popularity.desc'' else v | None \<Rightarrow> ''popularity.desc'')"

definition opt_param :: "(string \<times> string) list \<Rightarrow> string \<Rightarrow> (string \<times> string) list" where
  "opt_param ps k = (case map_of ps k of Some v \<Rightarrow> if v = [] then [] else [(k, v)] | None \<Rightarrow> [])"

definition discover_movies_query :: "(string \<times> string) list \<Rightarrow> (string \<times> string) list" where
  "discover_movies_query ps =
     [(''language'', ''pl-PL''), (''page'', page_param ps), (''sort_by'', sort_param ps)] @
     opt_param ps ''with_genres'' @ opt_param ps ''primary_release_date.gte'' @
     opt_param ps ''primary_release_date.lte'' @ opt_param ps ''vote_average.gte'' @ opt_param ps ''vote_count.gte''"

definition discover_tv_query :: "(string \<times> string) list \<Rightarrow> (string \<times> string) list" where
  "discover_tv_query ps =
     [(''language'', ''pl-PL''), (''page'', page_param ps), (''sort_by'', sort_param ps)] @
     opt_param ps ''with_genres'' @ opt_param ps ''first_air_date.gte'' @
     opt_param ps ''first_air_date.lte'' @ opt_param ps ''vote_average.gte'' @ opt_param ps ''vote_count.gte''"

definition discover_movies_endpoint :: "(string \<times> string) list \<Rightarrow> string" where
  "discover_movies_endpoint ps = ''/discover/movie?'' @ search_params (discover_movies_query ps)"

definition discover_tv_endpoint :: "(string \<times> string) list \<Rightarrow> string" where
  "discover_tv_endpoint ps = ''/discover/tv?'' @ search_params (discover_tv_query ps)"

section \<open>The query hooks of useMedia.ts\<close>

text \<open>
  The hooks as calls. A query key is an array of strings, numbers and the parameter
  object; react-query serves a cached answer to a call with an equal key. The TMDB hooks
  fetch a path of the client above; the game hooks call functions of
  \<open>services/rawg\<close>, a module absent from the repository, so their request is the
  function's name and arguments.
\<close>

datatype media_hook =
    TrendingMovies string
  | PopularMovies nat
  | PopularTV nat
  | SearchMovies string nat
  | SearchTV string nat
  | MovieDetails nat
  | TopRatedMovies nat
  | TrendingGames nat
  | PopularGames nat
  | SearchGames string nat
  | GameDetails nat
  | TopRatedGames nat
  | GamesByPlatform nat nat
  | GamesByGenre nat nat
  | MovieCredits nat
  | MovieGenres
  | TVGenres
  | DiscoverMovies "(string \<times> string) list"
  | DiscoverTV "(string \<times> string) list"
  | GameGenres
  | DiscoverGames "(string \<times> string) list"

datatype key_part = KStr string | KNum nat | KParams "(string \<times> string) list"

datatype catalog_request = TmdbGet string | RawgCall string "key_part list"

fun media_key :: "media_hook \<Rightarrow> key_part list" where
  "media_key (TrendingMovies w) = [KStr ''trending-movies'', KStr w]"
| "media_key (PopularMovies pg) = [KStr ''popular-movies'', KNum pg]"
| "media_key (PopularTV pg) = [KStr ''popular-tv'', KNum pg]"
| "media_key (SearchMovies q pg) = [KStr ''search-movies'', KStr q, KNum pg]"
| "media_key (SearchTV q pg) = [KStr ''search-tv'', KStr q, KNum pg]"
| "media_key (MovieDetails i) = [KStr ''movie-details'', KNum i]"
| "media_key (TopRatedMovies pg) = [KStr ''top-rated-movies'', KNum pg]"
| "media_key (TrendingGames pg) = [KStr ''trending-games'', KNum pg]"
| "media_key (PopularGames pg) = [KStr ''popular-games'', KNum pg]"
| "media_key (SearchGames q pg) = [KStr ''search-games'', KStr q, KNum pg]"
| "media_key (GameDetails i) = [KStr ''game-details'', KNum i]"
| "media_key (TopRatedGames pg) = [KStr ''top-rated-games'', KNum pg]"
| "media_key (GamesByPlatform p pg) = [KStr ''games-by-platform'', KNum p, KNum pg]"
| "media_key (GamesByGenre g pg) = [KStr ''games-by-genre'', KNum g, KNum pg]"
| "media_key (MovieCredits i) = [KStr ''movie-credits'', KNum i]"
| "media_key MovieGenres = [KStr ''movie-genres'']"
| "media_key TVGenres = [KStr ''tv-genres'']"
| "media_key (DiscoverMovies ps) = [KStr ''discover-movies'', KParams ps]"
| "media_key (DiscoverTV ps) = [KStr ''discover-tv'', KParams ps]"
| "media_key GameGenres = [KStr ''game-genres'']"
| "media_key (DiscoverGames ps) = [KStr ''discover-games'', KParams ps]"

fun media_request :: "media_hook \<Rightarrow> catalog_request" where
  "media_request (TrendingMovies w) = TmdbGet (trending_endpoint w)"
| "media_request (PopularMovies pg) = TmdbGet (popular_movies_endpoint pg)"
| "media_request (PopularTV pg) = TmdbGet (popular_tv_endpoint pg)"
| "media_request (SearchMovies q pg) = TmdbGet (search_movies_endpoint q pg)"
| "media_request (SearchTV q pg) = TmdbGet (search_tv_endpoint q pg)"
| "media_request (MovieDetails i) = TmdbGet (movie_details_endpoint i)"
| "media_request (TopRatedMovies pg) = TmdbGet (top_rated_endpoint pg)"
| "media_request (TrendingGames pg) = RawgCall ''getTrendingGames'' [KNum pg]"
| "media_request (PopularGames pg) = RawgCall ''getPopularGames'' [KNum pg]"
| "media_request (SearchGames q pg) = RawgCall ''searchGames'' [KStr q, KNum pg]"
| "media_request (GameDetails i) = RawgCall ''getGameDetails'' [KNum i]"
| "media_request (TopRatedGames pg) = RawgCall ''getTopRatedGames'' [KNum pg]"
| "media_request (GamesByPlatform p pg) = RawgCall ''getGamesByPlatform'' [KNum p, KNum pg]"
| "media_request (GamesByGenre g pg) = RawgCall ''getGamesByGenre'' [KNum g, KNum pg]"
| "media_request (MovieCredits i) = TmdbGet (movie_credits_endpoint i)"
| "media_request MovieGenres = TmdbGet movie_genres_endpoint"
| "media_request TVGenres = TmdbGet tv_genres_endpoint"
| "media_request (DiscoverMovies ps) = TmdbGet (discover_movies_endpoint ps)"
| "media_request (DiscoverTV ps) = TmdbGet (discover_tv_endpoint ps)"
| "media_request GameGenres = RawgCall ''getGameGenres'' []"
| "media_request (DiscoverGames ps) = RawgCall ''discoverGames'' [KParams ps]"

text \<open>
  \<open>enabled\<close>: searches need a query, details a positive id; the trending games need a
  RAWG key other than the template's placeholder (\<open>RAWG_API_KEY && RAWG_API_KEY !==
  'your-rawg-key-here'\<close>, read from the build environment, here \<open>rawg_key\<close>).
\<close>

fun hook_enabled :: "string option \<Rightarrow> media_hook \<Rightarrow> bool" where
  "hook_enabled rawg_key (TrendingGames pg) \<longleftrightarrow>
     (case rawg_key of Some k \<Rightarrow> k \<noteq> [] \<and> k \<noteq> ''your-rawg-key-here'' | None \<Rightarrow> False)"
| "hook_enabled rawg_key (SearchMovies q pg) \<longleftrightarrow> q \<noteq> []"
| "hook_enabled rawg_key (SearchTV q pg) \<longleftrightarrow> q \<noteq> []"
| "hook_enabled rawg_key (SearchGames q pg) \<longleftrightarrow> q \<noteq> []"
| "hook_enabled rawg_key (MovieDetails i) \<longleftrightarrow> 0 < i"
| "hook_enabled rawg_key (GameDetails i) \<longleftrightarrow> 0 < i"
| "hook_enabled rawg_key (MovieCredits i) \<longleftrightarrow> 0 < i"
| "hook_enabled rawg_key _ \<longleftrightarrow> True"

text \<open>The freshness window of each hook, in milliseconds.\<close>

fun stale_time :: "media_hook \<Rightarrow> nat" where
  "stale_time (SearchMovies q pg) = 1000 * 60 * 10"
| "stale_time (SearchTV q pg) = 1000 * 60 * 10"
| "stale_time (SearchGames q pg) = 1000 * 60 * 10"
| "stale_time (DiscoverMovies ps) = 1000 * 60 * 10"
| "stale_time (DiscoverTV ps) = 1000 * 60 * 10"
| "stale_time (DiscoverGames ps) = 1000 * 60 * 10"
| "stale_time (MovieDetails i) = 1000 * 60 * 60"
| "stale_time (GameDetails i) = 1000 * 60 * 60"
| "stale_time (TopRatedMovies pg) = 1000 * 60 * 60"
| "stale_time (TopRatedGames pg) = 1000 * 60 * 60"
| "stale_time (MovieCredits i) = 1000 * 60 * 60"
| "stale_time MovieGenres = 1000 * 60 * 60 * 24"
| "stale_time TVGenres = 1000 * 60 * 60 * 24"
| "stale_time GameGenres = 1000 * 60 * 60 * 24"
| "stale_time _ = 1000 * 60 * 30"

text \<open>A TMDB hook's query function: nothing is fetched while the hook is disabled.\<close>

definition run_tmdb_hook ::
  "(string \<Rightarrow> (nat \<times> 'a) option) \<Rightarrow> string option \<Rightarrow> media_hook \<Rightarrow> (error + 'a) option" where
  "run_tmdb_hook server rawg_key h =
     (if hook_enabled rawg_key h
      then (case media_request h of TmdbGet e \<Rightarrow> Some (tmdb_fetch server e) | RawgCall _ _ \<Rightarrow> None)
      else None)"

text \<open>Reading a call back from its query key.\<close>

fun hook_of_key :: "key_part list \<Rightarrow> media_hook option" where
  "hook_of_key [KStr n, KStr w] = (if n = ''trending-movies'' then Some (TrendingMovies w) else None)"
| "hook_of_key [KStr n, KStr q, KNum pg] =
     (if n = ''search-movies'' then Some (SearchMovies q pg)
      else if n = ''search-tv'' then Some (SearchTV q pg)
      else if n = ''search-games'' then Some (SearchGames q pg) else None)"
| "hook_of_key [KStr n, KNum x, KNum y] =
     (if n = ''games-by-platform'' then Some (GamesByPlatform x y)
      else if n = ''games-by-genre'' then Some (GamesByGenre x y) else None)"
| "hook_of_key [KStr n, KNum x] =
     (if n = ''popular-movies'' then Some (PopularMovies x)
      else if n = ''popular-tv'' then Some (PopularTV x)
      else if n = ''movie-details'' then Some (MovieDetails x)
      else if n = ''top-rated-movies'' then Some (TopRatedMovies x)
      else if n = ''trending-games'' then Some (TrendingGames x)
      else if n = ''popular-games'' then Some (PopularGames x)
      else if n = ''game-details'' then Some (GameDetails x)
      else if n = ''top-rated-games'' then Some (TopRatedGames x)
      else if n = ''movie-credits'' then Some (MovieCredits x) else None)"
| "hook_of_key [KStr n] =
     (if n = ''movie-genres'' then Some MovieGenres else if n = ''tv-genres'' then Some TVGenres
      else if n = ''game-genres'' then Some GameGenres else None)"
| "hook_of_key [KStr n, KParams ps] =
     (if n = ''discover-movies'' then Some (DiscoverMovies ps)
      else if n = ''discover-tv'' then Some (DiscoverTV ps)
      else if n = ''discover-games'' then Some (DiscoverGames ps) else None)"
| "hook_of_key _ = None"

section \<open>Properties of the catalogue client\<close>

lemma hex_chars_nth_val: "i < 16 \<Longrightarrow> hex_val (hex_chars ! i) = Some i"
proof -
  assume i: "i < 16"
  have "map_of (zip hex_chars [0..<16]) (hex_chars ! i) = Some ([0..<16] ! i)"
    by (rule map_of_zip_nth) (simp_all add: hex_chars_def i)
  then show ?thesis
    using i by (simp add: hex_val_def map_of_append)
qed

lemma of_char_div_16: "of_char c div 16 < (16::nat)"
  by (rule less_mult_imp_div_less) (use nat_of_char_less_256 [of c] in simp)

lemma hex_chars_no_delim: "x \<in> set hex_chars \<Longrightarrow> x \<notin> {CHR ''&'', CHR ''#'', CHR ''=''}"
  by (auto simp: hex_chars_def)

lemma pct_no_delim: "d \<in> {CHR ''&'', CHR ''#'', CHR ''=''} \<Longrightarrow> d \<notin> set (pct c)"
proof -
  assume d: "d \<in> {CHR ''&'', CHR ''#'', CHR ''=''}"
  have "hex_chars ! (of_char c div 16) \<in> set hex_chars" "hex_chars ! (of_char c mod 16) \<in> set hex_chars"
    by (rule nth_mem; use of_char_div_16 [of c] in \<open>simp add: hex_chars_def\<close>)+
  then have "hex_chars ! (of_char c div 16) \<noteq> d" "hex_chars ! (of_char c mod 16) \<noteq> d"
    using d hex_chars_no_delim by blast+
  then show ?thesis
    using d by (auto simp: pct_def)
qed

lemma percent_decode_pct: "percent_decode (pct c @ rest) = map_option (Cons c) (percent_decode rest)"
proof -
  let ?n = "of_char c :: nat"
  have "hex_val (hex_chars ! (?n div 16)) = Some (?n div 16)"
    by (rule hex_chars_nth_val) (rule of_char_div_16)
  moreover have "hex_val (hex_chars ! (?n mod 16)) = Some (?n mod 16)"
    by (rule hex_chars_nth_val) simp
  moreover have "char_of (16 * (?n div 16) + ?n mod 16) = c"
    by simp
  ultimately show ?thesis by (simp add: pct_def)
qed

lemma percent_not_unreserved: "uri_unreserved c \<Longrightarrow> c \<noteq> CHR ''%''"
  by (auto simp: uri_unreserved_def alnum_chars_def)

lemma encode_decode: "percent_decode (encode_uri_component s) = Some s"
proof (induction s)
  case Nil
  then show ?case by (simp add: encode_uri_component_def)
next
  case (Cons c s)
  then show ?case
    by (auto simp: encode_uri_component_def percent_decode_pct dest: percent_not_unreserved)
qed

lemma encode_no_delims:
  assumes "d \<in> {CHR ''&'', CHR ''#'', CHR ''=''}"
  shows "d \<notin> set (encode_uri_component s)"
proof -
  have "d \<notin> set (pct c)" for c
    using assms by (rule pct_no_delim)
  moreover have "\<not> uri_unreserved d"
    using assms by (auto simp: uri_unreserved_def alnum_chars_def)
  ultimately show ?thesis
    by (auto simp: encode_uri_component_def split: if_splits)
qed

lemma hook_of_media_key: "hook_of_key (media_key h) = Some h"
  by (cases h) simp_all

lemma map_of_api_params_years:
  "k \<noteq> ''primary_release_date.gte'' \<Longrightarrow> k \<noteq> ''primary_release_date.lte'' \<Longrightarrow>
   map_of (api_params (f\<lparr>year_from := a, year_to := b\<rparr>)) k = map_of (api_params f) k"
  by (simp add: api_params_def map_add_def split: option.splits)

lemma discover_tv_query_years:
  "discover_tv_query (api_params (f\<lparr>year_from := a, year_to := b\<rparr>)) = discover_tv_query (api_params f)"
  by (simp add: discover_tv_query_def page_param_def sort_param_def opt_param_def map_of_api_params_years)

lemma discover_movies_year_from:
  "a \<noteq> [] \<Longrightarrow> (''primary_release_date.gte'', a @ ''-01-01'') \<in> set (discover_movies_query (api_params (f\<lparr>year_from := a\<rparr>)))"
  by (simp add: discover_movies_query_def api_params_def opt_param_def map_add_def)

text \<open>
  C34. The search query typed by the user reaches the catalogue as exactly one
  parameter: both search paths carry the same percent-encoded text between
  \<open>query=\<close> and \<open>&page=\<close>, the encoded text contains no \<open>&\<close>, \<open>#\<close> or \<open>=\<close> that
  could end or add a parameter, and decoding it gives back the typed text.
\<close>

theorem search_query_roundtrip:
  "\<exists>e. search_movies_endpoint q pg = ''/search/movie?language=pl-PL&query='' @ e @ ''&page='' @ nat_str pg \<and>
       search_tv_endpoint q pg = ''/search/tv?language=pl-PL&query='' @ e @ ''&page='' @ nat_str pg \<and>
       CHR ''&'' \<notin> set e \<and> CHR ''#'' \<notin> set e \<and> CHR ''='' \<notin> set e \<and> percent_decode e = Some q"
proof (intro exI conjI)
  show "percent_decode (encode_uri_component q) = Some q" by (rule encode_decode)
qed (simp_all add: search_movies_endpoint_def search_tv_endpoint_def encode_no_delims)

text \<open>
  A query key determines the request: two calls of the catalogue hooks with equal
  keys fetch the same path, are enabled alike and keep their answers equally long, so
  the cache never answers one request with another's result.
\<close>

theorem media_key_determines_request:
  assumes "media_key h1 = media_key h2"
  shows "media_request h1 = media_request h2 \<and> hook_enabled k h1 = hook_enabled k h2 \<and> stale_time h1 = stale_time h2"
proof -
  have "hook_of_key (media_key h1) = hook_of_key (media_key h2)"
    using assms by (rule arg_cong)
  then have "h1 = h2"
    by (simp only: hook_of_media_key option.inject)
  then show ?thesis by simp
qed

theorem media_key_determines_request_witness:
  "media_request (SearchMovies ''dune'' 2) = media_request (SearchMovies ''dune'' 2) \<and>
   hook_enabled None (SearchMovies ''dune'' 2) = hook_enabled None (SearchMovies ''dune'' 2) \<and>
   stale_time (SearchMovies ''dune'' 2) = stale_time (SearchMovies ''dune'' 2)"
  by (rule media_key_determines_request) (rule refl)

text \<open>
  C35. The Discover page sends its year filters as \<open>primary_release_date.gte/lte\<close>
  for both catalogues, but the series client reads only \<open>first_air_date.gte/lte\<close>:
  the series request does not change with the years chosen, while the movie request
  carries the lower bound.
\<close>

theorem series_year_filters_ignored:
  "media_request (DiscoverTV (api_params (f\<lparr>year_from := a, year_to := b\<rparr>))) = media_request (DiscoverTV (api_params f)) \<and>
   (a \<noteq> [] \<longrightarrow> (''primary_release_date.gte'', a @ ''-01-01'') \<in> set (discover_movies_query (api_params (f\<lparr>year_from := a\<rparr>))))"
  by (simp add: discover_tv_endpoint_def discover_tv_query_years discover_movies_year_from)

theorem series_year_filters_ignored_witness:
  "media_request (DiscoverTV (api_params (initial_filters\<lparr>year_from := ''2000'', year_to := ''2010''\<rparr>))) =
     media_request (DiscoverTV (api_params initial_filters)) \<and>
   (''primary_release_date.gte'', ''2000-01-01'') \<in> set (discover_movies_query (api_params (initial_filters\<lparr>year_from := ''2000''\<rparr>)))"
  using series_year_filters_ignored [where f = initial_filters and a = "''2000''" and b = "''2010''"] by simp

end
