(* ===== verification/DiscoverPage.thy ===== *)
theory DiscoverPage
  imports Catalog Collections
begin

text \<open>
  The actions of the catalogue page \<open>src/src/pages/Discover.tsx\<close> on a result: how a
  result card reads a catalogue item, the "add to collection" button of a card and of
  the detail dialogs, and the dialog that adds the chosen item to one of the user's
  collections through \<open>useAddToCollection\<close>. The theory proves that a card's button
  followed by the choice of an existing collection adds exactly that item to it, while
  the detail dialogs' button, which passes a plain object as the click event and shifts
  the other arguments, throws before opening the dialog.
\<close>

section \<open>Result cards\<close>

text \<open>
  The fields of a catalogue result the card reads (TMDB or RAWG). A movie has a
  \<open>title\<close>; series and games have a \<open>name\<close>, the field read when the title is absent.
\<close>

record catalog_item =
  cat_id :: nat
  cat_background :: "string option"
  cat_title :: "string option"
  cat_name :: string
  cat_vote :: rat
  cat_rating :: rat
  cat_poster :: "string option"

definition str_truthy :: "string option \<Rightarrow> bool" where
  "str_truthy s \<longleftrightarrow> (case s of Some x \<Rightarrow> x \<noteq> [] | None \<Rightarrow> False)"

text \<open>\<open>item.title || item.name\<close> and \<open>item.vote_average || item.rating || 0\<close>.\<close>

definition item_label :: "catalog_item \<Rightarrow> string" where
  "item_label it = (case cat_title it of Some t \<Rightarrow> if t \<noteq> [] then t else cat_name it | None \<Rightarrow> cat_name it)"

definition item_score :: "catalog_item \<Rightarrow> rat" where
  "item_score it = (if cat_vote it \<noteq> 0 then cat_vote it else cat_rating it)"

record card_view =
  card_is_game :: bool
  card_title :: string
  card_rating :: rat
  card_image :: "string option"
  card_type :: string

text \<open>
  \<open>isGame = !!item.background_image || mediaType === 'games'\<close>, the label, the score,
  the image of the catalogue, and the item type the watchlist and collections use.
\<close>

definition card_of :: "media_kind \<Rightarrow> catalog_item \<Rightarrow> card_view" where
  "card_of mk it =
     (let g = str_truthy (cat_background it) \<or> mk = Games
      in \<lparr>card_is_game = g,
          card_title = item_label it,
          card_rating = item_score it,
          card_image = (if g then cat_background it else Some (get_tmdb_image_url (cat_poster it) ''w500'')),
          card_type = (if g then ''game'' else if mk = media_kind.Series then ''series'' else ''movie'')\<rparr>)"

section \<open>Adding to a collection\<close>

text \<open>
  The collection dialog's state: open or closed, and the item chosen for it (type, id,
  title, poster).
\<close>

record discover_ui =
  coll_dialog_open :: bool
  selected_for_collection :: "(string \<times> nat \<times> string \<times> string option) option"

text \<open>The first argument of \<open>handleAddToCollection\<close>: a React mouse event or a plain object.\<close>

datatype click_event = MouseEvent | PlainObject

datatype discover_toast = CollAdded string string | CollAddFailed

text \<open>
  \<open>handleAddToCollection(e, itemType, itemId, title, poster)\<close>: \<open>e.stopPropagation()\<close>
  throws a \<open>TypeError\<close> on a plain object; otherwise the item is selected and the
  dialog opens.
\<close>

definition handle_add_to_collection ::
  "click_event \<Rightarrow> string \<Rightarrow> nat \<Rightarrow> string \<Rightarrow> string option \<Rightarrow> discover_ui \<Rightarrow> error + discover_ui" where
  "handle_add_to_collection e t i title poster ui =
     (case e of
        PlainObject \<Rightarrow> Inl (JsError ''TypeError: e.stopPropagation is not a function'')
      | MouseEvent \<Rightarrow> Inr (ui\<lparr>selected_for_collection := Some (t, i, title, poster), coll_dialog_open := True\<rparr>))"

text \<open>A card's button passes the card's item.\<close>

definition card_add_to_collection :: "media_kind \<Rightarrow> catalog_item \<Rightarrow> discover_ui \<Rightarrow> error + discover_ui" where
  "card_add_to_collection mk it ui =
     (let c = card_of mk it
      in handle_add_to_collection MouseEvent (card_type c) (cat_id it) (card_title c) (card_image c) ui)"

text \<open>
  The detail dialogs' button: \<open>handleAddToCollection({} as any, details.title)\<close>, the
  title in the place of the item type and the other arguments undefined; the call throws
  before it reads them, so any values stand for them here.
\<close>

definition detail_add_to_collection :: "string \<Rightarrow> discover_ui \<Rightarrow> error + discover_ui" where
  "detail_add_to_collection title ui = handle_add_to_collection PlainObject title 0 [] None ui"

text \<open>
  Choosing a collection in the dialog: nothing without a selected item; otherwise the
  item is added through \<open>useAddToCollection\<close>, and on success a toast names the item
  and the collection and the dialog closes.
\<close>

definition choose_collection ::
  "user_id option \<Rightarrow> cell \<Rightarrow> string \<Rightarrow> discover_ui \<Rightarrow> db \<Rightarrow> discover_toast option \<times> discover_ui \<times> db" where
  "choose_collection user cid cname ui d =
     (case selected_for_collection ui of
        None \<Rightarrow> (None, ui, d)
      | Some (t, i, title, poster) \<Rightarrow>
          (case add_to_collection user cid t (int i) title poster d of
             Inl _ \<Rightarrow> (Some CollAddFailed, ui, d)
           | Inr d' \<Rightarrow> (Some (CollAdded title cname),
                        ui\<lparr>coll_dialog_open := False, selected_for_collection := None\<rparr>, d')))"

definition closed_ui :: discover_ui where
  "closed_ui = \<lparr>coll_dialog_open = False, selected_for_collection = None\<rparr>"

definition demo_item :: catalog_item where
  "demo_item = \<lparr>cat_id = 438631, cat_background = None, cat_title = Some ''Dune'', cat_name = [],
     cat_vote = 8, cat_rating = 0, cat_poster = Some ''/dune.jpg''\<rparr>"

section \<open>Properties of the page\<close>

lemma add_to_collection_ok:
  assumes "cid \<in> set (parent_ids d ''collections'')"
  obtains d' r where "add_to_collection (Some u) cid t i ti po d = Inr d'"
    "tables d' ''collection_items'' = tables d ''collection_items'' @ [r]"
    "get r ''collection_id'' = cid" "get r ''item_type'' = VStr t" "get r ''item_id'' = VInt i"
    "get r ''item_poster'' = (case po of Some s \<Rightarrow> if s = [] then VNull else VStr s | None \<Rightarrow> VNull)"
proof -
  let ?p = "[(''collection_id'', cid), (''item_type'', VStr t), (''item_id'', VInt i), (''item_title'', VStr ti),
             (''item_poster'', (case po of Some s \<Rightarrow> if s = [] then VNull else VStr s | None \<Rightarrow> VNull))]"
  have known: "columns_known ''collection_items'' ?p"
    by (simp add: columns_known_def table_columns_def collection_items_columns_def)
  let ?r = "new_row d ''collection_items'' ?p"
  have "add_to_collection (Some u) cid t i ti po d =
      Inr (d\<lparr>tables := (tables d)(''collection_items'' := tables d ''collection_items'' @ [?r]), next_id := Suc (next_id d)\<rparr>)"
    using assms known by (simp add: add_to_collection_def insert_fk_def insert_into_def)
  moreover have "get ?r ''collection_id'' = cid" "get ?r ''item_type'' = VStr t" "get ?r ''item_id'' = VInt i"
    "get ?r ''item_poster'' = (case po of Some s \<Rightarrow> if s = [] then VNull else VStr s | None \<Rightarrow> VNull)"
    by (simp_all add: new_row_def get_def)
  ultimately show ?thesis using that by simp
qed

lemma items_of_append:
  "tables d' ''collection_items'' = tables d ''collection_items'' @ [r] \<Longrightarrow> get r ''collection_id'' = cid \<Longrightarrow>
   items_of d' cid = items_of d cid @ [r]"
  by (simp add: items_of_def eq_col_def)

lemma card_add_choose_effect:
  assumes "cid \<in> set (parent_ids d ''collections'')"
  obtains ui1 ui2 d' r where "card_add_to_collection mk it ui = Inr ui1"
    "choose_collection (Some u) cid cname ui1 d = (Some (CollAdded (card_title (card_of mk it)) cname), ui2, d')"
    "\<not> coll_dialog_open ui2" "items_of d' cid = items_of d cid @ [r]"
    "get r ''item_type'' = VStr (card_type (card_of mk it))" "get r ''item_id'' = VInt (int (cat_id it))"
    "parent_ids d' ''collections'' = parent_ids d ''collections''"
proof -
  let ?c = "card_of mk it"
  obtain d' r where run: "add_to_collection (Some u) cid (card_type ?c) (int (cat_id it)) (card_title ?c) (card_image ?c) d = Inr d'"
    and tab: "tables d' ''collection_items'' = tables d ''collection_items'' @ [r]"
    and r: "get r ''collection_id'' = cid" "get r ''item_type'' = VStr (card_type ?c)" "get r ''item_id'' = VInt (int (cat_id it))"
    "get r ''item_poster'' = (case card_image ?c of Some s \<Rightarrow> if s = [] then VNull else VStr s | None \<Rightarrow> VNull)"
    using add_to_collection_ok [OF assms] by blast
  have "parent_ids d' ''collections'' = parent_ids d ''collections''"
    using add_to_collection_Inr [OF run] by (simp add: parent_ids_def)
  then show ?thesis
    using that run items_of_append [OF tab r(1)] r
    by (simp add: card_add_to_collection_def handle_add_to_collection_def choose_collection_def Let_def)
qed

lemma demo_coll_parent: "VInt 0 \<in> set (parent_ids demo_coll_db ''collections'')"
  by (simp add: parent_ids_def demo_coll_db_def demo_coll_payload_def store_eval)

text \<open>
  C36. Adding a result to a collection from the page: the card's button selects the
  card's item and opens the dialog, and choosing one of the user's existing collections
  appends exactly that item (its type and id) to the collection, reports it and closes
  the dialog. The same button in the detail dialogs passes a plain object as the click
  event and throws a \<open>TypeError\<close>, so from there nothing can be added.
\<close>

theorem card_add_then_choose:
  assumes "cid \<in> set (parent_ids d ''collections'')"
  shows "\<exists>ui1 ui2 d'. card_add_to_collection mk it ui = Inr ui1 \<and>
           choose_collection (Some u) cid cname ui1 d = (Some (CollAdded (card_title (card_of mk it)) cname), ui2, d') \<and>
           \<not> coll_dialog_open ui2 \<and>
           map (\<lambda>r. (get r ''item_type'', get r ''item_id'')) (items_of d' cid) =
             map (\<lambda>r. (get r ''item_type'', get r ''item_id'')) (items_of d cid) @
             [(VStr (card_type (card_of mk it)), VInt (int (cat_id it)))] \<and>
           detail_add_to_collection title ui = Inl (JsError ''TypeError: e.stopPropagation is not a function'')"
proof -
  obtain ui1 ui2 d' r where "card_add_to_collection mk it ui = Inr ui1"
    "choose_collection (Some u) cid cname ui1 d = (Some (CollAdded (card_title (card_of mk it)) cname), ui2, d')"
    "\<not> coll_dialog_open ui2" "items_of d' cid = items_of d cid @ [r]"
    "get r ''item_type'' = VStr (card_type (card_of mk it))" "get r ''item_id'' = VInt (int (cat_id it))"
    "parent_ids d' ''collections'' = parent_ids d ''collections''"
    using card_add_choose_effect [OF assms] by blast
  then show ?thesis
    by (auto simp: detail_add_to_collection_def handle_add_to_collection_def)
qed

theorem card_add_then_choose_witness:
  "\<exists>ui1 ui2 d'. card_add_to_collection Movies demo_item closed_ui = Inr ui1 \<and>
     choose_collection (Some ''a'') (VInt 0) ''Favourites'' ui1 demo_coll_db =
       (Some (CollAdded (card_title (card_of Movies demo_item)) ''Favourites''), ui2, d') \<and>
     \<not> coll_dialog_open ui2 \<and>
     map (\<lambda>r. (get r ''item_type'', get r ''item_id'')) (items_of d' (VInt 0)) =
       map (\<lambda>r. (get r ''item_type'', get r ''item_id'')) (items_of demo_coll_db (VInt 0)) @
       [(VStr (card_type (card_of Movies demo_item)), VInt (int (cat_id demo_item)))] \<and>
     detail_add_to_collection ''Dune'' closed_ui = Inl (JsError ''TypeError: e.stopPropagation is not a function'')"
  by (rule card_add_then_choose [OF demo_coll_parent])

text \<open>
  Collection membership is not a set: choosing the same collection twice for the
  same card adds the item twice, since neither the page nor \<open>useAddToCollection\<close>
  checks for an existing row.
\<close>

theorem collection_membership_duplicates:
  assumes "cid \<in> set (parent_ids d ''collections'')"
  shows "\<exists>ui1 ui2 ui3 ui4 d1 d2 t1 t2. card_add_to_collection mk it ui = Inr ui1 \<and>
           choose_collection (Some u) cid cname ui1 d = (t1, ui2, d1) \<and>
           card_add_to_collection mk it ui2 = Inr ui3 \<and> choose_collection (Some u) cid cname ui3 d1 = (t2, ui4, d2) \<and>
           length (filter (\<lambda>r. get r ''item_type'' = VStr (card_type (card_of mk it)) \<and> get r ''item_id'' = VInt (int (cat_id it)))
             (items_of d2 cid)) =
           length (filter (\<lambda>r. get r ''item_type'' = VStr (card_type (card_of mk it)) \<and> get r ''item_id'' = VInt (int (cat_id it)))
             (items_of d cid)) + 2"
proof -
  obtain ui1 ui2 d1 r1 where a: "card_add_to_collection mk it ui = Inr ui1"
    "choose_collection (Some u) cid cname ui1 d = (Some (CollAdded (card_title (card_of mk it)) cname), ui2, d1)"
    "\<not> coll_dialog_open ui2"
    and i1: "items_of d1 cid = items_of d cid @ [r1]"
    and r1: "get r1 ''item_type'' = VStr (card_type (card_of mk it))" "get r1 ''item_id'' = VInt (int (cat_id it))"
    and p1: "parent_ids d1 ''collections'' = parent_ids d ''collections''"
    using card_add_choose_effect [OF assms] by blast
  have c1: "cid \<in> set (parent_ids d1 ''collections'')"
    using assms p1 by simp
  obtain ui3 ui4 d2 r2 where b: "card_add_to_collection mk it ui2 = Inr ui3"
    "choose_collection (Some u) cid cname ui3 d1 = (Some (CollAdded (card_title (card_of mk it)) cname), ui4, d2)"
    "\<not> coll_dialog_open ui4"
    and i2: "items_of d2 cid = items_of d1 cid @ [r2]"
    and r2: "get r2 ''item_type'' = VStr (card_type (card_of mk it))" "get r2 ''item_id'' = VInt (int (cat_id it))"
    "parent_ids d2 ''collections'' = parent_ids d1 ''collections''"
    using card_add_choose_effect [OF c1] by blast
  have "length (filter (\<lambda>r. get r ''item_type'' = VStr (card_type (card_of mk it)) \<and> get r ''item_id'' = VInt (int (cat_id it)))
             (items_of d2 cid)) =
        length (filter (\<lambda>r. get r ''item_type'' = VStr (card_type (card_of mk it)) \<and> get r ''item_id'' = VInt (int (cat_id it)))
             (items_of d cid)) + 2"
    using i1 i2 r1 r2 by simp
  with a b show ?thesis by blast
qed

theorem collection_membership_duplicates_witness:
  "\<exists>ui1 ui2 ui3 ui4 d1 d2 t1 t2. card_add_to_collection Movies demo_item closed_ui = Inr ui1 \<and>
     choose_collection (Some ''a'') (VInt 0) ''Favourites'' ui1 demo_coll_db = (t1, ui2, d1) \<and>
     card_add_to_collection Movies demo_item ui2 = Inr ui3 \<and> choose_collection (Some ''a'') (VInt 0) ''Favourites'' ui3 d1 = (t2, ui4, d2) \<and>
     length (filter (\<lambda>r. get r ''item_type'' = VStr (card_type (card_of Movies demo_item)) \<and> get r ''item_id'' = VInt (int (cat_id demo_item)))
       (items_of d2 (VInt 0))) =
     length (filter (\<lambda>r. get r ''item_type'' = VStr (card_type (card_of Movies demo_item)) \<and> get r ''item_id'' = VInt (int (cat_id demo_item)))
       (items_of demo_coll_db (VInt 0))) + 2"
  by (rule collection_membership_duplicates [OF demo_coll_parent])

end
