(* ===== verification/CollectionPage.thy ===== *)
theory CollectionPage
  imports DiscoverPage
begin

text \<open>
  The parts of the collections page \<open>src/src/pages/Collection.tsx\<close> that connect it to the
  catalogue: the search dialog that adds a result to the open collection, the grid that
  shows a collection's items with their posters, and the detail dialogs an item opens.
  The theory proves that an item added from the search dialog is shown with a poster
  address that repeats the image server's prefix, because the page stores the full
  image address and the grid puts it through \<open>getTMDBImageUrl\<close> again, and that an item
  of a series opens no detail dialog.
\<close>

section \<open>The search dialog\<close>

text \<open>
  \<open>searchResults\<close>: the results of the catalogue of the chosen kind
  (\<open>data?.results || []\<close>; the catalogue's answer is a parameter).
\<close>

definition search_results :: "string \<Rightarrow> 'a list option \<Rightarrow> 'a list option \<Rightarrow> 'a list option \<Rightarrow> 'a list" where
  "search_results st movies tv games =
     (case (if st = ''movie'' then movies else if st = ''series'' then tv else games) of
        Some rs \<Rightarrow> rs
      | None \<Rightarrow> [])"

text \<open>A result's image: the game's background, else the small TMDB poster address.\<close>

definition search_image :: "string \<Rightarrow> catalog_item \<Rightarrow> string option" where
  "search_image st it =
     (if st = ''game'' then cat_background it else Some (get_tmdb_image_url (cat_poster it) ''w200''))"

text \<open>A result's button: \<open>addToCollection\<close> of the open collection with the result.\<close>

definition search_add ::
  "user_id option \<Rightarrow> coll_page \<Rightarrow> string \<Rightarrow> catalog_item \<Rightarrow> db \<Rightarrow> coll_toast option \<times> db" where
  "search_add user pg st it d =
     handle_add_item user pg st (int (cat_id it)) (item_label it) (search_image st it) d"

section \<open>The grid of a collection\<close>

definition placeholder_poster :: string where
  "placeholder_poster = ''https://via.placeholder.com/500x750''"

text \<open>
  An item's image: a game's stored poster, else \<open>getTMDBImageUrl(item.item_poster || '')\<close>;
  an empty or missing image shows the placeholder.
\<close>

definition grid_image :: "row \<Rightarrow> string" where
  "grid_image r =
     (let img = (if get r ''item_type'' = VStr ''game''
                 then (case get r ''item_poster'' of VStr s \<Rightarrow> s | _ \<Rightarrow> [])
                 else get_tmdb_image_url (Some (case get r ''item_poster'' of VStr s \<Rightarrow> s | _ \<Rightarrow> [])) ''w500'')
      in if img = [] then placeholder_poster else img)"

text \<open>
  A click on an item selects its type and id; the movie dialog opens for type
  \<open>movie\<close>, the game dialog for type \<open>game\<close>.
\<close>

definition details_dialogs :: "row \<Rightarrow> bool \<times> bool" where
  "details_dialogs r = (get r ''item_type'' = VStr ''movie'', get r ''item_type'' = VStr ''game'')"

definition open_page :: coll_page where
  "open_page = \<lparr>selected = Some (VInt 0), create_open = False, new_name = [], new_description = []\<rparr>"

definition demo_series :: catalog_item where
  "demo_series = \<lparr>cat_id = 1396, cat_background = None, cat_title = None, cat_name = ''Breaking Bad'',
     cat_vote = 9, cat_rating = 0, cat_poster = Some ''/bb.jpg''\<rparr>"

section \<open>Properties of the page\<close>

lemma search_add_effect:
  assumes "selected pg = Some cid" "cid \<in> set (parent_ids d ''collections'')"
  obtains d' r where "search_add (Some u) pg st it d = (Some ItemAdded, d')"
    "items_of d' cid = items_of d cid @ [r]" "get r ''item_type'' = VStr st"
    "get r ''item_poster'' = (case search_image st it of Some s \<Rightarrow> if s = [] then VNull else VStr s | None \<Rightarrow> VNull)"
proof -
  obtain d' r where run: "add_to_collection (Some u) cid st (int (cat_id it)) (item_label it) (search_image st it) d = Inr d'"
    and tab: "tables d' ''collection_items'' = tables d ''collection_items'' @ [r]"
    and r: "get r ''collection_id'' = cid" "get r ''item_type'' = VStr st" "get r ''item_id'' = VInt (int (cat_id it))"
    "get r ''item_poster'' = (case search_image st it of Some s \<Rightarrow> if s = [] then VNull else VStr s | None \<Rightarrow> VNull)"
    using add_to_collection_ok [OF assms(2)] by blast
  show ?thesis
  proof (rule that)
    show "search_add (Some u) pg st it d = (Some ItemAdded, d')"
      using run assms(1) by (simp add: search_add_def handle_add_item_def)
  qed (use items_of_append [OF tab r(1)] r in simp_all)
qed

text \<open>
  C37. An item added from the collection's search dialog is shown with a broken poster:
  for a movie with a poster the page stores the full small-poster address, and the grid
  prefixes it with the image server's address again. An item of a series opens neither
  detail dialog.
\<close>

theorem search_add_grid_view:
  assumes "selected pg = Some cid" "cid \<in> set (parent_ids d ''collections'')"
    and "cat_poster it = Some p" "p \<noteq> []"
  shows "\<exists>d' r. search_add (Some u) pg ''movie'' it d = (Some ItemAdded, d') \<and> items_of d' cid = items_of d cid @ [r] \<and>
           grid_image r = tmdb_image_base @ ''/w500'' @ tmdb_image_base @ ''/w200'' @ p \<and>
           (\<exists>d'' r'. search_add (Some u) pg ''series'' it d = (Some ItemAdded, d'') \<and>
              items_of d'' cid = items_of d cid @ [r'] \<and> details_dialogs r' = (False, False))"
proof -
  obtain d' r where m: "search_add (Some u) pg ''movie'' it d = (Some ItemAdded, d')"
    "items_of d' cid = items_of d cid @ [r]" "get r ''item_type'' = VStr ''movie''"
    "get r ''item_poster'' = (case search_image ''movie'' it of Some s \<Rightarrow> if s = [] then VNull else VStr s | None \<Rightarrow> VNull)"
    using search_add_effect [OF assms(1,2)] by blast
  obtain d'' r' where s: "search_add (Some u) pg ''series'' it d = (Some ItemAdded, d'')"
    "items_of d'' cid = items_of d cid @ [r']" "get r' ''item_type'' = VStr ''series''"
    "get r' ''item_poster'' = (case search_image ''series'' it of Some s \<Rightarrow> if s = [] then VNull else VStr s | None \<Rightarrow> VNull)"
    using search_add_effect [OF assms(1,2)] by blast
  have "grid_image r = tmdb_image_base @ ''/w500'' @ tmdb_image_base @ ''/w200'' @ p"
    using m(3,4) assms(3,4)
    by (simp add: grid_image_def search_image_def get_tmdb_image_url_def tmdb_image_base_def)
  moreover have "details_dialogs r' = (False, False)"
    using s(3) by (simp add: details_dialogs_def)
  ultimately show ?thesis using m s by blast
qed

theorem search_add_grid_view_witness:
  "\<exists>d' r. search_add (Some ''a'') open_page ''movie'' demo_series demo_coll_db = (Some ItemAdded, d') \<and>
     items_of d' (VInt 0) = items_of demo_coll_db (VInt 0) @ [r] \<and>
     grid_image r = tmdb_image_base @ ''/w500'' @ tmdb_image_base @ ''/w200'' @ ''/bb.jpg'' \<and>
     (\<exists>d'' r'. search_add (Some ''a'') open_page ''series'' demo_series demo_coll_db = (Some ItemAdded, d'') \<and>
        items_of d'' (VInt 0) = items_of demo_coll_db (VInt 0) @ [r'] \<and> details_dialogs r' = (False, False))"
  by (rule search_add_grid_view [OF _ demo_coll_parent]) (simp_all add: open_page_def demo_series_def)

end
