(* ===== verification/DemoToggle.thy ===== *)
theory DemoToggle
  imports Discover Store
begin

text \<open>
  Demo mode outside the pages: the script \<open>src/scripts/toggle-demo.js\<close>, which flips
  \<open>VITE_DEMO_MODE\<close> in \<open>.env.local\<close> (creating the file from \<open>.env.example\<close>
  first), and \<open>src/src/contexts/DemoContext.tsx\<close>. The files are a map from paths to
  contents and the console output a list of messages; \<open>String.prototype.includes\<close> and
  \<open>replace\<close> are those of \<open>Prelude\<close> and \<open>Discover\<close>. The theory proves that on a file
  where the setting stands on a line of its own the script flips it and a second run
  restores the file, and that on a file without the exact text \<open>VITE_DEMO_MODE=true\<close>
  or \<open>=false\<close> it writes the file unchanged while reporting a switch to demo mode.
\<close>

section \<open>The script\<close>

text \<open>The console messages, in the order the script prints them.\<close>

datatype toggle_msg = EnvMissing | CreatedFromExample | ExampleMissing | SwitchedProduction | NeedKeys
  | SwitchedDemo | UseMockData | RestartServer

record script_state =
  env_files :: "string \<rightharpoonup> string"
  out_msgs :: "toggle_msg list"

definition env_local_path :: string where
  "env_local_path = ''.env.local''"

definition env_example_path :: string where
  "env_example_path = ''.env.example''"

definition demo_on :: string where
  "demo_on = ''VITE_DEMO_MODE=true''"

definition demo_off :: string where
  "demo_off = ''VITE_DEMO_MODE=false''"

text \<open>
  The toggle: \<open>includes('VITE_DEMO_MODE=true')\<close> decides the direction, and the first
  occurrence is replaced.
\<close>

definition toggle_content :: "string \<Rightarrow> string \<times> toggle_msg list" where
  "toggle_content c =
     (if str_includes c demo_on then (js_replace demo_on demo_off c, [SwitchedProduction, NeedKeys])
      else (js_replace demo_off demo_on c, [SwitchedDemo, UseMockData]))"

definition write_toggled :: "string \<Rightarrow> script_state \<Rightarrow> nat \<times> script_state" where
  "write_toggled c st =
     (let (c', ms) = toggle_content c
      in (0, st\<lparr>env_files := (env_files st)(env_local_path \<mapsto> c'), out_msgs := out_msgs st @ ms @ [RestartServer]\<rparr>))"

definition toggle_demo :: "script_state \<Rightarrow> nat \<times> script_state" where
  "toggle_demo st =
     (case env_files st env_local_path of
        Some c \<Rightarrow> write_toggled c st
      | None \<Rightarrow>
          (case env_files st env_example_path of
             None \<Rightarrow> (1, st\<lparr>out_msgs := out_msgs st @ [EnvMissing, ExampleMissing]\<rparr>)
           | Some c \<Rightarrow> write_toggled c (st\<lparr>env_files := (env_files st)(env_local_path \<mapsto> c),
                                           out_msgs := out_msgs st @ [EnvMissing, CreatedFromExample]\<rparr>)))"

text \<open>A text stands on a line of its own between \<open>pre\<close> and \<open>post\<close>.\<close>

definition own_line :: "string \<Rightarrow> string \<Rightarrow> bool" where
  "own_line pre post \<longleftrightarrow> (pre = [] \<or> last pre = CHR 0x0A) \<and> (post = [] \<or> hd post = CHR 0x0A)"

definition demo_env :: string where
  "demo_env = ''VITE_SUPABASE_URL=x'' @ [CHR 0x0A]"

definition spaced_env :: script_state where
  "spaced_env = \<lparr>env_files = [env_local_path \<mapsto> ''VITE_DEMO_MODE = true''], out_msgs = []\<rparr>"

section \<open>The demo context\<close>

text \<open>
  \<open>DemoProvider.getDemoData(type)\<close>: the fixture of the demo module named by the key,
  \<open>null\<close> outside demo mode or for another key; \<open>useDemo\<close> outside a provider throws.
  The fixtures live in the absent module and are named here.
\<close>

datatype demo_fixture = DemoUser | DemoProfile | DemoStats | DemoMovies | DemoSeries | DemoGames
  | DemoWatchlist | DemoCollections | DemoFriends | DemoPendingRequests

definition get_demo_data :: "bool \<Rightarrow> string \<Rightarrow> demo_fixture option" where
  "get_demo_data demo t =
     (if \<not> demo then None
      else map_of [(''user'', DemoUser), (''profile'', DemoProfile), (''stats'', DemoStats), (''movies'', DemoMovies),
        (''series'', DemoSeries), (''games'', DemoGames), (''watchlist'', DemoWatchlist),
        (''collections'', DemoCollections), (''friends'', DemoFriends), (''pendingRequests'', DemoPendingRequests)] t)"

definition use_demo :: "bool option \<Rightarrow> error + bool" where
  "use_demo ctx = (case ctx of None \<Rightarrow> Inl (JsError ''useDemo must be used within DemoProvider'') | Some m \<Rightarrow> Inr m)"

section \<open>Properties of the script\<close>

lemma js_replace_absent: "\<not> sublist p s \<Longrightarrow> p \<noteq> [] \<Longrightarrow> js_replace p r s = s"
  by (induction s) (auto simp: sublist_Cons_right)

lemma js_replace_here: "p \<noteq> [] \<Longrightarrow> js_replace p r (p @ s) = r @ s"
  by (cases p) simp_all

lemma js_replace_skip:
  assumes "\<forall>k < length a. \<not> prefix p (drop k a @ b)"
  shows "js_replace p r (a @ b) = a @ js_replace p r b"
  using assms
proof (induction a)
  case Nil
  then show ?case by simp
next
  case (Cons c a)
  have "\<not> prefix p (c # a @ b)" using Cons.prems by (metis drop0 zero_less_Suc length_Cons append_Cons)
  moreover have "\<forall>k < length a. \<not> prefix p (drop k a @ b)"
    using Cons.prems by (metis Suc_mono drop_Suc_Cons length_Cons append_Cons)
  ultimately show ?case using Cons.IH by simp
qed

lemma nl_boundary_prefix:
  assumes "CHR 0x0A \<notin> set p" "\<not> sublist p pre" "pre = [] \<or> last pre = CHR 0x0A"
  shows "\<forall>k < length pre. \<not> prefix p (drop k pre @ b)"
proof (intro allI impI notI)
  fix k assume k: "k < length pre" and pr: "prefix p (drop k pre @ b)"
  have ne: "drop k pre \<noteq> []" using k by simp
  show False
  proof (cases "prefix p (drop k pre)")
    case True
    then have "sublist p pre"
      by (meson prefix_imp_sublist sublist_order.dual_order.trans sublist_drop)
    then show ?thesis using assms(2) by blast
  next
    case False
    then obtain us where "p = drop k pre @ us" using pr by (auto simp: prefix_append)
    then have "last (drop k pre) \<in> set p" using last_in_set [OF ne] by (simp del: last_drop)
    moreover have "last (drop k pre) = CHR 0x0A" using ne assms(3) k by auto
    ultimately show ?thesis using assms(1) by simp
  qed
qed

lemma not_sublist_own_line:
  assumes nl: "CHR 0x0A \<notin> set p" and own: "own_line pre post"
    and a: "\<not> sublist p pre" "\<not> sublist p v" "\<not> sublist p post"
  shows "\<not> sublist p (pre @ v @ post)"
proof -
  have vp: "\<not> sublist p (v @ post)"
  proof
    assume "sublist p (v @ post)"
    then obtain xs1 xs2 where p: "p = xs1 @ xs2" "suffix xs1 v" "prefix xs2 post"
      using a(2,3) by (auto simp: sublist_append)
    show False
    proof (cases "xs2 = []")
      case True
      then show ?thesis using p a(2) by (simp add: suffix_imp_sublist)
    next
      case False
      then have "post \<noteq> []" "hd post = hd xs2" using p(3) by (auto simp: prefix_def)
      then have "hd xs2 = CHR 0x0A" using own by (simp add: own_line_def)
      then show ?thesis using nl p(1) False by (metis Un_iff hd_in_set set_append)
    qed
  qed
  show ?thesis
  proof
    assume "sublist p (pre @ v @ post)"
    then obtain xs1 xs2 where p: "p = xs1 @ xs2" "suffix xs1 pre" "prefix xs2 (v @ post)"
      using a(1) vp by (auto simp: sublist_append)
    show False
    proof (cases "xs1 = []")
      case True
      then show ?thesis using p vp by (simp add: prefix_imp_sublist)
    next
      case False
      then have "pre \<noteq> []" "last pre = last xs1" using p(2) by (auto simp: suffix_def)
      then have "last xs1 = CHR 0x0A" using own by (simp add: own_line_def)
      then show ?thesis using nl p(1) False by (metis Un_iff last_in_set set_append)
    qed
  qed
qed

lemma js_replace_own_line:
  assumes nl: "CHR 0x0A \<notin> set p" and own: "own_line pre post" and a: "\<not> sublist p pre" and p: "p \<noteq> []"
  shows "js_replace p r (pre @ p @ post) = pre @ r @ post"
proof -
  have "\<forall>k < length pre. \<not> prefix p (drop k pre @ p @ post)"
    using nl_boundary_prefix [OF nl a] own by (simp add: own_line_def)
  then show ?thesis by (simp add: js_replace_skip js_replace_here [OF p])
qed

lemma demo_lines:
  "sublist ''VITE_DEMO_MODE'' demo_on" "sublist ''VITE_DEMO_MODE'' demo_off"
  "\<not> sublist demo_on demo_off" "\<not> sublist demo_off demo_on"
  "CHR 0x0A \<notin> set demo_on" "CHR 0x0A \<notin> set demo_off" "demo_on \<noteq> []" "demo_off \<noteq> []"
  by (simp_all add: demo_on_def demo_off_def flip: str_includes_sublist)

lemma no_marker:
  "\<not> str_includes s ''VITE_DEMO_MODE'' \<Longrightarrow> \<not> sublist demo_on s \<and> \<not> sublist demo_off s"
  using demo_lines(1,2) by (meson str_includes_sublist sublist_order.dual_order.trans)

lemma toggle_content_line:
  assumes "own_line pre post" "\<not> str_includes pre ''VITE_DEMO_MODE''" "\<not> str_includes post ''VITE_DEMO_MODE''"
  shows "toggle_content (pre @ demo_on @ post) = (pre @ demo_off @ post, [SwitchedProduction, NeedKeys])"
    "toggle_content (pre @ demo_off @ post) = (pre @ demo_on @ post, [SwitchedDemo, UseMockData])"
proof -
  have "\<not> sublist demo_on (pre @ demo_off @ post)"
    by (rule not_sublist_own_line) (use assms no_marker demo_lines in auto)
  then show "toggle_content (pre @ demo_off @ post) = (pre @ demo_on @ post, [SwitchedDemo, UseMockData])"
    using js_replace_own_line [of demo_off pre post demo_on] assms no_marker demo_lines
    by (simp add: toggle_content_def str_includes_sublist)
  show "toggle_content (pre @ demo_on @ post) = (pre @ demo_off @ post, [SwitchedProduction, NeedKeys])"
    using js_replace_own_line [of demo_on pre post demo_off] assms no_marker demo_lines
    by (simp add: toggle_content_def str_includes_sublist)
qed

text \<open>
  C38. On an environment file where \<open>VITE_DEMO_MODE=true\<close> or \<open>=false\<close> stands on a
  line of its own and no other line mentions \<open>VITE_DEMO_MODE\<close>, the script succeeds,
  flips the setting, and a second run restores the file exactly.
\<close>

theorem toggle_twice_restores:
  assumes f: "env_files st env_local_path = Some (pre @ v @ post)" and v: "v = demo_on \<or> v = demo_off"
    and line: "own_line pre post" "\<not> str_includes pre ''VITE_DEMO_MODE''" "\<not> str_includes post ''VITE_DEMO_MODE''"
  shows "fst (toggle_demo st) = 0 \<and>
         env_files (snd (toggle_demo st)) env_local_path = Some (pre @ (if v = demo_on then demo_off else demo_on) @ post) \<and>
         env_files (snd (toggle_demo (snd (toggle_demo st)))) env_local_path = Some (pre @ v @ post)"
  using v toggle_content_line [OF line] f demo_lines
  by (auto simp: toggle_demo_def write_toggled_def)

text \<open>
  C39. On an existing file without the exact text \<open>VITE_DEMO_MODE=true\<close> or
  \<open>VITE_DEMO_MODE=false\<close> (for instance with spaces around \<open>=\<close>), the script writes the
  file back unchanged and still reports a switch to demo mode.
\<close>

theorem toggle_misreports:
  assumes "env_files st env_local_path = Some c" "\<not> str_includes c demo_on" "\<not> str_includes c demo_off"
  shows "toggle_demo st = (0, st\<lparr>out_msgs := out_msgs st @ [SwitchedDemo, UseMockData, RestartServer]\<rparr>)"
proof -
  have "js_replace demo_off demo_on c = c"
    using assms(3) demo_lines(8) by (simp add: js_replace_absent str_includes_sublist)
  then show ?thesis
    using assms by (simp add: toggle_demo_def write_toggled_def toggle_content_def fun_upd_idem)
qed

theorem toggle_misreports_witness:
  "toggle_demo spaced_env = (0, spaced_env\<lparr>out_msgs := [SwitchedDemo, UseMockData, RestartServer]\<rparr>)"
  using toggle_misreports [of spaced_env "''VITE_DEMO_MODE = true''"]
  by (simp add: spaced_env_def demo_on_def demo_off_def)

theorem toggle_twice_restores_witness:
  "fst (toggle_demo \<lparr>env_files = [env_local_path \<mapsto> demo_env @ demo_on @ []], out_msgs = []\<rparr>) = 0 \<and>
   env_files (snd (toggle_demo \<lparr>env_files = [env_local_path \<mapsto> demo_env @ demo_on @ []], out_msgs = []\<rparr>)) env_local_path =
     Some (demo_env @ (if demo_on = demo_on then demo_off else demo_on) @ []) \<and>
   env_files (snd (toggle_demo (snd (toggle_demo \<lparr>env_files = [env_local_path \<mapsto> demo_env @ demo_on @ []], out_msgs = []\<rparr>))))
     env_local_path = Some (demo_env @ demo_on @ [])"
  by (rule toggle_twice_restores) (simp_all add: own_line_def demo_env_def)

end
