(* ===== verification/Sidebar.thy ===== *)
theory Sidebar
  imports Friends
begin

text \<open>
  The friends sidebar \<open>src/src/components/FriendsSidebar.tsx\<close> as a state machine of
  one signed-in client: the search box with its 300 ms debounce, the two tabs, the
  buttons each list renders, and the four handlers, which call the mutation hooks of
  \<open>src/src/hooks/useFriends.ts\<close> and, on success, refetch the query keys the hook's
  \<open>onSuccess\<close> invalidates. The sidebar's lists are the react-query cache of its reads:
  a list changes only when the refetch of its invalidated key lands or, for the search,
  when the debounced query changes. The invalidation is not awaited, so a refetch lands
  as an event of its own, and buttons of a list still waiting for its refetch can be
  pressed. The theory proves that the invalidation is enough for one client that presses
  only when no refetch is outstanding: every list is then fresh or awaiting its refetch.
  Without that wait, rejecting an incoming request that was just accepted deletes the
  friendship while the friends list, which the reject does not invalidate, keeps showing
  the friend. It also proves that a request sent from one sidebar can be accepted from
  the other user's sidebar once that sidebar is loaded, after which both see each other
  as friends.
\<close>

section \<open>Cache keys and their invalidation\<close>

text \<open>The three cached reads of the sidebar (\<open>useFriends\<close>, \<open>usePendingFriendRequests\<close>, \<open>useSentFriendRequests\<close>).\<close>

datatype sidebar_query = QFriends | QPending | QSent

datatype friend_mutation = SendMutation | AcceptMutation | RejectMutation | RemoveMutation

text \<open>The keys each mutation hook's \<open>onSuccess\<close> passes to \<open>invalidateQueries\<close>.\<close>

fun invalidated_by :: "friend_mutation \<Rightarrow> sidebar_query list" where
  "invalidated_by SendMutation = [QSent, QFriends]"
| "invalidated_by AcceptMutation = [QFriends, QPending]"
| "invalidated_by RejectMutation = [QPending]"
| "invalidated_by RemoveMutation = [QFriends]"

section \<open>The sidebar's state\<close>

datatype sidebar_toast =
    AcceptedToast string | AcceptFailedToast | RejectedToast | RemovedToast string
  | SentToast string | SendErrorToast send_toast

text \<open>
  The component's state (\<open>searchQuery\<close>, \<open>debouncedSearchQuery\<close>, \<open>activeTab\<close>), the
  data of its four queries as the cache holds them, the keys whose refetch has not
  landed yet, and the last toast.
\<close>

record sidebar =
  sb_user :: "user_id option"
  search_query :: string
  debounced_query :: string
  active_tab :: string
  search_data :: "row list"
  friends_data :: "(row \<times> row) list"
  pending_data :: "(row \<times> row) list"
  sent_data :: "(row \<times> row) list"
  refetching :: "sidebar_query list"
  sb_toast :: "sidebar_toast option"

text \<open>The refetch of a key reads the store again (all three queries are mounted).\<close>

definition refetch :: "db \<Rightarrow> sidebar_query \<Rightarrow> sidebar \<Rightarrow> sidebar" where
  "refetch d q s =
     (case q of
        QFriends \<Rightarrow> s\<lparr>friends_data := friends_query (sb_user s) d\<rparr>
      | QPending \<Rightarrow> s\<lparr>pending_data := pending_requests_query (sb_user s) d\<rparr>
      | QSent \<Rightarrow> s\<lparr>sent_data := sent_requests_query (sb_user s) d\<rparr>)"

text \<open>
  \<open>invalidateQueries\<close> is called without \<open>await\<close>: it marks the keys and starts their
  refetches, and the handler goes on with its toast. A marked key stays in
  \<open>refetching\<close> until its refetch lands (the event \<open>RefetchLands\<close>, which reads the
  store at that moment); until then its list shows the old data, and its buttons, none
  of which is disabled while a mutation or a refetch runs, can still be pressed.
\<close>

definition invalidate :: "friend_mutation \<Rightarrow> sidebar \<Rightarrow> sidebar" where
  "invalidate m s = s\<lparr>refetching := fold List.insert (invalidated_by m) (refetching s)\<rparr>"

definition refetch_lands :: "db \<Rightarrow> sidebar_query \<Rightarrow> sidebar \<Rightarrow> sidebar" where
  "refetch_lands d q s = (refetch d q s)\<lparr>refetching := removeAll q (refetching s)\<rparr>"

text \<open>
  Mounting the sidebar: empty search (the search query is disabled, so it has no data),
  the friends tab, and the three lists read from the store.
\<close>

definition load_sidebar :: "user_id option \<Rightarrow> db \<Rightarrow> sidebar" where
  "load_sidebar user d =
     \<lparr>sb_user = user, search_query = [], debounced_query = [], active_tab = ''friends'',
      search_data = [], friends_data = friends_query user d,
      pending_data = pending_requests_query user d, sent_data = sent_requests_query user d,
      refetching = [], sb_toast = None\<rparr>"

section \<open>Handlers\<close>

text \<open>
  \<open>handleAccept\<close>: accept by row id; success invalidates the friends and pending keys
  and shows "Accepted", failure shows the error toast.
\<close>

definition handle_accept :: "cell \<Rightarrow> string \<Rightarrow> db \<Rightarrow> sidebar \<Rightarrow> db \<times> sidebar" where
  "handle_accept friendshipId username d s =
     (case accept_friend_request friendshipId d of
        Inl _ \<Rightarrow> (d, s\<lparr>sb_toast := Some AcceptFailedToast\<rparr>)
      | Inr d' \<Rightarrow> (d', (invalidate AcceptMutation s)\<lparr>sb_toast := Some (AcceptedToast username)\<rparr>))"

text \<open>\<open>handleReject\<close> and \<open>handleRemove\<close>: a deletion by row id, which does not fail.\<close>

definition handle_reject :: "cell \<Rightarrow> db \<Rightarrow> sidebar \<Rightarrow> db \<times> sidebar" where
  "handle_reject friendshipId d s =
     (let d' = reject_friend_request friendshipId d
      in (d', (invalidate RejectMutation s)\<lparr>sb_toast := Some RejectedToast\<rparr>))"

definition handle_remove :: "cell \<Rightarrow> string \<Rightarrow> db \<Rightarrow> sidebar \<Rightarrow> db \<times> sidebar" where
  "handle_remove friendshipId username d s =
     (let d' = remove_friend friendshipId d
      in (d', (invalidate RemoveMutation s)\<lparr>sb_toast := Some (RemovedToast username)\<rparr>))"

text \<open>
  \<open>handleSendRequest\<close>: on success "Sent", the invalidation, and the search box
  cleared; on failure the toast chosen from the error's message.
\<close>

definition handle_send_request :: "user_id \<Rightarrow> string \<Rightarrow> db \<Rightarrow> sidebar \<Rightarrow> db \<times> sidebar" where
  "handle_send_request friendId username d s =
     (case send_friend_request (sb_user s) friendId d of
        Inl e \<Rightarrow> (d, s\<lparr>sb_toast := Some (SendErrorToast (classify_send_error (error_message e)))\<rparr>)
      | Inr d' \<Rightarrow> (d', (invalidate SendMutation s)\<lparr>sb_toast := Some (SentToast username), search_query := []\<rparr>))"

text \<open>
  The debounce: typing sets \<open>searchQuery\<close> and restarts the timer; when 300 ms pass
  without typing, \<open>debouncedSearchQuery\<close> takes the query and the search runs.
\<close>

definition set_search_query :: "string \<Rightarrow> sidebar \<Rightarrow> sidebar" where
  "set_search_query q s = s\<lparr>search_query := q\<rparr>"

definition debounce_fires :: "db \<Rightarrow> sidebar \<Rightarrow> sidebar" where
  "debounce_fires d s =
     s\<lparr>debounced_query := search_query s, search_data := search_users (sb_user s) (search_query s) d\<rparr>"

section \<open>Rendering and events\<close>

datatype sidebar_button =
    SendButton user_id string | RemoveButton cell string | AcceptButton cell string | RejectButton cell

text \<open>
  The search results, shown while the debounced query is not empty: a result that is
  neither a friend nor already asked has the add button, \<open>handleSendRequest(user.id,
  user.username || '')\<close>.
\<close>

definition search_buttons :: "sidebar \<Rightarrow> sidebar_button list" where
  "search_buttons s =
     (if debounced_query s = [] then []
      else map (\<lambda>p. SendButton (str_or_empty (get p ''id'')) (str_or_empty (get p ''username'')))
             (filter (\<lambda>p. search_result_action (friends_data s) (sent_data s) (get p ''id'') = ShowAddButton)
               (search_data s)))"

text \<open>
  The open tab's buttons: remove on each friend; accept and reject on each incoming
  request (an inactive tab's content is not mounted).
\<close>

definition tab_buttons :: "sidebar \<Rightarrow> sidebar_button list" where
  "tab_buttons s =
     (if active_tab s = ''friends'' then
        map (\<lambda>f. RemoveButton (get (fst f) ''id'') (str_or_empty (get (snd f) ''username''))) (friends_data s)
      else if active_tab s = ''requests'' then
        concat (map (\<lambda>r. [AcceptButton (get (fst r) ''id'') (str_or_empty (get (snd r) ''username'')),
                          RejectButton (get (fst r) ''id'')]) (pending_data s))
      else [])"

definition sidebar_buttons :: "sidebar \<Rightarrow> sidebar_button list" where
  "sidebar_buttons s = search_buttons s @ tab_buttons s"

fun press :: "sidebar_button \<Rightarrow> db \<Rightarrow> sidebar \<Rightarrow> db \<times> sidebar" where
  "press (SendButton i n) = handle_send_request i n"
| "press (RemoveButton i n) = handle_remove i n"
| "press (AcceptButton i n) = handle_accept i n"
| "press (RejectButton i) = handle_reject i"

datatype sidebar_event =
    TypeQuery string | DebounceFires | SelectTab string | Press sidebar_button | RefetchLands sidebar_query

text \<open>
  One event; a press of a button the sidebar does not show, or the landing of a refetch
  that was not started, is not an event (\<open>None\<close>).
\<close>

fun sidebar_step :: "sidebar_event \<Rightarrow> db \<times> sidebar \<Rightarrow> (db \<times> sidebar) option" where
  "sidebar_step (TypeQuery q) (d, s) = Some (d, set_search_query q s)"
| "sidebar_step DebounceFires (d, s) = Some (d, debounce_fires d s)"
| "sidebar_step (SelectTab t) (d, s) = Some (d, s\<lparr>active_tab := t\<rparr>)"
| "sidebar_step (Press b) (d, s) = (if b \<in> set (sidebar_buttons s) then Some (press b d s) else None)"
| "sidebar_step (RefetchLands q) (d, s) = (if q \<in> set (refetching s) then Some (d, refetch_lands d q s) else None)"

fun run_sidebar :: "sidebar_event list \<Rightarrow> db \<times> sidebar \<Rightarrow> (db \<times> sidebar) option" where
  "run_sidebar [] ds = Some ds"
| "run_sidebar (e # es) ds = (case sidebar_step e ds of None \<Rightarrow> None | Some ds' \<Rightarrow> run_sidebar es ds')"

section \<open>The coherence invariant\<close>

text \<open>No user has a friendship row with themself (search never offers oneself).\<close>

definition no_self_rows :: "db \<Rightarrow> bool" where
  "no_self_rows d \<longleftrightarrow> list_all (\<lambda>r. get r ''user_id'' \<noteq> get r ''friend_id'') (tables d ''friendships'')"

text \<open>Every list the sidebar holds is what a fresh read of the store would give.\<close>

definition sidebar_coherent :: "db \<Rightarrow> sidebar \<Rightarrow> bool" where
  "sidebar_coherent d s \<longleftrightarrow>
     friends_data s = friends_query (sb_user s) d \<and>
     pending_data s = pending_requests_query (sb_user s) d \<and>
     sent_data s = sent_requests_query (sb_user s) d \<and>
     search_data s = search_users (sb_user s) (debounced_query s) d"

text \<open>The list of a key is what a fresh read of the store would give.\<close>

definition list_fresh :: "db \<Rightarrow> sidebar \<Rightarrow> sidebar_query \<Rightarrow> bool" where
  "list_fresh d s q \<longleftrightarrow>
     (case q of
        QFriends \<Rightarrow> friends_data s = friends_query (sb_user s) d
      | QPending \<Rightarrow> pending_data s = pending_requests_query (sb_user s) d
      | QSent \<Rightarrow> sent_data s = sent_requests_query (sb_user s) d)"

text \<open>Every list is fresh or waits for its refetch; the search results are fresh.\<close>

definition sidebar_consistent :: "db \<Rightarrow> sidebar \<Rightarrow> bool" where
  "sidebar_consistent d s \<longleftrightarrow>
     list_all (\<lambda>q. q \<in> set (refetching s) \<or> list_fresh d s q) [QFriends, QPending, QSent] \<and>
     search_data s = search_users (sb_user s) (debounced_query s) d"

definition sidebar_inv :: "db \<Rightarrow> sidebar \<Rightarrow> bool" where
  "sidebar_inv d s \<longleftrightarrow> ids_fresh d ''friendships'' \<and> no_self_rows d \<and> sidebar_consistent d s"

text \<open>
  A user who waits: a button is pressed only when no refetch is outstanding, that is,
  when every list shows what its last refetch read.
\<close>

definition waits :: "sidebar_event \<Rightarrow> sidebar \<Rightarrow> bool" where
  "waits e s \<longleftrightarrow> (case e of Press _ \<Rightarrow> refetching s = [] | _ \<Rightarrow> True)"

fun run_waits :: "sidebar_event list \<Rightarrow> db \<times> sidebar \<Rightarrow> bool" where
  "run_waits [] ds = True"
| "run_waits (e # es) ds =
     (waits e (snd ds) \<and> (case sidebar_step e ds of None \<Rightarrow> True | Some ds' \<Rightarrow> run_waits es ds'))"

section \<open>Facts for the invariant\<close>

lemma set_fold_insert: "set (fold List.insert xs ys) = set xs \<union> set ys"
  by (induction xs arbitrary: ys) auto

lemma invalidate_fields [simp]:
  "sb_user (invalidate m s) = sb_user s" "debounced_query (invalidate m s) = debounced_query s"
  "search_data (invalidate m s) = search_data s" "friends_data (invalidate m s) = friends_data s"
  "pending_data (invalidate m s) = pending_data s" "sent_data (invalidate m s) = sent_data s"
  "active_tab (invalidate m s) = active_tab s" "sb_toast (invalidate m s) = sb_toast s"
  "set (refetching (invalidate m s)) = set (invalidated_by m) \<union> set (refetching s)"
  by (simp_all add: invalidate_def set_fold_insert)

lemma refetch_lands_fields [simp]:
  "sb_user (refetch_lands d q s) = sb_user s" "debounced_query (refetch_lands d q s) = debounced_query s"
  "search_data (refetch_lands d q s) = search_data s" "active_tab (refetch_lands d q s) = active_tab s"
  "sb_toast (refetch_lands d q s) = sb_toast s" "refetching (refetch_lands d q s) = removeAll q (refetching s)"
  by (cases q; simp add: refetch_lands_def refetch_def)+

lemma refetch_lands_views:
  "friends_data (refetch_lands d q s) = (if q = QFriends then friends_query (sb_user s) d else friends_data s)"
  "pending_data (refetch_lands d q s) = (if q = QPending then pending_requests_query (sb_user s) d else pending_data s)"
  "sent_data (refetch_lands d q s) = (if q = QSent then sent_requests_query (sb_user s) d else sent_data s)"
  by (cases q; simp add: refetch_lands_def refetch_def)+

lemma consistent_settled:
  "refetching s = [] \<Longrightarrow> sidebar_consistent d s \<longleftrightarrow> sidebar_coherent d s"
  by (simp add: sidebar_consistent_def sidebar_coherent_def list_fresh_def)

lemma with_profiles_same:
  "tables d' ''profiles'' = tables d ''profiles'' \<Longrightarrow> with_profiles d' k fs = with_profiles d k fs"
  by (simp add: with_profiles_def select_rows_def)

lemma search_users_same:
  "tables d' ''profiles'' = tables d ''profiles'' \<Longrightarrow> search_users user q d' = search_users user q d"
  by (simp add: search_users_def select_rows_def)

lemma friends_query_same:
  assumes "tables d' ''profiles'' = tables d ''profiles''"
    and "\<And>u. logged_id user = Some u \<Longrightarrow>
      filter (\<lambda>r. involves u r \<and> eq_col ''status'' (VStr ''accepted'') r) (tables d' ''friendships'') =
      filter (\<lambda>r. involves u r \<and> eq_col ''status'' (VStr ''accepted'') r) (tables d ''friendships'')"
  shows "friends_query user d' = friends_query user d"
  using assms(2) by (simp add: friends_query_def select_rows_def Let_def with_profiles_same [OF assms(1)] split: option.splits)

lemma pending_query_same:
  assumes "tables d' ''profiles'' = tables d ''profiles''"
    and "\<And>u. logged_id user = Some u \<Longrightarrow>
      filter (\<lambda>r. eq_col ''friend_id'' (VStr u) r \<and> eq_col ''status'' (VStr ''pending'') r) (tables d' ''friendships'') =
      filter (\<lambda>r. eq_col ''friend_id'' (VStr u) r \<and> eq_col ''status'' (VStr ''pending'') r) (tables d ''friendships'')"
  shows "pending_requests_query user d' = pending_requests_query user d"
  using assms(2) by (simp add: pending_requests_query_def select_rows_def Let_def with_profiles_same [OF assms(1)] split: option.splits)

lemma sent_query_same:
  assumes "tables d' ''profiles'' = tables d ''profiles''"
    and "\<And>u. logged_id user = Some u \<Longrightarrow>
      filter (\<lambda>r. eq_col ''user_id'' (VStr u) r \<and> eq_col ''status'' (VStr ''pending'') r) (tables d' ''friendships'') =
      filter (\<lambda>r. eq_col ''user_id'' (VStr u) r \<and> eq_col ''status'' (VStr ''pending'') r) (tables d ''friendships'')"
  shows "sent_requests_query user d' = sent_requests_query user d"
  using assms(2) by (simp add: sent_requests_query_def select_rows_def Let_def with_profiles_same [OF assms(1)] split: option.splits)

lemma filter_map_stable:
  "(\<And>r. r \<in> set rs \<Longrightarrow> f r \<noteq> r \<Longrightarrow> \<not> P r \<and> \<not> P (f r)) \<Longrightarrow> filter P (map f rs) = filter P rs"
proof (induction rs)
  case (Cons a rs)
  then show ?case by (cases "f a = a") auto
qed simp

lemma filter_delete_stable:
  "(\<And>r. r \<in> set rs \<Longrightarrow> Q r \<Longrightarrow> \<not> P r) \<Longrightarrow> filter P (filter (\<lambda>r. \<not> Q r) rs) = filter P rs"
  by (induction rs) auto

lemma ids_fresh_unique:
  "ids_fresh d t \<Longrightarrow> r \<in> set (tables d t) \<Longrightarrow> r' \<in> set (tables d t) \<Longrightarrow> get r' ''id'' = get r ''id'' \<Longrightarrow> r' = r"
  by (auto simp: ids_fresh_def distinct_map inj_on_def)

lemma tab_buttons_cases:
  "AcceptButton i n \<in> set (tab_buttons s) \<Longrightarrow> \<exists>r\<in>set (pending_data s). i = get (fst r) ''id''"
  "RejectButton i \<in> set (tab_buttons s) \<Longrightarrow> \<exists>r\<in>set (pending_data s). i = get (fst r) ''id''"
  "RemoveButton i n \<in> set (tab_buttons s) \<Longrightarrow> \<exists>f\<in>set (friends_data s). i = get (fst f) ''id''"
  "SendButton j n \<notin> set (tab_buttons s)"
  by (auto simp: tab_buttons_def split: if_splits)

lemma search_buttons_cases:
  "b \<in> set (search_buttons s) \<Longrightarrow>
   \<exists>p\<in>set (search_data s). b = SendButton (str_or_empty (get p ''id'')) (str_or_empty (get p ''username''))"
  by (auto simp: search_buttons_def split: if_splits)

lemma pending_query_fst:
  "map fst (pending_requests_query user d) =
     (case logged_id user of None \<Rightarrow> [] | Some u \<Rightarrow>
        select_rows d ''friendships'' (\<lambda>r. eq_col ''friend_id'' (VStr u) r \<and> eq_col ''status'' (VStr ''pending'') r))"
  by (simp add: pending_requests_query_def Let_def split: option.splits)

lemma friends_query_fst:
  "map fst (friends_query user d) =
     (case logged_id user of None \<Rightarrow> [] | Some u \<Rightarrow>
        select_rows d ''friendships'' (\<lambda>r. involves u r \<and> eq_col ''status'' (VStr ''accepted'') r))"
  by (simp add: friends_query_def Let_def split: option.splits)

lemma fst_mem_map: "r \<in> set xs \<Longrightarrow> fst r \<in> set (map fst xs)"
  by simp

lemma pending_query_row:
  assumes "r \<in> set (pending_requests_query user d)"
  obtains u where "logged_id user = Some u" "fst r \<in> set (tables d ''friendships'')"
    "get (fst r) ''friend_id'' = VStr u" "get (fst r) ''status'' = VStr ''pending''"
proof (cases "logged_id user")
  case None
  then show ?thesis using fst_mem_map [OF assms] by (simp add: pending_query_fst)
next
  case (Some u)
  then show ?thesis using fst_mem_map [OF assms] by (intro that) (simp_all add: pending_query_fst select_rows_def eq_col_def)
qed

lemma friends_query_row:
  assumes "r \<in> set (friends_query user d)"
  obtains u where "logged_id user = Some u" "fst r \<in> set (tables d ''friendships'')"
    "get (fst r) ''status'' = VStr ''accepted''"
proof (cases "logged_id user")
  case None
  then show ?thesis using fst_mem_map [OF assms] by (simp add: friends_query_fst)
next
  case (Some u)
  then show ?thesis using fst_mem_map [OF assms] by (intro that) (simp_all add: friends_query_fst select_rows_def eq_col_def)
qed

lemma search_users_not_self:
  "p \<in> set (search_users (Some u) q d) \<Longrightarrow> get p ''id'' \<noteq> VStr u"
  by (erule search_users_member) (simp add: neq_col_def)

lemma consistent_ui_fields [simp]:
  "sidebar_consistent d (s\<lparr>sb_toast := t\<rparr>) = sidebar_consistent d s"
  "sidebar_consistent d (s\<lparr>search_query := q\<rparr>) = sidebar_consistent d s"
  "sidebar_consistent d (s\<lparr>active_tab := a\<rparr>) = sidebar_consistent d s"
  by (simp_all add: sidebar_consistent_def list_fresh_def)

text \<open>
  After a mutation from a settled sidebar, the keys the mutation invalidates wait for
  their refetch, and every other list is still fresh when the mutation left its read
  unchanged.
\<close>

lemma coherent_after:
  assumes "sidebar_coherent d s" and "tables d1 ''profiles'' = tables d ''profiles''"
    and "QFriends \<notin> set (invalidated_by m) \<Longrightarrow> friends_query (sb_user s) d1 = friends_query (sb_user s) d"
    and "QPending \<notin> set (invalidated_by m) \<Longrightarrow> pending_requests_query (sb_user s) d1 = pending_requests_query (sb_user s) d"
    and "QSent \<notin> set (invalidated_by m) \<Longrightarrow> sent_requests_query (sb_user s) d1 = sent_requests_query (sb_user s) d"
  shows "sidebar_consistent d1 (invalidate m s)"
  using assms by (auto simp: sidebar_coherent_def sidebar_consistent_def list_fresh_def search_users_same [OF assms(2)])

lemma consistent_refetch_lands:
  "sidebar_consistent d s \<Longrightarrow> sidebar_consistent d (refetch_lands d q s)"
  by (cases q) (auto simp: sidebar_consistent_def list_fresh_def refetch_lands_views)

text \<open>A deletion by the id of one row keeps every view that row is not in.\<close>

lemma delete_id_filter:
  assumes "ids_fresh d t" "r0 \<in> set (tables d t)" "\<not> P r0"
  shows "filter (\<lambda>x. get x ''id'' \<noteq> get r0 ''id'' \<and> P x) (tables d t) = filter P (tables d t)"
  using assms(3) ids_fresh_unique [OF assms(1,2)] by (auto intro: filter_cong)

lemma no_self_rows_delete: "no_self_rows d \<Longrightarrow> no_self_rows (delete_where d ''friendships'' P)"
  by (simp add: no_self_rows_def list_all_iff)

lemma pending_row_not_self:
  assumes "no_self_rows d" "r0 \<in> set (tables d ''friendships'')" "get r0 ''friend_id'' = VStr u"
  shows "get r0 ''user_id'' \<noteq> VStr u"
  using assms by (auto simp: no_self_rows_def list_all_iff)

lemma reject_keeps_inv:
  assumes inv: "sidebar_inv d s" "refetching s = []" and b: "RejectButton i \<in> set (tab_buttons s)"
  shows "sidebar_inv (fst (handle_reject i d s)) (snd (handle_reject i d s))"
proof -
  have ids: "ids_fresh d ''friendships''" and self: "no_self_rows d" and coh: "sidebar_coherent d s"
    using inv by (simp_all add: sidebar_inv_def consistent_settled)
  obtain r where r: "r \<in> set (pending_data s)" and i: "i = get (fst r) ''id''"
    using tab_buttons_cases(2) [OF b] by blast
  obtain u where u: "logged_id (sb_user s) = Some u" and r0: "fst r \<in> set (tables d ''friendships'')"
      "get (fst r) ''friend_id'' = VStr u" "get (fst r) ''status'' = VStr ''pending''"
    using r coh by (auto simp: sidebar_coherent_def elim: pending_query_row)
  have us: "get (fst r) ''user_id'' \<noteq> VStr u" using pending_row_not_self [OF self r0(1,2)] .
  let ?d1 = "reject_friend_request i d"
  have "sidebar_consistent ?d1 (invalidate RejectMutation s)"
  proof (rule coherent_after [OF coh])
    show "friends_query (sb_user s) ?d1 = friends_query (sb_user s) d"
      using u r0 by (intro friends_query_same) (simp_all add: reject_friend_request_def i delete_id_filter [OF ids r0(1)] eq_col_def)
    show "sent_requests_query (sb_user s) ?d1 = sent_requests_query (sb_user s) d"
      using u r0 us by (intro sent_query_same) (simp_all add: reject_friend_request_def i delete_id_filter [OF ids r0(1)] eq_col_def)
  qed (simp_all add: reject_friend_request_def)
  then show ?thesis
    using ids self by (simp add: handle_reject_def Let_def sidebar_inv_def reject_friend_request_def ids_fresh_delete no_self_rows_delete)
qed

lemma remove_keeps_inv:
  assumes inv: "sidebar_inv d s" "refetching s = []" and b: "RemoveButton i n \<in> set (tab_buttons s)"
  shows "sidebar_inv (fst (handle_remove i n d s)) (snd (handle_remove i n d s))"
proof -
  have ids: "ids_fresh d ''friendships''" and self: "no_self_rows d" and coh: "sidebar_coherent d s"
    using inv by (simp_all add: sidebar_inv_def consistent_settled)
  obtain r where r: "r \<in> set (friends_data s)" and i: "i = get (fst r) ''id''"
    using tab_buttons_cases(3) [OF b] by blast
  obtain u where u: "logged_id (sb_user s) = Some u" and r0: "fst r \<in> set (tables d ''friendships'')"
      "get (fst r) ''status'' = VStr ''accepted''"
    using r coh by (auto simp: sidebar_coherent_def elim: friends_query_row)
  let ?d1 = "remove_friend i d"
  have "sidebar_consistent ?d1 (invalidate RemoveMutation s)"
  proof (rule coherent_after [OF coh])
    show "pending_requests_query (sb_user s) ?d1 = pending_requests_query (sb_user s) d"
      using u r0 by (intro pending_query_same) (simp_all add: remove_friend_def i delete_id_filter [OF ids r0(1)] eq_col_def)
    show "sent_requests_query (sb_user s) ?d1 = sent_requests_query (sb_user s) d"
      using u r0 by (intro sent_query_same) (simp_all add: remove_friend_def i delete_id_filter [OF ids r0(1)] eq_col_def)
  qed (simp_all add: remove_friend_def)
  then show ?thesis
    using ids self by (simp add: handle_remove_def Let_def sidebar_inv_def remove_friend_def ids_fresh_delete no_self_rows_delete)
qed

lemma accept_filter:
  assumes ids: "ids_fresh d ''friendships''" and r0: "r0 \<in> set (tables d ''friendships'')"
    and ok: "accept_friend_request (get r0 ''id'') d = Inr d1"
    and "\<not> P r0" "\<not> P (r0 ++ map_of [(''status'', VStr ''accepted'')])"
  shows "filter P (tables d1 ''friendships'') = filter P (tables d ''friendships'')"
proof -
  have tab: "tables d1 ''friendships'' = map (\<lambda>r. if eq_col ''id'' (get r0 ''id'') r
      then r ++ map_of [(''status'', VStr ''accepted'')] else r) (tables d ''friendships'')"
    using ok by (simp add: accept_friend_request_def update_where_tables)
  show ?thesis
    unfolding tab
    by (rule filter_map_stable) (use assms ids_fresh_unique [OF ids r0] in \<open>auto simp: eq_col_def split: if_splits\<close>)
qed

lemma no_self_rows_accept:
  assumes "accept_friend_request i d = Inr d1" "no_self_rows d"
  shows "no_self_rows d1"
  using assms(2) update_where_tables [OF assms(1) [unfolded accept_friend_request_def]]
  by (auto simp: no_self_rows_def list_all_iff accepted_row_cells)

lemma accept_keeps_inv:
  assumes inv: "sidebar_inv d s" "refetching s = []" and b: "AcceptButton i n \<in> set (tab_buttons s)"
  shows "sidebar_inv (fst (handle_accept i n d s)) (snd (handle_accept i n d s))"
proof (cases "accept_friend_request i d")
  case (Inl e)
  then show ?thesis using inv by (simp add: handle_accept_def sidebar_inv_def)
next
  case (Inr d1)
  have ids: "ids_fresh d ''friendships''" and self: "no_self_rows d" and coh: "sidebar_coherent d s"
    using inv by (simp_all add: sidebar_inv_def consistent_settled)
  obtain r where r: "r \<in> set (pending_data s)" and i: "i = get (fst r) ''id''"
    using tab_buttons_cases(1) [OF b] by blast
  obtain u where u: "logged_id (sb_user s) = Some u" and r0: "fst r \<in> set (tables d ''friendships'')"
      "get (fst r) ''friend_id'' = VStr u" "get (fst r) ''status'' = VStr ''pending''"
    using r coh by (auto simp: sidebar_coherent_def elim: pending_query_row)
  have us: "get (fst r) ''user_id'' \<noteq> VStr u" using pending_row_not_self [OF self r0(1,2)] .
  have upd: "update_where d ''friendships'' (eq_col ''id'' i) [(''status'', VStr ''accepted'')] = Inr d1"
    using Inr by (simp add: accept_friend_request_def)
  have prof: "tables d1 ''profiles'' = tables d ''profiles''"
    using update_where_tables [OF upd] by simp
  have "sidebar_consistent d1 (invalidate AcceptMutation s)"
  proof (rule coherent_after [OF coh prof])
    show "sent_requests_query (sb_user s) d1 = sent_requests_query (sb_user s) d"
      using u us r0(3)
      by (intro sent_query_same prof)
         (simp add: accept_filter [OF ids r0(1) Inr [unfolded i]] eq_col_def get_map_add_of)
  qed simp_all
  moreover have "ids_fresh d1 ''friendships''"
    by (rule ids_fresh_update [OF ids _ upd]) simp
  ultimately show ?thesis
    using Inr no_self_rows_accept [OF Inr self] by (simp add: handle_accept_def sidebar_inv_def)
qed

lemma send_keeps_inv:
  assumes inv: "sidebar_inv d s" "refetching s = []" and b: "SendButton j n \<in> set (search_buttons s)"
  shows "sidebar_inv (fst (handle_send_request j n d s)) (snd (handle_send_request j n d s))"
proof (cases "send_friend_request (sb_user s) j d")
  case (Inl e)
  then show ?thesis using inv by (simp add: handle_send_request_def sidebar_inv_def)
next
  case (Inr d1)
  have ids: "ids_fresh d ''friendships''" and self: "no_self_rows d" and coh: "sidebar_coherent d s"
    using inv by (simp_all add: sidebar_inv_def consistent_settled)
  obtain u where u: "logged_id (sb_user s) = Some u" and ins: "insert_request u j d = Inr d1"
    using send_friend_request_Inr [OF Inr] by blast
  obtain p where p: "p \<in> set (search_data s)" and j: "j = str_or_empty (get p ''id'')"
    using search_buttons_cases [OF b] by blast
  have user: "sb_user s = Some u" "u \<noteq> []" using u by (simp_all add: logged_id_Some)
  have "get p ''id'' \<noteq> VStr u"
    using p coh user(1) by (auto simp: sidebar_coherent_def dest: search_users_not_self)
  then have ju: "j \<noteq> u" using j user(2) by (auto simp: str_or_empty_def split: cell.splits)
  have tab: "tables d1 ''friendships'' = tables d ''friendships'' @
      [new_row d ''friendships'' [(''user_id'', VStr u), (''friend_id'', VStr j), (''status'', VStr ''pending'')]]"
    by (rule insert_request_tables [OF ins])
  have ins': "insert_into d ''friendships''
      [(''user_id'', VStr u), (''friend_id'', VStr j), (''status'', VStr ''pending'')] = Inr d1"
    using ins by (simp add: insert_request_def)
  have prof: "tables d1 ''profiles'' = tables d ''profiles''"
    using insert_into_tables [OF ins'] by simp
  have "sidebar_consistent d1 (invalidate SendMutation s)"
  proof (rule coherent_after [OF coh prof])
    show "pending_requests_query (sb_user s) d1 = pending_requests_query (sb_user s) d"
      using u ju by (intro pending_query_same prof) (simp add: tab eq_col_def)
  qed simp_all
  moreover have "ids_fresh d1 ''friendships''"
    using ids_fresh_insert [OF ids _ _ ins'] by (simp add: table_columns_def friendships_columns_def)
  moreover have "no_self_rows d1" using self ju by (simp add: no_self_rows_def tab)
  ultimately show ?thesis using Inr by (simp add: handle_send_request_def sidebar_inv_def)
qed

lemma search_buttons_send: "b \<in> set (search_buttons s) \<Longrightarrow> \<exists>j n. b = SendButton j n"
  using search_buttons_cases by blast

lemma sidebar_step_inv:
  assumes step: "sidebar_step e (d, s) = Some (d', s')" and inv: "sidebar_inv d s" and w: "waits e s"
  shows "sidebar_inv d' s'"
proof (cases e)
  case (Press b)
  then have b: "b \<in> set (search_buttons s) \<or> b \<in> set (tab_buttons s)" and run: "press b d s = (d', s')"
    using step by (auto simp: sidebar_buttons_def split: if_splits)
  have inv': "sidebar_inv d s" "refetching s = []" using inv w Press by (simp_all add: waits_def)
  show ?thesis
  proof (cases b)
    case (SendButton j n)
    then have "b \<in> set (search_buttons s)" using b tab_buttons_cases(4) by auto
    then show ?thesis using send_keeps_inv [OF inv'] run SendButton by fastforce
  next
    case (RemoveButton i n)
    then have "b \<in> set (tab_buttons s)" using b search_buttons_send by blast
    then show ?thesis using remove_keeps_inv [OF inv'] run RemoveButton by fastforce
  next
    case (AcceptButton i n)
    then have "b \<in> set (tab_buttons s)" using b search_buttons_send by blast
    then show ?thesis using accept_keeps_inv [OF inv'] run AcceptButton by fastforce
  next
    case (RejectButton i)
    then have "b \<in> set (tab_buttons s)" using b search_buttons_send by blast
    then show ?thesis using reject_keeps_inv [OF inv'] run RejectButton by fastforce
  qed
next
  case (RefetchLands q)
  then show ?thesis
    using step inv by (auto simp: sidebar_inv_def consistent_refetch_lands split: if_splits)
qed (use step inv in \<open>auto simp: set_search_query_def debounce_fires_def sidebar_inv_def
       sidebar_consistent_def list_fresh_def\<close>)

lemma run_sidebar_inv:
  "run_sidebar evs (d, s) = Some (d', s') \<Longrightarrow> run_waits evs (d, s) \<Longrightarrow> sidebar_inv d s \<Longrightarrow> sidebar_inv d' s'"
proof (induction evs arbitrary: d s)
  case (Cons e evs)
  then obtain d1 s1 where st: "sidebar_step e (d, s) = Some (d1, s1)" and rest: "run_sidebar evs (d1, s1) = Some (d', s')"
    by (auto split: option.splits)
  have w: "waits e s" "run_waits evs (d1, s1)" using Cons.prems(2) st by simp_all
  show ?case by (rule Cons.IH [OF rest w(2) sidebar_step_inv [OF st Cons.prems(3) w(1)]])
qed simp

lemma load_sidebar_inv:
  "ids_fresh d ''friendships'' \<Longrightarrow> no_self_rows d \<Longrightarrow> sidebar_inv d (load_sidebar user d)"
  by (simp add: sidebar_inv_def sidebar_consistent_def list_fresh_def load_sidebar_def search_users_def)

lemma accept_friend_request_Inr: "\<exists>d'. accept_friend_request i d = Inr d'"
  by (simp add: accept_friend_request_def update_where_def columns_known_def table_columns_def
      friendships_columns_def)

lemma accepted_row_in:
  assumes "accept_friend_request (get r ''id'') d = Inr d'" "r \<in> set (tables d ''friendships'')"
  shows "r ++ map_of [(''status'', VStr ''accepted'')] \<in> set (tables d' ''friendships'')"
  using assms by (force simp: accept_friend_request_def update_where_tables eq_col_def)

lemma demo_request_fresh: "ids_fresh demo_request ''friendships''" "no_self_rows demo_request"
  by (simp_all add: ids_fresh_def no_self_rows_def id_below_def demo_request_def store_eval)

lemma demo_accept_button:
  "AcceptButton (VInt 0) ''Unknown'' \<in> set (sidebar_buttons ((load_sidebar (Some ''b'') demo_request)\<lparr>active_tab := ''requests''\<rparr>))"
  by (simp add: load_sidebar_def sidebar_buttons_def search_buttons_def tab_buttons_def
      pending_requests_query_def with_profiles_def find_profile_def placeholder_profile_def
      str_or_empty_def demo_request_def store_eval)

text \<open>
  C5. The sidebar's cache invalidation is enough for one client that waits for its
  refetches before pressing a button: from a store with fresh row ids and no friendship
  of a user with themself, after any sequence of typing, debounce, tab, button and
  refetch events in which every press comes when no refetch is outstanding, every list
  the sidebar shows (friends, incoming and outgoing requests) equals a fresh read of the
  store or waits for a refetch, and the search results are fresh; once no refetch is
  outstanding, every list is fresh.
\<close>

theorem sidebar_lists_fresh:
  assumes "ids_fresh d ''friendships''" and "no_self_rows d"
    and "run_sidebar evs (d, load_sidebar user d) = Some (d', s')"
    and "run_waits evs (d, load_sidebar user d)"
  shows "sidebar_consistent d' s' \<and> (refetching s' = [] \<longrightarrow> sidebar_coherent d' s')"
proof -
  have "sidebar_inv d' s'"
    using run_sidebar_inv [OF assms(3,4) load_sidebar_inv [OF assms(1,2)]] .
  then show ?thesis by (auto simp: sidebar_inv_def consistent_settled)
qed

theorem sidebar_lists_fresh_witness:
  "\<exists>s'. run_sidebar [SelectTab ''requests'', Press (AcceptButton (VInt 0) ''Unknown''),
            RefetchLands QFriends, RefetchLands QPending]
          (demo_request, load_sidebar (Some ''b'') demo_request) = Some (demo_friends, s') \<and>
        run_waits [SelectTab ''requests'', Press (AcceptButton (VInt 0) ''Unknown''),
            RefetchLands QFriends, RefetchLands QPending] (demo_request, load_sidebar (Some ''b'') demo_request) \<and>
        refetching s' = [] \<and> sidebar_coherent demo_friends s'"
proof -
  let ?evs = "[SelectTab ''requests'', Press (AcceptButton (VInt 0) ''Unknown''), RefetchLands QFriends, RefetchLands QPending]"
  obtain s' where run: "run_sidebar ?evs (demo_request, load_sidebar (Some ''b'') demo_request) = Some (demo_friends, s')"
    and w: "run_waits ?evs (demo_request, load_sidebar (Some ''b'') demo_request)" and r: "refetching s' = []"
    using demo_accept_button
    by (simp add: handle_accept_def demo_friends_accepted waits_def invalidate_def refetch_lands_def refetch_def)
      (simp add: load_sidebar_def)
  then show ?thesis using sidebar_lists_fresh [OF demo_request_fresh run w] by blast
qed

lemma pair_state_no_relation:
  "pair_state u v d = NoRelation \<Longrightarrow> r \<in> set (tables d ''friendships'') \<Longrightarrow> \<not> pair_filter u v r"
  by (auto simp: pair_state_rows select_rows_def filter_empty_conv neq_Nil_conv split: list.splits if_splits)

lemma friend_listed_iff:
  "u \<noteq> [] \<Longrightarrow> v \<noteq> u \<Longrightarrow> VStr v \<in> set (friend_ids (friends_query (Some u) d)) \<longleftrightarrow>
     (\<exists>r\<in>set (tables d ''friendships''). pair_filter u v r \<and> get r ''status'' = VStr ''accepted'')"
  by (simp add: is_already_friend_iff flip: is_already_friend_friend_ids)

text \<open>
  C6. Without that wait the friends list goes stale for good: when the signed-in user
  accepts an incoming request and then, before the incoming list's refetch has landed,
  presses Reject on the same request, still shown with its buttons, the reject deletes
  the new friendship. It invalidates only the incoming requests, so once every
  refetch has landed the friends list still shows the other user while the store no
  longer holds their friendship.
\<close>

theorem stale_reject_drops_friend:
  assumes inv: "friendships_inv d" and self: "no_self_rows d" and u: "u \<noteq> []"
    and r: "r \<in> set (tables d ''friendships'')" "get r ''status'' = VStr ''pending''"
      "get r ''user_id'' = VStr v" "get r ''friend_id'' = VStr u"
  shows "\<exists>m d' s'.
     run_sidebar [SelectTab ''requests'', Press (AcceptButton (get r ''id'') m), RefetchLands QFriends,
                  Press (RejectButton (get r ''id'')), RefetchLands QPending]
       (d, load_sidebar (Some u) d) = Some (d', s') \<and>
     refetching s' = [] \<and> sb_toast s' = Some RejectedToast \<and>
     VStr v \<in> set (friend_ids (friends_data s')) \<and> VStr v \<notin> set (friend_ids (friends_query (Some u) d'))"
proof -
  let ?i = "get r ''id''"
  have vu: "v \<noteq> u" using self r(1,3,4) by (auto simp: no_self_rows_def list_all_iff)
  have "r \<in> set (map fst (pending_requests_query (Some u) d))"
    using u r by (simp add: pending_query_fst select_rows_def eq_col_def)
  then obtain x where x: "x \<in> set (pending_requests_query (Some u) d)" "fst x = r" by auto
  let ?m = "str_or_empty (get (snd x) ''username'')"
  let ?t = "(load_sidebar (Some u) d)\<lparr>active_tab := ''requests''\<rparr>"
  have b: "AcceptButton ?i ?m \<in> set (tab_buttons ?t)" "RejectButton ?i \<in> set (tab_buttons ?t)"
    using x by (force simp: tab_buttons_def load_sidebar_def)+
  obtain d1 where acc: "accept_friend_request ?i d = Inr d1" using accept_friend_request_Inr by blast
  let ?d2 = "reject_friend_request ?i d1"
  define s1 where "s1 = (invalidate AcceptMutation ?t)\<lparr>sb_toast := Some (AcceptedToast ?m)\<rparr>"
  define s2 where "s2 = refetch_lands d1 QFriends s1"
  define s3 where "s3 = (invalidate RejectMutation s2)\<lparr>sb_toast := Some RejectedToast\<rparr>"
  define s4 where "s4 = refetch_lands ?d2 QPending s3"
  have "tab_buttons s2 = tab_buttons ?t"
    by (simp add: tab_buttons_def s2_def s1_def refetch_lands_views)
  then have "RejectButton ?i \<in> set (sidebar_buttons s2)" using b(2) by (simp add: sidebar_buttons_def)
  moreover have "AcceptButton ?i ?m \<in> set (sidebar_buttons ?t)" using b(1) by (simp add: sidebar_buttons_def)
  ultimately have run: "run_sidebar [SelectTab ''requests'', Press (AcceptButton ?i ?m), RefetchLands QFriends,
      Press (RejectButton ?i), RefetchLands QPending] (d, load_sidebar (Some u) d) = Some (?d2, s4)"
    using acc by (simp add: handle_accept_def handle_reject_def s1_def s2_def s3_def s4_def)
  have settled: "refetching s4 = []"
    by (simp add: s4_def s3_def s2_def s1_def invalidate_def load_sidebar_def)
  have shown: "friends_data s4 = friends_query (Some u) d1"
    by (simp add: s4_def s3_def s2_def s1_def refetch_lands_views load_sidebar_def)
  let ?r1 = "r ++ map_of [(''status'', VStr ''accepted'')]"
  have r1: "?r1 \<in> set (tables d1 ''friendships'')" "pair_filter u v ?r1" "get ?r1 ''id'' = ?i"
    using accepted_row_in [OF acc r(1)] r(3,4) by (simp_all add: pair_filter_def eq_col_def get_map_add_of)
  have "VStr v \<in> set (friend_ids (friends_query (Some u) d1))"
    using r1 u vu by (auto simp: friend_listed_iff get_map_add_of)
  moreover have "pair_state u v ?d2 = NoRelation"
    using reject_remove_refine_spec [OF accept_preserves_inv [OF inv acc] r1] by simp
  then have "VStr v \<notin> set (friend_ids (friends_query (Some u) ?d2))"
    using u vu by (auto simp: friend_listed_iff dest: pair_state_no_relation)
  moreover have "sb_toast s4 = Some RejectedToast" by (simp add: s4_def s3_def)
  ultimately show ?thesis using run settled shown by metis
qed

theorem stale_reject_drops_friend_witness:
  "\<exists>m d' s'.
     run_sidebar [SelectTab ''requests'', Press (AcceptButton (VInt 0) m), RefetchLands QFriends,
                  Press (RejectButton (VInt 0)), RefetchLands QPending]
       (demo_request, load_sidebar (Some ''b'') demo_request) = Some (d', s') \<and>
     refetching s' = [] \<and> sb_toast s' = Some RejectedToast \<and>
     VStr ''a'' \<in> set (friend_ids (friends_data s')) \<and> VStr ''a'' \<notin> set (friend_ids (friends_query (Some ''b'') d'))"
proof -
  let ?r = "hd (tables demo_request ''friendships'')"
  have r: "?r \<in> set (tables demo_request ''friendships'')" "get ?r ''status'' = VStr ''pending''"
    "get ?r ''user_id'' = VStr ''a''" "get ?r ''friend_id'' = VStr ''b''" "get ?r ''id'' = VInt 0"
    by (simp_all add: demo_request_def store_eval)
  show ?thesis
    using stale_reject_drops_friend [OF demo_request_inv demo_request_fresh(2) _ r(1-4)] r(5) by simp
qed

text \<open>
  C7. A friend request can always be made and accepted through the two users'
  sidebars: if user \<open>u\<close> and user \<open>v\<close> have no friendship row and \<open>v\<close>'s profile is
  among \<open>u\<close>'s search results for \<open>q\<close>, then typing \<open>q\<close>, waiting out the debounce
  and pressing \<open>v\<close>'s add button sends the request; the sidebar \<open>v\<close> loads afterwards
  shows an accept button for it, and pressing it makes each user a friend of the other,
  in \<open>v\<close>'s refetched list and in a fresh read of \<open>u\<close>'s.
\<close>

theorem request_then_accept:
  assumes none: "select_rows d ''friendships'' (pair_filter u v) = []" and u: "u \<noteq> []" and v: "v \<noteq> []"
    and p: "p \<in> set (search_users (Some u) q d)" and pid: "get p ''id'' = VStr v"
  shows "\<exists>d1 s1 d2 s2 i m.
     run_sidebar [TypeQuery q, DebounceFires, Press (SendButton v (str_or_empty (get p ''username'')))]
       (d, load_sidebar (Some u) d) = Some (d1, s1) \<and>
     sb_toast s1 = Some (SentToast (str_or_empty (get p ''username''))) \<and>
     run_sidebar [SelectTab ''requests'', Press (AcceptButton i m), RefetchLands QFriends]
       (d1, load_sidebar (Some v) d1) = Some (d2, s2) \<and>
     sb_toast s2 = Some (AcceptedToast m) \<and>
     VStr u \<in> set (friend_ids (friends_data s2)) \<and> VStr v \<in> set (friend_ids (friends_query (Some u) d2))"
proof -
  let ?name = "str_or_empty (get p ''username'')"
  have vu: "v \<noteq> u" using search_users_not_self [OF p] pid by auto
  have q: "q \<noteq> []" using p by (auto simp: search_users_def)
  let ?s0 = "debounce_fires d (set_search_query q (load_sidebar (Some u) d))"
  have no: "\<forall>r\<in>set (tables d ''friendships''). \<not> pair_filter u v r"
    using none by (simp add: select_rows_def filter_empty_conv)
  have "search_result_action (friends_query (Some u) d) (sent_requests_query (Some u) d) (VStr v) = ShowAddButton"
    using no u vu
    by (auto simp: search_result_action_def is_already_friend_iff has_pending_request_iff pair_filter_def eq_col_def)
  then have b1: "SendButton v ?name \<in> set (sidebar_buttons ?s0)"
    using p pid q
    by (force simp: sidebar_buttons_def search_buttons_def str_or_empty_def debounce_fires_def
        set_search_query_def load_sidebar_def)
  obtain d1 where ins: "insert_request u v d = Inr d1" using insert_request_Inr by blast
  have send: "send_friend_request (Some u) v d = Inr d1"
    using ins u none by (simp add: send_friend_request_Some send_check_none)
  have user0: "sb_user ?s0 = Some u" by (simp add: debounce_fires_def set_search_query_def load_sidebar_def)
  define s1 where "s1 = (invalidate SendMutation ?s0)\<lparr>sb_toast := Some (SentToast ?name), search_query := []\<rparr>"
  have run1: "run_sidebar [TypeQuery q, DebounceFires, Press (SendButton v ?name)]
      (d, load_sidebar (Some u) d) = Some (d1, s1)"
    using b1 send user0 by (simp add: handle_send_request_def s1_def)
  let ?n = "new_row d ''friendships'' [(''user_id'', VStr u), (''friend_id'', VStr v), (''status'', VStr ''pending'')]"
  have tab1: "tables d1 ''friendships'' = tables d ''friendships'' @ [?n]" by (rule insert_request_tables [OF ins])
  have "?n \<in> set (map fst (pending_requests_query (Some v) d1))"
    using v by (simp add: pending_query_fst select_rows_def tab1 eq_col_def)
  then obtain r where r: "r \<in> set (pending_requests_query (Some v) d1)" "fst r = ?n" by auto
  let ?t = "(load_sidebar (Some v) d1)\<lparr>active_tab := ''requests''\<rparr>"
  let ?i = "get ?n ''id''" and ?m = "str_or_empty (get (snd r) ''username'')"
  have b2: "AcceptButton ?i ?m \<in> set (sidebar_buttons ?t)"
    using r by (force simp: sidebar_buttons_def tab_buttons_def load_sidebar_def)
  obtain d2 where acc: "accept_friend_request ?i d1 = Inr d2" using accept_friend_request_Inr by blast
  define s2 where "s2 = refetch_lands d2 QFriends ((invalidate AcceptMutation ?t)\<lparr>sb_toast := Some (AcceptedToast ?m)\<rparr>)"
  have run2: "run_sidebar [SelectTab ''requests'', Press (AcceptButton ?i ?m), RefetchLands QFriends]
      (d1, load_sidebar (Some v) d1) = Some (d2, s2)"
    using b2 acc by (simp add: handle_accept_def s2_def)
  have "?n ++ map_of [(''status'', VStr ''accepted'')] \<in> set (tables d2 ''friendships'')"
    using accepted_row_in [OF acc] tab1 by simp
  then have sym: "VStr v \<in> set (friend_ids (friends_query (Some u) d2)) \<and> VStr u \<in> set (friend_ids (friends_query (Some v) d2))"
    by (rule friends_view_symmetric) (simp_all add: get_map_add_of u v)
  have "friends_data s2 = friends_query (Some v) d2" by (simp add: s2_def refetch_lands_views load_sidebar_def)
  moreover have "sb_toast s1 = Some (SentToast ?name)" "sb_toast s2 = Some (AcceptedToast ?m)"
    by (simp_all add: s1_def s2_def)
  ultimately show ?thesis using run1 run2 sym by metis
qed

lemma demo_search_bo:
  "search_users (Some ''a'') ''bo'' demo_profiles =
     [project profile_columns [''id'' \<mapsto> VStr ''b'', ''username'' \<mapsto> VStr ''bob'']]"
  by (simp add: search_users_def demo_profiles_def ilike_def store_eval)

theorem request_then_accept_witness:
  "\<exists>d1 s1 d2 s2 i m.
     run_sidebar [TypeQuery ''bo'', DebounceFires, Press (SendButton ''b'' ''bob'')]
       (demo_profiles, load_sidebar (Some ''a'') demo_profiles) = Some (d1, s1) \<and>
     sb_toast s1 = Some (SentToast ''bob'') \<and>
     run_sidebar [SelectTab ''requests'', Press (AcceptButton i m), RefetchLands QFriends]
       (d1, load_sidebar (Some ''b'') d1) = Some (d2, s2) \<and>
     sb_toast s2 = Some (AcceptedToast m) \<and>
     VStr ''a'' \<in> set (friend_ids (friends_data s2)) \<and> VStr ''b'' \<in> set (friend_ids (friends_query (Some ''a'') d2))"
proof -
  let ?p = "project profile_columns [''id'' \<mapsto> VStr ''b'', ''username'' \<mapsto> VStr ''bob'']"
  have none: "select_rows demo_profiles ''friendships'' (pair_filter ''a'' ''b'') = []"
    by (simp add: demo_profiles_def select_rows_def empty_db_def)
  have p: "?p \<in> set (search_users (Some ''a'') ''bo'' demo_profiles)" by (simp add: demo_search_bo)
  have pid: "get ?p ''id'' = VStr ''b''" by simp
  have "str_or_empty (get ?p ''username'') = ''bob''" by (simp add: str_or_empty_def)
  then show ?thesis
    using request_then_accept [OF none _ _ p pid] by (simp only: list.distinct simp_thms)
qed

end
