(* ===== verification/DiscoverFlow.thy ===== *)
theory DiscoverFlow
  imports DiscoverPage
begin

text \<open>
  The render cycle of the catalogue page \<open>src/src/pages/Discover.tsx\<close>: the queries
  each render mounts, the result list chosen from the cache of the catalogue answers,
  the three effects in the order the component declares them (the accumulation of
  result pages, the reset on a change of media kind, the reset of the page on a change
  of query or filter), the controls as events, and the grid and details dialog a state
  renders. The catalogue answers are a cache from query calls to answers; an answer
  arrives as an event. The theory proves that once the grid has shown results it never
  shows "No results found" again, so an unsuccessful search keeps the previous results
  on screen; that the reset effect keeps the minimum rating among the options of the
  selected kind, so the games request shown asks a Metacritic score of at most 100;
  and that a series card opens the movie details of the series' id.
\<close>

section \<open>Catalogue answers and the page's state\<close>

text \<open>
  An answer: a page of results with TMDB's \<open>total_pages\<close> or RAWG's \<open>count\<close>, the
  details of one item, a list of genres, or a failed request (\<open>data\<close> stays undefined).
\<close>

datatype catalog_answer =
    ResultsPage "catalog_item list" "nat option"
  | ItemDetails catalog_item
  | GenreList "(nat \<times> string) list"
  | FetchFailed

type_synonym media_cache = "media_hook \<Rightarrow> catalog_answer option"

text \<open>\<open>data?.results || []\<close>, \<open>data?.total_pages\<close> (or \<open>count\<close>), \<open>data?.genres || []\<close>.\<close>

fun answer_results :: "catalog_answer option \<Rightarrow> catalog_item list" where
  "answer_results (Some (ResultsPage rs t)) = rs"
| "answer_results _ = []"

fun answer_total :: "catalog_answer option \<Rightarrow> nat option" where
  "answer_total (Some (ResultsPage rs t)) = t"
| "answer_total _ = None"

fun answer_genres :: "catalog_answer option \<Rightarrow> (nat \<times> string) list" where
  "answer_genres (Some (GenreList gs)) = gs"
| "answer_genres _ = []"

text \<open>
  The component's state: kind, search text, filters and page, the selected movie and
  game of the details dialogs, the accumulated results, and the dependencies the
  accumulation effect last ran with (the selected query and its answer).
\<close>

record discover_state =
  sel_kind :: media_kind
  search_text :: string
  filt :: filters
  selected_movie :: "nat option"
  selected_game :: "nat option"
  all_results :: "catalog_item list"
  acc_deps :: "(media_hook \<times> catalog_answer option) option"

definition initial_discover :: "string option \<Rightarrow> discover_state" where
  "initial_discover type_param =
     \<lparr>sel_kind = initial_media type_param, search_text = [], filt = initial_filters,
      selected_movie = None, selected_game = None, all_results = [], acc_deps = None\<rparr>"

definition is_searching :: "discover_state \<Rightarrow> bool" where
  "is_searching s \<longleftrightarrow> search_text s \<noteq> []"

section \<open>The queries of a render\<close>

text \<open>\<open>allGenres\<close>: the genres of the selected kind.\<close>

definition all_genres :: "media_cache \<Rightarrow> media_kind \<Rightarrow> (nat \<times> string) list" where
  "all_genres c k = answer_genres (c (case k of Movies \<Rightarrow> MovieGenres | media_kind.Series \<Rightarrow> TVGenres | Games \<Rightarrow> GameGenres))"

text \<open>
  Every render mounts the same queries: the three genre lists, the three discover
  queries with the current filters (all kinds are prefetched), the three searches with
  the current page, and the details of the selected movie and game (\<open>id || 0\<close>).
\<close>

definition sel_id :: "nat option \<Rightarrow> nat" where
  "sel_id x = (case x of Some i \<Rightarrow> i | None \<Rightarrow> 0)"

definition page_hooks :: "nat \<Rightarrow> discover_state \<Rightarrow> media_hook list" where
  "page_hooks y s =
     (let f = filt s; q = search_text s; pg = page f
      in [MovieGenres, TVGenres, GameGenres,
          DiscoverMovies (api_params f), DiscoverTV (api_params f), DiscoverGames (game_api_params y f),
          SearchMovies q pg, SearchTV q pg, SearchGames q pg,
          MovieDetails (sel_id (selected_movie s)), MovieCredits (sel_id (selected_movie s)),
          GameDetails (sel_id (selected_game s))])"

text \<open>The query whose answer the grid shows: the search while searching, else the discover query.\<close>

definition results_hook :: "nat \<Rightarrow> discover_state \<Rightarrow> media_hook" where
  "results_hook y s =
     (let f = filt s; q = search_text s
      in case sel_kind s of
           Movies \<Rightarrow> if is_searching s then SearchMovies q (page f) else DiscoverMovies (api_params f)
         | media_kind.Series \<Rightarrow> if is_searching s then SearchTV q (page f) else DiscoverTV (api_params f)
         | Games \<Rightarrow> if is_searching s then SearchGames q (page f) else DiscoverGames (game_api_params y f))"

definition is_loading :: "media_cache \<Rightarrow> nat \<Rightarrow> discover_state \<Rightarrow> bool" where
  "is_loading c y s \<longleftrightarrow> c (results_hook y s) = None"

definition last_page :: "media_cache \<Rightarrow> nat \<Rightarrow> discover_state \<Rightarrow> nat" where
  "last_page c y s =
     (let t = answer_total (c (results_hook y s)) in total_pages (sel_kind s) t t)"

section \<open>Effects\<close>

text \<open>
  The accumulation effect runs when its dependencies (the current results and the
  page) changed since its last run; while the answer is missing, \<open>currentResults\<close> is a
  new empty array at every render, so the effect runs and changes nothing.
\<close>

definition accumulation_effect :: "media_cache \<Rightarrow> nat \<Rightarrow> discover_state \<Rightarrow> discover_state" where
  "accumulation_effect c y s =
     (let h = results_hook y s
      in if acc_deps s = Some (h, c h) \<and> c h \<noteq> None then s
         else s\<lparr>all_results := accumulate (all_results s) (page (filt s)) (answer_results (c h)),
                acc_deps := Some (h, c h)\<rparr>)"

text \<open>The two reset effects, against the state of the previous render.\<close>

definition reset_effects :: "discover_state \<Rightarrow> discover_state \<Rightarrow> discover_state" where
  "reset_effects p s =
     (let s1 = (if sel_kind s \<noteq> sel_kind p then s\<lparr>filt := reset_on_kind (filt s)\<rparr> else s)
      in if search_text s \<noteq> search_text p \<or> sort_by (filt s) \<noteq> sort_by (filt p) \<or>
            genres (filt s) \<noteq> genres (filt p) \<or> year_from (filt s) \<noteq> year_from (filt p) \<or>
            year_to (filt s) \<noteq> year_to (filt p) \<or> min_rating (filt s) \<noteq> min_rating (filt p)
         then s1\<lparr>filt := reset_page (filt s1)\<rparr> else s1)"

text \<open>
  A commit: the effects run in declaration order (accumulation first, with the page of
  the render), and the state the resets set is rendered once more.
\<close>

definition commit :: "media_cache \<Rightarrow> nat \<Rightarrow> discover_state \<Rightarrow> discover_state \<Rightarrow> discover_state" where
  "commit c y p s = accumulation_effect c y (reset_effects p (accumulation_effect c y s))"

section \<open>Rendering\<close>

datatype grid_view = GridSkeleton | GridEmpty | GridCards "card_view list"

text \<open>Skeletons while loading, "No results found" for an empty list, else the cards.\<close>

definition grid_view :: "media_cache \<Rightarrow> nat \<Rightarrow> discover_state \<Rightarrow> grid_view" where
  "grid_view c y s =
     (if is_loading c y s then GridSkeleton
      else if all_results s = [] then GridEmpty
      else GridCards (map (card_of (sel_kind s)) (all_results s)))"

text \<open>The options of the minimum-rating select: 0--5 for games, 5--9 otherwise.\<close>

definition rating_options :: "media_kind \<Rightarrow> string list" where
  "rating_options k =
     ''0'' # (if k = Games then [''1'', ''2'', ''3'', ''4'', ''5''] else [''5'', ''6'', ''7'', ''8'', ''9''])"

text \<open>A card's click selects a game for the game dialog, anything else for the movie dialog.\<close>

definition card_click :: "media_kind \<Rightarrow> catalog_item \<Rightarrow> discover_state \<Rightarrow> discover_state" where
  "card_click k it s =
     (if card_is_game (card_of k it) then s\<lparr>selected_game := Some (cat_id it)\<rparr>
      else s\<lparr>selected_movie := Some (cat_id it)\<rparr>)"

text \<open>
  The movie dialog's rate button, shown once the details are loaded: the review item
  is typed by the page's kind, with the selected id and the details' title and poster.
\<close>

definition rate_from_movie_dialog ::
  "media_cache \<Rightarrow> discover_state \<Rightarrow> (string \<times> nat \<times> string \<times> string option) option" where
  "rate_from_movie_dialog c s =
     (case selected_movie s of
        None \<Rightarrow> None
      | Some i \<Rightarrow>
          (case c (MovieDetails i) of
             Some (ItemDetails det) \<Rightarrow>
               Some (if sel_kind s = media_kind.Series then ''series'' else ''movie'', i, item_label det, cat_poster det)
           | _ \<Rightarrow> None))"

section \<open>Events\<close>

datatype discover_event =
    TypeSearch string | ChooseKind media_kind | ChooseSort string | TypeYearFrom string | TypeYearTo string
  | ChooseMinRating string | ClickGenre nat | ClickLoadMore | OpenCard catalog_item
  | CloseMovieDialog | CloseGameDialog | Arrive media_hook catalog_answer

text \<open>
  The controls: the search box and the kind badges are always shown; the genre badges
  and the filter panel only while not searching, a select offering only its options;
  "Load more" and the cards only as the grid shows them.
\<close>

fun apply_event :: "media_cache \<Rightarrow> nat \<Rightarrow> discover_event \<Rightarrow> discover_state \<Rightarrow> discover_state option" where
  "apply_event c y (TypeSearch q) s = Some (s\<lparr>search_text := q\<rparr>)"
| "apply_event c y (ChooseKind k) s = Some (s\<lparr>sel_kind := k\<rparr>)"
| "apply_event c y (ChooseSort v) s =
     (if \<not> is_searching s \<and> v \<in> set sort_options then Some (s\<lparr>filt := (filt s)\<lparr>sort_by := v\<rparr>\<rparr>) else None)"
| "apply_event c y (TypeYearFrom v) s =
     (if \<not> is_searching s then Some (s\<lparr>filt := (filt s)\<lparr>year_from := v\<rparr>\<rparr>) else None)"
| "apply_event c y (TypeYearTo v) s =
     (if \<not> is_searching s then Some (s\<lparr>filt := (filt s)\<lparr>year_to := v\<rparr>\<rparr>) else None)"
| "apply_event c y (ChooseMinRating v) s =
     (if \<not> is_searching s \<and> v \<in> set (rating_options (sel_kind s))
      then Some (s\<lparr>filt := (filt s)\<lparr>min_rating := v\<rparr>\<rparr>) else None)"
| "apply_event c y (ClickGenre g) s =
     (if \<not> is_searching s \<and> g \<in> set (map fst (all_genres c (sel_kind s)))
      then Some (s\<lparr>filt := (filt s)\<lparr>genres := toggle_genre g (genres (filt s))\<rparr>\<rparr>) else None)"
| "apply_event c y ClickLoadMore s =
     (if load_more_shown (is_loading c y s) (all_results s) (page (filt s)) (last_page c y s)
      then Some (s\<lparr>filt := load_more (filt s)\<rparr>) else None)"
| "apply_event c y (OpenCard it) s =
     (if \<not> is_loading c y s \<and> it \<in> set (all_results s) then Some (card_click (sel_kind s) it s) else None)"
| "apply_event c y CloseMovieDialog s = Some (s\<lparr>selected_movie := None\<rparr>)"
| "apply_event c y CloseGameDialog s = Some (s\<lparr>selected_game := None\<rparr>)"
| "apply_event c y (Arrive h a) s = Some s"

text \<open>
  A step: an answer enters the cache and the page renders again; any other event
  updates the state; either way the render is committed. \<open>y\<close> is the current year.
\<close>

fun discover_step ::
  "nat \<Rightarrow> discover_event \<Rightarrow> media_cache \<times> discover_state \<Rightarrow> (media_cache \<times> discover_state) option" where
  "discover_step y (Arrive h a) (c, s) = Some (c(h \<mapsto> a), commit (c(h \<mapsto> a)) y s s)"
| "discover_step y e (c, s) = map_option (\<lambda>s'. (c, commit c y s s')) (apply_event c y e s)"

fun discover_run ::
  "nat \<Rightarrow> discover_event list \<Rightarrow> media_cache \<times> discover_state \<Rightarrow> (media_cache \<times> discover_state) option" where
  "discover_run y [] cs = Some cs"
| "discover_run y (e # es) cs = (case discover_step y e cs of None \<Rightarrow> None | Some cs' \<Rightarrow> discover_run y es cs')"

section \<open>Facts about the cycle\<close>

lemma accumulation_effect_fields [simp]:
  "sel_kind (accumulation_effect c y s) = sel_kind s"
  "search_text (accumulation_effect c y s) = search_text s"
  "filt (accumulation_effect c y s) = filt s"
  "selected_movie (accumulation_effect c y s) = selected_movie s"
  "selected_game (accumulation_effect c y s) = selected_game s"
  by (simp_all add: accumulation_effect_def Let_def)

lemma reset_effects_fields [simp]:
  "sel_kind (reset_effects p s) = sel_kind s"
  "search_text (reset_effects p s) = search_text s"
  "selected_movie (reset_effects p s) = selected_movie s"
  "selected_game (reset_effects p s) = selected_game s"
  "all_results (reset_effects p s) = all_results s"
  by (simp_all add: reset_effects_def Let_def)

lemma commit_fields [simp]:
  "sel_kind (commit c y p s) = sel_kind s"
  "search_text (commit c y p s) = search_text s"
  "selected_movie (commit c y p s) = selected_movie s"
  "selected_game (commit c y p s) = selected_game s"
  by (simp_all add: commit_def)

lemma commit_filt: "filt (commit c y p s) = filt (reset_effects p s)"
  by (simp add: commit_def reset_effects_def Let_def)

lemma reset_effects_same [simp]: "reset_effects s s = s"
  by (simp add: reset_effects_def)

lemma reset_effects_search:
  "sel_kind s = sel_kind p \<Longrightarrow> search_text s \<noteq> search_text p \<Longrightarrow> filt (reset_effects p s) = reset_page (filt s)"
  by (simp add: reset_effects_def)

lemma accumulate_nonempty: "all \<noteq> [] \<Longrightarrow> accumulate all pg rs \<noteq> []"
  by (simp add: accumulate_def)

lemma commit_results_nonempty:
  "all_results s \<noteq> [] \<Longrightarrow> all_results (commit c y p s) \<noteq> []"
  by (simp add: commit_def accumulation_effect_def Let_def accumulate_nonempty)

lemma apply_event_results:
  "apply_event c y e s = Some s' \<Longrightarrow> all_results s' = all_results s"
  by (cases e) (auto simp: card_click_def split: if_splits)

lemma discover_step_Some:
  "discover_step y e (c, s) = Some (c', s') \<Longrightarrow>
   (\<exists>h a. e = Arrive h a \<and> c' = c(h \<mapsto> a) \<and> s' = commit c' y s s) \<or>
   (\<exists>s0. apply_event c y e s = Some s0 \<and> c' = c \<and> s' = commit c y s s0)"
  by (cases e) (auto simp del: apply_event.simps)

lemma discover_step_results:
  assumes "discover_step y e (c, s) = Some (c', s')" "all_results s \<noteq> []"
  shows "all_results s' \<noteq> []"
  using discover_step_Some [OF assms(1)]
proof (elim disjE exE conjE)
  fix h a assume "e = Arrive h a" "c' = c(h \<mapsto> a)" "s' = commit c' y s s"
  then show ?thesis using commit_results_nonempty [OF assms(2)] by simp
next
  fix s0 assume "apply_event c y e s = Some s0" "c' = c" "s' = commit c y s s0"
  then show ?thesis using commit_results_nonempty [of s0] apply_event_results assms(2) by metis
qed

lemma discover_run_results:
  "discover_run y evs (c, s) = Some (c', s') \<Longrightarrow> all_results s \<noteq> [] \<Longrightarrow> all_results s' \<noteq> []"
proof (induction evs arbitrary: c s)
  case (Cons e evs)
  then obtain c1 s1 where st: "discover_step y e (c, s) = Some (c1, s1)"
    and rest: "discover_run y evs (c1, s1) = Some (c', s')"
    by (auto split: option.splits)
  show ?case by (rule Cons.IH [OF rest discover_step_results [OF st Cons.prems(2)]])
qed simp

text \<open>
  C31. Once the page has results, "No results found" is never shown again, whatever
  the user does and whatever the catalogues answer: the accumulation effect ignores an
  empty page, so a search or filter with no results keeps the previous results on screen.
\<close>

theorem no_results_message_unreachable:
  assumes "all_results s \<noteq> []" and "discover_run y evs (c, s) = Some (c', s')"
  shows "grid_view c' y s' \<noteq> GridEmpty"
  using discover_run_results [OF assms(2,1)] by (simp add: grid_view_def)

definition demo_movies_page :: catalog_answer where
  "demo_movies_page = ResultsPage [demo_item] (Some 1)"

definition demo_loaded :: "media_cache \<times> discover_state" where
  "demo_loaded =
     (Map.empty(DiscoverMovies (api_params initial_filters) \<mapsto> demo_movies_page),
      (initial_discover None)\<lparr>all_results := [demo_item],
        acc_deps := Some (DiscoverMovies (api_params initial_filters), Some demo_movies_page)\<rparr>)"

theorem no_results_message_unreachable_witness:
  "\<exists>c' s'. discover_run 2025 [TypeSearch ''zzz'', Arrive (SearchMovies ''zzz'' 1) (ResultsPage [] (Some 0))]
       demo_loaded = Some (c', s') \<and>
     answer_results (c' (results_hook 2025 s')) = [] \<and> grid_view c' 2025 s' \<noteq> GridEmpty"
proof -
  obtain c0 s0 where d: "demo_loaded = (c0, s0)" by (cases demo_loaded)
  have s0: "sel_kind s0 = Movies" "search_text s0 = []" "all_results s0 \<noteq> []"
    using d by (auto simp: demo_loaded_def initial_discover_def initial_media_def)
  define s1 where "s1 = commit c0 2025 s0 (s0\<lparr>search_text := ''zzz''\<rparr>)"
  let ?h = "SearchMovies ''zzz'' 1" and ?a = "ResultsPage [] (Some 0)"
  define s2 where "s2 = commit (c0(?h \<mapsto> ?a)) 2025 s1 s1"
  have run: "discover_run 2025 [TypeSearch ''zzz'', Arrive ?h ?a] demo_loaded = Some (c0(?h \<mapsto> ?a), s2)"
    by (simp add: d s1_def s2_def)
  have "page (filt s1) = 1"
    using s0 by (simp add: s1_def commit_filt reset_effects_search reset_page_def)
  then have "results_hook 2025 s2 = ?h"
    using s0 by (simp add: s2_def s1_def commit_filt results_hook_def is_searching_def)
  moreover have "all_results s0 \<noteq> []" by (rule s0(3))
  ultimately show ?thesis
    using run no_results_message_unreachable [OF s0(3), of 2025 "[TypeSearch ''zzz'', Arrive ?h ?a]" c0] d by auto
qed

section \<open>The minimum rating\<close>

lemma nat_str_digit: "n < 10 \<Longrightarrow> nat_str n = [digit_chars ! n]"
  by (simp add: nat_str.simps)

lemma nat_str_more: "10 \<le> n \<Longrightarrow> nat_str n = nat_str (n div 10) @ [digit_chars ! (n mod 10)]"
  by (subst nat_str.simps) simp


definition rating_ok :: "discover_state \<Rightarrow> bool" where
  "rating_ok s \<longleftrightarrow> min_rating (filt s) \<in> set (rating_options (sel_kind s))"

lemma rating_ok_accumulation [simp]: "rating_ok (accumulation_effect c y s) = rating_ok s"
  by (simp add: rating_ok_def)

lemma reset_effects_rating:
  "(sel_kind s = sel_kind p \<Longrightarrow> rating_ok s) \<Longrightarrow> rating_ok (reset_effects p s)"
  by (auto simp: reset_effects_def Let_def rating_ok_def reset_on_kind_def reset_page_def rating_options_def)

lemma commit_rating:
  "(sel_kind s = sel_kind p \<Longrightarrow> rating_ok s) \<Longrightarrow> rating_ok (commit c y p s)"
  unfolding commit_def rating_ok_accumulation by (rule reset_effects_rating) simp

lemma apply_event_rating:
  assumes "apply_event c y e s = Some s'" "rating_ok s" "sel_kind s' = sel_kind s"
  shows "rating_ok s'"
proof (cases e)
  case (Arrive h a)
  then show ?thesis using assms by simp
qed (use assms in \<open>auto simp: rating_ok_def card_click_def load_more_def split: if_split_asm\<close>)

lemma discover_run_rating:
  "discover_run y evs (c, s) = Some (c', s') \<Longrightarrow> rating_ok s \<Longrightarrow> rating_ok s'"
proof (induction evs arbitrary: c s)
  case (Cons e evs)
  then obtain c1 s1 where st: "discover_step y e (c, s) = Some (c1, s1)"
    and rest: "discover_run y evs (c1, s1) = Some (c', s')"
    by (auto split: option.splits)
  have "rating_ok s1"
    using discover_step_Some [OF st]
    by (auto intro!: commit_rating dest: apply_event_rating [OF _ Cons.prems(2)] simp: Cons.prems(2))
  then show ?case by (rule Cons.IH [OF rest])
qed simp

lemma games_metacritic:
  assumes "r \<in> set (rating_options Games)"
  shows "map_of (game_api_params y (f\<lparr>min_rating := r\<rparr>)) ''metacritic'' \<in>
           {None, Some ''20,100'', Some ''40,100'', Some ''60,100'', Some ''80,100'', Some ''100,100''}"
  using assms
  by (auto simp: rating_options_def game_api_params_def rating_to_metacritic_def parse_int_def
      digit_val_def digit_chars_def nat_str_digit nat_str_more upt_rec)

text \<open>
  C32. The minimum rating stays among the options the select offers for the selected
  kind, whatever the user does: choosing another kind resets it. So while games are
  shown, the games request asks a Metacritic score between 20 and 100, or none.
\<close>

theorem games_rating_bounds:
  assumes "min_rating (filt s) \<in> set (rating_options (sel_kind s))"
    and "discover_run y evs (c, s) = Some (c', s')"
  shows "min_rating (filt s') \<in> set (rating_options (sel_kind s')) \<and>
         (sel_kind s' = Games \<longrightarrow> map_of (game_api_params y (filt s')) ''metacritic'' \<in>
            {None, Some ''20,100'', Some ''40,100'', Some ''60,100'', Some ''80,100'', Some ''100,100''})"
proof -
  have ok: "rating_ok s'" using discover_run_rating [OF assms(2)] assms(1) by (simp add: rating_ok_def)
  have "sel_kind s' = Games \<Longrightarrow> map_of (game_api_params y (filt s')) ''metacritic'' \<in>
      {None, Some ''20,100'', Some ''40,100'', Some ''60,100'', Some ''80,100'', Some ''100,100''}"
    using games_metacritic [of "min_rating (filt s')" y "filt s'"] ok by (simp add: rating_ok_def)
  with ok show ?thesis by (simp add: rating_ok_def)
qed

lemma prefetch_games_metacritic:
  "map_of (game_api_params y (initial_filters\<lparr>min_rating := ''9''\<rparr>)) ''metacritic'' = Some ''180,100''"
  by (simp add: game_api_params_def initial_filters_def rating_to_metacritic_def parse_int_def
      digit_val_def digit_chars_def nat_str_digit nat_str_more upt_rec)

theorem games_rating_bounds_witness:
  "\<exists>c' s'. discover_run 2025 [ChooseMinRating ''9'', ChooseKind Games] demo_loaded = Some (c', s') \<and>
     min_rating (filt s') \<in> set (rating_options (sel_kind s')) \<and> sel_kind s' = Games \<and>
     map_of (game_api_params 2025 (filt s')) ''metacritic'' \<in>
       {None, Some ''20,100'', Some ''40,100'', Some ''60,100'', Some ''80,100'', Some ''100,100''}"
proof -
  obtain c0 s0 where d: "demo_loaded = (c0, s0)" by (cases demo_loaded)
  have s0: "sel_kind s0 = Movies" "search_text s0 = []" "min_rating (filt s0) = ''0''"
    using d by (auto simp: demo_loaded_def initial_discover_def initial_media_def initial_filters_def)
  have ok0: "min_rating (filt s0) \<in> set (rating_options (sel_kind s0))"
    using s0 by (simp add: rating_options_def)
  define s1 where "s1 = commit c0 2025 s0 (s0\<lparr>filt := (filt s0)\<lparr>min_rating := ''9''\<rparr>\<rparr>)"
  define s2 where "s2 = commit c0 2025 s1 (s1\<lparr>sel_kind := Games\<rparr>)"
  have k1: "sel_kind s1 = Movies" using s0 by (simp add: s1_def)
  have run: "discover_run 2025 [ChooseMinRating ''9'', ChooseKind Games] demo_loaded = Some (c0, s2)"
    using s0 by (simp add: d s1_def s2_def is_searching_def rating_options_def)
  have "sel_kind s2 = Games" by (simp add: s2_def)
  then show ?thesis using run games_rating_bounds [OF ok0, of 2025 "[ChooseMinRating ''9'', ChooseKind Games]" c0] d
    by auto
qed

section \<open>The details dialogs\<close>

lemma card_click_series:
  "\<not> str_truthy (cat_background it) \<Longrightarrow> card_click media_kind.Series it s = s\<lparr>selected_movie := Some (cat_id it)\<rparr>"
  by (simp add: card_click_def card_of_def Let_def)

text \<open>
  C33. A series card opens the movie dialog: for a series result (no game background
  image), a click selects its id as a movie, the page asks TMDB for the movie of that
  id (\<open>/movie/id\<close>, not \<open>/tv/id\<close>), and the dialog's rate button files a series review
  under the series' id with the title and poster of that movie.
\<close>

theorem series_card_opens_movie_details:
  assumes "sel_kind s = media_kind.Series" and "\<not> str_truthy (cat_background it)"
    and "\<not> is_loading c y s" and "it \<in> set (all_results s)"
    and "c (MovieDetails (cat_id it)) = Some (ItemDetails det)"
  shows "\<exists>s'. discover_step y (OpenCard it) (c, s) = Some (c, s') \<and>
           MovieDetails (cat_id it) \<in> set (page_hooks y s') \<and>
           media_request (MovieDetails (cat_id it)) = TmdbGet (''/movie/'' @ nat_str (cat_id it) @ ''?language=pl-PL'') \<and>
           rate_from_movie_dialog c s' = Some (''series'', cat_id it, item_label det, cat_poster det)"
proof -
  let ?s' = "commit c y s (s\<lparr>selected_movie := Some (cat_id it)\<rparr>)"
  have "discover_step y (OpenCard it) (c, s) = Some (c, ?s')"
    using assms(1-4) by (simp add: card_click_series)
  moreover have "MovieDetails (cat_id it) \<in> set (page_hooks y ?s')"
    by (simp add: page_hooks_def sel_id_def Let_def)
  moreover have "rate_from_movie_dialog c ?s' = Some (''series'', cat_id it, item_label det, cat_poster det)"
    using assms(1,5) by (simp add: rate_from_movie_dialog_def)
  moreover have "media_request (MovieDetails (cat_id it)) = TmdbGet (''/movie/'' @ nat_str (cat_id it) @ ''?language=pl-PL'')"
    by (simp add: movie_details_endpoint_def)
  ultimately show ?thesis by blast
qed

definition demo_show :: catalog_item where
  "demo_show = \<lparr>cat_id = 1396, cat_background = None, cat_title = None, cat_name = ''Breaking Bad'',
     cat_vote = 9, cat_rating = 0, cat_poster = Some ''/bb.jpg''\<rparr>"

definition demo_movie_1396 :: catalog_item where
  "demo_movie_1396 = \<lparr>cat_id = 1396, cat_background = None, cat_title = Some ''Nightfall'', cat_name = [],
     cat_vote = 6, cat_rating = 0, cat_poster = Some ''/nf.jpg''\<rparr>"

definition demo_series_page :: "media_cache \<times> discover_state" where
  "demo_series_page =
     (Map.empty(DiscoverTV (api_params initial_filters) \<mapsto> ResultsPage [demo_show] (Some 1),
                MovieDetails 1396 \<mapsto> ItemDetails demo_movie_1396),
      (initial_discover (Some ''series''))\<lparr>all_results := [demo_show]\<rparr>)"

theorem series_card_opens_movie_details_witness:
  "\<exists>s'. discover_step 2025 (OpenCard demo_show) demo_series_page = Some (fst demo_series_page, s') \<and>
     MovieDetails 1396 \<in> set (page_hooks 2025 s') \<and>
     media_request (MovieDetails 1396) = TmdbGet (''/movie/'' @ nat_str 1396 @ ''?language=pl-PL'') \<and>
     rate_from_movie_dialog (fst demo_series_page) s' = Some (''series'', 1396, ''Nightfall'', Some ''/nf.jpg'')"
proof -
  obtain c s where d: "demo_series_page = (c, s)" by (cases demo_series_page)
  have h: "sel_kind s = media_kind.Series" "\<not> str_truthy (cat_background demo_show)"
    "\<not> is_loading c 2025 s" "demo_show \<in> set (all_results s)"
    "c (MovieDetails (cat_id demo_show)) = Some (ItemDetails demo_movie_1396)"
    using d by (auto simp: demo_series_page_def initial_discover_def initial_media_def demo_show_def
        str_truthy_def is_loading_def results_hook_def is_searching_def)
  have "item_label demo_movie_1396 = ''Nightfall''" "cat_poster demo_movie_1396 = Some ''/nf.jpg''"
    "cat_id demo_show = 1396"
    by (simp_all add: item_label_def demo_movie_1396_def demo_show_def)
  then show ?thesis using series_card_opens_movie_details [OF h] by (simp add: d)
qed

end
