(* ===== verification/CollectionFlow.thy ===== *)
theory CollectionFlow
  imports CollectionPage DiscoverFlow
begin

text \<open>
  The collections page \<open>src/src/pages/Collection.tsx\<close> as a state machine of one client:
  its local state, the two views it renders (the list of collections, or one open
  collection when \<open>useCollection\<close> answers with it), the dialogs of each view, the
  controls each renders, and the handlers behind them. The stores are read fresh on each
  render; the search dialog's results come from a cache of catalogue answers. The
  theory proves that the Delete button of an open collection asks for a confirmation
  the view does not render: it appears only after Back, in the list view.
\<close>

section \<open>The page's state\<close>

text \<open>
  The \<open>useState\<close> hooks of the page: the fields of \<open>Collections.coll_page\<close>
  (\<open>selectedCollectionId\<close>, the create dialog and its fields), the search dialog, its
  query and kind, \<open>selectedItemForDetails\<close>, \<open>itemToDelete\<close>, \<open>collectionToDelete\<close>, and
  the last toast.
\<close>

record coll_ui =
  cu_page :: coll_page
  cu_search_open :: bool
  cu_query :: string
  cu_search_type :: string
  cu_details :: "(cell \<times> cell) option"
  cu_item_del :: "(cell \<times> string) option"
  cu_coll_del :: "(cell \<times> string) option"
  cu_toast :: "coll_toast option"

definition initial_coll_ui :: coll_ui where
  "initial_coll_ui =
     \<lparr>cu_page = \<lparr>selected = None, create_open = False, new_name = [], new_description = []\<rparr>,
      cu_search_open = False, cu_query = [], cu_search_type = ''movie'', cu_details = None,
      cu_item_del = None, cu_coll_del = None, cu_toast = None\<rparr>"

section \<open>What a render reads\<close>

text \<open>
  \<open>if (selectedCollectionId && selectedCollection)\<close>: the single view is shown when a
  collection is selected and \<open>useCollection\<close> answers with it; a failed or empty answer
  leaves \<open>data\<close> undefined and the list view is shown.
\<close>

definition open_collection ::
  "bool \<Rightarrow> (row \<times> row list) list \<Rightarrow> user_id option \<Rightarrow> db \<Rightarrow> coll_ui \<Rightarrow> (row \<times> row list) option" where
  "open_collection demo fx user d ui =
     (case selected (cu_page ui) of
        None \<Rightarrow> None
      | Some cid \<Rightarrow> (case collection_query demo fx user cid d of Inr (Some cw) \<Rightarrow> Some cw | _ \<Rightarrow> None))"

text \<open>\<open>data?.results\<close> of a search hook.\<close>

definition results_of :: "catalog_answer option \<Rightarrow> catalog_item list option" where
  "results_of a = (case a of Some (ResultsPage rs _) \<Rightarrow> Some rs | _ \<Rightarrow> None)"

definition coll_search_results :: "media_cache \<Rightarrow> coll_ui \<Rightarrow> catalog_item list" where
  "coll_search_results c ui =
     (let q = cu_query ui
      in search_results (cu_search_type ui) (results_of (c (SearchMovies q 1)))
           (results_of (c (SearchTV q 1))) (results_of (c (SearchGames q 1))))"

text \<open>The two detail dialogs are open for a selected movie or game.\<close>

definition details_open :: "coll_ui \<Rightarrow> bool" where
  "details_open ui =
     (case cu_details ui of Some (t, _) \<Rightarrow> t = VStr ''movie'' \<or> t = VStr ''game'' | None \<Rightarrow> False)"

section \<open>The controls\<close>

datatype coll_action =
    OpenColl cell | AskDeleteColl cell string | NewCollection | TypeName string
  | TypeDescription string | SubmitCreate | CancelCreate | ConfirmDeleteColl | CancelDeleteColl
  | Back | OpenSearch | CloseSearch | ChooseSearchType string | TypeQuery string
  | AddResult catalog_item | AskRemoveItem cell string | ConfirmRemoveItem | CancelRemoveItem
  | ShowDetails cell cell | CloseDetails

text \<open>
  The controls of the list view: the "New Collection" button and, for each collection of
  \<open>useCollections\<close>, its card and its delete button. An open dialog is modal: only its
  own controls respond, the delete confirmation over the create dialog since it is
  rendered after it.
\<close>

definition list_enabled :: "row list \<Rightarrow> coll_ui \<Rightarrow> coll_action \<Rightarrow> bool" where
  "list_enabled cs ui a =
     (if cu_coll_del ui \<noteq> None then a = ConfirmDeleteColl \<or> a = CancelDeleteColl
      else if create_open (cu_page ui) then
        (case a of TypeName _ \<Rightarrow> True | TypeDescription _ \<Rightarrow> True | SubmitCreate \<Rightarrow> True
         | CancelCreate \<Rightarrow> True | _ \<Rightarrow> False)
      else (case a of
              NewCollection \<Rightarrow> True
            | OpenColl cid \<Rightarrow> cid \<in> set (map (\<lambda>c. get c ''id'') cs)
            | AskDeleteColl cid n \<Rightarrow> (cid, n) \<in> set (map (\<lambda>c. (get c ''id'', str_or_empty (get c ''name''))) cs)
            | _ \<Rightarrow> False))"

text \<open>
  The controls of the single view: Back, "Add", the collection's Delete button, each
  item's remove button and card; the search dialog (kind badges, query, one button per
  result once a query is typed), the item delete confirmation and the detail dialogs.
  The create dialog and the collection delete confirmation are not rendered here.
\<close>

fun single_enabled :: "media_cache \<Rightarrow> cell \<Rightarrow> row \<times> row list \<Rightarrow> coll_ui \<Rightarrow> coll_action \<Rightarrow> bool" where
  "single_enabled c cid (coll, items) ui a =
     (if cu_item_del ui \<noteq> None then a = ConfirmRemoveItem \<or> a = CancelRemoveItem
      else if details_open ui then a = CloseDetails
      else if cu_search_open ui then
        (case a of
           CloseSearch \<Rightarrow> True
         | ChooseSearchType t \<Rightarrow> t \<in> {''movie'', ''series'', ''game''}
         | TypeQuery _ \<Rightarrow> True
         | AddResult it \<Rightarrow> cu_query ui \<noteq> [] \<and> it \<in> set (coll_search_results c ui)
         | _ \<Rightarrow> False)
      else (case a of
              Back \<Rightarrow> True
            | OpenSearch \<Rightarrow> True
            | AskDeleteColl i n \<Rightarrow> i = cid \<and> n = str_or_empty (get coll ''name'')
            | AskRemoveItem i t \<Rightarrow> (i, t) \<in> set (map (\<lambda>r. (get r ''id'', str_or_empty (get r ''item_title''))) items)
            | ShowDetails t i \<Rightarrow> (t, i) \<in> set (map (\<lambda>r. (get r ''item_type'', get r ''item_id'')) items)
            | _ \<Rightarrow> False))"

definition coll_enabled ::
  "bool \<Rightarrow> (row \<times> row list) list \<Rightarrow> row list \<Rightarrow> user_id option \<Rightarrow> media_cache \<Rightarrow> db \<Rightarrow> coll_ui \<Rightarrow> coll_action \<Rightarrow> bool" where
  "coll_enabled demo fx fxl user c d ui a =
     (case open_collection demo fx user d ui of
        Some cw \<Rightarrow> single_enabled c (the (selected (cu_page ui))) cw ui a
      | None \<Rightarrow> (case collections_query demo fxl user d of
                   Inr cs \<Rightarrow> list_enabled cs ui a
                 | Inl _ \<Rightarrow> list_enabled [] ui a))"

section \<open>The handlers\<close>

text \<open>
  What each control does. \<open>handleDeleteCollection\<close> clears \<open>collectionToDelete\<close> only on
  success, \<open>handleRemoveItem\<close> clears \<open>itemToDelete\<close> only on success, a result's button
  closes the search dialog and clears the query only on success.
\<close>

fun coll_apply :: "user_id option \<Rightarrow> media_cache \<Rightarrow> coll_action \<Rightarrow> db \<times> coll_ui \<Rightarrow> db \<times> coll_ui" where
  "coll_apply user c (OpenColl cid) (d, ui) = (d, ui\<lparr>cu_page := (cu_page ui)\<lparr>selected := Some cid\<rparr>\<rparr>)"
| "coll_apply user c (AskDeleteColl cid n) (d, ui) = (d, ui\<lparr>cu_coll_del := Some (cid, n)\<rparr>)"
| "coll_apply user c NewCollection (d, ui) = (d, ui\<lparr>cu_page := (cu_page ui)\<lparr>create_open := True\<rparr>\<rparr>)"
| "coll_apply user c (TypeName s) (d, ui) = (d, ui\<lparr>cu_page := (cu_page ui)\<lparr>new_name := s\<rparr>\<rparr>)"
| "coll_apply user c (TypeDescription s) (d, ui) = (d, ui\<lparr>cu_page := (cu_page ui)\<lparr>new_description := s\<rparr>\<rparr>)"
| "coll_apply user c SubmitCreate (d, ui) =
     (case handle_create user (cu_page ui) d of
        (t, pg, d') \<Rightarrow> (d', ui\<lparr>cu_page := pg, cu_toast := Some t\<rparr>))"
| "coll_apply user c CancelCreate (d, ui) = (d, ui\<lparr>cu_page := (cu_page ui)\<lparr>create_open := False\<rparr>\<rparr>)"
| "coll_apply user c ConfirmDeleteColl (d, ui) =
     (case cu_coll_del ui of
        None \<Rightarrow> (d, ui)
      | Some (cid, _) \<Rightarrow>
          (case handle_delete user cid (cu_page ui) d of
             (t, pg, d') \<Rightarrow> (d', ui\<lparr>cu_page := pg, cu_toast := Some t,
                                cu_coll_del := (if t = coll_toast.Deleted then None else cu_coll_del ui)\<rparr>)))"
| "coll_apply user c CancelDeleteColl (d, ui) = (d, ui\<lparr>cu_coll_del := None\<rparr>)"
| "coll_apply user c Back (d, ui) = (d, ui\<lparr>cu_page := (cu_page ui)\<lparr>selected := None\<rparr>\<rparr>)"
| "coll_apply user c OpenSearch (d, ui) = (d, ui\<lparr>cu_search_open := True\<rparr>)"
| "coll_apply user c CloseSearch (d, ui) = (d, ui\<lparr>cu_search_open := False\<rparr>)"
| "coll_apply user c (ChooseSearchType t) (d, ui) = (d, ui\<lparr>cu_search_type := t\<rparr>)"
| "coll_apply user c (TypeQuery q) (d, ui) = (d, ui\<lparr>cu_query := q\<rparr>)"
| "coll_apply user c (AddResult it) (d, ui) =
     (case search_add user (cu_page ui) (cu_search_type ui) it d of
        (Some ItemAdded, d') \<Rightarrow> (d', ui\<lparr>cu_search_open := False, cu_query := [], cu_toast := Some ItemAdded\<rparr>)
      | (t, d') \<Rightarrow> (d', ui\<lparr>cu_toast := t\<rparr>))"
| "coll_apply user c (AskRemoveItem i t) (d, ui) = (d, ui\<lparr>cu_item_del := Some (i, t)\<rparr>)"
| "coll_apply user c ConfirmRemoveItem (d, ui) =
     (case handle_remove_item user (cu_page ui) (map_option fst (cu_item_del ui)) d of
        (Some ItemRemoved, d') \<Rightarrow> (d', ui\<lparr>cu_item_del := None, cu_toast := Some ItemRemoved\<rparr>)
      | (t, d') \<Rightarrow> (d', ui\<lparr>cu_toast := t\<rparr>))"
| "coll_apply user c CancelRemoveItem (d, ui) = (d, ui\<lparr>cu_item_del := None\<rparr>)"
| "coll_apply user c (ShowDetails t i) (d, ui) = (d, ui\<lparr>cu_details := Some (t, i)\<rparr>)"
| "coll_apply user c CloseDetails (d, ui) = (d, ui\<lparr>cu_details := None\<rparr>)"

text \<open>A step presses a control the current render shows; any other press is refused.\<close>

definition coll_step ::
  "bool \<Rightarrow> (row \<times> row list) list \<Rightarrow> row list \<Rightarrow> user_id option \<Rightarrow> media_cache \<Rightarrow> coll_action \<Rightarrow>
   db \<times> coll_ui \<Rightarrow> (db \<times> coll_ui) option" where
  "coll_step demo fx fxl user c a s =
     (if coll_enabled demo fx fxl user c (fst s) (snd s) a then Some (coll_apply user c a s) else None)"

fun coll_run ::
  "bool \<Rightarrow> (row \<times> row list) list \<Rightarrow> row list \<Rightarrow> user_id option \<Rightarrow> media_cache \<Rightarrow> coll_action list \<Rightarrow>
   db \<times> coll_ui \<Rightarrow> (db \<times> coll_ui) option" where
  "coll_run demo fx fxl user c [] s = Some s"
| "coll_run demo fx fxl user c (a # as) s =
     (case coll_step demo fx fxl user c a s of None \<Rightarrow> None | Some s' \<Rightarrow> coll_run demo fx fxl user c as s')"

definition demo_open_ui :: coll_ui where
  "demo_open_ui = initial_coll_ui\<lparr>cu_page := open_page\<rparr>"

section \<open>Lemmas\<close>

lemma open_collection_selected:
  "selected (cu_page ui') = selected (cu_page ui) \<Longrightarrow>
   open_collection demo fx user d ui' = open_collection demo fx user d ui"
  by (simp add: open_collection_def)

lemma open_collection_row:
  assumes "open_collection False fx (Some u) d ui = Some (coll, items)" "selected (cu_page ui) = Some cid"
  shows "coll \<in> set (tables d ''collections'') \<and> get coll ''id'' = cid \<and> get coll ''user_id'' = VStr u \<and>
         items = items_of d cid"
  using assms
  by (auto simp: open_collection_def collection_query_def single_def select_rows_def eq_col_def
      split: sum.splits list.splits option.splits dest!: filter_eq_ConsD)

text \<open>Deleting an open collection removes it and, by the cascade, all its items.\<close>

lemma delete_open_collection:
  assumes "coll \<in> set (tables d ''collections'')" "get coll ''id'' = cid" "get coll ''user_id'' = VStr u"
    and "distinct (parent_ids d ''collections'')"
    and "delete_collection (Some u) cid d = Inr d'"
  shows "cid \<notin> set (parent_ids d' ''collections'') \<and> items_of d' cid = []"
proof -
  have same: "r = coll" if "r \<in> set (tables d ''collections'')" "get r ''id'' = cid" for r
    using assms(1,2,4) that by (auto simp: parent_ids_def distinct_map dest: inj_onD)
  have gone: "cid \<notin> set (parent_ids (delete_where d ''collections''
      (\<lambda>r. eq_col ''id'' cid r \<and> eq_col ''user_id'' (VStr u) r)) ''collections'')"
    using same assms(3) by (auto simp: parent_ids_delete eq_col_def)
  then show ?thesis
    using assms(5)
    by (auto simp: delete_collection_tables delete_cascade_parent_ids delete_cascade_tables items_of_def
        filter_empty_conv eq_col_def)
qed



section \<open>Properties\<close>

text \<open>
  C20. The Delete button of an open collection does not offer a confirmation: pressing
  it keeps the collection open and no control of the view confirms the deletion. Only
  after Back does the list view show the confirmation, which then deletes the
  collection with its items.
\<close>

theorem open_collection_delete_deferred:
  assumes opn: "open_collection False fx (Some u) d ui = Some (coll, items)"
    and sel: "selected (cu_page ui) = Some cid"
    and idle: "cu_item_del ui = None" "\<not> details_open ui" "\<not> cu_search_open ui"
    and fresh: "distinct (parent_ids d ''collections'')"
  shows "\<exists>ui1 ui2 d3 ui3.
     coll_run False fx fxl (Some u) c [AskDeleteColl cid (str_or_empty (get coll ''name''))] (d, ui) = Some (d, ui1) \<and>
     open_collection False fx (Some u) d ui1 = Some (coll, items) \<and>
     \<not> coll_enabled False fx fxl (Some u) c d ui1 ConfirmDeleteColl \<and>
     coll_run False fx fxl (Some u) c [AskDeleteColl cid (str_or_empty (get coll ''name'')), Back] (d, ui) = Some (d, ui2) \<and>
     coll_enabled False fx fxl (Some u) c d ui2 ConfirmDeleteColl \<and>
     coll_run False fx fxl (Some u) c [AskDeleteColl cid (str_or_empty (get coll ''name'')), Back, ConfirmDeleteColl] (d, ui) = Some (d3, ui3) \<and>
     cu_toast ui3 = Some coll_toast.Deleted \<and> cid \<notin> set (parent_ids d3 ''collections'') \<and> items_of d3 cid = []"
proof -
  define n where "n = str_or_empty (get coll ''name'')"
  define ui1 where "ui1 = ui\<lparr>cu_coll_del := Some (cid, n)\<rparr>"
  define ui2 where "ui2 = ui1\<lparr>cu_page := (cu_page ui1)\<lparr>selected := None\<rparr>\<rparr>"
  obtain d3 where del: "delete_collection (Some u) cid d = Inr d3"
    by (simp add: delete_collection_def)
  have row: "coll \<in> set (tables d ''collections'')" "get coll ''id'' = cid" "get coll ''user_id'' = VStr u"
    using open_collection_row [OF opn sel] by auto
  have o1: "open_collection False fx (Some u) d ui1 = Some (coll, items)"
    using opn open_collection_selected [of ui1 ui] by (simp add: ui1_def)
  have s1: "coll_step False fx fxl (Some u) c (AskDeleteColl cid n) (d, ui) = Some (d, ui1)"
    using opn sel idle by (simp add: coll_step_def coll_enabled_def n_def ui1_def)
  have no1: "\<not> coll_enabled False fx fxl (Some u) c d ui1 ConfirmDeleteColl"
    using o1 sel idle by (simp add: coll_enabled_def ui1_def details_open_def)
  have s2: "coll_step False fx fxl (Some u) c Back (d, ui1) = Some (d, ui2)"
    using o1 sel idle by (simp add: coll_step_def coll_enabled_def ui1_def ui2_def details_open_def)
  have o2: "open_collection False fx (Some u) d ui2 = None"
    by (simp add: open_collection_def ui2_def)
  have yes2: "coll_enabled False fx fxl (Some u) c d ui2 ConfirmDeleteColl"
    using o2 by (simp add: coll_enabled_def list_enabled_def ui2_def ui1_def split: sum.split)
  obtain ui3 where s3: "coll_step False fx fxl (Some u) c ConfirmDeleteColl (d, ui2) = Some (d3, ui3)"
    and t3: "cu_toast ui3 = Some coll_toast.Deleted"
    using yes2 del by (simp add: coll_step_def handle_delete_def ui2_def ui1_def)
  have gone: "cid \<notin> set (parent_ids d3 ''collections'') \<and> items_of d3 cid = []"
    using delete_open_collection [OF row fresh del] .
  show ?thesis
    using s1 s2 s3 t3 o1 no1 yes2 gone by (auto simp: n_def)
qed


theorem open_collection_delete_deferred_witness:
  "\<exists>ui1 ui2 d3 ui3.
     coll_run False [] [] (Some ''a'') (\<lambda>_. None) [AskDeleteColl (VInt 0) ''Favourites''] (demo_item_db, demo_open_ui) = Some (demo_item_db, ui1) \<and>
     open_collection False [] (Some ''a'') demo_item_db ui1 =
       Some (new_row empty_db ''collections'' demo_coll_payload, items_of demo_item_db (VInt 0)) \<and>
     \<not> coll_enabled False [] [] (Some ''a'') (\<lambda>_. None) demo_item_db ui1 ConfirmDeleteColl \<and>
     coll_run False [] [] (Some ''a'') (\<lambda>_. None) [AskDeleteColl (VInt 0) ''Favourites'', Back] (demo_item_db, demo_open_ui) = Some (demo_item_db, ui2) \<and>
     coll_enabled False [] [] (Some ''a'') (\<lambda>_. None) demo_item_db ui2 ConfirmDeleteColl \<and>
     coll_run False [] [] (Some ''a'') (\<lambda>_. None) [AskDeleteColl (VInt 0) ''Favourites'', Back, ConfirmDeleteColl] (demo_item_db, demo_open_ui) = Some (d3, ui3) \<and>
     cu_toast ui3 = Some coll_toast.Deleted \<and> VInt 0 \<notin> set (parent_ids d3 ''collections'') \<and> items_of d3 (VInt 0) = []"
proof -
  have h1: "open_collection False [] (Some ''a'') demo_item_db demo_open_ui =
      Some (new_row empty_db ''collections'' demo_coll_payload, items_of demo_item_db (VInt 0))"
    by (simp add: open_collection_def demo_open_ui_def initial_coll_ui_def open_page_def collection_query_def
        single_def select_rows_def eq_col_def demo_item_db_def demo_coll_db_def demo_coll_payload_def store_eval)
  have h2: "selected (cu_page demo_open_ui) = Some (VInt 0)"
    by (simp add: demo_open_ui_def open_page_def)
  have h6: "distinct (parent_ids demo_item_db ''collections'')"
    by (simp add: parent_ids_def demo_item_db_def demo_coll_db_def)
  have nm: "str_or_empty (get (new_row empty_db ''collections'' demo_coll_payload) ''name'') = ''Favourites''"
    by (simp add: str_or_empty_def demo_coll_payload_def store_eval)
  show ?thesis
    using open_collection_delete_deferred [OF h1 h2 _ _ _ h6, of "[]" "\<lambda>_. None"] nm
    by (simp add: demo_open_ui_def initial_coll_ui_def details_open_def)
qed


lemma open_collection_tables:
  assumes "tables d' ''collections'' = tables d ''collections''" "selected (cu_page ui') = selected (cu_page ui)"
  shows "(open_collection demo fx user d' ui' = None) = (open_collection demo fx user d ui = None)"
  using assms
  by (simp add: open_collection_def collection_query_def select_rows_def split: option.split sum.split)

lemma single_step_frame:
  assumes opn: "open_collection demo fx user d ui = Some cw" and "a \<noteq> Back"
    and st: "coll_step demo fx fxl user c a (d, ui) = Some (d', ui')"
  shows "tables d' ''collections'' = tables d ''collections'' \<and> selected (cu_page ui') = selected (cu_page ui)"
proof -
  obtain coll items where cw: "cw = (coll, items)" by (cases cw)
  have en: "single_enabled c (the (selected (cu_page ui))) (coll, items) ui a"
    and ap: "coll_apply user c a (d, ui) = (d', ui')"
    using st opn cw by (simp_all add: coll_step_def coll_enabled_def split: if_splits)
  show ?thesis
  proof (cases a)
    case (AddResult it)
    then show ?thesis
      using ap add_to_collection_Inr [of user _ "cu_search_type ui" "int (cat_id it)"]
      by (auto simp: search_add_def handle_add_item_def split: option.splits sum.splits prod.splits coll_toast.splits)
  next
    case ConfirmRemoveItem
    then show ?thesis
      using ap
      by (auto simp: handle_remove_item_def remove_from_collection_def
          split: option.splits sum.splits prod.splits coll_toast.splits)
  qed (use en ap \<open>a \<noteq> Back\<close> in \<open>auto split: if_splits\<close>)
qed

text \<open>
  C21. Without Back, an open collection stays open and its page never changes the
  collections: whatever controls the user presses in the open collection, including
  its Delete button, no collection is deleted or created.
\<close>

theorem single_view_keeps_collections:
  assumes "open_collection demo fx user d ui \<noteq> None" "Back \<notin> set as"
    and "coll_run demo fx fxl user c as (d, ui) = Some (d', ui')"
  shows "tables d' ''collections'' = tables d ''collections'' \<and> open_collection demo fx user d' ui' \<noteq> None"
  using assms
proof (induction as arbitrary: d ui)
  case Nil
  then show ?case by simp
next
  case (Cons a as)
  obtain d1 ui1 where st: "coll_step demo fx fxl user c a (d, ui) = Some (d1, ui1)"
    and rest: "coll_run demo fx fxl user c as (d1, ui1) = Some (d', ui')"
    using Cons.prems(3) by (auto split: option.splits)
  obtain cw where opn: "open_collection demo fx user d ui = Some cw"
    using Cons.prems(1) by blast
  have fr: "tables d1 ''collections'' = tables d ''collections'' \<and> selected (cu_page ui1) = selected (cu_page ui)"
    using single_step_frame [OF opn _ st] Cons.prems(2) by auto
  then have "open_collection demo fx user d1 ui1 \<noteq> None"
    using open_collection_tables [of d1 d ui1 ui] Cons.prems(1) by simp
  then show ?case
    using Cons.IH [OF _ _ rest] Cons.prems(2) fr by simp
qed

theorem single_view_keeps_collections_witness:
  "tables demo_item_db ''collections'' = tables demo_item_db ''collections'' \<and>
   open_collection False [] (Some ''a'') demo_item_db (demo_open_ui\<lparr>cu_coll_del := Some (VInt 0, ''Favourites'')\<rparr>) \<noteq> None"
proof -
  have h1: "open_collection False [] (Some ''a'') demo_item_db demo_open_ui \<noteq> None"
    by (simp add: open_collection_def demo_open_ui_def initial_coll_ui_def open_page_def collection_query_def
        single_def select_rows_def eq_col_def demo_item_db_def demo_coll_db_def demo_coll_payload_def store_eval)
  have nm: "coll_run False [] [] (Some ''a'') (\<lambda>_. None) [AskDeleteColl (VInt 0) ''Favourites'']
      (demo_item_db, demo_open_ui) = Some (demo_item_db, demo_open_ui\<lparr>cu_coll_del := Some (VInt 0, ''Favourites'')\<rparr>)"
    using h1
    by (simp add: coll_step_def coll_enabled_def open_collection_def demo_open_ui_def initial_coll_ui_def open_page_def
        collection_query_def single_def select_rows_def eq_col_def demo_item_db_def demo_coll_db_def
        demo_coll_payload_def str_or_empty_def details_open_def store_eval)
  show ?thesis
    using single_view_keeps_collections [OF h1 _ nm] by simp
qed

end
