(* ===== verification/ProfileFlow.thy ===== *)
theory ProfileFlow
  imports Preferences
begin

text \<open>
  The signed-in user's profile page \<open>src/src/pages/Profile.tsx\<close> as a state machine of
  one client: its \<open>useState\<close> hooks, what a render reads (the profile through
  \<open>useProfile\<close>, the favourites through \<open>useFavoriteMedia\<close>), the controls of the page,
  of the profile editor and of the review dialog, and the handlers behind them. The
  theory proves the editor's round trip through the store and the header, the effect of
  the textarea's \<open>maxLength\<close>, that the editor stores a blank username the settings page
  refuses, and that a username saved on the settings page is what this page shows.
\<close>

section \<open>The page's state\<close>

text \<open>
  \<open>isEditDialogOpen\<close>, \<open>editUsername\<close>, \<open>editBio\<close>, \<open>selectedReview\<close>,
  \<open>reviewDialogOpen\<close>, \<open>reviewType\<close> and the last toast.
\<close>

record profile_ui =
  pu_edit_open :: bool
  pu_username :: string
  pu_bio :: string
  pu_review :: "row option"
  pu_review_open :: bool
  pu_review_type :: string
  pu_toast :: "profile_toast option"

definition initial_profile_ui :: profile_ui where
  "initial_profile_ui =
     \<lparr>pu_edit_open = False, pu_username = [], pu_bio = [], pu_review = None, pu_review_open = False,
      pu_review_type = ''movie'', pu_toast = None\<rparr>"

section \<open>What a render reads\<close>

text \<open>\<open>useQuery(profileQuery)\<close>: the profile row, undefined when the query fails.\<close>

definition shown_profile :: "auth_user option \<Rightarrow> db \<Rightarrow> row option" where
  "shown_profile user d =
     (case profile_query (map_option uid user) d of Inr r \<Rightarrow> Some r | Inl _ \<Rightarrow> None)"

text \<open>The header: \<open>userName\<close> and \<open>userBio = profile?.bio || ''\<close>.\<close>

definition header_name :: "auth_user \<Rightarrow> db \<Rightarrow> string" where
  "header_name au d = display_name (shown_profile (Some au) d) au"

definition header_bio :: "auth_user option \<Rightarrow> db \<Rightarrow> string" where
  "header_bio user d =
     (case shown_profile user d of Some r \<Rightarrow> str_or_empty (get r ''bio'') | None \<Rightarrow> [])"

text \<open>
  The favourite cards: \<open>favorites.movies.slice(0, 6)\<close> and
  \<open>favorites.games.slice(0, 4)\<close>; a failed query shows none.
\<close>

definition favourite_cards ::
  "bool \<Rightarrow> row list \<Rightarrow> row list \<Rightarrow> auth_user option \<Rightarrow> db \<Rightarrow> row list \<times> row list" where
  "favourite_cards demo dm dg user d =
     (case favorite_media demo dm dg (map_option uid user) d of
        Inr (ms, gs) \<Rightarrow> (take 6 ms, take 4 gs)
      | Inl _ \<Rightarrow> ([], []))"

section \<open>The controls\<close>

datatype profile_action =
    EditProfile | TypeUsername string | TypeBio string | SaveProfile | CancelEdit
  | OpenReview row string | CloseReview

text \<open>
  The profile editor and the review dialog are modal: while one is open only its own
  controls respond. Otherwise the page offers the Edit button and a click on each
  favourite card (the Settings and Discover buttons leave the page).
\<close>

definition profile_enabled ::
  "bool \<Rightarrow> row list \<Rightarrow> row list \<Rightarrow> auth_user option \<Rightarrow> db \<Rightarrow> profile_ui \<Rightarrow> profile_action \<Rightarrow> bool" where
  "profile_enabled demo dm dg user d ui a =
     (if pu_edit_open ui then
        (case a of TypeUsername _ \<Rightarrow> True | TypeBio _ \<Rightarrow> True | SaveProfile \<Rightarrow> True
         | CancelEdit \<Rightarrow> True | _ \<Rightarrow> False)
      else if pu_review_open ui then a = CloseReview
      else (case a of
              EditProfile \<Rightarrow> True
            | OpenReview r t \<Rightarrow>
                (let (ms, gs) = favourite_cards demo dm dg user d
                 in (t = ''movie'' \<and> r \<in> set ms) \<or> (t = ''game'' \<and> r \<in> set gs))
            | _ \<Rightarrow> False))"

section \<open>The handlers\<close>

text \<open>
  The bio's textarea has \<open>maxLength={500}\<close>: the browser keeps at most 500 characters of
  what is typed or pasted. \<open>handleEditProfile\<close> fills the fields from the profile,
  \<open>handleSaveProfile\<close> closes the editor only on success, \<open>handleReviewClick\<close> opens
  the review dialog.
\<close>

definition bio_max :: nat where
  "bio_max = 500"

fun profile_apply :: "auth_user option \<Rightarrow> profile_action \<Rightarrow> db \<times> profile_ui \<Rightarrow> db \<times> profile_ui" where
  "profile_apply user EditProfile (d, ui) =
     (let p = shown_profile user d in
      (d, ui\<lparr>pu_username := (case p of Some r \<Rightarrow> str_or_empty (get r ''username'') | None \<Rightarrow> []),
             pu_bio := (case p of Some r \<Rightarrow> str_or_empty (get r ''bio'') | None \<Rightarrow> []),
             pu_edit_open := True\<rparr>))"
| "profile_apply user (TypeUsername s) (d, ui) = (d, ui\<lparr>pu_username := s\<rparr>)"
| "profile_apply user (TypeBio s) (d, ui) = (d, ui\<lparr>pu_bio := take bio_max s\<rparr>)"
| "profile_apply user SaveProfile (d, ui) =
     (case handle_save_profile user (pu_username ui) (pu_bio ui) d of
        (ProfileSaved, d') \<Rightarrow> (d', ui\<lparr>pu_toast := Some ProfileSaved, pu_edit_open := False\<rparr>)
      | (t, d') \<Rightarrow> (d', ui\<lparr>pu_toast := Some t\<rparr>))"
| "profile_apply user CancelEdit (d, ui) = (d, ui\<lparr>pu_edit_open := False\<rparr>)"
| "profile_apply user (OpenReview r t) (d, ui) =
     (d, ui\<lparr>pu_review := Some r, pu_review_type := t, pu_review_open := True\<rparr>)"
| "profile_apply user CloseReview (d, ui) = (d, ui\<lparr>pu_review_open := False\<rparr>)"

definition profile_step ::
  "bool \<Rightarrow> row list \<Rightarrow> row list \<Rightarrow> auth_user option \<Rightarrow> profile_action \<Rightarrow>
   db \<times> profile_ui \<Rightarrow> (db \<times> profile_ui) option" where
  "profile_step demo dm dg user a s =
     (if profile_enabled demo dm dg user (fst s) (snd s) a then Some (profile_apply user a s) else None)"

fun profile_run ::
  "bool \<Rightarrow> row list \<Rightarrow> row list \<Rightarrow> auth_user option \<Rightarrow> profile_action list \<Rightarrow>
   db \<times> profile_ui \<Rightarrow> (db \<times> profile_ui) option" where
  "profile_run demo dm dg user [] s = Some s"
| "profile_run demo dm dg user (a # as) s =
     (case profile_step demo dm dg user a s of None \<Rightarrow> None | Some s' \<Rightarrow> profile_run demo dm dg user as s')"

text \<open>A signed-in user and a settings page for the examples.\<close>

definition demo_auth :: auth_user where
  "demo_auth = \<lparr>uid = ''a'', email = Some ''ann@example.org'', full_name = None, meta_name = None\<rparr>"

definition demo_settings :: settings_page where
  "demo_settings = \<lparr>profile_username = [], editing_username = False, saving = False\<rparr>"

section \<open>Lemmas\<close>

lemma empty_db_profiles: "distinct (parent_ids empty_db ''profiles'')"
  by (simp add: parent_ids_def empty_db_def)

lemma initial_profile_closed: "\<not> pu_edit_open initial_profile_ui" "\<not> pu_review_open initial_profile_ui"
  by (simp_all add: initial_profile_ui_def)

lemma str_or_empty_null_p [simp]: "str_or_empty (str_or_null_p s) = s"
  by (simp add: str_or_empty_def str_or_null_p_def)

text \<open>Saving the editor's fields: the page then reads back the saved row.\<close>

lemma save_profile_shown:
  assumes "distinct (parent_ids d ''profiles'')"
  obtains d' r where "handle_save_profile (Some au) un b d = (ProfileSaved, d')"
    "shown_profile (Some au) d' = Some r" "get r ''username'' = str_or_null_p un" "get r ''bio'' = str_or_null_p b"
    "select_rows d' ''profiles'' (eq_col ''id'' (VStr (uid au))) = [r]"
proof -
  obtain d' r where upd: "update_profile (Some (uid au)) un b d = Inr d'"
    and sel: "select_rows d' ''profiles'' (eq_col ''id'' (VStr (uid au))) = [r]"
    and f: "get r ''username'' = str_or_null_p un" "get r ''bio'' = str_or_null_p b"
    using profile_saved_row [OF assms] by blast
  show ?thesis
  proof (rule that)
    show "handle_save_profile (Some au) un b d = (ProfileSaved, d')"
      using upd by (simp add: handle_save_profile_def)
    show "shown_profile (Some au) d' = Some r"
      using sel by (simp add: shown_profile_def profile_query_def)
  qed (use f sel in simp_all)
qed

lemma edit_fields:
  "shown_profile user d = Some r \<Longrightarrow>
   profile_apply user EditProfile (d, ui) =
     (d, ui\<lparr>pu_username := str_or_empty (get r ''username''), pu_bio := str_or_empty (get r ''bio''),
            pu_edit_open := True\<rparr>)"
  by simp

lemma editor_steps:
  assumes "pu_edit_open ui"
  shows "profile_step demo dm dg user (TypeUsername s) (d, ui) = Some (d, ui\<lparr>pu_username := s\<rparr>)"
    "profile_step demo dm dg user (TypeBio s) (d, ui) = Some (d, ui\<lparr>pu_bio := take bio_max s\<rparr>)"
    "profile_step demo dm dg user SaveProfile (d, ui) = Some (profile_apply user SaveProfile (d, ui))"
  using assms by (simp_all add: profile_step_def profile_enabled_def)

lemma edit_step:
  assumes "\<not> pu_edit_open ui" "\<not> pu_review_open ui"
  shows "profile_step demo dm dg user EditProfile (d, ui) = Some (profile_apply user EditProfile (d, ui))"
  using assms by (simp add: profile_step_def profile_enabled_def)

text \<open>The bio of the user's profile row, \<open>null\<close> when there is none.\<close>

lemma header_bio_select:
  assumes "distinct (parent_ids d ''profiles'')"
  shows "header_bio (Some au) d =
    str_or_empty (case select_rows d ''profiles'' (eq_col ''id'' (VStr (uid au))) of [e] \<Rightarrow> get e ''bio'' | _ \<Rightarrow> VNull)"
  using assms
proof (cases rule: profile_lookup_cases [of d "uid au"])
  case none
  then show ?thesis
    by (simp add: header_bio_def shown_profile_def profile_query_def empty_profile_def get_def str_or_empty_def)
next
  case (one e)
  then show ?thesis
    by (simp add: header_bio_def shown_profile_def profile_query_def)
qed

text \<open>
  The settings page's save: an upsert by id that writes the trimmed username and keeps
  the rest of the profile row.
\<close>

lemma settings_save_row:
  assumes ids: "distinct (parent_ids d ''profiles'')" and u: "u \<noteq> []" and s: "trim s \<noteq> []"
  obtains d' r where
    "handle_save_username (Some u) (pg\<lparr>profile_username := s\<rparr>) d =
       (Some UsernameSaved, pg\<lparr>profile_username := s, editing_username := False, saving := False\<rparr>, d')"
    "select_rows d' ''profiles'' (eq_col ''id'' (VStr u)) = [r]" "get r ''username'' = VStr (trim s)"
    "get r ''bio'' = (case select_rows d ''profiles'' (eq_col ''id'' (VStr u)) of [e] \<Rightarrow> get e ''bio'' | _ \<Rightarrow> VNull)"
proof -
  define p where "p = [(''id'', VStr u), (''username'', VStr (trim s)), (''updated_at'', VInt (int (next_id d)))]"
  have known: "columns_known ''profiles'' p"
    by (simp add: p_def columns_known_def table_columns_def profiles_columns_def)
  have h: "handle_save_username (Some u) (pg\<lparr>profile_username := s\<rparr>) d =
      (case upsert_by_id d ''profiles'' p of
         Inl _ \<Rightarrow> (Some UsernameFailed, pg\<lparr>profile_username := s, saving := False\<rparr>, d)
       | Inr d' \<Rightarrow> (Some UsernameSaved, pg\<lparr>profile_username := s, editing_username := False, saving := False\<rparr>, d'))"
    using u s by (simp add: handle_save_username_def p_def)
  show ?thesis
    using ids
  proof (cases rule: profile_lookup_cases [of d u])
    case none
    then have "VStr u \<notin> set (parent_ids d ''profiles'')"
      by (auto simp: select_rows_def eq_col_def parent_ids_def filter_empty_conv)
    then show ?thesis
      using that h none known
      by (simp add: upsert_by_id_def p_def insert_into_def select_rows_def new_row_def get_map_add_of eq_col_def
          defaults_def generated_columns_def table_columns_def profiles_columns_def get_def)
  next
    case (one e)
    then have "VStr u \<in> set (parent_ids d ''profiles'')"
      by (force simp: select_rows_def eq_col_def parent_ids_def dest: filter_eq_ConsD)
    moreover have "filter (eq_col ''id'' (VStr u)) (map (\<lambda>r. if eq_col ''id'' (VStr u) r then r ++ map_of p else r)
        (tables d ''profiles'')) = map (\<lambda>r. r ++ map_of p) (filter (eq_col ''id'' (VStr u)) (tables d ''profiles''))"
      by (rule filter_map_if) (simp add: eq_col_def get_map_add_of p_def)
    moreover have "map_of p ''id'' = Some (VStr u)" "get (e ++ map_of p) ''username'' = VStr (trim s)"
      "get (e ++ map_of p) ''bio'' = get e ''bio''"
      by (simp_all add: p_def get_map_add_of)
    ultimately show ?thesis
      using that [of _ "e ++ map_of p"] h one known
      by (simp add: upsert_by_id_def update_where_def select_rows_def)
  qed
qed

text \<open>Edit, a typed username and Save: the run and the row the page then reads.\<close>

lemma edit_username_run:
  assumes ids: "distinct (parent_ids d ''profiles'')"
    and closed: "\<not> pu_edit_open ui" "\<not> pu_review_open ui"
  obtains d' ui' r where
    "profile_run demo dm dg (Some au) [EditProfile, TypeUsername un, SaveProfile] (d, ui) = Some (d', ui')"
    "pu_toast ui' = Some ProfileSaved" "shown_profile (Some au) d' = Some r"
    "select_rows d' ''profiles'' (eq_col ''id'' (VStr (uid au))) = [r]" "get r ''username'' = str_or_null_p un"
proof -
  obtain ui1 where s1: "profile_step demo dm dg (Some au) EditProfile (d, ui) = Some (d, ui1)"
    and o1: "pu_edit_open ui1"
    using edit_step [OF closed] by (simp add: Let_def)
  obtain d' r where sv: "handle_save_profile (Some au) un (pu_bio ui1) d = (ProfileSaved, d')"
    and sh: "shown_profile (Some au) d' = Some r"
    and f: "get r ''username'' = str_or_null_p un"
    and sel: "select_rows d' ''profiles'' (eq_col ''id'' (VStr (uid au))) = [r]"
    using save_profile_shown [OF ids] by blast
  have "profile_run demo dm dg (Some au) [EditProfile, TypeUsername un, SaveProfile] (d, ui) =
      Some (d', ui1\<lparr>pu_username := un, pu_toast := Some ProfileSaved, pu_edit_open := False\<rparr>)"
    using s1 o1 sv by (simp add: editor_steps)
  then show ?thesis
    using that sh f sel by simp
qed

section \<open>Properties\<close>

text \<open>
  C23. The profile editor round-trips through the store: from the page with no dialog
  open, Edit, typing a username and a bio, and Save succeed whenever profile ids are
  distinct; the editor closes, the header shows the username (for an empty one the
  sign-in name) and the first 500 characters of the bio, and opening the editor again
  shows exactly the saved values.
\<close>

theorem profile_edit_roundtrip:
  assumes ids: "distinct (parent_ids d ''profiles'')"
    and closed: "\<not> pu_edit_open ui" "\<not> pu_review_open ui"
  shows "\<exists>d' ui' ui''.
    profile_run demo dm dg (Some au) [EditProfile, TypeUsername un, TypeBio b, SaveProfile] (d, ui) = Some (d', ui') \<and>
    pu_toast ui' = Some ProfileSaved \<and> \<not> pu_edit_open ui' \<and>
    header_name au d' = (if un = [] then display_name None au else un) \<and>
    header_bio (Some au) d' = take bio_max b \<and>
    profile_run demo dm dg (Some au) [EditProfile, TypeUsername un, TypeBio b, SaveProfile, EditProfile] (d, ui) =
      Some (d', ui'') \<and>
    pu_username ui'' = un \<and> pu_bio ui'' = take bio_max b"
proof -
  obtain d' r where sv: "handle_save_profile (Some au) un (take bio_max b) d = (ProfileSaved, d')"
    and sh: "shown_profile (Some au) d' = Some r"
    and f: "get r ''username'' = str_or_null_p un" "get r ''bio'' = str_or_null_p (take bio_max b)"
    using save_profile_shown [OF ids] by blast
  obtain ui1 where s1: "profile_step demo dm dg (Some au) EditProfile (d, ui) = Some (d, ui1)"
    and o1: "pu_edit_open ui1" and r1: "\<not> pu_review_open ui1"
    using edit_step [OF closed] closed(2) by (simp add: Let_def)
  define ui4 where "ui4 = ui1\<lparr>pu_username := un, pu_bio := take bio_max b, pu_toast := Some ProfileSaved,
                               pu_edit_open := False\<rparr>"
  have s4: "profile_run demo dm dg (Some au) [EditProfile, TypeUsername un, TypeBio b, SaveProfile] (d, ui) = Some (d', ui4)"
    using s1 o1 sv by (simp add: editor_steps ui4_def)
  have s5: "profile_step demo dm dg (Some au) EditProfile (d', ui4) =
      Some (d', ui4\<lparr>pu_username := un, pu_bio := take bio_max b, pu_edit_open := True\<rparr>)"
    using edit_step [of ui4] r1 sh f by (simp add: ui4_def)
  have hn: "header_name au d' = (if un = [] then display_name None au else un)"
    using sh f by (simp add: header_name_def display_name_username str_or_null_p_def)
  have hb: "header_bio (Some au) d' = take bio_max b"
    using sh f by (simp add: header_bio_def)
  show ?thesis
    using s4 s5 hn hb s1 o1 sv
    by (simp add: editor_steps ui4_def)
qed


text \<open>
  C24. The profile editor does not trim the username: a username of spaces is saved,
  and both the profile header and the settings page then show that blank name instead
  of falling back to the sign-in name, although the settings page refuses to save the
  very same name.
\<close>

theorem profile_blank_username_kept:
  assumes ids: "distinct (parent_ids d ''profiles'')"
    and closed: "\<not> pu_edit_open ui" "\<not> pu_review_open ui"
    and blank: "un \<noteq> []" "trim un = []" and u: "uid au \<noteq> []"
  shows "\<exists>d' ui'.
    profile_run demo dm dg (Some au) [EditProfile, TypeUsername un, SaveProfile] (d, ui) = Some (d', ui') \<and>
    pu_toast ui' = Some ProfileSaved \<and> header_name au d' = un \<and>
    settings_display_name (fetch_username (Some (uid au)) d' pg) au = un \<and>
    handle_save_username (Some (uid au)) (pg\<lparr>profile_username := un\<rparr>) d = (None, pg\<lparr>profile_username := un\<rparr>, d)"
proof -
  obtain d' ui' r where run: "profile_run demo dm dg (Some au) [EditProfile, TypeUsername un, SaveProfile] (d, ui) = Some (d', ui')"
    and t: "pu_toast ui' = Some ProfileSaved" and sh: "shown_profile (Some au) d' = Some r"
    and sel: "select_rows d' ''profiles'' (eq_col ''id'' (VStr (uid au))) = [r]"
    and f: "get r ''username'' = str_or_null_p un"
    using edit_username_run [OF ids closed] .
  have hn: "header_name au d' = un"
    using sh f blank(1) by (simp add: header_name_def display_name_username str_or_null_p_def)
  have st: "settings_display_name (fetch_username (Some (uid au)) d' pg) au = un"
    using sel f blank(1) u by (simp add: fetch_username_def settings_display_name_def or_else_def str_or_null_p_def)
  have refuse: "handle_save_username (Some (uid au)) (pg\<lparr>profile_username := un\<rparr>) d = (None, pg\<lparr>profile_username := un\<rparr>, d)"
    using blank(2) u by (simp add: handle_save_username_def)
  show ?thesis using run t hn st refuse by blast
qed


text \<open>
  C25. The settings page and the profile page agree on the username: after the settings
  page saves a non-blank name, the profile header shows it trimmed, the header's bio is
  the one shown before, and the profile editor opens with that name and bio.
\<close>

theorem settings_username_on_profile:
  assumes ids: "distinct (parent_ids d ''profiles'')" and u: "uid au \<noteq> []" and s: "trim s \<noteq> []"
    and closed: "\<not> pu_edit_open ui" "\<not> pu_review_open ui"
  shows "\<exists>pg' d' ui'.
    handle_save_username (Some (uid au)) (pg\<lparr>profile_username := s\<rparr>) d = (Some UsernameSaved, pg', d') \<and>
    header_name au d' = trim s \<and> header_bio (Some au) d' = header_bio (Some au) d \<and>
    profile_step demo dm dg (Some au) EditProfile (d', ui) = Some (d', ui') \<and>
    pu_username ui' = trim s \<and> pu_bio ui' = header_bio (Some au) d"
proof -
  obtain d' r where h: "handle_save_username (Some (uid au)) (pg\<lparr>profile_username := s\<rparr>) d =
       (Some UsernameSaved, pg\<lparr>profile_username := s, editing_username := False, saving := False\<rparr>, d')"
    and sel: "select_rows d' ''profiles'' (eq_col ''id'' (VStr (uid au))) = [r]"
    and n: "get r ''username'' = VStr (trim s)"
    and b: "get r ''bio'' = (case select_rows d ''profiles'' (eq_col ''id'' (VStr (uid au))) of [e] \<Rightarrow> get e ''bio'' | _ \<Rightarrow> VNull)"
    using settings_save_row [OF ids u s] by blast
  have sh: "shown_profile (Some au) d' = Some r"
    using sel by (simp add: shown_profile_def profile_query_def)
  have hb: "header_bio (Some au) d' = header_bio (Some au) d"
    using sh b header_bio_select [OF ids] by (simp add: header_bio_def)
  have hn: "header_name au d' = trim s"
    using sh n s by (simp add: header_name_def display_name_username)
  show ?thesis
    using h hn hb edit_step [OF closed, of demo dm dg "Some au" d'] sh n
    by (simp add: header_bio_def str_or_empty_def)
qed


theorem profile_edit_roundtrip_witness:
  "\<exists>d' ui' ui''.
    profile_run False [] [] (Some demo_auth) [EditProfile, TypeUsername ''Ann'', TypeBio ''hi'', SaveProfile]
      (empty_db, initial_profile_ui) = Some (d', ui') \<and>
    pu_toast ui' = Some ProfileSaved \<and> \<not> pu_edit_open ui' \<and>
    header_name demo_auth d' = ''Ann'' \<and> header_bio (Some demo_auth) d' = ''hi'' \<and>
    profile_run False [] [] (Some demo_auth) [EditProfile, TypeUsername ''Ann'', TypeBio ''hi'', SaveProfile, EditProfile]
      (empty_db, initial_profile_ui) = Some (d', ui'') \<and>
    pu_username ui'' = ''Ann'' \<and> pu_bio ui'' = ''hi''"
  using profile_edit_roundtrip [OF empty_db_profiles initial_profile_closed,
      where demo=False and dm="[]" and dg="[]" and au=demo_auth and un="''Ann''" and b="''hi''"]
  by (simp add: bio_max_def)

theorem profile_blank_username_kept_witness:
  "\<exists>d' ui'.
    profile_run False [] [] (Some demo_auth) [EditProfile, TypeUsername '' '', SaveProfile]
      (empty_db, initial_profile_ui) = Some (d', ui') \<and>
    pu_toast ui' = Some ProfileSaved \<and> header_name demo_auth d' = '' '' \<and>
    settings_display_name (fetch_username (Some ''a'') d' demo_settings) demo_auth = '' '' \<and>
    handle_save_username (Some ''a'') (demo_settings\<lparr>profile_username := '' ''\<rparr>) empty_db =
      (None, demo_settings\<lparr>profile_username := '' ''\<rparr>, empty_db)"
proof -
  have blank: "'' '' \<noteq> []" "trim '' '' = []" and u: "uid demo_auth \<noteq> []"
    by (simp_all add: trim_def js_space_def demo_auth_def)
  show ?thesis
    using profile_blank_username_kept [OF empty_db_profiles initial_profile_closed blank u,
        where demo=False and dm="[]" and dg="[]" and pg=demo_settings]
    by (simp add: demo_auth_def)
qed

theorem settings_username_on_profile_witness:
  "\<exists>pg' d' ui'.
    handle_save_username (Some ''a'') (demo_settings\<lparr>profile_username := '' Ann''\<rparr>) empty_db = (Some UsernameSaved, pg', d') \<and>
    header_name demo_auth d' = ''Ann'' \<and> header_bio (Some demo_auth) d' = header_bio (Some demo_auth) empty_db \<and>
    profile_step False [] [] (Some demo_auth) EditProfile (d', initial_profile_ui) = Some (d', ui') \<and>
    pu_username ui' = ''Ann'' \<and> pu_bio ui' = header_bio (Some demo_auth) empty_db"
proof -
  have u: "uid demo_auth \<noteq> []" and s: "trim '' Ann'' \<noteq> []"
    by (simp_all add: trim_def js_space_def demo_auth_def)
  have t: "trim '' Ann'' = ''Ann''"
    by (simp add: trim_def js_space_def)
  show ?thesis
    using settings_username_on_profile [OF empty_db_profiles u s initial_profile_closed,
        where demo=False and dm="[]" and dg="[]" and pg=demo_settings] t
    by (simp add: demo_auth_def)
qed

end
