(* ===== verification/ReviewFlow.thy ===== *)
theory ReviewFlow
  imports Reviews
begin

text \<open>
  The review dialog \<open>src/src/components/ReviewDialog.tsx\<close> as a state machine of one
  client: its \<open>useState\<close> hooks, the review \<open>useUserReview\<close> reads, the load effect with
  its dependencies, the controls the dialog renders (ten stars, the date, the game-only
  hours and platform, the text, Save, Delete for an existing review, Cancel) and the
  handlers \<open>handleSubmit\<close> and \<open>handleDelete\<close> of \<open>Reviews\<close>. The theory proves that a run
  of the dialog keeps every rating of the review table between 1 and 10.
\<close>

section \<open>The dialog's state\<close>

text \<open>
  \<open>open\<close> (a prop the parent sets), the form fields of \<open>Reviews.review_form\<close>,
  \<open>hoverRating\<close>, the dependencies the load effect last ran with
  (\<open>[existingReview, itemType, open]\<close>; the item type is fixed for one dialog), and the
  last toast.
\<close>

record dialog_ui =
  dl_open :: bool
  dl_form :: review_form
  dl_hover :: int
  dl_deps :: "(row option \<times> bool) option"
  dl_toast :: "dialog_toast option"

definition initial_dialog_ui :: dialog_ui where
  "initial_dialog_ui =
     \<lparr>dl_open = False,
      dl_form = \<lparr>form_rating = 0, form_text = [], form_watched = [], form_hours = None, form_platform = []\<rparr>,
      dl_hover = 0, dl_deps = None, dl_toast = None\<rparr>"

section \<open>What a render reads and the load effect\<close>

text \<open>\<open>const { data: existingReview } = useUserReview(itemType, itemId)\<close>.\<close>

definition existing_review :: "user_id option \<Rightarrow> media_type \<Rightarrow> int \<Rightarrow> db \<Rightarrow> row option" where
  "existing_review user k i d = (case user_review_query user k i d of Inr x \<Rightarrow> x | Inl _ \<Rightarrow> None)"

text \<open>
  The load effect runs after a commit whose dependencies differ from those of its last
  run: it fills the form from the existing review or resets it.
\<close>

definition load_effect :: "user_id option \<Rightarrow> media_type \<Rightarrow> int \<Rightarrow> db \<Rightarrow> dialog_ui \<Rightarrow> dialog_ui" where
  "load_effect user k i d s =
     (let e = existing_review user k i d
      in if dl_deps s = Some (e, dl_open s) then s
         else s\<lparr>dl_form := dialog_load k e (dl_form s), dl_deps := Some (e, dl_open s)\<rparr>)"

section \<open>The controls\<close>

text \<open>
  The parent opens the dialog. Inside it: the stars 1 to 10 (click and hover), the date,
  for a game the hours (\<open>parseInt\<close> of the number field, none when empty) and the
  platform, the text, Save, Delete when there is an existing review, and Cancel (also
  Escape or a click outside).
\<close>

datatype dialog_event =
    OpenReviewDialog | ClickStar int | HoverStar int | LeaveStar | TypeWatched string
  | TypeHours "int option" | TypePlatform string | TypeReview string | SubmitReview
  | DeleteReview | CancelReview

definition dialog_enabled :: "user_id option \<Rightarrow> media_type \<Rightarrow> int \<Rightarrow> db \<Rightarrow> dialog_ui \<Rightarrow> dialog_event \<Rightarrow> bool" where
  "dialog_enabled user k i d s ev =
     (if \<not> dl_open s then ev = OpenReviewDialog
      else (case ev of
              OpenReviewDialog \<Rightarrow> False
            | ClickStar n \<Rightarrow> 1 \<le> n \<and> n \<le> 10
            | HoverStar n \<Rightarrow> 1 \<le> n \<and> n \<le> 10
            | TypeHours _ \<Rightarrow> k = Game
            | TypePlatform _ \<Rightarrow> k = Game
            | DeleteReview \<Rightarrow> existing_review user k i d \<noteq> None
            | _ \<Rightarrow> True))"

section \<open>The handlers\<close>

text \<open>Save and Delete close the dialog (\<open>onOpenChange(false)\<close>) only on success.\<close>

fun dialog_apply ::
  "user_id option \<Rightarrow> media_type \<Rightarrow> int \<Rightarrow> string \<Rightarrow> string option \<Rightarrow> dialog_event \<Rightarrow>
   db \<times> dialog_ui \<Rightarrow> db \<times> dialog_ui" where
  "dialog_apply user k i title poster OpenReviewDialog (d, s) = (d, s\<lparr>dl_open := True\<rparr>)"
| "dialog_apply user k i title poster (ClickStar n) (d, s) = (d, s\<lparr>dl_form := (dl_form s)\<lparr>form_rating := n\<rparr>\<rparr>)"
| "dialog_apply user k i title poster (HoverStar n) (d, s) = (d, s\<lparr>dl_hover := n\<rparr>)"
| "dialog_apply user k i title poster LeaveStar (d, s) = (d, s\<lparr>dl_hover := 0\<rparr>)"
| "dialog_apply user k i title poster (TypeWatched w) (d, s) = (d, s\<lparr>dl_form := (dl_form s)\<lparr>form_watched := w\<rparr>\<rparr>)"
| "dialog_apply user k i title poster (TypeHours h) (d, s) = (d, s\<lparr>dl_form := (dl_form s)\<lparr>form_hours := h\<rparr>\<rparr>)"
| "dialog_apply user k i title poster (TypePlatform p) (d, s) = (d, s\<lparr>dl_form := (dl_form s)\<lparr>form_platform := p\<rparr>\<rparr>)"
| "dialog_apply user k i title poster (TypeReview t) (d, s) = (d, s\<lparr>dl_form := (dl_form s)\<lparr>form_text := t\<rparr>\<rparr>)"
| "dialog_apply user k i title poster SubmitReview (d, s) =
     (case dialog_submit user k i title poster (dl_form s) d of
        (Saved, d') \<Rightarrow> (d', s\<lparr>dl_toast := Some Saved, dl_open := False\<rparr>)
      | (t, d') \<Rightarrow> (d', s\<lparr>dl_toast := Some t\<rparr>))"
| "dialog_apply user k i title poster DeleteReview (d, s) =
     (case dialog_delete user k i d of
        (Deleted, d') \<Rightarrow> (d', s\<lparr>dl_toast := Some Deleted, dl_open := False\<rparr>)
      | (t, d') \<Rightarrow> (d', s\<lparr>dl_toast := Some t\<rparr>))"
| "dialog_apply user k i title poster CancelReview (d, s) = (d, s\<lparr>dl_open := False\<rparr>)"

text \<open>A step handles an event the dialog offers and then runs the load effect.\<close>

definition dialog_step ::
  "user_id option \<Rightarrow> media_type \<Rightarrow> int \<Rightarrow> string \<Rightarrow> string option \<Rightarrow> dialog_event \<Rightarrow>
   db \<times> dialog_ui \<Rightarrow> (db \<times> dialog_ui) option" where
  "dialog_step user k i title poster ev ds =
     (if dialog_enabled user k i (fst ds) (snd ds) ev
      then (case dialog_apply user k i title poster ev ds of
              (d', s') \<Rightarrow> Some (d', load_effect user k i d' s'))
      else None)"

fun dialog_run ::
  "user_id option \<Rightarrow> media_type \<Rightarrow> int \<Rightarrow> string \<Rightarrow> string option \<Rightarrow> dialog_event list \<Rightarrow>
   db \<times> dialog_ui \<Rightarrow> (db \<times> dialog_ui) option" where
  "dialog_run user k i title poster [] ds = Some ds"
| "dialog_run user k i title poster (ev # evs) ds =
     (case dialog_step user k i title poster ev ds of
        None \<Rightarrow> None
      | Some ds' \<Rightarrow> dialog_run user k i title poster evs ds')"

section \<open>The invariant\<close>

text \<open>A stored rating is a whole number of stars from 1 to 10.\<close>

definition stars_ok :: "cell \<Rightarrow> bool" where
  "stars_ok c = (case c of VInt n \<Rightarrow> 1 \<le> n \<and> n \<le> 10 | _ \<Rightarrow> False)"

definition ratings_in_range :: "media_type \<Rightarrow> db \<Rightarrow> bool" where
  "ratings_in_range k d \<longleftrightarrow> list_all (\<lambda>r. stars_ok (get r ''rating'')) (tables d (review_table k))"

definition dialog_inv :: "media_type \<Rightarrow> db \<Rightarrow> dialog_ui \<Rightarrow> bool" where
  "dialog_inv k d s \<longleftrightarrow> ratings_in_range k d \<and> 0 \<le> form_rating (dl_form s) \<and> form_rating (dl_form s) \<le> 10"

section \<open>Lemmas\<close>

lemma existing_review_row:
  "existing_review user k i d = Some r \<Longrightarrow> r \<in> set (tables d (review_table k))"
  by (auto simp: existing_review_def user_review_query_def maybe_single_def select_rows_def
      split: option.splits sum.splits list.splits if_splits dest!: filter_eq_ConsD)

lemma stars_ok_value: "stars_ok c \<Longrightarrow> 1 \<le> value_key c \<and> value_key c \<le> 10"
  by (cases c) (simp_all add: stars_ok_def)

lemma load_effect_inv:
  assumes "dialog_inv k d s"
  shows "dialog_inv k d (load_effect user k i d s)"
proof (cases "existing_review user k i d")
  case None
  then show ?thesis using assms by (simp add: load_effect_def dialog_load_def dialog_inv_def Let_def)
next
  case (Some r)
  then have "stars_ok (get r ''rating'')"
    using existing_review_row [OF Some] assms by (auto simp: dialog_inv_def ratings_in_range_def list_all_iff)
  then show ?thesis
    using Some assms stars_ok_value [of "get r ''rating''"]
    by (simp add: load_effect_def dialog_load_def dialog_inv_def Let_def)
qed

text \<open>A successful write stores the payload's rating in the row it inserts or updates.\<close>

lemma add_or_update_review_ratings:
  assumes run: "add_or_update_review user p d = Inr d'" and ok: "1 \<le> rating p" "rating p \<le> 10"
    and inv: "ratings_in_range k d"
  shows "ratings_in_range k d'"
proof -
  have pr: "stars_ok (get (r ++ map_of (review_payload u p)) ''rating'')" for r u
  proof -
    have "(''rating'', VInt (rating p)) \<in> set (review_payload u p)"
      by (simp add: review_payload_def)
    then show ?thesis using ok by (simp add: review_payload_get stars_ok_def)
  qed
  show ?thesis
    using run
  proof (cases rule: add_or_update_review_Inr)
    case (insert u)
    then show ?thesis
      using inv pr [of "defaults (review_table (itemType p)) (next_id d)" u]
      by (auto simp: ratings_in_range_def insert_into_tables new_row_def)
  next
    case (update u e)
    then show ?thesis
      using inv pr by (auto simp: ratings_in_range_def update_where_tables list_all_iff)
  qed
qed

lemma dialog_submit_inv:
  assumes "dialog_submit user k' i title poster f d = (t, d')" "ratings_in_range k d"
    "0 \<le> form_rating f" "form_rating f \<le> 10"
  shows "ratings_in_range k d'"
  using assms add_or_update_review_ratings [of user _ d d' k]
  by (auto simp: dialog_submit_def split: if_splits sum.splits)

lemma dialog_delete_inv:
  assumes "dialog_delete user k' i d = (t, d')" "ratings_in_range k d"
  shows "ratings_in_range k d'"
  using assms
  by (auto simp: dialog_delete_def delete_review_def ratings_in_range_def list_all_iff
      split: sum.splits option.splits if_splits)

lemma dialog_apply_inv:
  assumes "dialog_enabled user k i d s ev" "dialog_inv k d s"
    and "dialog_apply user k i title poster ev (d, s) = (d', s')"
  shows "dialog_inv k d' s'"
  using assms
proof (cases ev)
  case SubmitReview
  then show ?thesis
    using assms dialog_submit_inv [of user k i title poster "dl_form s" d _ _ k]
    by (auto simp: dialog_inv_def split: prod.splits dialog_toast.splits)
next
  case DeleteReview
  then show ?thesis
    using assms dialog_delete_inv [of user k i d _ _ k]
    by (auto simp: dialog_inv_def split: prod.splits dialog_toast.splits)
qed (auto simp: dialog_inv_def dialog_enabled_def split: if_splits)

lemma dialog_step_inv:
  assumes "dialog_step user k i title poster ev (d, s) = Some (d', s')" "dialog_inv k d s"
  shows "dialog_inv k d' s'"
  using assms dialog_apply_inv [of user k i d s ev title poster] load_effect_inv
  by (auto simp: dialog_step_def split: if_splits prod.splits)

lemma empty_dialog_inv: "dialog_inv k empty_db initial_dialog_ui"
  by (simp add: dialog_inv_def ratings_in_range_def empty_db_def initial_dialog_ui_def)

lemma demo_existing_none: "existing_review (Some ''a'') Movie 550 empty_db = None"
  by (simp add: existing_review_def user_review_query_def select_rows_def empty_db_def)

lemma demo_save: "add_or_update_review (Some ''a'') demo_movie_review empty_db = Inr demo_review_db"
    by (simp add: add_or_update_review_def demo_movie_review_def demo_review_db_def review_table_def
        review_key_def id_column_def review_payload_def title_column_def poster_column_def
        str_or_null_def nullable_str_def store_eval)

section \<open>Properties\<close>

text \<open>
  C15. Whatever the user does in the review dialog, every rating of the review table of
  its kind stays a whole number of stars from 1 to 10, and the form's rating stays
  between 0 (none chosen) and 10: the stars offer 1 to 10, Save refuses 0, and the load
  effect only copies stored ratings.
\<close>

theorem review_dialog_ratings_bounded:
  "dialog_run user k i title poster evs (d, s) = Some (d', s') \<Longrightarrow> dialog_inv k d s \<Longrightarrow> dialog_inv k d' s'"
proof (induction evs arbitrary: d s)
  case Nil
  then show ?case by simp
next
  case (Cons ev evs)
  then obtain d1 s1 where st: "dialog_step user k i title poster ev (d, s) = Some (d1, s1)"
    and rest: "dialog_run user k i title poster evs (d1, s1) = Some (d', s')"
    by (auto split: option.splits)
  show ?case
    using Cons.IH [OF rest dialog_step_inv [OF st Cons.prems(2)]] .
qed

theorem review_dialog_ratings_bounded_witness:
  "\<exists>d' s'. dialog_run (Some ''a'') Movie 550 ''Fight Club'' None [OpenReviewDialog, ClickStar 8, TypeReview ''Great'', SubmitReview]
      (empty_db, initial_dialog_ui) = Some (d', s') \<and> dialog_inv Movie d' s'"
proof -
  have sub: "dialog_submit (Some ''a'') Movie 550 ''Fight Club'' None
      \<lparr>form_rating = 8, form_text = ''Great'', form_watched = [], form_hours = None, form_platform = []\<rparr> empty_db =
      (Saved, demo_review_db)"
    using demo_save by (simp add: dialog_submit_def demo_movie_review_def undefined_if_empty_def trim_def js_space_def)
  have "\<exists>x. dialog_run (Some ''a'') Movie 550 ''Fight Club'' None [OpenReviewDialog, ClickStar 8, TypeReview ''Great'', SubmitReview]
      (empty_db, initial_dialog_ui) = Some x"
    using sub demo_existing_none
    by (simp add: dialog_step_def dialog_enabled_def load_effect_def initial_dialog_ui_def dialog_load_def Let_def)
  then show ?thesis
    using review_dialog_ratings_bounded [OF _ empty_dialog_inv] by (metis surj_pair)
qed

end
