(* ===== verification/FriendFlow.thy ===== *)
theory FriendFlow
  imports Friends Profile
begin

text \<open>
  A friend's profile page \<open>src/src/pages/FriendProfile.tsx\<close> and the way the friends
  sidebar reaches it. The page reads the profile of the user in its address, that
  user's statistics and best-rated movies and games, and renders either "Profile not
  found" or the profile with its tiles, its favourite cards (each opening the review
  dialog) and, without favourites, "This user has no reviews yet". The sidebar's friend
  row links to \<open>/profile/<id>\<close> with the id of the friend's profile, or of the
  placeholder profile when the friend has none. The theory proves that a friend who sent
  a request without ever saving a profile is listed as "Unknown" and that the link opens
  "Profile not found",
  and that a user with only series reviews is shown as having no reviews beside
  statistics that count them.
\<close>

section \<open>What the page reads\<close>

text \<open>
  The \<open>friendProfile\<close> query: no user id (or an empty one) gives no profile; otherwise
  the row by \<open>single()\<close>, whose error (no row, \<open>PGRST116\<close>) is thrown and leaves
  \<open>data\<close> undefined.
\<close>

definition friend_profile_query :: "user_id option \<Rightarrow> db \<Rightarrow> row option" where
  "friend_profile_query user_param d =
     (case logged_id user_param of
        None \<Rightarrow> None
      | Some u \<Rightarrow> (case single (select_rows d ''profiles'' (eq_col ''id'' (VStr u))) of
                   Inr r \<Rightarrow> Some r
                 | Inl _ \<Rightarrow> None))"

text \<open>
  The page a render shows: "Profile not found" without a profile; otherwise the profile,
  the four tiles, the favourite movies and games, and whether the empty-state message
  "This user has no reviews yet" is shown (no favourite movie and no favourite game).
\<close>

datatype friend_view =
    ProfileNotFound
  | FriendPageView row "int list" "row list" "row list" bool

definition friend_view :: "user_id option \<Rightarrow> db \<Rightarrow> friend_view" where
  "friend_view user_param d =
     (case friend_profile_query user_param d of
        None \<Rightarrow> ProfileNotFound
      | Some p \<Rightarrow>
          (let (ms, gs) = friend_favorites user_param d
           in FriendPageView p (friend_tiles (friend_stats_query user_param d)) ms gs (ms = [] \<and> gs = [])))"

section \<open>The sidebar's link\<close>

text \<open>
  A friend row's \<open>onClick\<close>: \<open>window.location.href = `/profile/${friendProfile.id}`\<close>; the
  route's \<open>userId\<close> parameter is that id.
\<close>

definition friend_link :: "row \<Rightarrow> user_id option" where
  "friend_link p = (case get p ''id'' of VStr s \<Rightarrow> Some s | _ \<Rightarrow> None)"

section \<open>The review dialog of the page\<close>

text \<open>\<open>selectedReview\<close>, \<open>reviewDialogOpen\<close> and \<open>reviewType\<close>.\<close>

record friend_page_ui =
  fp_review :: "row option"
  fp_review_open :: bool
  fp_review_type :: string

datatype friend_page_event = OpenFriendReview row string | CloseFriendReview

text \<open>
  A favourite card opens the review dialog (\<open>handleReviewClick\<close>), which is modal; its
  \<open>onOpenChange\<close> closes it. "Profile not found" has no controls.
\<close>

definition friend_page_enabled :: "user_id option \<Rightarrow> db \<Rightarrow> friend_page_ui \<Rightarrow> friend_page_event \<Rightarrow> bool" where
  "friend_page_enabled user_param d s ev =
     (case friend_view user_param d of
        ProfileNotFound \<Rightarrow> False
      | FriendPageView _ _ ms gs _ \<Rightarrow>
          (if fp_review_open s then ev = CloseFriendReview
           else (case ev of
                   OpenFriendReview r t \<Rightarrow> (t = ''movie'' \<and> r \<in> set ms) \<or> (t = ''game'' \<and> r \<in> set gs)
                 | CloseFriendReview \<Rightarrow> False)))"

fun friend_page_apply :: "friend_page_event \<Rightarrow> friend_page_ui \<Rightarrow> friend_page_ui" where
  "friend_page_apply (OpenFriendReview r t) s = s\<lparr>fp_review := Some r, fp_review_type := t, fp_review_open := True\<rparr>"
| "friend_page_apply CloseFriendReview s = s\<lparr>fp_review_open := False\<rparr>"

definition friend_page_step ::
  "user_id option \<Rightarrow> db \<Rightarrow> friend_page_event \<Rightarrow> friend_page_ui \<Rightarrow> friend_page_ui option" where
  "friend_page_step user_param d ev s =
     (if friend_page_enabled user_param d s ev then Some (friend_page_apply ev s) else None)"

text \<open>A store where user \<open>b\<close> has a profile and has reviewed one series only.\<close>

definition demo_series_fan :: db where
  "demo_series_fan = empty_db\<lparr>tables := (tables empty_db)(
     ''profiles'' := [[''id'' \<mapsto> VStr ''b'', ''username'' \<mapsto> VStr ''bob'']],
     ''series_reviews'' := [[''user_id'' \<mapsto> VStr ''b'', ''series_id'' \<mapsto> VInt 1396, ''rating'' \<mapsto> VInt 9]])\<rparr>"

section \<open>Lemmas\<close>

lemma no_profile_select:
  "VStr b \<notin> set (parent_ids d ''profiles'') \<Longrightarrow> select_rows d ''profiles'' (eq_col ''id'' (VStr b)) = []"
  by (force simp: select_rows_def parent_ids_def eq_col_def filter_empty_conv)

lemma friend_view_no_profile:
  "VStr b \<notin> set (parent_ids d ''profiles'') \<Longrightarrow> friend_view (Some b) d = ProfileNotFound"
  by (cases "b = []") (simp_all add: friend_view_def friend_profile_query_def no_profile_select)

text \<open>
  An accepted row lists, for its receiver, the sender with the profile the merge finds
  for the sender.
\<close>

lemma friends_query_member:
  assumes "r \<in> set (tables d ''friendships'')" "get r ''status'' = VStr ''accepted''"
    and "get r ''friend_id'' = VStr b" "b \<noteq> []" "get r ''user_id'' \<noteq> VStr b"
  shows "\<exists>ps. (r, find_profile ps (get r ''user_id'')) \<in> set (friends_query (Some b) d) \<and>
    ps = map (project profile_columns) (select_rows d ''profiles''
           (in_col ''id'' (map (other_party b) (select_rows d ''friendships''
              (\<lambda>r. involves b r \<and> eq_col ''status'' (VStr ''accepted'') r)))))"
proof -
  have fs: "r \<in> set (select_rows d ''friendships'' (\<lambda>r. involves b r \<and> eq_col ''status'' (VStr ''accepted'') r))"
    using assms(1-3) by (simp add: select_rows_def involves_def eq_col_def)
  have "other_party b r = get r ''user_id''"
    using assms(5) by (simp add: other_party_def)
  then show ?thesis
    using fs assms(4) by (auto simp: friends_query_def with_profiles_def Let_def)
qed

lemma find_profile_missing:
  assumes "VStr b \<notin> set (parent_ids d ''profiles'')"
  shows "find_profile (map (project profile_columns) (select_rows d ''profiles'' P)) (VStr b) = placeholder_profile (VStr b)"
proof -
  have "find (eq_col ''id'' (VStr b)) (map (project profile_columns) (select_rows d ''profiles'' P)) = None"
    using assms by (force simp: find_None_iff select_rows_def parent_ids_def eq_col_def)
  then show ?thesis by (simp add: find_profile_def)
qed

section \<open>Properties\<close>

text \<open>
  C28. A user who never saved a profile has no profile row (the store creates one on
  the first profile write), yet can send a friend request, which checks no profile. Once
  the receiver accepts, the receiver's friends list shows the sender as the placeholder
  "Unknown" with the sender's id, and its link opens a page that says "Profile not
  found", that is, "This user does not exist".
\<close>

theorem friend_without_profile_not_found:
  assumes "r \<in> set (tables d ''friendships'')" "get r ''status'' = VStr ''accepted''"
    and "get r ''user_id'' = VStr a" "get r ''friend_id'' = VStr b" "b \<noteq> []" "a \<noteq> b"
    and "VStr a \<notin> set (parent_ids d ''profiles'')"
  shows "\<exists>p. (r, p) \<in> set (friends_query (Some b) d) \<and> get p ''username'' = VStr ''Unknown'' \<and>
           friend_link p = Some a \<and> friend_view (friend_link p) d = ProfileNotFound"
proof -
  obtain ps where m: "(r, find_profile ps (VStr a)) \<in> set (friends_query (Some b) d)"
    and ps: "ps = map (project profile_columns) (select_rows d ''profiles''
           (in_col ''id'' (map (other_party b) (select_rows d ''friendships''
              (\<lambda>r. involves b r \<and> eq_col ''status'' (VStr ''accepted'') r)))))"
    using friends_query_member [OF assms(1,2,4,5)] assms(3,6) by auto
  have "find_profile ps (VStr a) = placeholder_profile (VStr a)"
    using find_profile_missing [OF assms(7)] ps by simp
  then show ?thesis
    using m friend_view_no_profile [OF assms(7)]
    by (auto simp: placeholder_profile_def friend_link_def)
qed

theorem friend_without_profile_not_found_witness:
  "\<exists>p. (hd (tables demo_friends ''friendships''), p) \<in> set (friends_query (Some ''b'') demo_friends) \<and>
     get p ''username'' = VStr ''Unknown'' \<and> friend_link p = Some ''a'' \<and>
     friend_view (friend_link p) demo_friends = ProfileNotFound"
proof -
  have r: "hd (tables demo_friends ''friendships'') \<in> set (tables demo_friends ''friendships'')"
    "get (hd (tables demo_friends ''friendships'')) ''status'' = VStr ''accepted''"
    "get (hd (tables demo_friends ''friendships'')) ''user_id'' = VStr ''a''"
    "get (hd (tables demo_friends ''friendships'')) ''friend_id'' = VStr ''b''"
    by (simp_all add: demo_friends_def demo_request_def store_eval)
  have np: "VStr ''a'' \<notin> set (parent_ids demo_friends ''profiles'')"
    by (simp add: parent_ids_def demo_friends_def demo_request_def empty_db_def)
  show ?thesis
    using friend_without_profile_not_found [OF r _ _ np] by simp
qed

text \<open>
  C29. A user whose only reviews are of series has a page whose tiles count those
  reviews, yet it shows no favourites and the message "This user has no reviews yet":
  the page's favourites are the best movies and games only.
\<close>

theorem friend_series_only_no_reviews:
  assumes "select_rows d ''profiles'' (eq_col ''id'' (VStr b)) = [p]" "b \<noteq> []"
    and "rows_of d ''movie_reviews'' b = []" "rows_of d ''game_reviews'' b = []"
    and "rows_of d ''series_reviews'' b \<noteq> []"
  shows "friend_view (Some b) d = FriendPageView p (friend_tiles (friend_stats_query (Some b) d)) [] [] True \<and>
         friend_tiles (friend_stats_query (Some b) d) ! 1 = int (length (rows_of d ''series_reviews'' b)) \<and>
         0 < friend_tiles (friend_stats_query (Some b) d) ! 1"
  using assms
  by (simp add: friend_view_def friend_profile_query_def friend_favorites_def top_rated_def order_desc_def
      friend_tiles_def friend_stats_query_def Let_def)

theorem friend_series_only_no_reviews_witness:
  "friend_view (Some ''b'') demo_series_fan =
     FriendPageView [''id'' \<mapsto> VStr ''b'', ''username'' \<mapsto> VStr ''bob''] (friend_tiles (friend_stats_query (Some ''b'') demo_series_fan)) [] [] True \<and>
   friend_tiles (friend_stats_query (Some ''b'') demo_series_fan) ! 1 = 1 \<and>
   0 < friend_tiles (friend_stats_query (Some ''b'') demo_series_fan) ! 1"
proof -
  have h: "select_rows demo_series_fan ''profiles'' (eq_col ''id'' (VStr ''b'')) = [[''id'' \<mapsto> VStr ''b'', ''username'' \<mapsto> VStr ''bob'']]"
    "rows_of demo_series_fan ''movie_reviews'' ''b'' = []" "rows_of demo_series_fan ''game_reviews'' ''b'' = []"
    "rows_of demo_series_fan ''series_reviews'' ''b'' \<noteq> []"
    "int (length (rows_of demo_series_fan ''series_reviews'' ''b'')) = 1"
    by (simp_all add: demo_series_fan_def rows_of_def empty_db_def store_eval)
  show ?thesis
    using friend_series_only_no_reviews [OF h(1) _ h(2-4)] h(5) by simp
qed

end
