(* ===== verification/NavSidebar.thy ===== *)
theory NavSidebar
  imports ProfileFlow
begin

text \<open>
  The app's navigation sidebar \<open>src/src/components/Sidebar.tsx\<close>, rendered by the layout of
  every page: its navigation entries, the user card with the display name, and the
  effect that reads the username from the profile once per user id. The theory proves
  that, on the profile page, saving a new username changes the page's header but not
  the name in the sidebar beside it.
\<close>

section \<open>The navigation entries\<close>

text \<open>\<open>navItems\<close>: the label key of \<open>t\<close> and the path of each entry.\<close>

definition nav_items :: "(string \<times> string) list" where
  "nav_items = [(''dashboard'', ''/''), (''discover'', ''/discover''), (''watchlist'', ''/watchlist''),
                (''myCollection'', ''/collection''), (''profile'', ''/profile''), (''settings'', ''/settings'')]"

section \<open>The username effect\<close>

text \<open>
  \<open>profileUsername\<close> and the dependency \<open>[user?.id]\<close> the effect last ran with. The effect
  reads \<open>profiles.username\<close> by \<open>single()\<close> and keeps the old value unless it finds a
  non-empty username; a missing row (an error) keeps it too.
\<close>

record nav_sidebar =
  nav_username :: "string option"
  nav_deps :: "user_id option option"

definition initial_nav :: nav_sidebar where
  "initial_nav = \<lparr>nav_username = None, nav_deps = None\<rparr>"

definition nav_fetch :: "user_id option \<Rightarrow> db \<Rightarrow> nav_sidebar \<Rightarrow> nav_sidebar" where
  "nav_fetch user_id d s =
     (case logged_id user_id of
        None \<Rightarrow> s
      | Some u \<Rightarrow>
          (case single (select_rows d ''profiles'' (eq_col ''id'' (VStr u))) of
             Inr r \<Rightarrow> (case get r ''username'' of VStr x \<Rightarrow> if x = [] then s else s\<lparr>nav_username := Some x\<rparr> | _ \<Rightarrow> s)
           | Inl _ \<Rightarrow> s))"

text \<open>After a commit the effect runs only when \<open>user?.id\<close> differs from its last run.\<close>

definition nav_commit :: "user_id option \<Rightarrow> db \<Rightarrow> nav_sidebar \<Rightarrow> nav_sidebar" where
  "nav_commit user_id d s =
     (if nav_deps s = Some user_id then s else nav_fetch user_id d (s\<lparr>nav_deps := Some user_id\<rparr>))"

text \<open>
  \<open>userName\<close>: the fetched username, else the sign-in metadata's full name or name,
  else the part of the email before \<open>@\<close>, else \<open>'User'\<close>.
\<close>

definition nav_user_name :: "nav_sidebar \<Rightarrow> auth_user \<Rightarrow> string" where
  "nav_user_name s au =
     or_else (nav_username s)
       (or_else (full_name au)
         (or_else (meta_name au)
           (or_else (map_option (takeWhile (\<lambda>c. c \<noteq> CHR ''@'')) (email au)) ''User'')))"

text \<open>A store where user \<open>a\<close> has saved the username "alice".\<close>

definition demo_named_db :: db where
  "demo_named_db = empty_db\<lparr>tables := (tables empty_db)(''profiles'' := [[''id'' \<mapsto> VStr ''a'', ''username'' \<mapsto> VStr ''alice'']])\<rparr>"

section \<open>Lemmas\<close>

lemma nav_commit_mount:
  assumes "u \<noteq> []" "select_rows d ''profiles'' (eq_col ''id'' (VStr u)) = [p]"
    "get p ''username'' = VStr old" "old \<noteq> []"
  shows "nav_commit (Some u) d initial_nav = \<lparr>nav_username = Some old, nav_deps = Some (Some u)\<rparr>"
  using assms by (simp add: nav_commit_def nav_fetch_def initial_nav_def)

lemma nav_commit_same [simp]:
  "nav_commit user_id d' \<lparr>nav_username = x, nav_deps = Some user_id\<rparr> = \<lparr>nav_username = x, nav_deps = Some user_id\<rparr>"
  by (simp add: nav_commit_def)

section \<open>Properties\<close>

text \<open>
  C26. The sidebar's name goes stale: on the profile page, Edit, a new username and Save
  change the name in the page's header, while the sidebar rendered beside it, whose
  effect depends only on the user id, keeps showing the old username.
\<close>

theorem sidebar_name_stale_after_edit:
  assumes ids: "distinct (parent_ids d ''profiles'')"
    and closed: "\<not> pu_edit_open ui" "\<not> pu_review_open ui"
    and u: "uid au \<noteq> []"
    and old: "select_rows d ''profiles'' (eq_col ''id'' (VStr (uid au))) = [p]" "get p ''username'' = VStr old" "old \<noteq> []"
    and new: "un \<noteq> []"
  shows "\<exists>d' ui'.
    profile_run demo dm dg (Some au) [EditProfile, TypeUsername un, SaveProfile] (d, ui) = Some (d', ui') \<and>
    header_name au d' = un \<and>
    nav_user_name (nav_commit (Some (uid au)) d' (nav_commit (Some (uid au)) d initial_nav)) au = old"
proof -
  obtain d' ui' r where run: "profile_run demo dm dg (Some au) [EditProfile, TypeUsername un, SaveProfile] (d, ui) = Some (d', ui')"
    and sh: "shown_profile (Some au) d' = Some r" and f: "get r ''username'' = str_or_null_p un"
    using edit_username_run [OF ids closed] by metis
  have hn: "header_name au d' = un"
    using sh f new by (simp add: header_name_def display_name_username str_or_null_p_def)
  have nav: "nav_user_name (nav_commit (Some (uid au)) d' (nav_commit (Some (uid au)) d initial_nav)) au = old"
    using nav_commit_mount [OF u old] old(3) by (simp add: nav_user_name_def or_else_def)
  show ?thesis using run hn nav by blast
qed


theorem sidebar_name_stale_after_edit_witness:
  "\<exists>d' ui'.
    profile_run False [] [] (Some demo_auth) [EditProfile, TypeUsername ''Ann'', SaveProfile] (demo_named_db, initial_profile_ui) =
      Some (d', ui') \<and>
    header_name demo_auth d' = ''Ann'' \<and>
    nav_user_name (nav_commit (Some ''a'') d' (nav_commit (Some ''a'') demo_named_db initial_nav)) demo_auth = ''alice''"
proof -
  have ids: "distinct (parent_ids demo_named_db ''profiles'')"
    by (simp add: parent_ids_def demo_named_db_def)
  have u: "uid demo_auth \<noteq> []" by (simp add: demo_auth_def)
  have old: "select_rows demo_named_db ''profiles'' (eq_col ''id'' (VStr (uid demo_auth))) = [[''id'' \<mapsto> VStr ''a'', ''username'' \<mapsto> VStr ''alice'']]"
    "get [''id'' \<mapsto> VStr ''a'', ''username'' \<mapsto> VStr ''alice''] ''username'' = VStr ''alice''" "''alice'' \<noteq> []"
    by (simp_all add: demo_named_db_def demo_auth_def empty_db_def store_eval)
  show ?thesis
    using sidebar_name_stale_after_edit [OF ids initial_profile_closed u old, where un="''Ann''"]
    by (simp add: demo_auth_def)
qed

end
