(* ===== verification/Spec2Isabelle.thy ===== *)
theory Spec2Isabelle
  imports App Stats Catalog DiscoverPage CollectionPage DemoToggle Sidebar DiscoverFlow CollectionFlow ProfileFlow ReviewFlow FriendFlow WatchlistFlow NavSidebar
begin

text \<open>
  \<^bold>\<open>PopStack: a verification development.\<close>

  PopStack (\<open>src/src\<close>) is a React front end for tracking movies, series and games. Its
  state lives in a hosted relational backend reached through one client, \<open>supabase\<close>,
  whose query builder the hooks of \<open>src/src/hooks\<close> chain; the pages of
  \<open>src/src/pages\<close> and the components of \<open>src/src/components\<close> call those hooks and keep
  small local states of their own. Movies, series and games come from third-party
  catalogues. The development embeds that code shallowly: the store is a record passed
  explicitly, every hook is a function from its arguments and the store to an error or
  a new store (or to the rows it reads), every page handler a function on the page's
  state, and the stores the app can reach are inductive step relations.

  \<^bold>\<open>Theories and what they model.\<close>
  \<^item> \<open>Prelude\<close>: shared list lemmas (\<open>at_most_one\<close>, keyed lookups), JavaScript's
    \<open>includes\<close> and \<open>trim\<close>, and the \<open>user?.id\<close> guard.
  \<^item> \<open>Store\<close>: the backend as the hooks see it. The tables and columns are those of
    \<open>src/src/types/database.ts\<close>; filters (\<open>eq\<close>, \<open>neq\<close>, \<open>in\<close>, \<open>ilike\<close>), ordering,
    \<open>single\<close>/\<open>maybeSingle\<close> (error \<open>PGRST116\<close>), inserts and updates that fail on an
    unknown column (\<open>PGRST204\<close>), deletes, upserts, the foreign key of collection items
    with its cascade and the primary key of profiles are modelled from the spec, since
    the client library and the database schema are not in the repository. Generated ids
    and timestamps come from one counter. \<open>ilike\<close> follows PostgREST and the database:
    \<open>*\<close> is an alias of \<open>%\<close>, a backslash escapes the next character, and case is
    folded on the Latin-1 letters (the model's characters are 8-bit). The theory proves
    the primitives' effects, that \<open>ilike\<close> with \<open>%q%\<close> is substring search for a \<open>q\<close>
    without wildcards or backslash, and that inserts, updates and deletes keep row ids
    fresh and rows within the schema.
  \<^item> \<open>Friends\<close>: \<open>useFriends.ts\<close> (friends, pending and sent requests, send, accept,
    reject, remove, user search) and \<open>FriendsSidebar.tsx\<close> (result labels, error
    toasts). Lemmas: one row per pair in every reachable store; refinement of an abstract
    pair lifecycle by each mutation, where the abstract state of users \<open>u\<close> and \<open>v\<close>
    is read from the rows whose parties form the set \<open>{u, v}\<close> (\<open>pair_of\<close>), and the
    code's two-way filter is proved to select exactly those rows; the sidebar's labels
    against that state; symmetry of the friends view; user search as the spec's
    case-insensitive substring search for queries without wildcards, and its bounds;
    and the races and guard failures that create duplicate pairs.
  \<^item> \<open>Sidebar\<close>: \<open>FriendsSidebar.tsx\<close> as a state machine of one client (search box,
    300 ms debounce as an event, tabs, the buttons each list renders, the four handlers)
    with the react-query cache of its three reads. A mutation's \<open>onSuccess\<close> calls
    \<open>invalidateQueries\<close> without awaiting it, so the handler only marks its keys
    (\<open>refetching\<close>), and each refetch lands later as an event of its own
    (\<open>RefetchLands\<close>); meanwhile the old list and its buttons stay on screen. Lemmas:
    for a user who presses only when no refetch is outstanding (\<open>run_waits\<close>), every
    list is fresh or waits for its refetch, and all are fresh once the refetches land;
    without that wait, a Reject pressed on a request just accepted deletes the
    friendship while the friends list, which a reject does not invalidate, keeps the
    friend; a request sent from one sidebar can be accepted from the other user's freshly
    loaded sidebar, after which both are friends.
  \<^item> \<open>Reviews\<close>: \<open>useReviews.ts\<close> (create-or-update by natural key, delete, the merged
    list), the older \<open>useMovieReviews.ts\<close>/\<open>useGameReviews.ts\<close>, and the review dialog
    (\<open>ReviewDialog.tsx\<close>: submit, load effect, delete). Lemmas: unique natural keys in
    reachable stores, the write/read round trip of the hook and of the dialog, idempotent
    delete, the merged list's order, game reviews rejected by the schema.
  \<^item> \<open>ReviewFlow\<close>: \<open>ReviewDialog.tsx\<close> as a state machine: its state, the review
    it reads, the load effect run when its dependencies change, the controls it renders
    (the game-only fields, Delete only for an existing review) and the handlers. Lemma:
    every run keeps the stored ratings of its kind between 1 and 10.
  \<^item> \<open>Watchlist\<close>: \<open>useWatchlist.ts\<close>, the watchlist page and the Discover bookmark.
    Lemmas: add and remove refine insertion into and deletion from a key set, the toggle
    flips membership on a fresh view, a stale view duplicates keys.
  \<^item> \<open>WatchlistFlow\<close>: the watchlist page \<open>Watchlist.tsx\<close>: its kind filter, the list
    it shows and the remove button of each item. Lemmas: a remove takes the item off every
    tab; in demo mode the removed item stays on the page.
  \<^item> \<open>Collections\<close>: \<open>useCollections.ts\<close> and \<open>Collection.tsx\<close>. Lemmas: list
    counts match detail views, deletion is owner-only, and the create guard.
  \<^item> \<open>Profile\<close>: \<open>useProfile.ts\<close>, \<open>useProfileUpdate.ts\<close>, \<open>Profile.tsx\<close>,
    \<open>FriendProfile.tsx\<close>. Lemmas: the own statistics query always fails (an undeclared
    variable), the counts' bounds, the profile editor's round trip.
  \<^item> \<open>ProfileFlow\<close>: \<open>Profile.tsx\<close> as a state machine of one client: its
    \<open>useState\<close> hooks, the header and favourite cards a render reads, the profile editor
    (with the bio's \<open>maxLength\<close> of 500 characters) and the review dialog as modal
    dialogs, and the handlers. Lemmas: the editor's round trip through the store, the
    header and a reopened editor; a blank username saved untrimmed and shown on both the
    profile and the settings page, which refuses it; a username saved on the settings
    page is what the profile page shows, with its bio kept.
  \<^item> \<open>FriendFlow\<close>: \<open>FriendProfile.tsx\<close> (the page a render shows: "Profile not
    found" or the profile, tiles, favourite cards and the empty-state message, and the
    review dialog the cards open) and the friends sidebar's link to it. Lemmas: a user
    who sent a request without a profile row is listed on the receiver's friends list as
    "Unknown", and the link opens "Profile not found";
    a user with only series reviews is shown as having no reviews beside tiles that count
    them.
  \<^item> \<open>NavSidebar\<close>: the navigation sidebar \<open>components/Sidebar.tsx\<close> every page's layout
    renders, with its username effect that runs once per user id. Lemma: saving a new
    username on the profile page changes the page's header, but the sidebar beside it
    keeps the old name.
  \<^item> \<open>Stats\<close>: the unused hook of \<open>useUserStats.ts\<close>. Lemma: its upsert without an id
    inserts on every call, so a second update hides the statistics.
  \<^item> \<open>Auth\<close>: \<open>AuthContext.tsx\<close>, \<open>Login.tsx\<close>, the sidebar's sign-out, with the auth
    service (\<open>auth_sign_up\<close>, \<open>sign_in_with_password\<close>, \<open>confirm_email\<close>)
    modelled from the spec. Lemmas: the demo sign-in scenario of the spec and the demo
    user in every demo state.
  \<^item> \<open>Discover\<close>: the query parameters, the game ordering, paging, the "Load more"
    walk and genre filters of \<open>Discover.tsx\<close>, with JavaScript's \<open>replace\<close>,
    \<open>parseInt\<close> and number printing. Lemmas: the ordering of each sort option, the
    accumulated pages, and that clicking "Load more" while it is shown ends at the last page.
  \<^item> \<open>DiscoverFlow\<close>: the render cycle of \<open>Discover.tsx\<close>: the queries a render
    mounts, the results read from a cache of catalogue answers (an answer arrives as an
    event), the three effects in declaration order, the controls as events, the grid,
    the card click and the movie dialog's rate button. Lemmas: once results are shown
    "No results found" never appears again, so an unsuccessful search keeps the old
    results; the minimum rating stays among the options of the selected kind; a series
    card opens the movie with the series' id.
  \<^item> \<open>Catalog\<close>: the TMDB client \<open>services/tmdb.ts\<close> (request paths, percent-encoding of the
    search query, \<open>URLSearchParams\<close> of the discover requests, the error of a failed
    answer) and the query hooks of \<open>hooks/useMedia.ts\<close> (keys, requests, \<open>enabled\<close>,
    freshness). Lemmas: the search query round-trips through one parameter, a query key
    determines the request, the series catalogue ignores the page's year filters.
  \<^item> \<open>DiscoverPage\<close>: the result cards of \<open>Discover.tsx\<close> and its "add to collection"
    dialog. Lemmas: a card's button and the choice of a collection add exactly that item;
    the detail dialogs' button throws; adding twice stores the item twice.
  \<^item> \<open>CollectionPage\<close>: the search dialog, the item grid and the detail dialogs of
    \<open>Collection.tsx\<close>. Lemma: an added movie is shown with a doubly prefixed poster
    address and a series item opens no detail dialog.
  \<^item> \<open>CollectionFlow\<close>: \<open>Collection.tsx\<close> as a state machine of one client: its
    \<open>useState\<close> hooks, the list view and the view of one open collection (shown when
    \<open>useCollection\<close> answers), the controls and modal dialogs each view renders, and the
    handlers behind them. Lemmas: the Delete button of an open collection asks for a
    confirmation that only the list view renders, so nothing happens until Back; without
    Back no press in the open collection changes the collections.
  \<^item> \<open>DemoToggle\<close>: the script \<open>scripts/toggle-demo.js\<close> over a map of files, and
    \<open>DemoContext.tsx\<close>. Lemmas: on a well-formed environment file two runs restore it;
    without the exact setting the script changes nothing yet reports demo mode.
  \<^item> \<open>Preferences\<close>: theme (\<open>useTheme.ts\<close>), language (\<open>LanguageContext.tsx\<close>), the
    keys of the translation tables (\<open>i18n.ts\<close>) and the settings page.
  \<^item> \<open>App\<close>: the app's mutations as one step relation \<open>app_step\<close>, the tables each
    operation may change (its frame), the schema conformance of each operation, and the
    lemmas that make an operation of one component a neutral step of the others'
    step relations (\<open>friend_step\<close>, \<open>review_step\<close>).
  \<^item> This theory: the properties of the whole app.

  \<^bold>\<open>Bounds and fuel.\<close> No loop of the code is unbounded: lists are walked by
  structural recursion, the LIKE matcher terminates by a lexicographic measure, the
  printing of numbers by division, and the user's "Load more" walk (\<open>Discover.browse\<close>)
  by the distance of the page to the last page; a run of the friends sidebar
  (\<open>Sidebar.run_sidebar\<close>, with \<open>Sidebar.run_waits\<close> following it), of the catalogue page (\<open>DiscoverFlow.discover_run\<close>) and of the
  collections page (\<open>CollectionFlow.coll_run\<close>) of the profile page
  (\<open>ProfileFlow.profile_run\<close>) and of the review dialog (\<open>ReviewFlow.dialog_run\<close>) is structural recursion on its list of events. No fuel is used.

  \<^bold>\<open>Properties across pages.\<close> This theory compares the own profile page
  (\<open>ProfileFlow.favourite_cards\<close>) with a friend's page of the same user
  (\<open>FriendFlow.friend_view\<close>): the own page shows the first three of the favourites the
  friend page shows.

  \<^bold>\<open>Not modelled.\<close> The answers of the catalogues are third-party data: the HTTP
  exchange is a parameter of \<open>Catalog.tmdb_fetch\<close>, and the game client
  \<open>services/rawg\<close>, imported by \<open>useMedia.ts\<close>, is absent from the repository, so a
  game hook's request is the name and arguments of the function it calls. Outside the
  friends sidebar the react-query cache is not modelled: the pages read the store fresh
  on each render. Also not modelled are the cache's timers, loading states and
  skeletons, and routing. No router configuration is in the repository, so a link is
  modelled as the parameter it passes to the page it opens. Further gaps: sign-in with
  Google (an OAuth redirect); \<open>useFriendActivities\<close> (a read of a view no component
  uses); and the static pages (About, Terms, NotFound). The presentational contents of
  the detail dialogs and of \<open>ReviewViewDialog\<close> are not modelled either, nor are the
  presentational components and the mock data. The browser's form validation
  (\<open>required\<close>, \<open>minLength\<close>) is not modelled; the textarea's \<open>maxLength\<close> of the
  profile editor is. The module \<open>lib/demoMode\<close> with the demo fixtures and
  \<open>lib/supabase\<close> are imported but absent from the repository; the demo flag and
  fixtures are parameters. Row-level security and triggers of the backend are unknown
  and not modelled.
\<close>

section \<open>Properties across pages\<close>




end
